(* ===== verification/Opc_Prelude.thy ===== *)
theory Opc_Prelude
  imports Main "HOL-Library.Word"
begin

text \<open>
  Shared vocabulary of the development: the C integer types as words, C pointers that the code tests
  against NULL as options, byte arrays as lists with positional writes, the C string and memory
  functions the sources call, and the collections of rewrite rules that the component proofs use.
\<close>

unbundle bit_operations_syntax

subsection \<open>Types\<close>

type_synonym u8 = "8 word"
type_synonym u16 = "16 word"
type_synonym u32 = "32 word"
type_synonym u64 = "64 word"

text \<open>\<open>'a ptr\<close> is a pointer argument that the C code compares with NULL (\<open>None\<close>). An output buffer
  is its capacity: its old content is never read. A call that fills the buffer returns the bytes it
  wrote; their number is the C return value, and \<open>None\<close> is the return value -1.\<close>

type_synonym 'a ptr = "'a option"
type_synonym outbuf = "nat ptr"

subsection \<open>Collections\<close>

named_theorems wire_simps \<open>reading back a field of a byte buffer after it was written\<close>
named_theorems opc_consts \<open>values of the protocol constants\<close>
named_theorems opc_frame_simps \<open>fields that an operation leaves alone\<close>

subsection \<open>Byte buffers\<close>

text \<open>\<open>put off bs xs\<close> is \<open>memcpy(&xs[off], bs, n)\<close> inside a buffer that is large enough; it never
  changes the length of the buffer.\<close>

definition put :: "nat \<Rightarrow> 'a list \<Rightarrow> 'a list \<Rightarrow> 'a list" where
  "put off bs xs = take off xs @ take (length xs - off) bs @ drop (off + length bs) xs"

definition slice :: "nat \<Rightarrow> nat \<Rightarrow> 'a list \<Rightarrow> 'a list" where
  "slice off n xs = take n (drop off xs)"

lemma length_put [simp]: "length (put off bs xs) = length xs"
  by (simp add: put_def)

lemma nth_put:
  "off + length bs \<le> length xs \<Longrightarrow> i < length xs \<Longrightarrow>
   put off bs xs ! i = (if i < off then xs ! i else if i < off + length bs then bs ! (i - off) else xs ! i)"
  by (auto simp: put_def nth_append)

lemma nth_put_before:
  "off + length bs \<le> length xs \<Longrightarrow> i < off \<Longrightarrow> put off bs xs ! i = xs ! i"
  by (simp add: nth_put)

lemma nth_put_after:
  "off + length bs \<le> length xs \<Longrightarrow> off + length bs \<le> i \<Longrightarrow> i < length xs \<Longrightarrow>
   put off bs xs ! i = xs ! i"
  by (simp add: nth_put)

lemma nth_put_inside:
  "off + length bs \<le> length xs \<Longrightarrow> off \<le> i \<Longrightarrow> i < off + length bs \<Longrightarrow>
   put off bs xs ! i = bs ! (i - off)"
  by (simp add: nth_put)

lemma length_slice [simp]: "length (slice off n xs) = min n (length xs - off)"
  by (simp add: slice_def)

lemma slice_put_same:
  "off + length bs \<le> length xs \<Longrightarrow> n = length bs \<Longrightarrow> slice off n (put off bs xs) = bs"
  by (simp add: slice_def put_def)

lemma slice_put_other:
  "off + length bs \<le> length xs \<Longrightarrow> o1 + n \<le> off \<or> off + length bs \<le> o1 \<Longrightarrow>
   slice o1 n (put off bs xs) = slice o1 n xs"
  by (rule nth_equalityI) (auto simp: slice_def nth_put)

lemma slice_append_skip: "length a \<le> off \<Longrightarrow> slice off n (a @ b) = slice (off - length a) n b"
  by (simp add: slice_def)

lemma slice_0_all: "n = length xs \<Longrightarrow> slice 0 n xs = xs"
  by (simp add: slice_def)

lemma slice_slice: "off + n \<le> m \<Longrightarrow> slice off n (slice o2 m xs) = slice (o2 + off) n xs"
  by (simp add: slice_def drop_take min_def add.commute)

lemma put_zero_prefix: "length bs \<le> length xs \<Longrightarrow> put 0 bs xs = bs @ drop (length bs) xs"
  by (simp add: put_def)

subsection \<open>C strings and memory\<close>

text \<open>A \<open>char\<close> array is the list of its bytes. \<open>cstr\<close> is the string it holds: the bytes before the
  first NUL.\<close>

definition cstr :: "u8 list \<Rightarrow> u8 list" where
  "cstr s = takeWhile (\<lambda>b. b \<noteq> 0) s"

text \<open>\<open>strncmp(a, b, n) == 0\<close>, \<open>strcmp(a, b) == 0\<close> and \<open>memchr(s, 0, n) != NULL\<close>.\<close>

definition strncmp_eq :: "nat \<Rightarrow> u8 list \<Rightarrow> u8 list \<Rightarrow> bool" where
  "strncmp_eq n a b = (take n (cstr a) = take n (cstr b))"

definition strcmp_eq :: "u8 list \<Rightarrow> u8 list \<Rightarrow> bool" where
  "strcmp_eq a b = (cstr a = cstr b)"

definition has_nul :: "nat \<Rightarrow> u8 list \<Rightarrow> bool" where
  "has_nul n s = list_ex (\<lambda>b. b = 0) (take n s)"

definition bytes_of :: "string \<Rightarrow> u8 list" where
  "bytes_of s = map of_char s"

lemma cstr_simps [simp]:
  "cstr [] = []"
  "cstr (0 # s) = []"
  "b \<noteq> 0 \<Longrightarrow> cstr (b # s) = b # cstr s"
  by (simp_all add: cstr_def)

lemma length_cstr: "length (cstr s) \<le> length s"
  by (simp add: cstr_def length_takeWhile_le)

lemma cstr_no_nul: "0 \<notin> set (cstr s)"
  by (auto simp: cstr_def dest: set_takeWhileD)

lemma cstr_id: "0 \<notin> set s \<Longrightarrow> cstr s = s"
  unfolding cstr_def by (rule takeWhile_eq_all_conv [THEN iffD2]) auto

lemma cstr_append_nul: "0 \<notin> set s \<Longrightarrow> cstr (s @ 0 # t) = s"
  unfolding cstr_def by (subst takeWhile_append2) auto

lemma cstr_append_zeros: "0 \<notin> set s \<Longrightarrow> cstr (s @ replicate n 0) = s"
  by (cases n) (auto simp: cstr_append_nul cstr_id)

lemma cstr_cstr [simp]: "cstr (cstr s) = cstr s"
  by (rule cstr_id) (rule cstr_no_nul)

lemma cstr_take: "cstr (take n s) = take n (cstr s)"
proof (induction s arbitrary: n)
  case (Cons a s)
  then show ?case by (cases n; cases "a = 0") auto
qed simp

lemma has_nul_iff: "has_nul n s \<longleftrightarrow> 0 \<in> set (take n s)"
  by (auto simp: has_nul_def list_ex_iff)

lemma has_nul_cstr: "n \<le> length s \<Longrightarrow> has_nul n s \<longleftrightarrow> length (cstr s) < n"
proof (induction s arbitrary: n)
  case (Cons a s)
  then show ?case by (cases n; cases "a = 0") (auto simp: has_nul_iff)
qed (simp add: has_nul_iff)

lemma strncmp_eq_refl [simp]: "strncmp_eq n a a"
  by (simp add: strncmp_eq_def)

lemma strncmp_eq_sym: "strncmp_eq n a b = strncmp_eq n b a"
  by (auto simp: strncmp_eq_def)

subsection \<open>Words\<close>

lemma word_eq_unatI: "unat a = unat b \<Longrightarrow> a = b"
  by (simp add: word_unat_eq_iff)

lemma unat_of_nat_lt: "n < 2 ^ LENGTH('a::len) \<Longrightarrow> unat (of_nat n :: 'a word) = n"
  by (simp add: unat_of_nat take_bit_nat_eq_self)

end
