(* ===== verification/Codec.thy ===== *)
theory Codec
  imports Opc_Prelude
begin

text \<open>
  Wire constants (\<open>protocol/proto.h\<close>, \<open>protocol/ids.h\<close>), big-endian integers and the common header
  (\<open>protocol/codec.c\<close>), and whole frames (\<open>protocol/frame.c\<close>). The locale \<open>wire_field\<close> is the contract of a
  fixed-width field of a payload; the message theories rest on its read-after-write lemmas.
\<close>

subsection \<open>Constants\<close>

definition OPC_PROTOCOL_VERSION :: u8 where [simp]: "OPC_PROTOCOL_VERSION = 0x01"
definition OPC_FIXED_HEADER_SIZE :: nat where [simp]: "OPC_FIXED_HEADER_SIZE = 8"
definition OPC_HEADER_SIZE :: nat where [simp]: "OPC_HEADER_SIZE = 64"
definition OPC_PAYLOAD_MAX :: nat where [simp]: "OPC_PAYLOAD_MAX = 1360"
definition OPC_FRAME_MAX :: nat where [simp]: "OPC_FRAME_MAX = 1424"
definition OPC_CMD_REQUEST :: u8 where [simp]: "OPC_CMD_REQUEST = 0x01"
definition OPC_CMD_ACK :: u8 where [simp]: "OPC_CMD_ACK = 0x02"
definition OPC_CMD_INDICATION :: u8 where [simp]: "OPC_CMD_INDICATION = 0x03"
definition OPC_RESULT_OK :: u16 where [simp]: "OPC_RESULT_OK = 0x0000"
definition OPC_RESULT_NG :: u16 where [simp]: "OPC_RESULT_NG = 0x0001"
definition OPC_ERR_NONE :: u16 where [simp]: "OPC_ERR_NONE = 0x0000"
definition OPC_ERR_LOGIN_VIOLATION :: u16 where [simp]: "OPC_ERR_LOGIN_VIOLATION = 0x0001"
definition OPC_ERR_LOGIN_CONDITION :: u16 where [simp]: "OPC_ERR_LOGIN_CONDITION = 0x0002"
definition OPC_ERR_PACKET_SIZE :: u16 where [simp]: "OPC_ERR_PACKET_SIZE = 0x0003"
definition OPC_ERR_NVRAM :: u16 where [simp]: "OPC_ERR_NVRAM = 0x0004"

definition OPC_REQ_LOGIN :: u16 where [simp]: "OPC_REQ_LOGIN = 0xF001"
definition OPC_REQ_LOGOUT :: u16 where [simp]: "OPC_REQ_LOGOUT = 0xF002"
definition OPC_REQ_GET_BASIC_INFO :: u16 where [simp]: "OPC_REQ_GET_BASIC_INFO = 0x0001"
definition OPC_REQ_GET_DEVICE_INFO :: u16 where [simp]: "OPC_REQ_GET_DEVICE_INFO = 0x0002"
definition OPC_REQ_SET_PASSWORD :: u16 where [simp]: "OPC_REQ_SET_PASSWORD = 0x1001"
definition OPC_REQ_SET_IP_CONFIG_LIST :: u16 where [simp]: "OPC_REQ_SET_IP_CONFIG_LIST = 0x1002"
definition OPC_REQ_CHANGE_IP_ADDRESS :: u16 where [simp]: "OPC_REQ_CHANGE_IP_ADDRESS = 0x1003"
definition OPC_REQ_SET_RADIO_CONFIG :: u16 where [simp]: "OPC_REQ_SET_RADIO_CONFIG = 0x1004"
definition OPC_REQ_SET_INDICATION_CONFIG :: u16 where [simp]: "OPC_REQ_SET_INDICATION_CONFIG = 0x1005"
definition OPC_REQ_RESET :: u16 where [simp]: "OPC_REQ_RESET = 0x2001"

definition OPC_IND_INIT_COMPLETE :: u16 where [simp]: "OPC_IND_INIT_COMPLETE = 0x0001"
definition OPC_IND_WLAN_STATUS_CHANGE :: u16 where [simp]: "OPC_IND_WLAN_STATUS_CHANGE = 0x0002"
definition OPC_IND_ROAMING :: u16 where [simp]: "OPC_IND_ROAMING = 0x0004"
definition OPC_IND_AP_DISCONNECT :: u16 where [simp]: "OPC_IND_AP_DISCONNECT = 0x0008"
definition OPC_IND_FAULT_DETECT :: u16 where [simp]: "OPC_IND_FAULT_DETECT = 0x0010"
definition OPC_IND_RESET_NOTICE :: u16 where [simp]: "OPC_IND_RESET_NOTICE = 0x0020"
definition OPC_IND_KEEP_ALIVE :: u16 where [simp]: "OPC_IND_KEEP_ALIVE = 0x0080"

definition OPC_IND_BIT_INIT_COMPLETE :: u8 where [simp]: "OPC_IND_BIT_INIT_COMPLETE = 0x01"
definition OPC_IND_BIT_WLAN_STATUS_CHANGE :: u8 where [simp]: "OPC_IND_BIT_WLAN_STATUS_CHANGE = 0x02"
definition OPC_IND_BIT_ROAMING :: u8 where [simp]: "OPC_IND_BIT_ROAMING = 0x04"
definition OPC_IND_BIT_AP_DISCONNECT :: u8 where [simp]: "OPC_IND_BIT_AP_DISCONNECT = 0x08"
definition OPC_IND_BIT_FAULT_DETECT :: u8 where [simp]: "OPC_IND_BIT_FAULT_DETECT = 0x10"
definition OPC_IND_BIT_RESET_NOTICE :: u8 where [simp]: "OPC_IND_BIT_RESET_NOTICE = 0x20"
definition OPC_IND_BIT_KEEP_ALIVE :: u8 where [simp]: "OPC_IND_BIT_KEEP_ALIVE = 0x80"
definition OPC_IND_BITS_RESERVED :: u8 where [simp]: "OPC_IND_BITS_RESERVED = 0x40"

subsection \<open>Big-endian integers\<close>

definition opc_be16_read :: "u8 list \<Rightarrow> u16" where
  "opc_be16_read p = push_bit 8 (ucast (p ! 0)) OR ucast (p ! 1)"

definition opc_be32_read :: "u8 list \<Rightarrow> u32" where
  "opc_be32_read p =
     push_bit 24 (ucast (p ! 0)) OR push_bit 16 (ucast (p ! 1)) OR push_bit 8 (ucast (p ! 2)) OR ucast (p ! 3)"

definition opc_be16_write :: "u16 \<Rightarrow> u8 list" where
  "opc_be16_write v = [ucast (drop_bit 8 v), ucast v]"

definition opc_be32_write :: "u32 \<Rightarrow> u8 list" where
  "opc_be32_write v = [ucast (drop_bit 24 v), ucast (drop_bit 16 v), ucast (drop_bit 8 v), ucast v]"

subsection \<open>The common header\<close>

record opc_header_t =
  protocol_version :: u8
  command_type :: u8
  req_indication_id :: u16
  sequence_number :: u16
  length_field :: u16

definition opc_fixed_header_pack :: "outbuf \<Rightarrow> opc_header_t ptr \<Rightarrow> u8 list option" where
  "opc_fixed_header_pack buf hdr =
     (case (buf, hdr) of
        (Some _, Some h) \<Rightarrow>
          Some ([protocol_version h, command_type h] @ opc_be16_write (req_indication_id h)
                @ opc_be16_write (sequence_number h) @ opc_be16_write (length_field h))
      | _ \<Rightarrow> None)"

definition opc_header_pack :: "outbuf \<Rightarrow> opc_header_t ptr \<Rightarrow> u8 list option" where
  "opc_header_pack buf hdr =
     (case (buf, hdr) of
        (Some _, Some h) \<Rightarrow>
          map_option (\<lambda>b. put 0 b (replicate OPC_HEADER_SIZE 0)) (opc_fixed_header_pack buf hdr)
      | _ \<Rightarrow> None)"

definition opc_fixed_header_unpack :: "u8 list ptr \<Rightarrow> opc_header_t option" where
  "opc_fixed_header_unpack buf =
     (case buf of
        None \<Rightarrow> None
      | Some b \<Rightarrow>
          if length b < OPC_FIXED_HEADER_SIZE then None
          else Some \<lparr>protocol_version = b ! 0, command_type = b ! 1,
                     req_indication_id = opc_be16_read (drop 2 b),
                     sequence_number = opc_be16_read (drop 4 b),
                     length_field = opc_be16_read (drop 6 b)\<rparr>)"

definition opc_header_unpack :: "u8 list ptr \<Rightarrow> opc_header_t option" where
  "opc_header_unpack buf =
     (case buf of
        None \<Rightarrow> None
      | Some b \<Rightarrow> if length b < OPC_HEADER_SIZE then None else opc_fixed_header_unpack buf)"

subsection \<open>Frames\<close>

definition opc_frame_build ::
  "outbuf \<Rightarrow> u8 \<Rightarrow> u16 \<Rightarrow> u16 \<Rightarrow> u16 \<Rightarrow> u8 list ptr \<Rightarrow> nat \<Rightarrow> u8 list option" where
  "opc_frame_build frame cmd_type req_id seq_no len body body_len =
     (case frame of
        None \<Rightarrow> None
      | Some cap \<Rightarrow>
          if body_len > 0 \<and> body = None then None
          else if body_len > OPC_PAYLOAD_MAX then None
          else if cap < OPC_HEADER_SIZE + body_len then None
          else case opc_header_pack frame
                 (Some \<lparr>protocol_version = OPC_PROTOCOL_VERSION, command_type = cmd_type,
                        req_indication_id = req_id, sequence_number = seq_no, length_field = len\<rparr>) of
                 None \<Rightarrow> None
               | Some h \<Rightarrow> Some (h @ (case body of None \<Rightarrow> [] | Some b \<Rightarrow> take body_len b)))"

definition opc_empty_frame_build :: "outbuf \<Rightarrow> u8 \<Rightarrow> u16 \<Rightarrow> u16 \<Rightarrow> u8 list option" where
  "opc_empty_frame_build frame cmd_type req_id seq_no =
     (case frame of
        None \<Rightarrow> None
      | Some cap \<Rightarrow>
          if cap < OPC_FIXED_HEADER_SIZE then None
          else opc_fixed_header_pack frame
                 (Some \<lparr>protocol_version = OPC_PROTOCOL_VERSION, command_type = cmd_type,
                        req_indication_id = req_id, sequence_number = seq_no, length_field = 0\<rparr>))"

definition opc_frame_parse :: "u8 list ptr \<Rightarrow> (opc_header_t \<times> u8 list ptr) option" where
  "opc_frame_parse frame =
     (case frame of
        None \<Rightarrow> None
      | Some f \<Rightarrow>
          if length f < OPC_FIXED_HEADER_SIZE then None
          else if length f > OPC_FRAME_MAX then None
          else if length f \<noteq> OPC_FIXED_HEADER_SIZE \<and> length f < OPC_HEADER_SIZE then None
          else case opc_fixed_header_unpack frame of
                 None \<Rightarrow> None
               | Some h \<Rightarrow>
                   if unat (length_field h) \<noteq> length f - OPC_FIXED_HEADER_SIZE then None
                   else if length f \<ge> OPC_HEADER_SIZE then Some (h, Some (drop OPC_HEADER_SIZE f))
                   else Some (h, None))"

text \<open>The bytes behind the body pointer and length that \<open>opc_frame_parse\<close> returns; a NULL body has
  length 0.\<close>

definition body_bytes :: "u8 list ptr \<Rightarrow> u8 list" where
  "body_bytes body = (case body of None \<Rightarrow> [] | Some b \<Rightarrow> b)"

subsection \<open>Fixed-width fields\<close>

text \<open>\<open>canon v\<close> is what the reader gets back for a written \<open>v\<close>: \<open>v\<close> itself for integers, the
  zero-padded string for a string field.\<close>

locale wire_field =
  fixes enc :: "'a \<Rightarrow> u8 list" and dec :: "u8 list \<Rightarrow> 'b" and w :: nat and canon :: "'a \<Rightarrow> 'b"
  assumes length_enc: "length (enc v) = w"
    and dec_enc: "dec (enc v @ r) = canon v"
    and dec_local: "w \<le> length xs \<Longrightarrow> dec (take w xs) = dec xs"
begin

lemma read_put_same: "off + w \<le> length xs \<Longrightarrow> dec (drop off (put off (enc v) xs)) = canon v"
  by (simp add: put_def dec_enc length_enc)

lemma read_put_other:
  assumes "off + length bs \<le> length xs" "o1 + w \<le> length xs"
    and "o1 + w \<le> off \<or> off + length bs \<le> o1"
  shows "dec (drop o1 (put off bs xs)) = dec (drop o1 xs)"
proof -
  have "dec (drop o1 (put off bs xs)) = dec (slice o1 w (put off bs xs))"
    using assms by (simp add: dec_local slice_def)
  also have "\<dots> = dec (slice o1 w xs)"
    using assms by (simp add: slice_put_other)
  also have "\<dots> = dec (drop o1 xs)"
    using assms by (simp add: dec_local slice_def)
  finally show ?thesis .
qed

lemma read_put_same_0: "w \<le> length xs \<Longrightarrow> dec (put 0 (enc v) xs) = canon v"
  using read_put_same [of 0] by simp

lemma read_put_other_0:
  "off + length bs \<le> length xs \<Longrightarrow> w \<le> off \<Longrightarrow> dec (put off bs xs) = dec xs"
  using read_put_other [of off bs xs 0] by simp

lemmas read_simps = read_put_same read_put_other read_put_same_0 read_put_other_0

lemma enc_canon: "enc v = enc v' \<Longrightarrow> canon v = canon v'"
  using dec_enc [of v "[]"] dec_enc [of v' "[]"] by simp

end

lemma opc_be16_roundtrip: "opc_be16_read (opc_be16_write v @ r) = v"
  unfolding opc_be16_read_def opc_be16_write_def
  by (rule bit_word_eqI) (auto simp: bit_simps)

lemma opc_be32_roundtrip: "opc_be32_read (opc_be32_write v @ r) = v"
proof (rule bit_word_eqI)
  fix n assume n: "n < LENGTH(32)"
  consider "n < 8" | "8 \<le> n" "n < 16" | "16 \<le> n" "n < 24" | "24 \<le> n" by linarith
  then show "bit (opc_be32_read (opc_be32_write v @ r)) n = bit v n"
    using n by cases (auto simp: opc_be32_read_def opc_be32_write_def bit_simps)
qed

interpretation be16: wire_field opc_be16_write opc_be16_read 2 "\<lambda>v. v"
proof unfold_locales
  show "opc_be16_read (opc_be16_write v @ r) = v" for v r by (rule opc_be16_roundtrip)
qed (simp_all add: opc_be16_read_def opc_be16_write_def)

interpretation be32: wire_field opc_be32_write opc_be32_read 4 "\<lambda>v. v"
proof unfold_locales
  show "opc_be32_read (opc_be32_write v @ r) = v" for v r by (rule opc_be32_roundtrip)
qed (simp_all add: opc_be32_read_def opc_be32_write_def)

lemmas [simp] = be16.length_enc be32.length_enc

lemmas [wire_simps] =
  be16.read_simps be32.read_simps
  slice_put_same slice_put_other nth_put_before nth_put_after nth_put_inside

subsection \<open>Headers and frames round-trip\<close>

lemma fixed_header_pack_length:
  "opc_fixed_header_pack b h = Some bs \<Longrightarrow> length bs = OPC_FIXED_HEADER_SIZE"
  by (auto simp: opc_fixed_header_pack_def split: option.splits)

lemma fixed_header_roundtrip:
  "opc_fixed_header_pack b (Some h) = Some bs \<Longrightarrow> opc_fixed_header_unpack (Some (bs @ r)) = Some h"
  by (auto simp: opc_fixed_header_pack_def opc_fixed_header_unpack_def opc_be16_roundtrip
      split: option.splits)

lemma opc_header_pack_Some:
  assumes "opc_header_pack (Some cap) (Some h) = Some bs"
  shows "length bs = OPC_HEADER_SIZE" "opc_fixed_header_unpack (Some (bs @ r)) = Some h"
    "drop OPC_FIXED_HEADER_SIZE bs = replicate 56 0"
proof -
  obtain z where z: "opc_fixed_header_pack (Some cap) (Some h) = Some z" "bs = z @ replicate 56 0"
    using assms fixed_header_pack_length by (fastforce simp: opc_header_pack_def put_def)
  show "length bs = OPC_HEADER_SIZE" "opc_fixed_header_unpack (Some (bs @ r)) = Some h"
    "drop OPC_FIXED_HEADER_SIZE bs = replicate 56 0"
    using z fixed_header_roundtrip [OF z(1)] fixed_header_pack_length [OF z(1)] by simp_all
qed

lemma opc_header_pack_defined: "\<exists>bs. opc_header_pack (Some cap) (Some h) = Some bs"
  by (simp add: opc_header_pack_def opc_fixed_header_pack_def)

text \<open>What \<open>opc_frame_build\<close> needs, and what \<open>opc_frame_parse\<close> makes of its output.\<close>

lemma opc_frame_build_parse:
  assumes b: "opc_frame_build (Some cap) t i s len (Some body) n = Some f"
    and n: "n = length body" and len: "unat len = 56 + n"
  shows "length f = OPC_HEADER_SIZE + n"
    and "opc_frame_parse (Some f) =
      Some (\<lparr>protocol_version = OPC_PROTOCOL_VERSION, command_type = t, req_indication_id = i,
             sequence_number = s, length_field = len\<rparr>, Some body)"
proof -
  let ?h = "\<lparr>protocol_version = OPC_PROTOCOL_VERSION, command_type = t, req_indication_id = i,
             sequence_number = s, length_field = len\<rparr>"
  obtain hb where hb: "opc_header_pack (Some cap) (Some ?h) = Some hb"
    using opc_header_pack_defined by blast
  note hs = opc_header_pack_Some [OF hb]
  have f: "f = hb @ body" and bnd: "n \<le> OPC_PAYLOAD_MAX"
    using b hb n by (auto simp: opc_frame_build_def split: if_splits)
  show "length f = OPC_HEADER_SIZE + n" using f hs n by simp
  show "opc_frame_parse (Some f) = Some (?h, Some body)"
    using f hs n bnd len by (simp add: opc_frame_parse_def)
qed

lemma opc_frame_build_defined:
  "n \<le> OPC_PAYLOAD_MAX \<Longrightarrow> OPC_HEADER_SIZE + n \<le> cap \<Longrightarrow>
   \<exists>f. opc_frame_build (Some cap) t i s len (Some body) n = Some f"
  using opc_header_pack_defined by (fastforce simp: opc_frame_build_def split: option.splits)

lemma opc_frame_build_bound:
  "opc_frame_build fb t i s len (Some body) n = Some f \<Longrightarrow> length body = n \<Longrightarrow>
   \<exists>cap. fb = Some cap \<and> length f = OPC_HEADER_SIZE + n \<and> length f \<le> cap \<and> n \<le> OPC_PAYLOAD_MAX"
  by (auto simp: opc_frame_build_def split: if_splits option.splits dest: opc_header_pack_Some)

text \<open>C29: A frame built from a payload of at most 1360 bytes whose length field is payload + 56 is
  accepted by the parser, which returns the header fields and exactly that payload.\<close>

theorem opc_frame_roundtrip:
  assumes "length body \<le> OPC_PAYLOAD_MAX" "OPC_HEADER_SIZE + length body \<le> cap"
  shows "\<exists>f. opc_frame_build (Some cap) t i s (of_nat (56 + length body)) (Some body) (length body) = Some f
    \<and> length f = OPC_HEADER_SIZE + length body
    \<and> opc_frame_parse (Some f) =
        Some (\<lparr>protocol_version = OPC_PROTOCOL_VERSION, command_type = t, req_indication_id = i,
               sequence_number = s, length_field = of_nat (56 + length body)\<rparr>, Some body)"
proof -
  have l: "unat (of_nat (56 + length body) :: u16) = 56 + length body"
    using assms by (intro unat_of_nat_lt) simp
  obtain f where f: "opc_frame_build (Some cap) t i s (of_nat (56 + length body)) (Some body) (length body) = Some f"
    using opc_frame_build_defined [OF assms] by blast
  show ?thesis using f opc_frame_build_parse [OF f refl l] by blast
qed

theorem opc_frame_roundtrip_witness:
  "\<exists>f. opc_frame_build (Some 66) OPC_CMD_ACK OPC_REQ_LOGIN 7 58 (Some [1, 2]) 2 = Some f
    \<and> length f = 66
    \<and> opc_frame_parse (Some f) =
        Some (\<lparr>protocol_version = 1, command_type = 2, req_indication_id = 0xF001,
               sequence_number = 7, length_field = 58\<rparr>, Some [1, 2])"
  using opc_frame_roundtrip [of "[1, 2]" 66 OPC_CMD_ACK OPC_REQ_LOGIN 7]
  by (simp add: numeral_2_eq_2)

text \<open>The parser accepts a datagram exactly when it is the bare 8-byte fixed header or has 64 to
  1424 bytes, and its length field is its size minus 8; the payload it returns is what follows byte 64.\<close>

lemma opc_frame_parse_accepts:
  "opc_frame_parse (Some f) = Some (h, body) \<longleftrightarrow>
     (length f = 8 \<or> 64 \<le> length f \<and> length f \<le> 1424)
     \<and> unat (length_field h) = length f - 8
     \<and> opc_fixed_header_unpack (Some f) = Some h
     \<and> body = (if length f = 8 then None else Some (drop 64 f))"
  by (auto simp: opc_frame_parse_def split: option.splits)

end
