(* ===== verification/Commands.thy ===== *)
theory Commands
  imports Codec
begin

text \<open>
  The ten requests and their acknowledgments (\<open>protocol/commands.h\<close>, \<open>protocol/commands.c\<close>). A C struct is a
  record, a \<open>char\<close> array field is the list of its bytes, \<open>int8_t\<close> is an 8-bit word. An unpack function returns
  the struct it fills, or \<open>None\<close> for -1.
\<close>

subsection \<open>Sizes\<close>

definition OPC_SCAN_CHLIST_LEN :: nat where [simp]: "OPC_SCAN_CHLIST_LEN = 8"
definition OPC_SIMPLE_ACK_BODY_LEN :: nat where [simp]: "OPC_SIMPLE_ACK_BODY_LEN = 4"
definition OPC_SIMPLE_ACK_LENGTH :: u16 where [simp]: "OPC_SIMPLE_ACK_LENGTH = 60"
definition OPC_LOGIN_REQ_BODY_LEN :: nat where [simp]: "OPC_LOGIN_REQ_BODY_LEN = 128"
definition OPC_LOGIN_REQ_LENGTH :: u16 where [simp]: "OPC_LOGIN_REQ_LENGTH = 184"
definition OPC_PASSWORD_FIELD_LEN :: nat where [simp]: "OPC_PASSWORD_FIELD_LEN = 128"
definition OPC_LOGIN_PASSWORD_MAX :: nat where [simp]: "OPC_LOGIN_PASSWORD_MAX = 127"
definition OPC_GET_BASIC_INFO_ACK_BODY_LEN :: nat where [simp]: "OPC_GET_BASIC_INFO_ACK_BODY_LEN = 16"
definition OPC_GET_BASIC_INFO_ACK_LENGTH :: u16 where [simp]: "OPC_GET_BASIC_INFO_ACK_LENGTH = 72"
definition OPC_GET_DEVICE_INFO_ACK_BODY_LEN :: nat where [simp]: "OPC_GET_DEVICE_INFO_ACK_BODY_LEN = 352"
definition OPC_GET_DEVICE_INFO_ACK_LENGTH :: u16 where [simp]: "OPC_GET_DEVICE_INFO_ACK_LENGTH = 408"
definition OPC_VERSION_FIELD_LEN :: nat where [simp]: "OPC_VERSION_FIELD_LEN = 32"
definition OPC_SERIAL_FIELD_LEN :: nat where [simp]: "OPC_SERIAL_FIELD_LEN = 32"
definition OPC_ESSID_FIELD_LEN :: nat where [simp]: "OPC_ESSID_FIELD_LEN = 32"
definition OPC_SET_PASSWORD_REQ_BODY_LEN :: nat where [simp]: "OPC_SET_PASSWORD_REQ_BODY_LEN = 256"
definition OPC_SET_PASSWORD_REQ_LENGTH :: u16 where [simp]: "OPC_SET_PASSWORD_REQ_LENGTH = 312"
definition OPC_IPCFG_ENTRY_LEN :: nat where [simp]: "OPC_IPCFG_ENTRY_LEN = 64"
definition OPC_IPCFG_LIST_MAX_PER_REQ :: nat where [simp]: "OPC_IPCFG_LIST_MAX_PER_REQ = 20"
definition OPC_IPCFG_LIST_MAX_SLOTS :: nat where [simp]: "OPC_IPCFG_LIST_MAX_SLOTS = 128"
definition OPC_LIST_BOUNDARY_START :: u16 where [simp]: "OPC_LIST_BOUNDARY_START = 0x0001"
definition OPC_LIST_BOUNDARY_CONTINUE :: u16 where [simp]: "OPC_LIST_BOUNDARY_CONTINUE = 0x0000"
definition OPC_LIST_BOUNDARY_END :: u16 where [simp]: "OPC_LIST_BOUNDARY_END = 0x0002"
definition OPC_LIST_BOUNDARY_START_END :: u16 where [simp]: "OPC_LIST_BOUNDARY_START_END = 0x0003"
definition OPC_CHANGE_IP_ADDRESS_REQ_BODY_LEN :: nat where [simp]: "OPC_CHANGE_IP_ADDRESS_REQ_BODY_LEN = 4"
definition OPC_CHANGE_IP_ADDRESS_REQ_LENGTH :: u16 where [simp]: "OPC_CHANGE_IP_ADDRESS_REQ_LENGTH = 60"
definition OPC_SET_RADIO_CONFIG_REQ_BODY_LEN :: nat where [simp]: "OPC_SET_RADIO_CONFIG_REQ_BODY_LEN = 28"
definition OPC_SET_RADIO_CONFIG_REQ_LENGTH :: u16 where [simp]: "OPC_SET_RADIO_CONFIG_REQ_LENGTH = 84"
definition OPC_SET_INDICATION_CONFIG_REQ_BODY_LEN :: nat where [simp]: "OPC_SET_INDICATION_CONFIG_REQ_BODY_LEN = 8"
definition OPC_SET_INDICATION_CONFIG_REQ_LENGTH :: u16 where [simp]: "OPC_SET_INDICATION_CONFIG_REQ_LENGTH = 64"
definition OPC_RESET_ACK_LENGTH :: u16 where [simp]: "OPC_RESET_ACK_LENGTH = 60"
definition OPC_UNPACK_ERR_LIST_SIZE :: int where [simp]: "OPC_UNPACK_ERR_LIST_SIZE = -2"

text \<open>\<open>OPC_SET_IP_CONFIG_LIST_REQ_LENGTH(n)\<close>, narrowed to 16 bits by the caller.\<close>

definition OPC_SET_IP_CONFIG_LIST_REQ_LENGTH :: "nat \<Rightarrow> u16" where
  "OPC_SET_IP_CONFIG_LIST_REQ_LENGTH n = of_nat (56 + n * OPC_IPCFG_ENTRY_LEN)"

subsection \<open>Structures\<close>

text \<open>All simple acknowledgment structs have the same two fields.\<close>

record opc_ack_t =
  ack_result :: u16
  ack_error_cause :: u16

record opc_date_t =
  year :: u16
  month :: u8
  day :: u8

record opc_wlan_radio_state_t =
  rs_mac :: "u8 list"
  rs_mode :: u8
  rs_bandwidth :: u8
  rs_freq_mhz :: u16
  rs_channel :: u16
  rs_status :: u16
  rs_snr :: u8
  rs_rssi :: u8
  rs_connect_ap_mac :: "u8 list"
  rs_scan_band :: u16
  rs_scan_chlist :: "u8 list"

record opc_wlan_radio_cfg_t =
  rc_mode :: u8
  rc_bandwidth :: u8
  rc_scan_band :: u16
  rc_scan_chlist :: "u8 list"

record opc_login_req_t =
  lr_password :: "u8 list"
  lr_password_terminated :: bool

record opc_get_basic_info_ack_t =
  bi_vendor_code :: u32
  bi_product_code :: u16
  bi_product_subcode :: u16
  bi_device_status :: u32
  bi_station_type :: u16

record opc_get_device_info_ack_t =
  di_result :: u16
  di_error_cause :: u16
  di_vendor_code :: u32
  di_product_code :: u16
  di_product_subcode :: u16
  di_manufacture :: opc_date_t
  di_shipment :: opc_date_t
  di_firmware_version :: "u8 list"
  di_hardware_version :: "u8 list"
  di_serial_number :: "u8 list"
  di_ethernet_mac :: "u8 list"
  di_ip_address :: u32
  di_subnet_mask :: u32
  di_default_gateway :: u32
  di_ntp_server :: u32
  di_essid :: "u8 list"
  di_device_status :: u32
  di_station_type :: u16
  di_priority_ch :: u16
  di_ieee_11r :: u8
  di_ieee_11ai :: u8
  di_ieee_11k :: u8
  di_ieee_11v :: u8
  di_wlan1 :: opc_wlan_radio_state_t
  di_wlan2 :: opc_wlan_radio_state_t

record opc_set_password_req_t =
  sp_old_password :: "u8 list"
  sp_new_password :: "u8 list"
  sp_old_password_terminated :: bool
  sp_new_password_terminated :: bool

record opc_ipcfg_entry_t =
  boundary_flag :: u16
  list_number :: u16
  ip_address :: u32
  subnet_mask :: u32
  default_gateway :: u32
  ntp_server :: u32
  essid :: "u8 list"

record opc_set_ip_config_list_req_t =
  entry_count :: nat
  entries :: "opc_ipcfg_entry_t list"
  essid_terminated_mask :: u32

record opc_change_ip_address_req_t =
  ci_list_number :: u16

record opc_set_radio_config_req_t =
  station_type :: u16
  priority_ch :: u16
  wlan1 :: opc_wlan_radio_cfg_t
  wlan2 :: opc_wlan_radio_cfg_t

record opc_set_indication_config_req_t =
  si_recipient_port :: u16
  si_info_bits :: u8
  si_period_seconds :: u8
  si_recipient_ip :: u32

subsection \<open>Field helpers\<close>

fun opc_bounded_strnlen :: "u8 list \<Rightarrow> nat \<Rightarrow> nat" where
  "opc_bounded_strnlen (c # s) (Suc cap) = (if c \<noteq> 0 then Suc (opc_bounded_strnlen s cap) else 0)"
| "opc_bounded_strnlen _ _ = 0"

definition copy_with_null_pad :: "nat \<Rightarrow> u8 list ptr \<Rightarrow> u8 list" where
  "copy_with_null_pad dst_len src =
     (case src of
        None \<Rightarrow> replicate dst_len 0
      | Some s \<Rightarrow>
          if dst_len = 0 then replicate dst_len 0
          else put 0 (take (opc_bounded_strnlen s (dst_len - 1)) s) (replicate dst_len 0))"

definition copy_string_field :: "nat \<Rightarrow> u8 list \<Rightarrow> bool \<times> u8 list" where
  "copy_string_field dst_len src = (has_nul dst_len src, (take dst_len src)[dst_len - 1 := 0])"

definition pack_date :: "opc_date_t \<Rightarrow> u8 list" where
  "pack_date d = opc_be16_write (year d) @ [month d, day d]"

definition unpack_date :: "u8 list \<Rightarrow> opc_date_t" where
  "unpack_date p = \<lparr>year = opc_be16_read p, month = p ! 2, day = p ! 3\<rparr>"

text \<open>The guards every unpack function with a payload starts with: the frame parses, it has the expected
  command type and id, and at least \<open>n\<close> payload bytes.\<close>

definition expect_body :: "u8 \<Rightarrow> u16 \<Rightarrow> nat \<Rightarrow> u8 list ptr \<Rightarrow> u8 list option" where
  "expect_body cmd req_id n frame =
     (case opc_frame_parse frame of
        None \<Rightarrow> None
      | Some (hdr, body) \<Rightarrow>
          if command_type hdr \<noteq> cmd then None
          else if req_indication_id hdr \<noteq> req_id then None
          else if length (body_bytes body) < n then None
          else Some (body_bytes body))"

subsection \<open>Simple acknowledgments and empty requests\<close>

definition opc_simple_ack_pack :: "outbuf \<Rightarrow> u16 \<Rightarrow> u16 \<Rightarrow> u16 \<Rightarrow> u16 \<Rightarrow> u16 \<Rightarrow> u8 list option" where
  "opc_simple_ack_pack frame req_id seq_no len result error_cause =
     opc_frame_build frame OPC_CMD_ACK req_id seq_no len
       (Some (opc_be16_write result @ opc_be16_write error_cause)) OPC_SIMPLE_ACK_BODY_LEN"

definition opc_simple_ack_unpack :: "u8 list ptr \<Rightarrow> u16 \<Rightarrow> opc_ack_t option" where
  "opc_simple_ack_unpack frame expected_req_id =
     map_option (\<lambda>body. \<lparr>ack_result = opc_be16_read body, ack_error_cause = opc_be16_read (drop 2 body)\<rparr>)
       (expect_body OPC_CMD_ACK expected_req_id OPC_SIMPLE_ACK_BODY_LEN frame)"

definition empty_req_pack :: "outbuf \<Rightarrow> u16 \<Rightarrow> u16 \<Rightarrow> u8 list option" where
  "empty_req_pack frame req_id seq_no = opc_empty_frame_build frame OPC_CMD_REQUEST req_id seq_no"

definition empty_req_unpack :: "u8 list ptr \<Rightarrow> u16 \<Rightarrow> unit option" where
  "empty_req_unpack frame expected_req_id =
     (if (case frame of None \<Rightarrow> True | Some f \<Rightarrow> length f \<noteq> OPC_FIXED_HEADER_SIZE) then None
      else case opc_frame_parse frame of
             None \<Rightarrow> None
           | Some (hdr, _) \<Rightarrow>
               if command_type hdr \<noteq> OPC_CMD_REQUEST then None
               else if req_indication_id hdr \<noteq> expected_req_id then None
               else Some ())"

subsection \<open>Login and Logout\<close>

definition opc_login_req_pack :: "outbuf \<Rightarrow> u16 \<Rightarrow> opc_login_req_t ptr \<Rightarrow> u8 list option" where
  "opc_login_req_pack frame seq_no inp =
     (case inp of
        None \<Rightarrow> None
      | Some r \<Rightarrow>
          opc_frame_build frame OPC_CMD_REQUEST OPC_REQ_LOGIN seq_no OPC_LOGIN_REQ_LENGTH
            (Some (copy_with_null_pad OPC_LOGIN_REQ_BODY_LEN (Some (lr_password r)))) OPC_LOGIN_REQ_BODY_LEN)"

definition opc_login_req_unpack :: "u8 list ptr \<Rightarrow> opc_login_req_t option" where
  "opc_login_req_unpack frame =
     map_option (\<lambda>body. let (t, pw) = copy_string_field OPC_LOGIN_REQ_BODY_LEN body
                        in \<lparr>lr_password = pw, lr_password_terminated = t\<rparr>)
       (expect_body OPC_CMD_REQUEST OPC_REQ_LOGIN OPC_LOGIN_REQ_BODY_LEN frame)"

definition opc_login_ack_pack :: "outbuf \<Rightarrow> u16 \<Rightarrow> opc_ack_t ptr \<Rightarrow> u8 list option" where
  "opc_login_ack_pack frame seq_no inp =
     (case inp of
        None \<Rightarrow> None
      | Some a \<Rightarrow> opc_simple_ack_pack frame OPC_REQ_LOGIN seq_no OPC_SIMPLE_ACK_LENGTH
                    (ack_result a) (ack_error_cause a))"

definition opc_login_ack_unpack :: "u8 list ptr \<Rightarrow> opc_ack_t option" where
  "opc_login_ack_unpack frame = opc_simple_ack_unpack frame OPC_REQ_LOGIN"

definition opc_logout_req_pack :: "outbuf \<Rightarrow> u16 \<Rightarrow> u8 list option" where
  "opc_logout_req_pack frame seq_no = empty_req_pack frame OPC_REQ_LOGOUT seq_no"

definition opc_logout_req_unpack :: "u8 list ptr \<Rightarrow> unit option" where
  "opc_logout_req_unpack frame = empty_req_unpack frame OPC_REQ_LOGOUT"

definition opc_logout_ack_pack :: "outbuf \<Rightarrow> u16 \<Rightarrow> opc_ack_t ptr \<Rightarrow> u8 list option" where
  "opc_logout_ack_pack frame seq_no inp =
     (case inp of
        None \<Rightarrow> None
      | Some a \<Rightarrow> opc_simple_ack_pack frame OPC_REQ_LOGOUT seq_no OPC_SIMPLE_ACK_LENGTH
                    (ack_result a) (ack_error_cause a))"

definition opc_logout_ack_unpack :: "u8 list ptr \<Rightarrow> opc_ack_t option" where
  "opc_logout_ack_unpack frame = opc_simple_ack_unpack frame OPC_REQ_LOGOUT"

subsection \<open>GetBasicInformation\<close>

definition opc_get_basic_info_req_pack :: "outbuf \<Rightarrow> u16 \<Rightarrow> u8 list option" where
  "opc_get_basic_info_req_pack frame seq_no = empty_req_pack frame OPC_REQ_GET_BASIC_INFO seq_no"

definition opc_get_basic_info_req_unpack :: "u8 list ptr \<Rightarrow> unit option" where
  "opc_get_basic_info_req_unpack frame = empty_req_unpack frame OPC_REQ_GET_BASIC_INFO"

definition opc_get_basic_info_ack_pack ::
  "outbuf \<Rightarrow> u16 \<Rightarrow> opc_get_basic_info_ack_t ptr \<Rightarrow> u8 list option" where
  "opc_get_basic_info_ack_pack frame seq_no inp =
     (case inp of
        None \<Rightarrow> None
      | Some a \<Rightarrow>
          let body = replicate OPC_GET_BASIC_INFO_ACK_BODY_LEN 0;
              body = put 0 (opc_be32_write (bi_vendor_code a)) body;
              body = put 4 (opc_be16_write (bi_product_code a)) body;
              body = put 6 (opc_be16_write (bi_product_subcode a)) body;
              body = put 8 (opc_be32_write (bi_device_status a)) body;
              body = put 14 (opc_be16_write (bi_station_type a)) body
          in opc_frame_build frame OPC_CMD_ACK OPC_REQ_GET_BASIC_INFO seq_no
               OPC_GET_BASIC_INFO_ACK_LENGTH (Some body) OPC_GET_BASIC_INFO_ACK_BODY_LEN)"

definition opc_get_basic_info_ack_unpack :: "u8 list ptr \<Rightarrow> opc_get_basic_info_ack_t option" where
  "opc_get_basic_info_ack_unpack frame =
     map_option (\<lambda>body.
         \<lparr>bi_vendor_code = opc_be32_read body,
          bi_product_code = opc_be16_read (drop 4 body),
          bi_product_subcode = opc_be16_read (drop 6 body),
          bi_device_status = opc_be32_read (drop 8 body),
          bi_station_type = opc_be16_read (drop 14 body)\<rparr>)
       (expect_body OPC_CMD_ACK OPC_REQ_GET_BASIC_INFO OPC_GET_BASIC_INFO_ACK_BODY_LEN frame)"

subsection \<open>GetDeviceInformation\<close>

text \<open>The writes of \<open>pack_radio_state\<close> cover all 32 bytes of the block.\<close>

definition pack_radio_state :: "opc_wlan_radio_state_t \<Rightarrow> u8 list" where
  "pack_radio_state r =
     (let p = replicate 32 0;
          p = put 0 (take 6 (rs_mac r)) p;
          p = put 6 [rs_mode r] p;
          p = put 7 [rs_bandwidth r] p;
          p = put 8 (opc_be16_write (rs_freq_mhz r)) p;
          p = put 10 (opc_be16_write (rs_channel r)) p;
          p = put 12 (opc_be16_write (rs_status r)) p;
          p = put 14 [rs_snr r] p;
          p = put 15 [rs_rssi r] p;
          p = put 16 (take 6 (rs_connect_ap_mac r)) p;
          p = put 22 (opc_be16_write (rs_scan_band r)) p
      in put 24 (take OPC_SCAN_CHLIST_LEN (rs_scan_chlist r)) p)"

definition unpack_radio_state :: "u8 list \<Rightarrow> opc_wlan_radio_state_t" where
  "unpack_radio_state p =
     \<lparr>rs_mac = slice 0 6 p,
      rs_mode = p ! 6,
      rs_bandwidth = p ! 7,
      rs_freq_mhz = opc_be16_read (drop 8 p),
      rs_channel = opc_be16_read (drop 10 p),
      rs_status = opc_be16_read (drop 12 p),
      rs_snr = p ! 14,
      rs_rssi = p ! 15,
      rs_connect_ap_mac = slice 16 6 p,
      rs_scan_band = opc_be16_read (drop 22 p),
      rs_scan_chlist = slice 24 OPC_SCAN_CHLIST_LEN p\<rparr>"

definition opc_get_device_info_req_pack :: "outbuf \<Rightarrow> u16 \<Rightarrow> u8 list option" where
  "opc_get_device_info_req_pack frame seq_no = empty_req_pack frame OPC_REQ_GET_DEVICE_INFO seq_no"

definition opc_get_device_info_req_unpack :: "u8 list ptr \<Rightarrow> unit option" where
  "opc_get_device_info_req_unpack frame = empty_req_unpack frame OPC_REQ_GET_DEVICE_INFO"

definition opc_get_device_info_ack_pack ::
  "outbuf \<Rightarrow> u16 \<Rightarrow> opc_get_device_info_ack_t ptr \<Rightarrow> u8 list option" where
  "opc_get_device_info_ack_pack frame seq_no inp =
     (case inp of
        None \<Rightarrow> None
      | Some a \<Rightarrow>
          let body = replicate OPC_GET_DEVICE_INFO_ACK_BODY_LEN 0;
              body = put 0 (opc_be16_write (di_result a)) body;
              body = put 2 (opc_be16_write (di_error_cause a)) body;
              body = put 4 (opc_be32_write (di_vendor_code a)) body;
              body = put 8 (opc_be16_write (di_product_code a)) body;
              body = put 10 (opc_be16_write (di_product_subcode a)) body;
              body = put 12 (pack_date (di_manufacture a)) body;
              body = put 16 (pack_date (di_shipment a)) body;
              body = put 20 (copy_with_null_pad OPC_VERSION_FIELD_LEN (Some (di_firmware_version a))) body;
              body = put 52 (copy_with_null_pad OPC_VERSION_FIELD_LEN (Some (di_hardware_version a))) body;
              body = put 84 (copy_with_null_pad OPC_SERIAL_FIELD_LEN (Some (di_serial_number a))) body;
              body = put 116 (take 6 (di_ethernet_mac a)) body;
              body = put 124 (opc_be32_write (di_ip_address a)) body;
              body = put 128 (opc_be32_write (di_subnet_mask a)) body;
              body = put 132 (opc_be32_write (di_default_gateway a)) body;
              body = put 136 (opc_be32_write (di_ntp_server a)) body;
              body = put 140 (copy_with_null_pad OPC_ESSID_FIELD_LEN (Some (di_essid a))) body;
              body = put 172 (opc_be32_write (di_device_status a)) body;
              body = put 176 (opc_be16_write (di_station_type a)) body;
              body = put 178 (opc_be16_write (di_priority_ch a)) body;
              body = put 180 [di_ieee_11r a] body;
              body = put 181 [di_ieee_11ai a] body;
              body = put 182 [di_ieee_11k a] body;
              body = put 183 [di_ieee_11v a] body;
              body = put 224 (pack_radio_state (di_wlan1 a)) body;
              body = put 288 (pack_radio_state (di_wlan2 a)) body
          in opc_frame_build frame OPC_CMD_ACK OPC_REQ_GET_DEVICE_INFO seq_no
               OPC_GET_DEVICE_INFO_ACK_LENGTH (Some body) OPC_GET_DEVICE_INFO_ACK_BODY_LEN)"

definition opc_get_device_info_ack_unpack :: "u8 list ptr \<Rightarrow> opc_get_device_info_ack_t option" where
  "opc_get_device_info_ack_unpack frame =
     map_option (\<lambda>body.
         \<lparr>di_result = opc_be16_read body,
          di_error_cause = opc_be16_read (drop 2 body),
          di_vendor_code = opc_be32_read (drop 4 body),
          di_product_code = opc_be16_read (drop 8 body),
          di_product_subcode = opc_be16_read (drop 10 body),
          di_manufacture = unpack_date (drop 12 body),
          di_shipment = unpack_date (drop 16 body),
          di_firmware_version = snd (copy_string_field OPC_VERSION_FIELD_LEN (drop 20 body)),
          di_hardware_version = snd (copy_string_field OPC_VERSION_FIELD_LEN (drop 52 body)),
          di_serial_number = snd (copy_string_field OPC_SERIAL_FIELD_LEN (drop 84 body)),
          di_ethernet_mac = slice 116 6 body,
          di_ip_address = opc_be32_read (drop 124 body),
          di_subnet_mask = opc_be32_read (drop 128 body),
          di_default_gateway = opc_be32_read (drop 132 body),
          di_ntp_server = opc_be32_read (drop 136 body),
          di_essid = snd (copy_string_field OPC_ESSID_FIELD_LEN (drop 140 body)),
          di_device_status = opc_be32_read (drop 172 body),
          di_station_type = opc_be16_read (drop 176 body),
          di_priority_ch = opc_be16_read (drop 178 body),
          di_ieee_11r = body ! 180,
          di_ieee_11ai = body ! 181,
          di_ieee_11k = body ! 182,
          di_ieee_11v = body ! 183,
          di_wlan1 = unpack_radio_state (drop 224 body),
          di_wlan2 = unpack_radio_state (drop 288 body)\<rparr>)
       (expect_body OPC_CMD_ACK OPC_REQ_GET_DEVICE_INFO OPC_GET_DEVICE_INFO_ACK_BODY_LEN frame)"

subsection \<open>SetPassword\<close>

definition opc_set_password_req_pack ::
  "outbuf \<Rightarrow> u16 \<Rightarrow> opc_set_password_req_t ptr \<Rightarrow> u8 list option" where
  "opc_set_password_req_pack frame seq_no inp =
     (case inp of
        None \<Rightarrow> None
      | Some r \<Rightarrow>
          opc_frame_build frame OPC_CMD_REQUEST OPC_REQ_SET_PASSWORD seq_no OPC_SET_PASSWORD_REQ_LENGTH
            (Some (copy_with_null_pad 128 (Some (sp_old_password r))
                   @ copy_with_null_pad 128 (Some (sp_new_password r)))) OPC_SET_PASSWORD_REQ_BODY_LEN)"

definition opc_set_password_req_unpack :: "u8 list ptr \<Rightarrow> opc_set_password_req_t option" where
  "opc_set_password_req_unpack frame =
     map_option (\<lambda>body. let (ot, old) = copy_string_field 128 body;
                            (nt, new) = copy_string_field 128 (drop 128 body)
                        in \<lparr>sp_old_password = old, sp_new_password = new,
                            sp_old_password_terminated = ot, sp_new_password_terminated = nt\<rparr>)
       (expect_body OPC_CMD_REQUEST OPC_REQ_SET_PASSWORD OPC_SET_PASSWORD_REQ_BODY_LEN frame)"

definition opc_set_password_ack_pack :: "outbuf \<Rightarrow> u16 \<Rightarrow> opc_ack_t ptr \<Rightarrow> u8 list option" where
  "opc_set_password_ack_pack frame seq_no inp =
     (case inp of
        None \<Rightarrow> None
      | Some a \<Rightarrow> opc_simple_ack_pack frame OPC_REQ_SET_PASSWORD seq_no OPC_SIMPLE_ACK_LENGTH
                    (ack_result a) (ack_error_cause a))"

definition opc_set_password_ack_unpack :: "u8 list ptr \<Rightarrow> opc_ack_t option" where
  "opc_set_password_ack_unpack frame = opc_simple_ack_unpack frame OPC_REQ_SET_PASSWORD"

subsection \<open>SetIpConfigList\<close>

definition pack_ipcfg_entry :: "opc_ipcfg_entry_t \<Rightarrow> u8 list" where
  "pack_ipcfg_entry e =
     (let p = replicate OPC_IPCFG_ENTRY_LEN 0;
          p = put 0 (opc_be16_write (boundary_flag e)) p;
          p = put 2 (opc_be16_write (list_number e)) p;
          p = put 4 (opc_be32_write (ip_address e)) p;
          p = put 8 (opc_be32_write (subnet_mask e)) p;
          p = put 12 (opc_be32_write (default_gateway e)) p;
          p = put 16 (opc_be32_write (ntp_server e)) p;
          p = put 20 (copy_with_null_pad 32 (Some (essid e))) p
      in put 52 (replicate 12 0) p)"

definition unpack_ipcfg_entry :: "u8 list \<Rightarrow> bool \<times> opc_ipcfg_entry_t" where
  "unpack_ipcfg_entry p =
     (let (t, s) = copy_string_field 32 (drop 20 p)
      in (t, \<lparr>boundary_flag = opc_be16_read p,
              list_number = opc_be16_read (drop 2 p),
              ip_address = opc_be32_read (drop 4 p),
              subnet_mask = opc_be32_read (drop 8 p),
              default_gateway = opc_be32_read (drop 12 p),
              ntp_server = opc_be32_read (drop 16 p),
              essid = s\<rparr>))"

definition zero_ipcfg_entry :: opc_ipcfg_entry_t where
  "zero_ipcfg_entry = \<lparr>boundary_flag = 0, list_number = 0, ip_address = 0, subnet_mask = 0,
     default_gateway = 0, ntp_server = 0, essid = replicate OPC_ESSID_FIELD_LEN 0\<rparr>"

definition opc_set_ip_config_list_req_pack ::
  "outbuf \<Rightarrow> u16 \<Rightarrow> opc_set_ip_config_list_req_t ptr \<Rightarrow> u8 list option" where
  "opc_set_ip_config_list_req_pack frame seq_no inp =
     (case inp of
        None \<Rightarrow> None
      | Some r \<Rightarrow>
          if entry_count r < 1 \<or> entry_count r > OPC_IPCFG_LIST_MAX_PER_REQ then None
          else let body_len = entry_count r * OPC_IPCFG_ENTRY_LEN;
                   body = fold (\<lambda>i b. put (i * OPC_IPCFG_ENTRY_LEN) (pack_ipcfg_entry (entries r ! i)) b)
                            [0..<entry_count r] (replicate body_len 0)
               in opc_frame_build frame OPC_CMD_REQUEST OPC_REQ_SET_IP_CONFIG_LIST seq_no
                    (OPC_SET_IP_CONFIG_LIST_REQ_LENGTH (entry_count r)) (Some body) body_len)"

text \<open>\<open>Inl (-1)\<close> is the general failure, \<open>Inl (-2)\<close> is \<open>OPC_UNPACK_ERR_LIST_SIZE\<close>.\<close>

definition opc_set_ip_config_list_req_unpack :: "u8 list ptr \<Rightarrow> int + opc_set_ip_config_list_req_t" where
  "opc_set_ip_config_list_req_unpack frame =
     (case expect_body OPC_CMD_REQUEST OPC_REQ_SET_IP_CONFIG_LIST 0 frame of
        None \<Rightarrow> Inl (-1)
      | Some body \<Rightarrow>
          let body_len = length body in
          if body_len = 0 \<or> body_len mod OPC_IPCFG_ENTRY_LEN \<noteq> 0 then Inl OPC_UNPACK_ERR_LIST_SIZE
          else let n = body_len div OPC_IPCFG_ENTRY_LEN in
            if n > OPC_IPCFG_LIST_MAX_PER_REQ then Inl OPC_UNPACK_ERR_LIST_SIZE
            else let es = map (\<lambda>i. unpack_ipcfg_entry (drop (i * OPC_IPCFG_ENTRY_LEN) body)) [0..<n]
              in Inr \<lparr>entry_count = n,
                      entries = map snd es @ replicate (OPC_IPCFG_LIST_MAX_PER_REQ - n) zero_ipcfg_entry,
                      essid_terminated_mask =
                        fold (\<lambda>i m. if fst (es ! i) then m OR push_bit i 1 else m) [0..<n] 0\<rparr>)"

definition opc_set_ip_config_list_ack_pack :: "outbuf \<Rightarrow> u16 \<Rightarrow> opc_ack_t ptr \<Rightarrow> u8 list option" where
  "opc_set_ip_config_list_ack_pack frame seq_no inp =
     (case inp of
        None \<Rightarrow> None
      | Some a \<Rightarrow> opc_simple_ack_pack frame OPC_REQ_SET_IP_CONFIG_LIST seq_no OPC_SIMPLE_ACK_LENGTH
                    (ack_result a) (ack_error_cause a))"

definition opc_set_ip_config_list_ack_unpack :: "u8 list ptr \<Rightarrow> opc_ack_t option" where
  "opc_set_ip_config_list_ack_unpack frame = opc_simple_ack_unpack frame OPC_REQ_SET_IP_CONFIG_LIST"

subsection \<open>ChangeIpAddress\<close>

definition opc_change_ip_address_req_pack ::
  "outbuf \<Rightarrow> u16 \<Rightarrow> opc_change_ip_address_req_t ptr \<Rightarrow> u8 list option" where
  "opc_change_ip_address_req_pack frame seq_no inp =
     (case inp of
        None \<Rightarrow> None
      | Some r \<Rightarrow>
          opc_frame_build frame OPC_CMD_REQUEST OPC_REQ_CHANGE_IP_ADDRESS seq_no
            OPC_CHANGE_IP_ADDRESS_REQ_LENGTH
            (Some (put 2 (opc_be16_write (ci_list_number r)) (replicate OPC_CHANGE_IP_ADDRESS_REQ_BODY_LEN 0)))
            OPC_CHANGE_IP_ADDRESS_REQ_BODY_LEN)"

definition opc_change_ip_address_req_unpack :: "u8 list ptr \<Rightarrow> opc_change_ip_address_req_t option" where
  "opc_change_ip_address_req_unpack frame =
     map_option (\<lambda>body. \<lparr>ci_list_number = opc_be16_read (drop 2 body)\<rparr>)
       (expect_body OPC_CMD_REQUEST OPC_REQ_CHANGE_IP_ADDRESS OPC_CHANGE_IP_ADDRESS_REQ_BODY_LEN frame)"

definition opc_change_ip_address_ack_pack :: "outbuf \<Rightarrow> u16 \<Rightarrow> opc_ack_t ptr \<Rightarrow> u8 list option" where
  "opc_change_ip_address_ack_pack frame seq_no inp =
     (case inp of
        None \<Rightarrow> None
      | Some a \<Rightarrow> opc_simple_ack_pack frame OPC_REQ_CHANGE_IP_ADDRESS seq_no OPC_SIMPLE_ACK_LENGTH
                    (ack_result a) (ack_error_cause a))"

definition opc_change_ip_address_ack_unpack :: "u8 list ptr \<Rightarrow> opc_ack_t option" where
  "opc_change_ip_address_ack_unpack frame = opc_simple_ack_unpack frame OPC_REQ_CHANGE_IP_ADDRESS"

subsection \<open>SetRadioConfig\<close>

definition opc_set_radio_config_req_pack ::
  "outbuf \<Rightarrow> u16 \<Rightarrow> opc_set_radio_config_req_t ptr \<Rightarrow> u8 list option" where
  "opc_set_radio_config_req_pack frame seq_no inp =
     (case inp of
        None \<Rightarrow> None
      | Some r \<Rightarrow>
          let body = replicate OPC_SET_RADIO_CONFIG_REQ_BODY_LEN 0;
              body = put 0 (opc_be16_write (station_type r)) body;
              body = put 2 (opc_be16_write (priority_ch r)) body;
              body = put 4 [rc_mode (wlan1 r)] body;
              body = put 5 [rc_bandwidth (wlan1 r)] body;
              body = put 6 (opc_be16_write (rc_scan_band (wlan1 r))) body;
              body = put 8 (take OPC_SCAN_CHLIST_LEN (rc_scan_chlist (wlan1 r))) body;
              body = put 16 [rc_mode (wlan2 r)] body;
              body = put 17 [rc_bandwidth (wlan2 r)] body;
              body = put 18 (opc_be16_write (rc_scan_band (wlan2 r))) body;
              body = put 20 (take OPC_SCAN_CHLIST_LEN (rc_scan_chlist (wlan2 r))) body
          in opc_frame_build frame OPC_CMD_REQUEST OPC_REQ_SET_RADIO_CONFIG seq_no
               OPC_SET_RADIO_CONFIG_REQ_LENGTH (Some body) OPC_SET_RADIO_CONFIG_REQ_BODY_LEN)"

definition opc_set_radio_config_req_unpack :: "u8 list ptr \<Rightarrow> opc_set_radio_config_req_t option" where
  "opc_set_radio_config_req_unpack frame =
     map_option (\<lambda>body.
         \<lparr>station_type = opc_be16_read body,
          priority_ch = opc_be16_read (drop 2 body),
          wlan1 = \<lparr>rc_mode = body ! 4, rc_bandwidth = body ! 5,
                   rc_scan_band = opc_be16_read (drop 6 body),
                   rc_scan_chlist = slice 8 OPC_SCAN_CHLIST_LEN body\<rparr>,
          wlan2 = \<lparr>rc_mode = body ! 16, rc_bandwidth = body ! 17,
                   rc_scan_band = opc_be16_read (drop 18 body),
                   rc_scan_chlist = slice 20 OPC_SCAN_CHLIST_LEN body\<rparr>\<rparr>)
       (expect_body OPC_CMD_REQUEST OPC_REQ_SET_RADIO_CONFIG OPC_SET_RADIO_CONFIG_REQ_BODY_LEN frame)"

definition opc_set_radio_config_ack_pack :: "outbuf \<Rightarrow> u16 \<Rightarrow> opc_ack_t ptr \<Rightarrow> u8 list option" where
  "opc_set_radio_config_ack_pack frame seq_no inp =
     (case inp of
        None \<Rightarrow> None
      | Some a \<Rightarrow> opc_simple_ack_pack frame OPC_REQ_SET_RADIO_CONFIG seq_no OPC_SIMPLE_ACK_LENGTH
                    (ack_result a) (ack_error_cause a))"

definition opc_set_radio_config_ack_unpack :: "u8 list ptr \<Rightarrow> opc_ack_t option" where
  "opc_set_radio_config_ack_unpack frame = opc_simple_ack_unpack frame OPC_REQ_SET_RADIO_CONFIG"

subsection \<open>SetIndicationConfig\<close>

definition opc_set_indication_config_req_pack ::
  "outbuf \<Rightarrow> u16 \<Rightarrow> opc_set_indication_config_req_t ptr \<Rightarrow> u8 list option" where
  "opc_set_indication_config_req_pack frame seq_no inp =
     (case inp of
        None \<Rightarrow> None
      | Some r \<Rightarrow>
          let body = replicate OPC_SET_INDICATION_CONFIG_REQ_BODY_LEN 0;
              body = put 0 (opc_be16_write (si_recipient_port r)) body;
              body = put 2 [si_info_bits r] body;
              body = put 3 [si_period_seconds r] body;
              body = put 4 (opc_be32_write (si_recipient_ip r)) body
          in opc_frame_build frame OPC_CMD_REQUEST OPC_REQ_SET_INDICATION_CONFIG seq_no
               OPC_SET_INDICATION_CONFIG_REQ_LENGTH (Some body) OPC_SET_INDICATION_CONFIG_REQ_BODY_LEN)"

definition opc_set_indication_config_req_unpack ::
  "u8 list ptr \<Rightarrow> opc_set_indication_config_req_t option" where
  "opc_set_indication_config_req_unpack frame =
     map_option (\<lambda>body.
         \<lparr>si_recipient_port = opc_be16_read body,
          si_info_bits = body ! 2,
          si_period_seconds = body ! 3,
          si_recipient_ip = opc_be32_read (drop 4 body)\<rparr>)
       (expect_body OPC_CMD_REQUEST OPC_REQ_SET_INDICATION_CONFIG
          OPC_SET_INDICATION_CONFIG_REQ_BODY_LEN frame)"

definition opc_set_indication_config_ack_pack :: "outbuf \<Rightarrow> u16 \<Rightarrow> opc_ack_t ptr \<Rightarrow> u8 list option" where
  "opc_set_indication_config_ack_pack frame seq_no inp =
     (case inp of
        None \<Rightarrow> None
      | Some a \<Rightarrow> opc_simple_ack_pack frame OPC_REQ_SET_INDICATION_CONFIG seq_no OPC_SIMPLE_ACK_LENGTH
                    (ack_result a) (ack_error_cause a))"

definition opc_set_indication_config_ack_unpack :: "u8 list ptr \<Rightarrow> opc_ack_t option" where
  "opc_set_indication_config_ack_unpack frame = opc_simple_ack_unpack frame OPC_REQ_SET_INDICATION_CONFIG"

subsection \<open>Reset\<close>

definition opc_reset_req_pack :: "outbuf \<Rightarrow> u16 \<Rightarrow> u8 list option" where
  "opc_reset_req_pack frame seq_no = empty_req_pack frame OPC_REQ_RESET seq_no"

definition opc_reset_req_unpack :: "u8 list ptr \<Rightarrow> unit option" where
  "opc_reset_req_unpack frame = empty_req_unpack frame OPC_REQ_RESET"

definition opc_reset_ack_pack :: "outbuf \<Rightarrow> u16 \<Rightarrow> opc_ack_t ptr \<Rightarrow> u8 list option" where
  "opc_reset_ack_pack frame seq_no inp =
     (case inp of
        None \<Rightarrow> None
      | Some a \<Rightarrow> opc_simple_ack_pack frame OPC_REQ_RESET seq_no OPC_RESET_ACK_LENGTH
                    (ack_result a) (ack_error_cause a))"

definition opc_reset_ack_unpack :: "u8 list ptr \<Rightarrow> opc_ack_t option" where
  "opc_reset_ack_unpack frame = opc_simple_ack_unpack frame OPC_REQ_RESET"

subsection \<open>Well-formed structs\<close>

text \<open>The fixed-length arrays of a radio block.\<close>

definition radio_state_wf :: "opc_wlan_radio_state_t \<Rightarrow> bool" where
  "radio_state_wf r \<longleftrightarrow> length (rs_mac r) = 6 \<and> length (rs_connect_ap_mac r) = 6
     \<and> length (rs_scan_chlist r) = OPC_SCAN_CHLIST_LEN"

definition radio_req_wf :: "opc_set_radio_config_req_t \<Rightarrow> bool" where
  "radio_req_wf r \<longleftrightarrow> length (rc_scan_chlist (wlan1 r)) = OPC_SCAN_CHLIST_LEN
     \<and> length (rc_scan_chlist (wlan2 r)) = OPC_SCAN_CHLIST_LEN"

text \<open>The fixed-length arrays of a device-information struct; its strings are NUL-padded.\<close>

definition padded :: "nat \<Rightarrow> u8 list \<Rightarrow> bool" where
  "padded n s \<longleftrightarrow> copy_with_null_pad n (Some s) = s"

definition device_info_wf :: "opc_get_device_info_ack_t \<Rightarrow> bool" where
  "device_info_wf a \<longleftrightarrow> length (di_ethernet_mac a) = 6
     \<and> padded 32 (di_firmware_version a) \<and> padded 32 (di_hardware_version a)
     \<and> padded 32 (di_serial_number a) \<and> padded 32 (di_essid a)
     \<and> radio_state_wf (di_wlan1 a) \<and> radio_state_wf (di_wlan2 a)"

text \<open>Payload of a simple acknowledgment and its reader.\<close>

abbreviation "ack_body a \<equiv> opc_be16_write (ack_result a) @ opc_be16_write (ack_error_cause a)"

abbreviation "ack_dec body \<equiv> \<lparr>ack_result = opc_be16_read body, ack_error_cause = opc_be16_read (drop 2 body)\<rparr>"


subsection \<open>Strings and blocks as wire fields\<close>

lemma opc_bounded_strnlen_eq: "opc_bounded_strnlen s cap = length (cstr (take cap s))"
  by (induction s cap rule: opc_bounded_strnlen.induct) (auto simp: take_Cons' gr0_conv_Suc)

lemma length_copy_with_null_pad [simp]: "length (copy_with_null_pad n s) = n"
  by (simp add: copy_with_null_pad_def split: option.splits)

lemma take_strnlen: "take (opc_bounded_strnlen s m) s = take m (cstr s)"
proof (induction s arbitrary: m)
  case (Cons c s)
  then show ?case by (cases m; cases "c = 0") auto
qed simp

lemma copy_with_null_pad_eq:
  "0 < n \<Longrightarrow> copy_with_null_pad n (Some s) =
     take (n - 1) (cstr s) @ replicate (n - length (take (n - 1) (cstr s))) 0"
  by (simp add: copy_with_null_pad_def take_strnlen put_def)

lemma cstr_copy_with_null_pad [simp]:
  assumes "0 < n"
  shows "cstr (copy_with_null_pad n (Some s)) = take (n - 1) (cstr s)"
proof -
  have "0 \<notin> set (take (n - 1) (cstr s))" using cstr_no_nul by (metis in_set_takeD)
  then show ?thesis using assms by (simp add: copy_with_null_pad_eq cstr_append_zeros)
qed

lemma copy_with_null_pad_last:
  assumes "0 < n" shows "copy_with_null_pad n (Some s) ! (n - 1) = 0"
  using assms by (auto simp: copy_with_null_pad_eq nth_append)

lemma copy_string_field_pad:
  assumes n: "0 < n"
  shows "copy_string_field n (copy_with_null_pad n (Some s) @ r) = (True, copy_with_null_pad n (Some s))"
proof -
  have "0 \<in> set (copy_with_null_pad n (Some s))"
    using copy_with_null_pad_last [OF n, of s] n
    by (metis diff_less length_copy_with_null_pad nth_mem zero_less_one)
  moreover have "(copy_with_null_pad n (Some s))[n - 1 := 0] = copy_with_null_pad n (Some s)"
    using copy_with_null_pad_last [OF n, of s] by (metis list_update_id)
  ultimately show ?thesis by (simp add: copy_string_field_def has_nul_iff)
qed

lemma copy_string_field_local: "n \<le> length xs \<Longrightarrow> copy_string_field n (take n xs) = copy_string_field n xs"
  by (simp add: copy_string_field_def has_nul_def)

lemma str_field:
  assumes n: "0 < n"
  shows "wire_field (\<lambda>s. copy_with_null_pad n (Some s)) (copy_string_field n) n
           (\<lambda>s. (True, copy_with_null_pad n (Some s)))"
  by unfold_locales (simp_all add: copy_string_field_pad [OF n] copy_string_field_local)

interpretation str32: wire_field "\<lambda>s. copy_with_null_pad 32 (Some s)" "copy_string_field 32" 32
    "\<lambda>s. (True, copy_with_null_pad 32 (Some s))"
  by (rule str_field) simp

interpretation str128: wire_field "\<lambda>s. copy_with_null_pad 128 (Some s)" "copy_string_field 128" 128
    "\<lambda>s. (True, copy_with_null_pad 128 (Some s))"
  by (rule str_field) simp

interpretation date: wire_field pack_date unpack_date 4 "\<lambda>d. d"
proof unfold_locales
  show "unpack_date (pack_date d @ r) = d" for d r
    by (simp add: pack_date_def unpack_date_def be16.dec_enc nth_append)
  show "4 \<le> length xs \<Longrightarrow> unpack_date (take 4 xs) = unpack_date xs" for xs
    by (simp add: unpack_date_def be16.dec_local [symmetric, of "take 4 xs"] be16.dec_local min_def)
qed (simp add: pack_date_def)

lemmas [wire_simps] = str32.read_simps str128.read_simps date.read_simps
lemmas [simp] = date.length_enc

lemma length_pack_radio_state [simp]: "length (pack_radio_state r) = 32"
  by (simp add: pack_radio_state_def Let_def)

lemma be16_read_take: "Suc n < m \<Longrightarrow> m \<le> length xs \<Longrightarrow> opc_be16_read (drop n (take m xs)) = opc_be16_read (drop n xs)"
  by (simp add: opc_be16_read_def)
lemma be32_read_take: "n + 3 < m \<Longrightarrow> m \<le> length xs \<Longrightarrow> opc_be32_read (drop n (take m xs)) = opc_be32_read (drop n xs)"
  by (simp add: opc_be32_read_def)
lemma slice_take: "o1 + n \<le> m \<Longrightarrow> slice o1 n (take m xs) = slice o1 n xs"
  by (simp add: slice_def drop_take min_def)

lemma unpack_radio_state_local:
  assumes "32 \<le> length xs" shows "unpack_radio_state (take 32 xs) = unpack_radio_state xs"
  using assms by (simp add: unpack_radio_state_def be16_read_take slice_take)

interpretation radio_state: wire_field pack_radio_state unpack_radio_state 32
    "\<lambda>r. unpack_radio_state (pack_radio_state r)"
  by unfold_locales
    (use unpack_radio_state_local in \<open>auto simp: unpack_radio_state_local [of "pack_radio_state _ @ _", symmetric]\<close>)

lemma radio_state_canon [simp]: "radio_state_wf r \<Longrightarrow> unpack_radio_state (pack_radio_state r) = r"
  by (simp add: radio_state_wf_def unpack_radio_state_def pack_radio_state_def Let_def wire_simps)

lemmas [wire_simps] = radio_state.read_simps

lemma length_pack_ipcfg_entry [simp]: "length (pack_ipcfg_entry e) = 64"
  by (simp add: pack_ipcfg_entry_def Let_def)

lemma unpack_ipcfg_entry_local:
  "64 \<le> length xs \<Longrightarrow> unpack_ipcfg_entry (take 64 xs) = unpack_ipcfg_entry xs"
  by (simp add: unpack_ipcfg_entry_def be16_read_take be32_read_take be16_read_take [of 0, simplified]
    copy_string_field_def has_nul_def take_drop)

lemma unpack_pack_ipcfg_entry:
  "unpack_ipcfg_entry (pack_ipcfg_entry e) = (True, e\<lparr>essid := copy_with_null_pad 32 (Some (essid e))\<rparr>)"
  by (simp add: unpack_ipcfg_entry_def pack_ipcfg_entry_def Let_def wire_simps)

interpretation ipcfg_entry: wire_field pack_ipcfg_entry unpack_ipcfg_entry 64
    "\<lambda>e. (True, e\<lparr>essid := copy_with_null_pad 32 (Some (essid e))\<rparr>)"
proof unfold_locales
  show "unpack_ipcfg_entry (pack_ipcfg_entry e @ r) = (True, e\<lparr>essid := copy_with_null_pad 32 (Some (essid e))\<rparr>)"
    for e r using unpack_ipcfg_entry_local [of "pack_ipcfg_entry e @ r"] by (simp add: unpack_pack_ipcfg_entry)
qed (simp_all add: unpack_ipcfg_entry_local)

lemma cstr_zeros [simp]: "cstr (replicate n 0) = []"
  using cstr_append_zeros [of "[]" n] by simp

lemma cstr_update_last: "0 \<in> set xs \<Longrightarrow> cstr (xs[length xs - 1 := 0]) = cstr xs"
proof (induction xs)
  case (Cons a xs)
  then show ?case by (cases "a = 0"; cases xs) auto
qed simp

lemma copy_string_field_result:
  assumes "copy_string_field n src = (t, s)" "0 < n" "n \<le> length src"
  shows "t \<longleftrightarrow> 0 \<in> set (take n src)" "length s = n" "has_nul n s" "t \<Longrightarrow> cstr s = cstr (take n src)"
proof -
  have s: "s = (take n src)[n - 1 := 0]" and t: "t = has_nul n src"
    using assms(1) by (auto simp: copy_string_field_def)
  show "t \<longleftrightarrow> 0 \<in> set (take n src)" "length s = n" using s t assms(3) by (simp_all add: has_nul_iff)
  have "s ! (n - 1) = 0" "n - 1 < length s" using s assms by simp_all
  then show "has_nul n s" using s assms(3) nth_mem [of "n - 1" s] by (simp add: has_nul_iff)
  show "t \<Longrightarrow> cstr s = cstr (take n src)"
    using s t assms cstr_update_last [of "take n src"] by (simp add: has_nul_iff)
qed

subsection \<open>Messages\<close>

text \<open>The contract of a pack/unpack pair: a well-formed struct (\<open>ok\<close>) whose frame fits is packed into
  \<open>64 + n\<close> bytes, and unpacking them gives \<open>canon\<close> of the struct.\<close>

locale message_codec =
  fixes pack :: "outbuf \<Rightarrow> u16 \<Rightarrow> 'a ptr \<Rightarrow> u8 list option" and unpack :: "u8 list ptr \<Rightarrow> 'b option"
    and ok :: "'a \<Rightarrow> bool" and n :: "'a \<Rightarrow> nat" and canon :: "'a \<Rightarrow> 'b"
  assumes pack_total: "ok a \<Longrightarrow> OPC_HEADER_SIZE + n a \<le> cap \<Longrightarrow> \<exists>f. pack (Some cap) s (Some a) = Some f"
    and pack_size: "ok a \<Longrightarrow> pack ob s (Some a) = Some f \<Longrightarrow>
      length f = OPC_HEADER_SIZE + n a \<and> (\<exists>cap. ob = Some cap \<and> length f \<le> cap)"
    and unpack_pack: "ok a \<Longrightarrow> pack ob s (Some a) = Some f \<Longrightarrow> unpack (Some f) = Some (canon a)"
begin

lemma delivered:
  assumes "ok a" "OPC_HEADER_SIZE + n a \<le> cap"
  shows "\<exists>f. pack (Some cap) s (Some a) = Some f \<and> length f = OPC_HEADER_SIZE + n a
    \<and> unpack (Some f) = Some (canon a)"
  using pack_total [OF assms] pack_size [OF assms(1)] unpack_pack [OF assms(1)] by blast

lemma pack_canon:
  "ok a \<Longrightarrow> ok b \<Longrightarrow> pack ob s (Some a) = Some f \<Longrightarrow> pack ob' s' (Some b) = Some f \<Longrightarrow> canon a = canon b"
  using unpack_pack [of a ob s f] unpack_pack [of b ob' s' f] by simp

end

lemma expect_body_build:
  assumes b: "opc_frame_build ob cmd req_id s len (Some body) n = Some f"
    and "n = length body" "unat len = 56 + n" "m \<le> n"
  shows "expect_body cmd req_id m (Some f) = Some body"
proof -
  obtain cap where "ob = Some cap" using b by (cases ob) (auto simp: opc_frame_build_def)
  with assms opc_frame_build_parse(2) [of cap cmd req_id s len body n f] show ?thesis
    by (simp add: expect_body_def body_bytes_def)
qed

text \<open>A message with one fixed-size payload.\<close>

locale fixed_message =
  fixes pack :: "outbuf \<Rightarrow> u16 \<Rightarrow> 'a ptr \<Rightarrow> u8 list option" and unpack :: "u8 list ptr \<Rightarrow> 'b option"
    and ok :: "'a \<Rightarrow> bool" and sz :: nat and canon :: "'a \<Rightarrow> 'b"
    and cmd :: u8 and req_id :: u16 and len :: u16 and body :: "'a \<Rightarrow> u8 list" and dec :: "u8 list \<Rightarrow> 'b"
  assumes pack_eq: "pack ob s (Some a) = opc_frame_build ob cmd req_id s len (Some (body a)) sz"
    and unpack_eq: "unpack f = map_option dec (expect_body cmd req_id sz f)"
    and size: "length (body a) = sz" "sz \<le> OPC_PAYLOAD_MAX" "unat len = 56 + sz"
    and dec_body: "ok a \<Longrightarrow> dec (body a) = canon a"
begin

lemma unpack_rejects_type:
  "opc_frame_parse (Some f) = Some (h, b) \<Longrightarrow> command_type h \<noteq> cmd \<or> req_indication_id h \<noteq> req_id
   \<or> length (body_bytes b) < sz \<Longrightarrow> unpack (Some f) = None"
  by (auto simp: unpack_eq expect_body_def)

lemma packed:
  "\<exists>f. pack (Some OPC_FRAME_MAX) s (Some a) = Some f \<and> length f = OPC_HEADER_SIZE + sz
     \<and> opc_frame_parse (Some f) = Some (\<lparr>protocol_version = OPC_PROTOCOL_VERSION, command_type = cmd,
           req_indication_id = req_id, sequence_number = s, length_field = len\<rparr>, Some (body a))"
proof -
  obtain f where f: "pack (Some OPC_FRAME_MAX) s (Some a) = Some f"
    using opc_frame_build_defined [OF size(2), of OPC_FRAME_MAX cmd req_id s len "body a"] size(2) by (auto simp: pack_eq)
  then show ?thesis
    using opc_frame_build_parse [OF f [unfolded pack_eq]] size(1) [of a] size(3) by auto
qed

end

sublocale fixed_message \<subseteq> message_codec pack unpack ok "\<lambda>_. sz" canon
proof unfold_locales
  fix a cap s assume "OPC_HEADER_SIZE + sz \<le> cap"
  then show "\<exists>f. pack (Some cap) s (Some a) = Some f"
    using opc_frame_build_defined [OF size(2)] by (simp add: pack_eq)
next
  fix a ob s f assume "pack ob s (Some a) = Some f"
  then show "length f = OPC_HEADER_SIZE + sz \<and> (\<exists>cap. ob = Some cap \<and> length f \<le> cap)"
    using opc_frame_build_bound [of ob cmd req_id s len "body a" sz f] size(1) [of a] by (auto simp: pack_eq)
next
  fix a ob s f assume a: "ok a" and f: "pack ob s (Some a) = Some f"
  have "expect_body cmd req_id sz (Some f) = Some (body a)"
    by (rule expect_body_build [OF f [unfolded pack_eq]]) (simp_all add: size)
  then show "unpack (Some f) = Some (canon a)" by (simp add: unpack_eq dec_body [OF a])
qed

lemma simple_ack_message:
  assumes "\<And>ob s a. pack ob s (Some a) = opc_simple_ack_pack ob req_id s len (ack_result a) (ack_error_cause a)"
    and "\<And>f. unpack f = opc_simple_ack_unpack f req_id" and "len = 60"
  shows "fixed_message pack unpack (\<lambda>_. True) 4 (\<lambda>a. a) OPC_CMD_ACK req_id len
    (\<lambda>a. opc_be16_write (ack_result a) @ opc_be16_write (ack_error_cause a))
    (\<lambda>body. \<lparr>ack_result = opc_be16_read body, ack_error_cause = opc_be16_read (drop 2 body)\<rparr>)"
  using assms
  by unfold_locales
    (auto simp: opc_simple_ack_pack_def opc_simple_ack_unpack_def be16.dec_enc be16.dec_enc [of _ "[]", simplified])

interpretation login_ack: fixed_message opc_login_ack_pack opc_login_ack_unpack "\<lambda>_. True" 4 "\<lambda>a. a"
    OPC_CMD_ACK OPC_REQ_LOGIN OPC_SIMPLE_ACK_LENGTH ack_body ack_dec
  by (rule simple_ack_message) (simp_all add: opc_login_ack_pack_def opc_login_ack_unpack_def)

interpretation login_req: fixed_message opc_login_req_pack opc_login_req_unpack "\<lambda>_. True" 128
    "\<lambda>r. \<lparr>lr_password = copy_with_null_pad 128 (Some (lr_password r)), lr_password_terminated = True\<rparr>"
    OPC_CMD_REQUEST OPC_REQ_LOGIN OPC_LOGIN_REQ_LENGTH
    "\<lambda>r. copy_with_null_pad 128 (Some (lr_password r))"
    "\<lambda>body. let (t, pw) = copy_string_field 128 body in \<lparr>lr_password = pw, lr_password_terminated = t\<rparr>"
  by unfold_locales
    (simp_all add: opc_login_req_pack_def opc_login_req_unpack_def str128.dec_enc [of _ "[]", simplified])

interpretation logout_ack: fixed_message opc_logout_ack_pack opc_logout_ack_unpack "\<lambda>_. True" 4 "\<lambda>a. a"
    OPC_CMD_ACK OPC_REQ_LOGOUT OPC_SIMPLE_ACK_LENGTH ack_body ack_dec
  by (rule simple_ack_message) (simp_all add: opc_logout_ack_pack_def opc_logout_ack_unpack_def)

interpretation set_password_ack: fixed_message opc_set_password_ack_pack opc_set_password_ack_unpack
    "\<lambda>_. True" 4 "\<lambda>a. a" OPC_CMD_ACK OPC_REQ_SET_PASSWORD OPC_SIMPLE_ACK_LENGTH ack_body ack_dec
  by (rule simple_ack_message) (simp_all add: opc_set_password_ack_pack_def opc_set_password_ack_unpack_def)

interpretation set_ip_config_list_ack: fixed_message opc_set_ip_config_list_ack_pack
    opc_set_ip_config_list_ack_unpack "\<lambda>_. True" 4 "\<lambda>a. a" OPC_CMD_ACK OPC_REQ_SET_IP_CONFIG_LIST
    OPC_SIMPLE_ACK_LENGTH ack_body ack_dec
  by (rule simple_ack_message)
    (simp_all add: opc_set_ip_config_list_ack_pack_def opc_set_ip_config_list_ack_unpack_def)

interpretation change_ip_address_ack: fixed_message opc_change_ip_address_ack_pack
    opc_change_ip_address_ack_unpack "\<lambda>_. True" 4 "\<lambda>a. a" OPC_CMD_ACK OPC_REQ_CHANGE_IP_ADDRESS
    OPC_SIMPLE_ACK_LENGTH ack_body ack_dec
  by (rule simple_ack_message)
    (simp_all add: opc_change_ip_address_ack_pack_def opc_change_ip_address_ack_unpack_def)

interpretation set_radio_config_ack: fixed_message opc_set_radio_config_ack_pack
    opc_set_radio_config_ack_unpack "\<lambda>_. True" 4 "\<lambda>a. a" OPC_CMD_ACK OPC_REQ_SET_RADIO_CONFIG
    OPC_SIMPLE_ACK_LENGTH ack_body ack_dec
  by (rule simple_ack_message)
    (simp_all add: opc_set_radio_config_ack_pack_def opc_set_radio_config_ack_unpack_def)

interpretation set_indication_config_ack: fixed_message opc_set_indication_config_ack_pack
    opc_set_indication_config_ack_unpack "\<lambda>_. True" 4 "\<lambda>a. a" OPC_CMD_ACK OPC_REQ_SET_INDICATION_CONFIG
    OPC_SIMPLE_ACK_LENGTH ack_body ack_dec
  by (rule simple_ack_message)
    (simp_all add: opc_set_indication_config_ack_pack_def opc_set_indication_config_ack_unpack_def)

interpretation reset_ack: fixed_message opc_reset_ack_pack opc_reset_ack_unpack "\<lambda>_. True" 4 "\<lambda>a. a"
    OPC_CMD_ACK OPC_REQ_RESET OPC_RESET_ACK_LENGTH ack_body ack_dec
  by (rule simple_ack_message) (simp_all add: opc_reset_ack_pack_def opc_reset_ack_unpack_def)

interpretation set_password_req: fixed_message opc_set_password_req_pack opc_set_password_req_unpack
    "\<lambda>_. True" 256
    "\<lambda>r. \<lparr>sp_old_password = copy_with_null_pad 128 (Some (sp_old_password r)),
          sp_new_password = copy_with_null_pad 128 (Some (sp_new_password r)),
          sp_old_password_terminated = True, sp_new_password_terminated = True\<rparr>"
    OPC_CMD_REQUEST OPC_REQ_SET_PASSWORD OPC_SET_PASSWORD_REQ_LENGTH
    "\<lambda>r. copy_with_null_pad 128 (Some (sp_old_password r)) @ copy_with_null_pad 128 (Some (sp_new_password r))"
    "\<lambda>body. let (ot, old) = copy_string_field 128 body; (nt, new) = copy_string_field 128 (drop 128 body)
       in \<lparr>sp_old_password = old, sp_new_password = new,
           sp_old_password_terminated = ot, sp_new_password_terminated = nt\<rparr>"
  by unfold_locales
    (simp_all add: opc_set_password_req_pack_def opc_set_password_req_unpack_def str128.dec_enc
      str128.dec_enc [of _ "[]", simplified])

interpretation change_ip_address_req: fixed_message opc_change_ip_address_req_pack
    opc_change_ip_address_req_unpack "\<lambda>_. True" 4 "\<lambda>r. r"
    OPC_CMD_REQUEST OPC_REQ_CHANGE_IP_ADDRESS OPC_CHANGE_IP_ADDRESS_REQ_LENGTH
    "\<lambda>r. put 2 (opc_be16_write (ci_list_number r)) (replicate 4 0)"
    "\<lambda>body. \<lparr>ci_list_number = opc_be16_read (drop 2 body)\<rparr>"
  by unfold_locales
    (simp_all add: opc_change_ip_address_req_pack_def opc_change_ip_address_req_unpack_def wire_simps)

interpretation set_indication_config_req: fixed_message opc_set_indication_config_req_pack
    opc_set_indication_config_req_unpack "\<lambda>_. True" 8 "\<lambda>r. r"
    OPC_CMD_REQUEST OPC_REQ_SET_INDICATION_CONFIG OPC_SET_INDICATION_CONFIG_REQ_LENGTH
    "\<lambda>r. put 4 (opc_be32_write (si_recipient_ip r)) (put 3 [si_period_seconds r] (put 2 [si_info_bits r]
       (put 0 (opc_be16_write (si_recipient_port r)) (replicate 8 0))))"
    "\<lambda>body. \<lparr>si_recipient_port = opc_be16_read body, si_info_bits = body ! 2, si_period_seconds = body ! 3,
       si_recipient_ip = opc_be32_read (drop 4 body)\<rparr>"
  by unfold_locales
    (simp_all add: opc_set_indication_config_req_pack_def opc_set_indication_config_req_unpack_def
      Let_def wire_simps)

interpretation get_basic_info_ack: fixed_message opc_get_basic_info_ack_pack opc_get_basic_info_ack_unpack
    "\<lambda>_. True" 16 "\<lambda>a. a" OPC_CMD_ACK OPC_REQ_GET_BASIC_INFO OPC_GET_BASIC_INFO_ACK_LENGTH
    "\<lambda>a. put 14 (opc_be16_write (bi_station_type a)) (put 8 (opc_be32_write (bi_device_status a))
       (put 6 (opc_be16_write (bi_product_subcode a)) (put 4 (opc_be16_write (bi_product_code a))
       (put 0 (opc_be32_write (bi_vendor_code a)) (replicate 16 0)))))"
    "\<lambda>body. \<lparr>bi_vendor_code = opc_be32_read body, bi_product_code = opc_be16_read (drop 4 body),
       bi_product_subcode = opc_be16_read (drop 6 body), bi_device_status = opc_be32_read (drop 8 body),
       bi_station_type = opc_be16_read (drop 14 body)\<rparr>"
  by unfold_locales
    (simp_all add: opc_get_basic_info_ack_pack_def opc_get_basic_info_ack_unpack_def Let_def wire_simps)

text \<open>A SetRadioConfig request whose channel lists have their 8 bytes is carried by the wire
  without loss.\<close>

lemma set_radio_config_req_roundtrip:
  assumes wf: "radio_req_wf r" and cap: "92 \<le> cap"
  shows "\<exists>f. opc_set_radio_config_req_pack (Some cap) s (Some r) = Some f \<and> length f = 92
    \<and> opc_set_radio_config_req_unpack (Some f) = Some r"
proof -
  obtain f where f: "opc_set_radio_config_req_pack (Some cap) s (Some r) = Some f"
    using opc_frame_build_defined cap by (fastforce simp: opc_set_radio_config_req_pack_def Let_def)
  note b = f [unfolded opc_set_radio_config_req_pack_def option.case Let_def]
  have "length f = 92" using opc_frame_build_bound [OF b] by simp
  moreover have "opc_set_radio_config_req_unpack (Some f) = Some r"
    unfolding opc_set_radio_config_req_unpack_def
    by (subst expect_body_build [OF b]) (use wf in \<open>simp_all add: wire_simps radio_req_wf_def\<close>)
  ultimately show ?thesis using f by blast
qed

text \<open>C31: Every field of a GetDeviceInformation acknowledgment, both radio blocks included, survives
  the 352-byte payload.\<close>

theorem get_device_info_ack_roundtrip:
  assumes wf: "device_info_wf a" and cap: "416 \<le> cap"
  shows "\<exists>f. opc_get_device_info_ack_pack (Some cap) s (Some a) = Some f \<and> length f = 416
    \<and> opc_get_device_info_ack_unpack (Some f) = Some a"
proof -
  obtain f where f: "opc_get_device_info_ack_pack (Some cap) s (Some a) = Some f"
    using opc_frame_build_defined cap by (fastforce simp: opc_get_device_info_ack_pack_def Let_def)
  note b = f [unfolded opc_get_device_info_ack_pack_def option.case Let_def]
  have "length f = 416" using opc_frame_build_bound [OF b] by simp
  have mac: "length (di_ethernet_mac a) = 6" using wf by (simp add: device_info_wf_def)
  have "opc_get_device_info_ack_unpack (Some f) =
    Some (a\<lparr>di_firmware_version := copy_with_null_pad 32 (Some (di_firmware_version a)),
            di_hardware_version := copy_with_null_pad 32 (Some (di_hardware_version a)),
            di_serial_number := copy_with_null_pad 32 (Some (di_serial_number a)),
            di_essid := copy_with_null_pad 32 (Some (di_essid a)),
            di_wlan1 := unpack_radio_state (pack_radio_state (di_wlan1 a)),
            di_wlan2 := unpack_radio_state (pack_radio_state (di_wlan2 a))\<rparr>)"
    unfolding opc_get_device_info_ack_unpack_def
    by (subst expect_body_build [OF b]) (simp_all add: wire_simps mac)
  then have "opc_get_device_info_ack_unpack (Some f) = Some a"
    using wf by (simp add: device_info_wf_def padded_def)
  with f \<open>length f = 416\<close> show ?thesis by blast
qed

lemma fold_put_blocks:
  assumes "\<And>i. length (g i) = w" and "k \<le> n"
  shows "fold (\<lambda>i b. put (i * w) (g i) b) [0..<k] (replicate (n * w) 0)
    = concat (map g [0..<k]) @ replicate ((n - k) * w) 0"
  using assms(2)
proof (induction k)
  case (Suc k)
  have len: "length (concat (map g [0..<k])) = k * w"
    using assms(1) by (induction k) simp_all
  have "(n - k) * w = w + (n - Suc k) * w"
    using Suc.prems by (metis Suc_diff_Suc Suc_le_lessD mult_Suc)
  with Suc len show ?case by (simp add: put_def assms(1))
qed simp

lemma drop_concat_blocks:
  assumes "\<And>i. length (g i) = w" and "i < n"
  shows "\<exists>r. drop (i * w) (concat (map g [0..<n])) = g i @ r"
proof -
  have len: "length (concat (map g [0..<i])) = i * w"
    using assms(1) by (induction i) simp_all
  have "[0..<n] = [0..<i] @ i # [Suc i..<n]"
    using assms(2) by (metis le_add2 less_imp_add_positive add_0 upt_add_eq_append upt_conv_Cons less_imp_le zero_le)
  then show ?thesis using len by simp
qed

lemma length_concat_blocks: "(\<And>i. length (g i) = w) \<Longrightarrow> length (concat (map g [0..<n])) = n * w"
  by (induction n) simp_all

lemma bit_fold_mask:
  "j < 32 \<Longrightarrow> bit (fold (\<lambda>i m. if P i then m OR push_bit i 1 else m) [0..<n] (0::u32)) j \<longleftrightarrow> j < n \<and> P j"
  by (induction n) (auto simp: bit_simps less_Suc_eq)

text \<open>The payload sizes \<open>SetIpConfigList\<close> accepts.\<close>

lemma unpack_ip_config_list_body:
  assumes "expect_body OPC_CMD_REQUEST OPC_REQ_SET_IP_CONFIG_LIST 0 (Some f) = Some body"
  shows "opc_set_ip_config_list_req_unpack (Some f) = Inl OPC_UNPACK_ERR_LIST_SIZE
      \<longleftrightarrow> \<not> (\<exists>n. 1 \<le> n \<and> n \<le> 20 \<and> length body = 64 * n)"
    and "opc_set_ip_config_list_req_unpack (Some f) \<noteq> Inl (-1)"
proof -
  have "(length body = 0 \<or> length body mod 64 \<noteq> 0 \<or> length body div 64 > 20)
      \<longleftrightarrow> \<not> (\<exists>n. 1 \<le> n \<and> n \<le> 20 \<and> length body = 64 * n)" (is "?l \<longleftrightarrow> ?r")
  proof (cases "64 dvd length body")
    case True
    then obtain k where k: "length body = 64 * k" ..
    then have "?l \<longleftrightarrow> k = 0 \<or> k > 20" and "?r \<longleftrightarrow> \<not> (1 \<le> k \<and> k \<le> 20)" by auto
    then show ?thesis by auto
  qed (auto simp: mod_greater_zero_iff_not_dvd)
  moreover have "opc_set_ip_config_list_req_unpack (Some f) = Inl OPC_UNPACK_ERR_LIST_SIZE
      \<longleftrightarrow> (length body = 0 \<or> length body mod 64 \<noteq> 0 \<or> length body div 64 > 20)"
    using assms unfolding opc_set_ip_config_list_req_unpack_def by (simp add: Let_def)
  ultimately show "opc_set_ip_config_list_req_unpack (Some f) = Inl OPC_UNPACK_ERR_LIST_SIZE
      \<longleftrightarrow> \<not> (\<exists>n. 1 \<le> n \<and> n \<le> 20 \<and> length body = 64 * n)" by (rule trans [rotated])
  show "opc_set_ip_config_list_req_unpack (Some f) \<noteq> Inl (-1)"
    using assms unfolding opc_set_ip_config_list_req_unpack_def by (simp add: Let_def)
qed

lemma ip_config_list_packed:
  assumes n: "1 \<le> entry_count r" "entry_count r \<le> 20" and cap: "64 + 64 * entry_count r \<le> cap"
    and pad: "\<And>i. i < entry_count r \<Longrightarrow> padded 32 (essid (entries r ! i))"
  shows "\<exists>f r'. opc_set_ip_config_list_req_pack (Some cap) s (Some r) = Some f
    \<and> (\<exists>h b. opc_frame_parse (Some f) = Some (h, b) \<and> command_type h = OPC_CMD_REQUEST
         \<and> req_indication_id h = OPC_REQ_SET_IP_CONFIG_LIST \<and> sequence_number h = s)
    \<and> opc_set_ip_config_list_req_unpack (Some f) = Inr r'
    \<and> entry_count r' = entry_count r \<and> length (entries r') = 20
    \<and> take (entry_count r) (entries r') = map ((!) (entries r)) [0..<entry_count r]
    \<and> (\<forall>i. i < 32 \<longrightarrow> bit (essid_terminated_mask r') i = (i < entry_count r))"
proof -
  let ?n = "entry_count r" and ?g = "\<lambda>i. pack_ipcfg_entry (entries r ! i)"
  let ?body = "concat (map ?g [0..<?n])"
  have body: "fold (\<lambda>i b. put (i * 64) (?g i) b) [0..<?n] (replicate (?n * 64) 0) = ?body"
    using fold_put_blocks [of ?g 64 ?n ?n] by simp
  have lb: "length ?body = ?n * 64" by (rule length_concat_blocks) simp
  obtain f where f: "opc_set_ip_config_list_req_pack (Some cap) s (Some r) = Some f"
    using opc_frame_build_defined [of "?n * 64" cap] n cap
    by (fastforce simp: opc_set_ip_config_list_req_pack_def Let_def)
  then have b: "opc_frame_build (Some cap) OPC_CMD_REQUEST OPC_REQ_SET_IP_CONFIG_LIST s
      (OPC_SET_IP_CONFIG_LIST_REQ_LENGTH ?n) (Some ?body) (?n * 64) = Some f"
    using n by (simp add: opc_set_ip_config_list_req_pack_def Let_def body)
  have len: "unat (OPC_SET_IP_CONFIG_LIST_REQ_LENGTH ?n) = 56 + ?n * 64"
    unfolding OPC_SET_IP_CONFIG_LIST_REQ_LENGTH_def using n by (subst unat_of_nat_lt) simp_all
  have e: "expect_body OPC_CMD_REQUEST OPC_REQ_SET_IP_CONFIG_LIST 0 (Some f) = Some ?body"
    by (rule expect_body_build [OF b]) (simp_all add: lb len)
  have u: "unpack_ipcfg_entry (drop (i * 64) ?body) = (True, entries r ! i)" if "i < ?n" for i
    using drop_concat_blocks [of ?g 64 i ?n] that pad [OF that] by (auto simp: ipcfg_entry.dec_enc padded_def)
  have "opc_frame_parse (Some f) = Some (\<lparr>protocol_version = OPC_PROTOCOL_VERSION, command_type = OPC_CMD_REQUEST,
      req_indication_id = OPC_REQ_SET_IP_CONFIG_LIST, sequence_number = s,
      length_field = OPC_SET_IP_CONFIG_LIST_REQ_LENGTH ?n\<rparr>, Some ?body)"
    by (rule opc_frame_build_parse(2) [OF b]) (simp_all add: lb len)
  then show ?thesis
    using f n by (auto simp: opc_set_ip_config_list_req_unpack_def e [simplified] lb Let_def u bit_fold_mask
      cong: map_cong)
qed

text \<open>C30: A SetIpConfigList request of 1 to 20 entries with NUL-padded ESSIDs unpacks to the same
  entries in the same order, and the terminated mask has exactly the bits of those entries.\<close>

theorem set_ip_config_list_req_roundtrip:
  assumes n: "1 \<le> entry_count r" "entry_count r \<le> 20" and cap: "64 + 64 * entry_count r \<le> cap"
    and pad: "\<And>i. i < entry_count r \<Longrightarrow> padded 32 (essid (entries r ! i))"
  shows "\<exists>f r'. opc_set_ip_config_list_req_pack (Some cap) s (Some r) = Some f
    \<and> opc_set_ip_config_list_req_unpack (Some f) = Inr r'
    \<and> entry_count r' = entry_count r \<and> length (entries r') = 20
    \<and> take (entry_count r) (entries r') = map ((!) (entries r)) [0..<entry_count r]
    \<and> (\<forall>i. i < 32 \<longrightarrow> bit (essid_terminated_mask r') i = (i < entry_count r))"
  using ip_config_list_packed [OF assms, where s = s] by blast

theorem set_ip_config_list_req_roundtrip_witness:
  "let e = \<lparr>boundary_flag = 3, list_number = 1, ip_address = 0xC0A80102, subnet_mask = 0xFFFFFF00,
             default_gateway = 0xC0A80101, ntp_server = 0, essid = [65] @ replicate 31 0\<rparr>;
       r = \<lparr>entry_count = 1, entries = [e], essid_terminated_mask = 0\<rparr>
   in \<exists>f r'. opc_set_ip_config_list_req_pack (Some 128) 9 (Some r) = Some f
    \<and> opc_set_ip_config_list_req_unpack (Some f) = Inr r'
    \<and> entry_count r' = entry_count r \<and> length (entries r') = 20
    \<and> take (entry_count r) (entries r') = map ((!) (entries r)) [0..<entry_count r]
    \<and> (\<forall>i. i < 32 \<longrightarrow> bit (essid_terminated_mask r') i = (i < entry_count r))"
  unfolding Let_def
  by (rule set_ip_config_list_req_roundtrip) (simp_all add: padded_def copy_with_null_pad_eq)

text \<open>For a well-framed SetIpConfigList request the list-size error is returned exactly when the
  payload is not 64 n bytes with n from 1 to 20, and the general error never is.\<close>

lemma set_ip_config_list_size_error:
  assumes "opc_frame_parse (Some f) = Some (h, b)"
    and "command_type h = OPC_CMD_REQUEST" "req_indication_id h = OPC_REQ_SET_IP_CONFIG_LIST"
  shows "(opc_set_ip_config_list_req_unpack (Some f) = Inl (-2)
      \<longleftrightarrow> \<not> (\<exists>n. 1 \<le> n \<and> n \<le> 20 \<and> length (body_bytes b) = 64 * n))
    \<and> opc_set_ip_config_list_req_unpack (Some f) \<noteq> Inl (-1)"
proof -
  have "expect_body OPC_CMD_REQUEST OPC_REQ_SET_IP_CONFIG_LIST 0 (Some f) = Some (body_bytes b)"
    using assms by (simp add: expect_body_def)
  from unpack_ip_config_list_body [OF this] show ?thesis by simp
qed

text \<open>A Login request carries the first 127 characters of the password string, and the receiver sees
  the field as NUL-terminated.\<close>

lemma login_req_roundtrip:
  assumes "192 \<le> cap"
  shows "\<exists>f r'. opc_login_req_pack (Some cap) s (Some r) = Some f \<and> length f = 192
    \<and> opc_login_req_unpack (Some f) = Some r' \<and> lr_password_terminated r'
    \<and> length (lr_password r') = OPC_LOGIN_REQ_BODY_LEN
    \<and> cstr (lr_password r') = take OPC_LOGIN_PASSWORD_MAX (cstr (lr_password r))"
  using login_req.delivered [where a = r and cap = cap and s = s] assms by fastforce

text \<open>The unpack functions report a password field without a NUL byte: both SetPassword flags are the
  presence of a NUL in the two 128-byte halves, and the returned strings are always terminated.\<close>

lemma set_password_terminated_flags:
  assumes "opc_set_password_req_unpack (Some f) = Some r"
  shows "(sp_old_password_terminated r \<longleftrightarrow> 0 \<in> set (slice 64 128 f))
    \<and> (sp_new_password_terminated r \<longleftrightarrow> 0 \<in> set (slice 192 128 f))
    \<and> has_nul 128 (sp_old_password r) \<and> has_nul 128 (sp_new_password r)
    \<and> (sp_old_password_terminated r \<longrightarrow> cstr (sp_old_password r) = cstr (slice 64 128 f))
    \<and> (sp_new_password_terminated r \<longrightarrow> cstr (sp_new_password r) = cstr (slice 192 128 f))"
proof -
  obtain h body where p: "opc_frame_parse (Some f) = Some (h, body)"
    and l: "256 \<le> length (body_bytes body)"
    and r: "r = (let (ot, old) = copy_string_field 128 (body_bytes body);
                     (nt, new) = copy_string_field 128 (drop 128 (body_bytes body))
                 in \<lparr>sp_old_password = old, sp_new_password = new,
                     sp_old_password_terminated = ot, sp_new_password_terminated = nt\<rparr>)"
    using assms by (auto simp: opc_set_password_req_unpack_def expect_body_def split: option.splits if_splits)
  have b: "body_bytes body = drop 64 f"
    using p l by (auto simp: opc_frame_parse_def body_bytes_def split: option.splits if_splits)
  obtain ot old where o: "copy_string_field 128 (drop 64 f) = (ot, old)" by fastforce
  obtain nt new where n: "copy_string_field 128 (drop 192 f) = (nt, new)" by fastforce
  have "length (drop 64 f) \<ge> 256" using l b by simp
  then show ?thesis
    using copy_string_field_result [OF o] copy_string_field_result [OF n] r o n
    by (simp add: b slice_def)
qed

theorem get_device_info_ack_roundtrip_witness:
  "let w = \<lparr>rs_mac = [2, 0, 0, 0, 0, 1], rs_mode = 11, rs_bandwidth = 2, rs_freq_mhz = 5180, rs_channel = 0x0224,
            rs_status = 1, rs_snr = 40, rs_rssi = -50, rs_connect_ap_mac = [2, 0, 0, 0, 0, 9],
            rs_scan_band = 2, rs_scan_chlist = [0, 0, 0, 1, 0, 0, 0, 0]\<rparr>;
       a = \<lparr>di_result = 0, di_error_cause = 0, di_vendor_code = 1, di_product_code = 2, di_product_subcode = 3,
            di_manufacture = \<lparr>year = 2026, month = 1, day = 2\<rparr>, di_shipment = \<lparr>year = 2026, month = 3, day = 4\<rparr>,
            di_firmware_version = [49, 46, 48] @ replicate 29 0, di_hardware_version = replicate 32 0,
            di_serial_number = replicate 32 0, di_ethernet_mac = [2, 0, 0, 0, 0, 3],
            di_ip_address = 0xC0A80102, di_subnet_mask = 0xFFFFFF00, di_default_gateway = 0, di_ntp_server = 0,
            di_essid = replicate 32 0, di_device_status = 1, di_station_type = 2, di_priority_ch = 0xFFFF,
            di_ieee_11r = 1, di_ieee_11ai = 0, di_ieee_11k = 0, di_ieee_11v = 0, di_wlan1 = w, di_wlan2 = w\<rparr>
   in \<exists>f. opc_get_device_info_ack_pack (Some 1424) 8 (Some a) = Some f \<and> length f = 416
    \<and> opc_get_device_info_ack_unpack (Some f) = Some a"
  unfolding Let_def
  by (rule get_device_info_ack_roundtrip)
    (simp_all add: device_info_wf_def radio_state_wf_def padded_def copy_with_null_pad_eq)

text \<open>A simple acknowledgment of any command is read back with its result and cause, and is rejected
  when another command's acknowledgment is expected.\<close>

lemma simple_ack_roundtrip:
  assumes "68 \<le> cap"
  shows "\<exists>f. opc_simple_ack_pack (Some cap) req_id s OPC_SIMPLE_ACK_LENGTH res cause = Some f \<and> length f = 68
    \<and> opc_simple_ack_unpack (Some f) expected =
        (if expected = req_id then Some \<lparr>ack_result = res, ack_error_cause = cause\<rparr> else None)"
proof -
  obtain f where f: "opc_simple_ack_pack (Some cap) req_id s OPC_SIMPLE_ACK_LENGTH res cause = Some f"
    using opc_frame_build_defined [of OPC_SIMPLE_ACK_BODY_LEN cap] assms
    by (fastforce simp: opc_simple_ack_pack_def)
  note p = opc_frame_build_parse [OF f [unfolded opc_simple_ack_pack_def]]
  have "length f = 68" using p(1) by simp
  moreover have "opc_frame_parse (Some f) = Some (\<lparr>protocol_version = OPC_PROTOCOL_VERSION,
      command_type = OPC_CMD_ACK, req_indication_id = req_id, sequence_number = s, length_field = OPC_SIMPLE_ACK_LENGTH\<rparr>,
      Some (opc_be16_write res @ opc_be16_write cause))"
    by (rule p(2)) simp_all
  ultimately show ?thesis
    using f by (auto simp: opc_simple_ack_unpack_def expect_body_def body_bytes_def be16.dec_enc
        be16.dec_enc [of _ "[]", simplified])
qed

lemma empty_req_packed:
  "\<exists>f. empty_req_pack (Some OPC_FRAME_MAX) i s = Some f \<and> length f = OPC_FIXED_HEADER_SIZE
     \<and> opc_frame_parse (Some f) = Some (\<lparr>protocol_version = OPC_PROTOCOL_VERSION, command_type = OPC_CMD_REQUEST,
           req_indication_id = i, sequence_number = s, length_field = 0\<rparr>, None)"
proof -
  let ?h = "\<lparr>protocol_version = OPC_PROTOCOL_VERSION, command_type = OPC_CMD_REQUEST, req_indication_id = i,
    sequence_number = s, length_field = 0\<rparr>"
  obtain f where f: "opc_fixed_header_pack (Some OPC_FRAME_MAX) (Some ?h) = Some f"
    by (simp add: opc_fixed_header_pack_def)
  then show ?thesis
    using fixed_header_pack_length [OF f] fixed_header_roundtrip [OF f, of "[]"]
    by (simp add: empty_req_pack_def opc_empty_frame_build_def opc_frame_parse_def)
qed

text \<open>A request without payload is accepted exactly as the bare 8-byte request header with its own id
  and length 0; the same id on a full 64-byte header is rejected.\<close>

lemma empty_req_accepts:
  "empty_req_unpack (Some f) req_id = Some () \<longleftrightarrow>
     length f = 8 \<and> f ! 1 = OPC_CMD_REQUEST \<and> opc_be16_read (drop 2 f) = req_id
     \<and> opc_be16_read (drop 6 f) = 0"
  by (auto simp: empty_req_unpack_def opc_frame_parse_def opc_fixed_header_unpack_def unat_eq_0
      split: option.splits if_splits)

end
