(* ===== verification/Indications.thy ===== *)
theory Indications
  imports Commands
begin

text \<open>
  The seven indication messages (\<open>protocol/indications.h\<close>, \<open>protocol/indications.c\<close>).
\<close>

definition OPC_IND_INIT_COMPLETE_BODY_LEN :: nat where [simp]: "OPC_IND_INIT_COMPLETE_BODY_LEN = 4"
definition OPC_IND_INIT_COMPLETE_LENGTH :: u16 where [simp]: "OPC_IND_INIT_COMPLETE_LENGTH = 60"
definition OPC_IND_WLAN_STATUS_CHANGE_BODY_LEN :: nat where [simp]: "OPC_IND_WLAN_STATUS_CHANGE_BODY_LEN = 4"
definition OPC_IND_WLAN_STATUS_CHANGE_LENGTH :: u16 where [simp]: "OPC_IND_WLAN_STATUS_CHANGE_LENGTH = 60"
definition OPC_WLAN_STATUS_CONNECTED :: u16 where [simp]: "OPC_WLAN_STATUS_CONNECTED = 0x0001"
definition OPC_WLAN_STATUS_DISCONNECTED :: u16 where [simp]: "OPC_WLAN_STATUS_DISCONNECTED = 0x0002"
definition OPC_IND_ROAMING_BODY_LEN :: nat where [simp]: "OPC_IND_ROAMING_BODY_LEN = 12"
definition OPC_IND_ROAMING_LENGTH :: u16 where [simp]: "OPC_IND_ROAMING_LENGTH = 68"
definition OPC_IND_AP_DISCONNECT_BODY_LEN :: nat where [simp]: "OPC_IND_AP_DISCONNECT_BODY_LEN = 12"
definition OPC_IND_AP_DISCONNECT_LENGTH :: u16 where [simp]: "OPC_IND_AP_DISCONNECT_LENGTH = 68"
definition OPC_AP_MSG_DISASSOCIATION :: u16 where [simp]: "OPC_AP_MSG_DISASSOCIATION = 0x000A"
definition OPC_AP_MSG_DEAUTHENTICATION :: u16 where [simp]: "OPC_AP_MSG_DEAUTHENTICATION = 0x000C"
definition OPC_IND_FAULT_DETECT_BODY_LEN :: nat where [simp]: "OPC_IND_FAULT_DETECT_BODY_LEN = 4"
definition OPC_IND_FAULT_DETECT_LENGTH :: u16 where [simp]: "OPC_IND_FAULT_DETECT_LENGTH = 60"
definition OPC_CONGESTION_CPU :: u16 where [simp]: "OPC_CONGESTION_CPU = 0x0001"
definition OPC_CONGESTION_MEMORY :: u16 where [simp]: "OPC_CONGESTION_MEMORY = 0x0002"
definition OPC_CONGESTION_DISK_IO :: u16 where [simp]: "OPC_CONGESTION_DISK_IO = 0x0003"
definition OPC_CONGESTION_NETWORK :: u16 where [simp]: "OPC_CONGESTION_NETWORK = 0x0004"
definition OPC_IND_RESET_NOTICE_BODY_LEN :: nat where [simp]: "OPC_IND_RESET_NOTICE_BODY_LEN = 4"
definition OPC_IND_RESET_NOTICE_LENGTH :: u16 where [simp]: "OPC_IND_RESET_NOTICE_LENGTH = 60"
definition OPC_IND_KEEP_ALIVE_BODY_LEN :: nat where [simp]: "OPC_IND_KEEP_ALIVE_BODY_LEN = 32"
definition OPC_IND_KEEP_ALIVE_LENGTH :: u16 where [simp]: "OPC_IND_KEEP_ALIVE_LENGTH = 88"

record opc_ind_init_complete_t =
  ic_status :: u32

record opc_ind_wlan_status_change_t =
  wsc_wlan_status :: u16
  wsc_indication_ch :: u16

record opc_ind_roaming_t =
  ro_current_snr :: u8
  ro_current_rssi :: u8
  ro_connect_ap_mac :: "u8 list"
  ro_ch_number :: u16

record opc_ind_ap_disconnect_t =
  ad_message_id :: u16
  ad_result_code :: u16
  ad_disconnect_ap_mac :: "u8 list"

record opc_ind_fault_detect_t =
  fd_congestion_id :: u16
  fd_current_val :: u16

record opc_ind_reset_notice_t =
  rn_reset_cause :: u32

record opc_ind_keep_alive_t =
  ka_timestamp :: "u8 list"

definition indication_parse :: "u8 list ptr \<Rightarrow> u16 \<Rightarrow> u8 list option" where
  "indication_parse frame expected_ind_id =
     (case opc_frame_parse frame of
        None \<Rightarrow> None
      | Some (hdr, body) \<Rightarrow>
          if command_type hdr \<noteq> OPC_CMD_INDICATION then None
          else if req_indication_id hdr \<noteq> expected_ind_id then None
          else Some (body_bytes body))"

text \<open>The size guard that follows \<open>indication_parse\<close> in every unpack function.\<close>

definition min_body :: "nat \<Rightarrow> u8 list option \<Rightarrow> u8 list option" where
  "min_body n b = (case b of None \<Rightarrow> None | Some body \<Rightarrow> if length body < n then None else Some body)"

definition opc_ind_init_complete_pack :: "outbuf \<Rightarrow> u16 \<Rightarrow> opc_ind_init_complete_t ptr \<Rightarrow> u8 list option" where
  "opc_ind_init_complete_pack frame seq_no inp =
     (case inp of
        None \<Rightarrow> None
      | Some i \<Rightarrow>
          opc_frame_build frame OPC_CMD_INDICATION OPC_IND_INIT_COMPLETE seq_no OPC_IND_INIT_COMPLETE_LENGTH
            (Some (opc_be32_write (ic_status i))) OPC_IND_INIT_COMPLETE_BODY_LEN)"

definition opc_ind_init_complete_unpack :: "u8 list ptr \<Rightarrow> opc_ind_init_complete_t option" where
  "opc_ind_init_complete_unpack frame =
     map_option (\<lambda>body. \<lparr>ic_status = opc_be32_read body\<rparr>)
       (min_body OPC_IND_INIT_COMPLETE_BODY_LEN (indication_parse frame OPC_IND_INIT_COMPLETE))"

definition opc_ind_wlan_status_change_pack ::
  "outbuf \<Rightarrow> u16 \<Rightarrow> opc_ind_wlan_status_change_t ptr \<Rightarrow> u8 list option" where
  "opc_ind_wlan_status_change_pack frame seq_no inp =
     (case inp of
        None \<Rightarrow> None
      | Some i \<Rightarrow>
          opc_frame_build frame OPC_CMD_INDICATION OPC_IND_WLAN_STATUS_CHANGE seq_no
            OPC_IND_WLAN_STATUS_CHANGE_LENGTH
            (Some (opc_be16_write (wsc_wlan_status i) @ opc_be16_write (wsc_indication_ch i)))
            OPC_IND_WLAN_STATUS_CHANGE_BODY_LEN)"

definition opc_ind_wlan_status_change_unpack :: "u8 list ptr \<Rightarrow> opc_ind_wlan_status_change_t option" where
  "opc_ind_wlan_status_change_unpack frame =
     map_option (\<lambda>body. \<lparr>wsc_wlan_status = opc_be16_read body, wsc_indication_ch = opc_be16_read (drop 2 body)\<rparr>)
       (min_body OPC_IND_WLAN_STATUS_CHANGE_BODY_LEN (indication_parse frame OPC_IND_WLAN_STATUS_CHANGE))"

definition opc_ind_roaming_pack :: "outbuf \<Rightarrow> u16 \<Rightarrow> opc_ind_roaming_t ptr \<Rightarrow> u8 list option" where
  "opc_ind_roaming_pack frame seq_no inp =
     (case inp of
        None \<Rightarrow> None
      | Some i \<Rightarrow>
          let body = replicate OPC_IND_ROAMING_BODY_LEN 0;
              body = put 0 (opc_be16_write (scast (ro_current_snr i))) body;
              body = put 2 (opc_be16_write (scast (ro_current_rssi i))) body;
              body = put 4 (take 6 (ro_connect_ap_mac i)) body;
              body = put 10 (opc_be16_write (ro_ch_number i)) body
          in opc_frame_build frame OPC_CMD_INDICATION OPC_IND_ROAMING seq_no OPC_IND_ROAMING_LENGTH
               (Some body) OPC_IND_ROAMING_BODY_LEN)"

definition opc_ind_roaming_unpack :: "u8 list ptr \<Rightarrow> opc_ind_roaming_t option" where
  "opc_ind_roaming_unpack frame =
     map_option (\<lambda>body. \<lparr>ro_current_snr = ucast (opc_be16_read body),
                         ro_current_rssi = ucast (opc_be16_read (drop 2 body)),
                         ro_connect_ap_mac = slice 4 6 body,
                         ro_ch_number = opc_be16_read (drop 10 body)\<rparr>)
       (min_body OPC_IND_ROAMING_BODY_LEN (indication_parse frame OPC_IND_ROAMING))"

definition opc_ind_ap_disconnect_pack :: "outbuf \<Rightarrow> u16 \<Rightarrow> opc_ind_ap_disconnect_t ptr \<Rightarrow> u8 list option" where
  "opc_ind_ap_disconnect_pack frame seq_no inp =
     (case inp of
        None \<Rightarrow> None
      | Some i \<Rightarrow>
          let body = replicate OPC_IND_AP_DISCONNECT_BODY_LEN 0;
              body = put 0 (opc_be16_write (ad_message_id i)) body;
              body = put 2 (opc_be16_write (ad_result_code i)) body;
              body = put 4 (take 6 (ad_disconnect_ap_mac i)) body
          in opc_frame_build frame OPC_CMD_INDICATION OPC_IND_AP_DISCONNECT seq_no OPC_IND_AP_DISCONNECT_LENGTH
               (Some body) OPC_IND_AP_DISCONNECT_BODY_LEN)"

definition opc_ind_ap_disconnect_unpack :: "u8 list ptr \<Rightarrow> opc_ind_ap_disconnect_t option" where
  "opc_ind_ap_disconnect_unpack frame =
     map_option (\<lambda>body. \<lparr>ad_message_id = opc_be16_read body,
                         ad_result_code = opc_be16_read (drop 2 body),
                         ad_disconnect_ap_mac = slice 4 6 body\<rparr>)
       (min_body OPC_IND_AP_DISCONNECT_BODY_LEN (indication_parse frame OPC_IND_AP_DISCONNECT))"

definition opc_ind_fault_detect_pack :: "outbuf \<Rightarrow> u16 \<Rightarrow> opc_ind_fault_detect_t ptr \<Rightarrow> u8 list option" where
  "opc_ind_fault_detect_pack frame seq_no inp =
     (case inp of
        None \<Rightarrow> None
      | Some i \<Rightarrow>
          opc_frame_build frame OPC_CMD_INDICATION OPC_IND_FAULT_DETECT seq_no OPC_IND_FAULT_DETECT_LENGTH
            (Some (opc_be16_write (fd_congestion_id i) @ opc_be16_write (fd_current_val i)))
            OPC_IND_FAULT_DETECT_BODY_LEN)"

definition opc_ind_fault_detect_unpack :: "u8 list ptr \<Rightarrow> opc_ind_fault_detect_t option" where
  "opc_ind_fault_detect_unpack frame =
     map_option (\<lambda>body. \<lparr>fd_congestion_id = opc_be16_read body, fd_current_val = opc_be16_read (drop 2 body)\<rparr>)
       (min_body OPC_IND_FAULT_DETECT_BODY_LEN (indication_parse frame OPC_IND_FAULT_DETECT))"

definition opc_ind_reset_notice_pack :: "outbuf \<Rightarrow> u16 \<Rightarrow> opc_ind_reset_notice_t ptr \<Rightarrow> u8 list option" where
  "opc_ind_reset_notice_pack frame seq_no inp =
     (case inp of
        None \<Rightarrow> None
      | Some i \<Rightarrow>
          opc_frame_build frame OPC_CMD_INDICATION OPC_IND_RESET_NOTICE seq_no OPC_IND_RESET_NOTICE_LENGTH
            (Some (opc_be32_write (rn_reset_cause i))) OPC_IND_RESET_NOTICE_BODY_LEN)"

definition opc_ind_reset_notice_unpack :: "u8 list ptr \<Rightarrow> opc_ind_reset_notice_t option" where
  "opc_ind_reset_notice_unpack frame =
     map_option (\<lambda>body. \<lparr>rn_reset_cause = opc_be32_read body\<rparr>)
       (min_body OPC_IND_RESET_NOTICE_BODY_LEN (indication_parse frame OPC_IND_RESET_NOTICE))"

definition opc_ind_keep_alive_pack :: "outbuf \<Rightarrow> u16 \<Rightarrow> opc_ind_keep_alive_t ptr \<Rightarrow> u8 list option" where
  "opc_ind_keep_alive_pack frame seq_no inp =
     (case inp of
        None \<Rightarrow> None
      | Some i \<Rightarrow>
          let n = opc_bounded_strnlen (ka_timestamp i) (OPC_IND_KEEP_ALIVE_BODY_LEN - 1);
              body = put 0 (take n (ka_timestamp i)) (replicate OPC_IND_KEEP_ALIVE_BODY_LEN 0)
          in opc_frame_build frame OPC_CMD_INDICATION OPC_IND_KEEP_ALIVE seq_no OPC_IND_KEEP_ALIVE_LENGTH
               (Some body) OPC_IND_KEEP_ALIVE_BODY_LEN)"

definition opc_ind_keep_alive_unpack :: "u8 list ptr \<Rightarrow> opc_ind_keep_alive_t option" where
  "opc_ind_keep_alive_unpack frame =
     map_option (\<lambda>body. \<lparr>ka_timestamp =
         (take OPC_IND_KEEP_ALIVE_BODY_LEN body)[OPC_IND_KEEP_ALIVE_BODY_LEN - 1 := 0]\<rparr>)
       (min_body OPC_IND_KEEP_ALIVE_BODY_LEN (indication_parse frame OPC_IND_KEEP_ALIVE))"

subsection \<open>Round trips\<close>

lemma min_body_indication: "min_body n (indication_parse f i) = expect_body OPC_CMD_INDICATION i n f"
  by (simp add: min_body_def indication_parse_def expect_body_def split: option.splits)

lemma ucast_scast_8: "ucast (scast (x :: u8) :: u16) = x"
  by (rule bit_word_eqI) (auto simp: bit_simps)

interpretation init_complete: fixed_message opc_ind_init_complete_pack opc_ind_init_complete_unpack
    "\<lambda>_. True" 4 "\<lambda>a. a" OPC_CMD_INDICATION OPC_IND_INIT_COMPLETE OPC_IND_INIT_COMPLETE_LENGTH
    "\<lambda>i. opc_be32_write (ic_status i)" "\<lambda>body. \<lparr>ic_status = opc_be32_read body\<rparr>"
  by unfold_locales
    (simp_all add: opc_ind_init_complete_pack_def opc_ind_init_complete_unpack_def min_body_indication
      be32.dec_enc [of _ "[]", simplified])

interpretation wlan_status_change: fixed_message opc_ind_wlan_status_change_pack
    opc_ind_wlan_status_change_unpack "\<lambda>_. True" 4 "\<lambda>a. a" OPC_CMD_INDICATION
    OPC_IND_WLAN_STATUS_CHANGE OPC_IND_WLAN_STATUS_CHANGE_LENGTH
    "\<lambda>i. opc_be16_write (wsc_wlan_status i) @ opc_be16_write (wsc_indication_ch i)"
    "\<lambda>body. \<lparr>wsc_wlan_status = opc_be16_read body, wsc_indication_ch = opc_be16_read (drop 2 body)\<rparr>"
  by unfold_locales
    (simp_all add: opc_ind_wlan_status_change_pack_def opc_ind_wlan_status_change_unpack_def
      min_body_indication be16.dec_enc be16.dec_enc [of _ "[]", simplified])

interpretation ap_disconnect: fixed_message opc_ind_ap_disconnect_pack opc_ind_ap_disconnect_unpack
    "\<lambda>i. length (ad_disconnect_ap_mac i) = 6" 12 "\<lambda>a. a" OPC_CMD_INDICATION
    OPC_IND_AP_DISCONNECT OPC_IND_AP_DISCONNECT_LENGTH
    "\<lambda>i. put 4 (take 6 (ad_disconnect_ap_mac i)) (put 2 (opc_be16_write (ad_result_code i))
       (put 0 (opc_be16_write (ad_message_id i)) (replicate 12 0)))"
    "\<lambda>body. \<lparr>ad_message_id = opc_be16_read body, ad_result_code = opc_be16_read (drop 2 body),
       ad_disconnect_ap_mac = slice 4 6 body\<rparr>"
  by unfold_locales
    (simp_all add: opc_ind_ap_disconnect_pack_def opc_ind_ap_disconnect_unpack_def min_body_indication
      Let_def wire_simps)

interpretation fault_detect: fixed_message opc_ind_fault_detect_pack opc_ind_fault_detect_unpack
    "\<lambda>_. True" 4 "\<lambda>a. a" OPC_CMD_INDICATION OPC_IND_FAULT_DETECT OPC_IND_FAULT_DETECT_LENGTH
    "\<lambda>i. opc_be16_write (fd_congestion_id i) @ opc_be16_write (fd_current_val i)"
    "\<lambda>body. \<lparr>fd_congestion_id = opc_be16_read body, fd_current_val = opc_be16_read (drop 2 body)\<rparr>"
  by unfold_locales
    (simp_all add: opc_ind_fault_detect_pack_def opc_ind_fault_detect_unpack_def
      min_body_indication be16.dec_enc be16.dec_enc [of _ "[]", simplified])

interpretation reset_notice: fixed_message opc_ind_reset_notice_pack opc_ind_reset_notice_unpack
    "\<lambda>_. True" 4 "\<lambda>a. a" OPC_CMD_INDICATION OPC_IND_RESET_NOTICE OPC_IND_RESET_NOTICE_LENGTH
    "\<lambda>i. opc_be32_write (rn_reset_cause i)" "\<lambda>body. \<lparr>rn_reset_cause = opc_be32_read body\<rparr>"
  by unfold_locales
    (simp_all add: opc_ind_reset_notice_pack_def opc_ind_reset_notice_unpack_def min_body_indication
      be32.dec_enc [of _ "[]", simplified])

lemma keep_alive_body: "put 0 (take (opc_bounded_strnlen s 31) s) (replicate 32 0) = copy_with_null_pad 32 (Some s)"
  by (simp add: copy_with_null_pad_def)

interpretation keep_alive: fixed_message opc_ind_keep_alive_pack opc_ind_keep_alive_unpack
    "\<lambda>_. True" 32 "\<lambda>i. \<lparr>ka_timestamp = copy_with_null_pad 32 (Some (ka_timestamp i))\<rparr>"
    OPC_CMD_INDICATION OPC_IND_KEEP_ALIVE OPC_IND_KEEP_ALIVE_LENGTH
    "\<lambda>i. copy_with_null_pad 32 (Some (ka_timestamp i))"
    "\<lambda>body. \<lparr>ka_timestamp = snd (copy_string_field 32 body)\<rparr>"
  by unfold_locales
    (simp_all add: opc_ind_keep_alive_pack_def opc_ind_keep_alive_unpack_def min_body_indication
      keep_alive_body str32.dec_enc [of _ "[]", simplified], simp add: copy_string_field_def)

interpretation roaming: fixed_message opc_ind_roaming_pack opc_ind_roaming_unpack
    "\<lambda>i. length (ro_connect_ap_mac i) = 6" 12 "\<lambda>a. a" OPC_CMD_INDICATION OPC_IND_ROAMING OPC_IND_ROAMING_LENGTH
    "\<lambda>i. put 10 (opc_be16_write (ro_ch_number i)) (put 4 (take 6 (ro_connect_ap_mac i))
       (put 2 (opc_be16_write (scast (ro_current_rssi i))) (put 0 (opc_be16_write (scast (ro_current_snr i)))
       (replicate 12 0))))"
    "\<lambda>body. \<lparr>ro_current_snr = ucast (opc_be16_read body), ro_current_rssi = ucast (opc_be16_read (drop 2 body)),
       ro_connect_ap_mac = slice 4 6 body, ro_ch_number = opc_be16_read (drop 10 body)\<rparr>"
  by unfold_locales
    (simp_all add: opc_ind_roaming_pack_def opc_ind_roaming_unpack_def min_body_indication
      Let_def wire_simps ucast_scast_8)

text \<open>A Roaming indication carries the signed 8-bit SNR and RSSI sign-extended to 16 bits, and
  together with the AP address and channel they are read back unchanged.\<close>

lemma roaming_roundtrip:
  assumes "length (ro_connect_ap_mac i) = 6" "76 \<le> cap"
  shows "\<exists>f. opc_ind_roaming_pack (Some cap) s (Some i) = Some f \<and> length f = 76
    \<and> sint (opc_be16_read (drop 64 f)) = sint (ro_current_snr i)
    \<and> sint (opc_be16_read (drop 66 f)) = sint (ro_current_rssi i)
    \<and> opc_ind_roaming_unpack (Some f) = Some i"
proof -
  obtain f where f: "opc_ind_roaming_pack (Some cap) s (Some i) = Some f" "length f = 76"
      "opc_ind_roaming_unpack (Some f) = Some i"
    using roaming.delivered [where a = i and cap = cap and s = s] assms by auto
  have b: "drop 64 f = put 10 (opc_be16_write (ro_ch_number i)) (put 4 (take 6 (ro_connect_ap_mac i))
       (put 2 (opc_be16_write (scast (ro_current_rssi i))) (put 0 (opc_be16_write (scast (ro_current_snr i)))
       (replicate 12 0))))"
    using opc_frame_build_parse(2) [OF f(1) [unfolded roaming.pack_eq]]
    by (auto simp: opc_frame_parse_def split: option.splits if_splits)
  have "drop 66 f = drop 2 (drop 64 f)" by simp
  with f b show ?thesis by (simp add: wire_simps assms is_up_def source_size_def target_size_def sint_up_scast)
qed

end
