(* ===== verification/Scan_Chlist.thy ===== *)
theory Scan_Chlist
  imports Codec
begin

text \<open>
  SCAN Frequency Band and SCAN Channel List (\<open>protocol/scan_chlist.h\<close>, \<open>protocol/scan_chlist.c\<close>): one bit per
  channel of a band, in two big-endian 32-bit rows. Row and bit numbers are \<open>int\<close> as in the source; the two
  out parameters of \<open>opc_scan_bit_for_channel\<close> are its result.
\<close>

definition OPC_SCAN_BAND_2_4GHZ :: u16 where [simp]: "OPC_SCAN_BAND_2_4GHZ = 0x0001"
definition OPC_SCAN_BAND_5GHZ :: u16 where [simp]: "OPC_SCAN_BAND_5GHZ = 0x0002"
definition OPC_SCAN_BAND_6GHZ :: u16 where [simp]: "OPC_SCAN_BAND_6GHZ = 0x0006"
definition OPC_SCAN_BAND_UNSET :: u16 where [simp]: "OPC_SCAN_BAND_UNSET = 0xFFFF"
definition OPC_SCAN_ROW_A_FIRST :: bool where [simp]: "OPC_SCAN_ROW_A_FIRST = True"
definition OPC_SCAN_ROW_A :: int where [simp]: "OPC_SCAN_ROW_A = 0"
definition OPC_SCAN_ROW_B :: int where [simp]: "OPC_SCAN_ROW_B = 1"

definition opc_scan_band_or_unset :: "u16 \<Rightarrow> u16" where
  "opc_scan_band_or_unset band = (if band = 0 then OPC_SCAN_BAND_UNSET else band)"

definition opc_scan_band_known :: "u16 \<Rightarrow> bool" where
  "opc_scan_band_known band \<longleftrightarrow>
     band = OPC_SCAN_BAND_2_4GHZ \<or> band = OPC_SCAN_BAND_5GHZ \<or> band = OPC_SCAN_BAND_6GHZ"

definition opc_scan_band_supported :: "u16 \<Rightarrow> bool" where
  "opc_scan_band_supported band \<longleftrightarrow> band = OPC_SCAN_BAND_2_4GHZ \<or> band = OPC_SCAN_BAND_5GHZ"

definition opc_scan_row_channel :: "u16 \<Rightarrow> int \<Rightarrow> int \<Rightarrow> u8" where
  "opc_scan_row_channel band row b =
     (if b < 0 \<or> b > 31 then 0
      else if band = OPC_SCAN_BAND_2_4GHZ then
        (if row = OPC_SCAN_ROW_A \<and> b \<le> 13 then of_int (b + 1) else 0)
      else if band = OPC_SCAN_BAND_5GHZ then
        (if row \<noteq> OPC_SCAN_ROW_A then 0
         else if b \<le> 7 then of_int (36 + 4 * b)
         else if b \<le> 19 then of_int (100 + 4 * (b - 8))
         else if b \<le> 24 then of_int (149 + 4 * (b - 20))
         else 0)
      else if band = OPC_SCAN_BAND_6GHZ then
        (if row = OPC_SCAN_ROW_A then of_int (1 + 4 * b)
         else if row = OPC_SCAN_ROW_B \<and> b \<le> 26 then of_int (129 + 4 * b)
         else 0)
      else 0)"

text \<open>The nested loops run over the rows and, inside, over the 32 bits, in this order.\<close>

definition scan_positions :: "(int \<times> int) list" where
  "scan_positions = List.product [0, 1] (map int [0..<32])"

definition opc_scan_bit_for_channel :: "u16 \<Rightarrow> u8 \<Rightarrow> (int \<times> int) option" where
  "opc_scan_bit_for_channel band ch =
     (if ch = 0 \<or> \<not> opc_scan_band_known band then None
      else find (\<lambda>(r, b). opc_scan_row_channel band r b = ch) scan_positions)"

definition opc_scan_channel_mhz :: "u16 \<Rightarrow> u8 \<Rightarrow> u16" where
  "opc_scan_channel_mhz band ch =
     (if opc_scan_bit_for_channel band ch = None then 0
      else if band = OPC_SCAN_BAND_2_4GHZ then (if ch = 14 then 2484 else 2407 + 5 * ucast ch)
      else if band = OPC_SCAN_BAND_5GHZ then 5000 + 5 * ucast ch
      else if band = OPC_SCAN_BAND_6GHZ then 5950 + 5 * ucast ch
      else 0)"

definition row_offset :: "int \<Rightarrow> nat" where
  "row_offset row = nat (if OPC_SCAN_ROW_A_FIRST then row else 1 - row) * 4"

definition opc_scan_row_word :: "u8 list \<Rightarrow> int \<Rightarrow> u32" where
  "opc_scan_row_word xs row =
     (let p = drop (row_offset row) xs
      in push_bit 24 (ucast (p ! 0)) OR push_bit 16 (ucast (p ! 1)) OR push_bit 8 (ucast (p ! 2)) OR ucast (p ! 3))"

definition row_set_bit :: "u8 list \<Rightarrow> int \<Rightarrow> int \<Rightarrow> u8 list" where
  "row_set_bit xs row b =
     (let off = row_offset row + 3 - nat (b div 8)
      in xs[off := xs ! off OR push_bit (nat (b mod 8)) 1])"

definition opc_scan_list_set_channel :: "u8 list \<Rightarrow> u16 \<Rightarrow> u8 \<Rightarrow> u8 list" where
  "opc_scan_list_set_channel xs band ch =
     (case opc_scan_bit_for_channel band ch of None \<Rightarrow> xs | Some (row, b) \<Rightarrow> row_set_bit xs row b)"

definition opc_scan_list_empty :: "u8 list \<Rightarrow> bool" where
  "opc_scan_list_empty xs \<longleftrightarrow> list_all (\<lambda>b. b = 0) xs"

text \<open>Returns whether rows were moved, and the list after the call.\<close>

definition opc_scan_list_normalize_rows :: "u16 \<Rightarrow> u8 list \<Rightarrow> bool \<times> u8 list" where
  "opc_scan_list_normalize_rows band xs =
     (if band \<noteq> OPC_SCAN_BAND_2_4GHZ \<and> band \<noteq> OPC_SCAN_BAND_5GHZ then (False, xs)
      else let a = opc_scan_row_word xs OPC_SCAN_ROW_A;
               b = opc_scan_row_word xs OPC_SCAN_ROW_B
        in if a \<noteq> 0 \<or> b = 0 then (False, xs)
           else let ao = (if OPC_SCAN_ROW_A_FIRST then 0 else 4);
                    bo = (if OPC_SCAN_ROW_A_FIRST then 4 else 0);
                    xs = put ao (slice bo 4 xs) xs
                in (True, put bo (replicate 4 0) xs))"

definition row_bit :: "u32 \<Rightarrow> nat \<Rightarrow> bool" where
  "row_bit w b \<longleftrightarrow> drop_bit b w AND 1 \<noteq> 0"

text \<open>The inner loop of the validity check: every set bit of a row has a channel.\<close>

definition row_valid :: "u16 \<Rightarrow> int \<Rightarrow> u32 \<Rightarrow> bool" where
  "row_valid band r w \<longleftrightarrow> list_all (\<lambda>b. \<not> (row_bit w b \<and> opc_scan_row_channel band r (int b) = 0)) [0..<32]"

definition opc_scan_list_valid :: "u16 \<Rightarrow> u8 list \<Rightarrow> bool" where
  "opc_scan_list_valid band xs =
     (if \<not> opc_scan_band_known band then opc_scan_list_empty xs
      else if band = OPC_SCAN_BAND_6GHZ then
        list_all (\<lambda>r. row_valid band r (opc_scan_row_word xs r)) [OPC_SCAN_ROW_A, OPC_SCAN_ROW_B]
      else if opc_scan_row_word xs OPC_SCAN_ROW_B \<noteq> 0 then False
      else row_valid band OPC_SCAN_ROW_A (opc_scan_row_word xs OPC_SCAN_ROW_A))"

text \<open>The inner loop of the channel enumeration; \<open>out\<close> keeps at most \<open>mx\<close> channels.\<close>

definition row_channels ::
  "u16 \<Rightarrow> int \<Rightarrow> u32 \<Rightarrow> bool \<Rightarrow> nat \<Rightarrow> nat \<times> u8 list \<Rightarrow> nat \<times> u8 list" where
  "row_channels band r w all mx acc =
     fold (\<lambda>b (count, out).
             let ch = opc_scan_row_channel band r (int b) in
             if ch = 0 then (count, out)
             else if all \<or> row_bit w b then (count + 1, if count < mx then out @ [ch] else out)
             else (count, out))
       [0..<32] acc"

definition opc_scan_list_channels :: "u16 \<Rightarrow> u8 list \<Rightarrow> nat \<Rightarrow> nat \<times> u8 list" where
  "opc_scan_list_channels band xs mx =
     (if \<not> opc_scan_band_known band then (0, [])
      else let all = opc_scan_list_empty xs in
        if band = OPC_SCAN_BAND_6GHZ then
          fold (\<lambda>r. row_channels band r (opc_scan_row_word xs r) all mx) [OPC_SCAN_ROW_A, OPC_SCAN_ROW_B] (0, [])
        else row_channels band OPC_SCAN_ROW_A (opc_scan_row_word xs OPC_SCAN_ROW_A) all mx (0, []))"

text \<open>The two out parameters \<open>freq_mhz\<close> and \<open>ch_field\<close>.\<close>

definition opc_scan_derive_freq_ch :: "u16 \<Rightarrow> u8 list \<Rightarrow> u16 \<times> u16" where
  "opc_scan_derive_freq_ch band xs =
     (if \<not> opc_scan_band_known band \<or> opc_scan_list_empty xs then (0, 0)
      else case opc_scan_list_channels band xs 1 of
             (n, out) \<Rightarrow>
               if n = 0 then (0, 0)
               else let ch = hd out; mhz = opc_scan_channel_mhz band ch
                 in if mhz = 0 then (0, 0)
                    else (mhz, push_bit 8 (band AND 0xFF) OR ucast ch))"

text \<open>The channels a list selects, independently of order: the abstraction of a channel list.\<close>

definition selected :: "u16 \<Rightarrow> u8 list \<Rightarrow> u8 set" where
  "selected band xs = {ch. ch \<noteq> 0 \<and> (\<exists>r k. r \<in> {0, 1} \<and> k < 32 \<and> bit (opc_scan_row_word xs r) k
     \<and> opc_scan_row_channel band r (int k) = ch)}"

definition band_channels :: "u16 \<Rightarrow> u8 set" where
  "band_channels band = {ch. opc_scan_bit_for_channel band ch \<noteq> None}"

definition row_sel :: "u16 \<Rightarrow> int \<Rightarrow> u32 \<Rightarrow> bool \<Rightarrow> nat list \<Rightarrow> u8 list" where
  "row_sel band r w all bs =
     filter (\<lambda>c. c \<noteq> 0) (map (\<lambda>b. opc_scan_row_channel band r (int b)) (filter (\<lambda>b. all \<or> bit w b) bs))"

definition list_sel :: "u16 \<Rightarrow> u8 list \<Rightarrow> u8 list" where
  "list_sel band xs =
     (let all = opc_scan_list_empty xs
      in row_sel band 0 (opc_scan_row_word xs 0) all [0..<32]
         @ (if band = OPC_SCAN_BAND_6GHZ then row_sel band 1 (opc_scan_row_word xs 1) all [0..<32] else []))"

lemma row_bit_iff: "row_bit w b \<longleftrightarrow> bit w b"
  by (simp add: row_bit_def bit_iff_and_drop_bit_eq_1 and_one_eq one_and_eq bit_iff_odd_drop_bit)

lemma u8_bit_high: "8 \<le> n \<Longrightarrow> \<not> bit (w :: u8) n"
  using bit_imp_le_length by fastforce

lemma be32_read_bit:
  assumes "b < 32"
  shows "bit (opc_be32_read p) b \<longleftrightarrow> bit (p ! (3 - b div 8)) (b mod 8)"
proof -
  define q m where "q = b div 8" and "m = b mod 8"
  then have b: "b = 8 * q + m" "m < 8" "q < 4" using assms by simp_all
  then consider "q = 0" | "q = 1" | "q = 2" | "q = 3" by linarith
  then have "bit (opc_be32_read p) (8 * q + m) \<longleftrightarrow> bit (p ! (3 - q)) m"
    using b(2) by cases (simp_all add: opc_be32_read_def bit_simps u8_bit_high)
  then show ?thesis unfolding b(1) [symmetric] unfolding q_def m_def .
qed

lemma row_word_eq: "opc_scan_row_word xs r = opc_be32_read (drop (nat r * 4) xs)"
  by (simp add: opc_scan_row_word_def opc_be32_read_def row_offset_def Let_def)

lemma row_word_bit:
  assumes "length xs = 8" "r \<in> {0, 1}" "b < 32"
  shows "bit (opc_scan_row_word xs r) b \<longleftrightarrow> bit (xs ! (nat r * 4 + (3 - b div 8))) (b mod 8)"
  using assms by (auto simp: row_word_eq be32_read_bit)

lemma scan_positions_iff: "(r, b) \<in> set scan_positions \<longleftrightarrow> r \<in> {0, 1} \<and> 0 \<le> b \<and> b < 32"
proof -
  have "set scan_positions = {0, 1} \<times> int ` {0..<32}" by (simp only: scan_positions_def set_product set_map) simp
  then show ?thesis by (auto simp: image_int_atLeastLessThan)
qed

lemma uint_of_int_u8: "0 \<le> a \<Longrightarrow> a < 256 \<Longrightarrow> uint (of_int a :: u8) = a"
  by (simp add: uint_word_of_int take_bit_int_eq_self)

text \<open>The channel table as integers: no assigned channel number is truncated to 8 bits.\<close>

lemma uint_row_channel:
  assumes "0 \<le> b" "b < 32"
  shows "uint (opc_scan_row_channel band row b) =
     (if band = 1 then (if row = 0 \<and> b \<le> 13 then b + 1 else 0)
      else if band = 2 then
        (if row \<noteq> 0 then 0 else if b \<le> 7 then 36 + 4 * b else if b \<le> 19 then 100 + 4 * (b - 8)
         else if b \<le> 24 then 149 + 4 * (b - 20) else 0)
      else if band = 6 then (if row = 0 then 1 + 4 * b else if row = 1 \<and> b \<le> 26 then 129 + 4 * b else 0)
      else 0)"
  using assms unfolding opc_scan_row_channel_def by (simp add: uint_of_int_u8 del: of_int_add of_int_mult of_int_diff)

lemma row_channel_inj:
  assumes p: "(r, b) \<in> set scan_positions" "(r', b') \<in> set scan_positions"
    and c: "opc_scan_row_channel band r b = opc_scan_row_channel band r' b'" "opc_scan_row_channel band r b \<noteq> 0"
  shows "(r, b) = (r', b')"
proof -
  have "uint (opc_scan_row_channel band r b) = uint (opc_scan_row_channel band r' b')"
    and "uint (opc_scan_row_channel band r b) \<noteq> 0"
    using c by (simp_all add: unsigned_eq_0_iff)
  then show ?thesis
    using p unfolding scan_positions_iff by (auto simp: uint_row_channel split: if_splits) presburger
qed

lemma find_unique:
  assumes "\<And>x y. x \<in> set xs \<Longrightarrow> y \<in> set xs \<Longrightarrow> P x \<Longrightarrow> P y \<Longrightarrow> x = y"
  shows "find P xs = Some x \<longleftrightarrow> x \<in> set xs \<and> P x"
  using assms by (induction xs) auto

lemma scan_bit_for_channel_iff:
  assumes "opc_scan_band_known band" "ch \<noteq> 0"
  shows "opc_scan_bit_for_channel band ch = Some (r, b) \<longleftrightarrow>
    (r, b) \<in> set scan_positions \<and> opc_scan_row_channel band r b = ch"
proof -
  have "find (\<lambda>(r, b). opc_scan_row_channel band r b = ch) scan_positions = Some (r, b) \<longleftrightarrow>
      (r, b) \<in> set scan_positions \<and> opc_scan_row_channel band r b = ch"
    using assms(2) by (subst find_unique) (auto, (metis row_channel_inj prod.inject)+)
  then show ?thesis using assms by (simp add: opc_scan_bit_for_channel_def)
qed

lemma scan_bit_for_channel_0 [simp]: "opc_scan_bit_for_channel band 0 = None"
  by (simp add: opc_scan_bit_for_channel_def)

lemma row_channel_known: "opc_scan_row_channel band r b \<noteq> 0 \<Longrightarrow> opc_scan_band_known band"
  by (auto simp: opc_scan_row_channel_def opc_scan_band_known_def split: if_splits)

lemma length_row_set_bit [simp]: "length (row_set_bit xs r b) = length xs"
  by (simp add: row_set_bit_def Let_def)

lemma length_set_channel [simp]: "length (opc_scan_list_set_channel xs band ch) = length xs"
  by (simp add: opc_scan_list_set_channel_def split: option.splits prod.splits)

lemma row_set_bit_bit:
  assumes xs: "length xs = 8" and r: "r \<in> {0, 1}" "r' \<in> {0, 1}" and k: "k < 32" "k' < 32"
  shows "bit (opc_scan_row_word (row_set_bit xs r (int k)) r') k' \<longleftrightarrow>
    (r' = r \<and> k' = k) \<or> bit (opc_scan_row_word xs r') k'"
proof -
  define off where "off r k = nat r * 4 + (3 - k div 8)" for r :: int and k :: nat
  have q: "k div 8 < 4" "k' div 8 < 4" using k by simp_all
  have offeq: "off r' k' = off r k \<longleftrightarrow> r' = r \<and> k' div 8 = k div 8"
    using r q unfolding off_def by auto
  have lt: "off r k < 8" using r q unfolding off_def by auto
  have keq: "k' = k \<longleftrightarrow> k' div 8 = k div 8 \<and> k' mod 8 = k mod 8"
    by (metis div_mult_mod_eq)
  have set: "row_set_bit xs r (int k) = xs[off r k := xs ! off r k OR push_bit (k mod 8) 1]"
    using r q unfolding row_set_bit_def row_offset_def off_def
    by (auto simp: Let_def nat_div_distrib nat_mod_distrib)
  have "bit (opc_scan_row_word (row_set_bit xs r (int k)) r') k' \<longleftrightarrow>
      bit (row_set_bit xs r (int k) ! off r' k') (k' mod 8)"
    using row_word_bit [of "row_set_bit xs r (int k)" r' k'] xs r k by (simp add: off_def)
  also have "\<dots> \<longleftrightarrow> (r' = r \<and> k' = k) \<or> bit (xs ! off r' k') (k' mod 8)"
    using lt xs keq offeq by (cases "off r' k' = off r k") (auto simp: set bit_simps)
  also have "bit (xs ! off r' k') (k' mod 8) \<longleftrightarrow> bit (opc_scan_row_word xs r') k'"
    using row_word_bit [of xs r' k'] xs r k by (simp add: off_def)
  finally show ?thesis .
qed

lemma bit_for_channel_Some_iff:
  "opc_scan_bit_for_channel band ch = Some (r, b) \<longleftrightarrow>
    ch \<noteq> 0 \<and> r \<in> {0, 1} \<and> 0 \<le> b \<and> b < 32 \<and> opc_scan_row_channel band r b = ch"
proof (cases "opc_scan_band_known band \<and> ch \<noteq> 0")
  case True
  then show ?thesis using scan_bit_for_channel_iff [of band ch r b] by (auto simp: scan_positions_iff)
next
  case False
  then show ?thesis using row_channel_known by (auto simp: opc_scan_bit_for_channel_def)
qed

lemma selected_set_channel:
  assumes xs: "length xs = 8"
  shows "selected band (opc_scan_list_set_channel xs band ch) =
    (if ch \<in> band_channels band then insert ch (selected band xs) else selected band xs)"
proof (cases "opc_scan_bit_for_channel band ch")
  case None
  then show ?thesis by (simp add: opc_scan_list_set_channel_def band_channels_def)
next
  case (Some p)
  then obtain r b where p: "opc_scan_bit_for_channel band ch = Some (r, b)" by (cases p) auto
  then have c: "ch \<noteq> 0" "r \<in> {0, 1}" "0 \<le> b" "b < 32" "opc_scan_row_channel band r b = ch"
    by (simp_all add: bit_for_channel_Some_iff)
  define k where "k = nat b"
  have k: "k < 32" "int k = b" using c by (simp_all add: k_def)
  have set: "opc_scan_list_set_channel xs band ch = row_set_bit xs r (int k)"
    by (simp add: opc_scan_list_set_channel_def p k)
  have "selected band (row_set_bit xs r (int k)) = {c'. c' \<noteq> 0 \<and> (\<exists>r' k'. r' \<in> {0, 1} \<and> k' < 32
      \<and> (r' = r \<and> k' = k \<or> bit (opc_scan_row_word xs r') k') \<and> opc_scan_row_channel band r' (int k') = c')}"
    unfolding selected_def using row_set_bit_bit [OF xs c(2) _ k(1)] by (simp cong: conj_cong)
  also have "\<dots> = insert ch (selected band xs)"
    unfolding selected_def using c k by blast
  finally show ?thesis using p by (simp add: set band_channels_def)
qed

lemma selected_zeros: "selected band (replicate 8 0) = {}"
  by (auto simp: selected_def row_word_eq opc_be32_read_def)

lemma row_channels_fold:
  "fold (\<lambda>b (count, out).
             let ch = opc_scan_row_channel band r (int b) in
             if ch = 0 then (count, out)
             else if all \<or> row_bit w b then (count + 1, if count < mx then out @ [ch] else out)
             else (count, out)) bs (length pre, take mx pre)
   = (length (pre @ row_sel band r w all bs), take mx (pre @ row_sel band r w all bs))"
proof (induction bs arbitrary: pre)
  case (Cons b bs)
  let ?ch = "opc_scan_row_channel band r (int b)"
  show ?case
  proof (cases "?ch \<noteq> 0 \<and> (all \<or> bit w b)")
    case True
    have "(if length pre < mx then take mx pre @ [?ch] else take mx pre) = take mx (pre @ [?ch])" by simp
    with True Cons.IH [of "pre @ [?ch]"] show ?thesis
      by (simp add: row_bit_iff row_sel_def Let_def del: take_append)
  next
    case False
    then show ?thesis using Cons.IH [of pre] by (auto simp: row_bit_iff row_sel_def Let_def)
  qed
qed (simp add: row_sel_def)

lemma scan_list_channels_eq:
  "opc_scan_band_known band \<Longrightarrow>
   opc_scan_list_channels band xs mx = (length (list_sel band xs), take mx (list_sel band xs))"
  using row_channels_fold [where pre = "[]"] row_channels_fold
  by (simp add: opc_scan_list_channels_def row_channels_def list_sel_def Let_def del: take_append length_append)

lemma row_channel_row_B: "band \<noteq> 6 \<Longrightarrow> opc_scan_row_channel band 1 b = 0"
  by (simp add: opc_scan_row_channel_def)

lemma set_row_sel:
  "c \<in> set (row_sel band r w all [0..<32]) \<longleftrightarrow>
    c \<noteq> 0 \<and> (\<exists>k<32. (all \<or> bit w k) \<and> opc_scan_row_channel band r (int k) = c)"
  by (auto simp: row_sel_def)

lemma set_list_sel: "\<not> opc_scan_list_empty xs \<Longrightarrow> set (list_sel band xs) = selected band xs"
  using row_channel_row_B
  by (auto simp: list_sel_def selected_def set_row_sel Let_def)

lemma set_list_sel_empty:
  assumes "opc_scan_list_empty xs" shows "set (list_sel band xs) = band_channels band"
proof -
  have "c \<in> band_channels band \<longleftrightarrow> (\<exists>r. c \<noteq> 0 \<and> r \<in> {0, 1} \<and> (\<exists>b. 0 \<le> b \<and> b < 32 \<and> opc_scan_row_channel band r b = c))" for c
    unfolding band_channels_def using bit_for_channel_Some_iff [of band c] by auto
  moreover have "(\<exists>b. 0 \<le> b \<and> b < 32 \<and> opc_scan_row_channel band r b = c)
      \<longleftrightarrow> (\<exists>k<32. opc_scan_row_channel band r (int k) = c)" for r c
    by (metis nat_0_le nat_less_iff of_nat_0_le_iff of_nat_less_iff of_nat_numeral)
  ultimately have "c \<in> band_channels band \<longleftrightarrow>
      c \<noteq> 0 \<and> ((\<exists>k<32. opc_scan_row_channel band 0 (int k) = c) \<or> (\<exists>k<32. opc_scan_row_channel band 1 (int k) = c))" for c
    by (simp only:) auto
  then show ?thesis
    using assms row_channel_row_B [of band]
    by (cases "band = 6") (auto simp: list_sel_def set_row_sel Let_def set_eq_iff)
qed

lemma sorted_filter_map:
  "sorted_wrt (\<lambda>j k. P (f j) \<longrightarrow> P (f k) \<longrightarrow> R (f j) (f k)) xs \<Longrightarrow> sorted_wrt R (filter P (map f xs))"
  by (induction xs) auto

lemma sorted_row_sel: "sorted_wrt (\<lambda>a b. uint a < uint b) (row_sel band r w all [0..<32])"
proof -
  let ?c = "\<lambda>k. opc_scan_row_channel band r (int k)"
  have mono: "uint (?c j) < uint (?c k)" if "j < k" "k < 32" "?c j \<noteq> 0" "?c k \<noteq> 0" for j k
  proof -
    have "uint (?c j) \<noteq> 0" "uint (?c k) \<noteq> 0" using that by (simp_all add: unsigned_eq_0_iff)
    then show ?thesis using that by (auto simp: uint_row_channel split: if_splits)
  qed
  have "sorted_wrt (\<lambda>j k. ?c j \<noteq> 0 \<longrightarrow> ?c k \<noteq> 0 \<longrightarrow> uint (?c j) < uint (?c k)) (filter (\<lambda>b. all \<or> bit w b) [0..<32])"
    by (rule sorted_wrt_mono_rel [of _ "(<)"]) (auto simp: mono sorted_wrt_filter)
  then show ?thesis unfolding row_sel_def by (rule sorted_filter_map)
qed

lemma list_sel_sorted:
  "sorted_wrt (\<lambda>a b. uint a < uint b) (list_sel band xs)"
proof -
  have "uint (opc_scan_row_channel 6 0 (int j)) < uint (opc_scan_row_channel 6 1 (int k))"
    if "j < 32" "k < 32" "opc_scan_row_channel 6 1 (int k) \<noteq> 0" for j k
  proof -
    have "uint (opc_scan_row_channel 6 1 (int k)) \<noteq> 0" using that by (simp add: unsigned_eq_0_iff)
    then show ?thesis using that by (auto simp: uint_row_channel split: if_splits)
  qed
  then have "\<forall>a\<in>set (row_sel 6 0 w al [0..<32]). \<forall>b\<in>set (row_sel 6 1 w' al [0..<32]). uint a < uint b" for w w' al
    by (auto simp: set_row_sel)
  then show ?thesis
    by (simp add: list_sel_def Let_def sorted_wrt_append sorted_row_sel)
qed

lemma row_valid_iff:
  "row_valid band r w \<longleftrightarrow> (\<forall>k<32. bit w k \<longrightarrow> opc_scan_row_channel band r (int k) \<noteq> 0)"
  by (auto simp: row_valid_def list_all_iff row_bit_iff)

lemma word32_eq_0_iff: "(w :: u32) = 0 \<longleftrightarrow> (\<forall>k<32. \<not> bit w k)"
  by (auto simp: bit_eq_iff bit_imp_le_length dest: bit_imp_le_length)

lemma scan_list_valid_known:
  assumes "opc_scan_band_known band"
  shows "opc_scan_list_valid band xs \<longleftrightarrow>
    (\<forall>r k. r \<in> {0, 1} \<and> k < 32 \<and> bit (opc_scan_row_word xs r) k \<longrightarrow> opc_scan_row_channel band r (int k) \<noteq> 0)"
proof (cases "band = 6")
  case True
  then show ?thesis by (auto simp: opc_scan_list_valid_def opc_scan_band_known_def row_valid_iff)
next
  case False
  then show ?thesis
    using assms row_channel_row_B [OF False]
    by (auto simp: opc_scan_list_valid_def row_valid_iff word32_eq_0_iff [of "opc_scan_row_word xs 1"])
qed

lemma scan_list_empty_zeros: "length xs = 8 \<Longrightarrow> opc_scan_list_empty xs \<Longrightarrow> xs = replicate 8 0"
  by (auto simp: opc_scan_list_empty_def list_all_iff intro: replicate_eqI)

lemma selected_not_empty: "length xs = 8 \<Longrightarrow> selected band xs \<noteq> {} \<Longrightarrow> \<not> opc_scan_list_empty xs"
  using scan_list_empty_zeros selected_zeros by metis

lemma set_channel_valid:
  assumes "length xs = 8" "opc_scan_list_valid band xs" "opc_scan_band_known band"
  shows "opc_scan_list_valid band (opc_scan_list_set_channel xs band ch)"
proof (cases "opc_scan_bit_for_channel band ch")
  case (Some p)
  then obtain r b where p: "opc_scan_bit_for_channel band ch = Some (r, b)" by (cases p) auto
  then have c: "ch \<noteq> 0" "r \<in> {0, 1}" "0 \<le> b" "b < 32" "opc_scan_row_channel band r b = ch"
    by (simp_all add: bit_for_channel_Some_iff)
  then have k: "nat b < 32" "int (nat b) = b" by simp_all
  show ?thesis
    using assms(2) row_set_bit_bit [OF assms(1) c(2) _ k(1)] c k
    unfolding scan_list_valid_known [OF assms(3)] opc_scan_list_set_channel_def p
    by (auto simp: k)
qed (use assms in \<open>simp add: opc_scan_list_set_channel_def\<close>)

lemma fold_set_channel:
  assumes "length xs = 8" "opc_scan_list_valid band xs" "opc_scan_band_known band" "set chs \<subseteq> band_channels band"
  shows "length (fold (\<lambda>ch l. opc_scan_list_set_channel l band ch) chs xs) = 8
    \<and> opc_scan_list_valid band (fold (\<lambda>ch l. opc_scan_list_set_channel l band ch) chs xs)
    \<and> selected band (fold (\<lambda>ch l. opc_scan_list_set_channel l band ch) chs xs) = selected band xs \<union> set chs"
  using assms by (induction chs arbitrary: xs) (auto simp: selected_set_channel set_channel_valid)

lemma sorted_uint_distinct: "sorted_wrt (\<lambda>a b. uint a < uint b) (l :: u8 list) \<Longrightarrow> distinct l"
  by (induction l) auto

lemma sorted_uint_hd: "sorted_wrt (\<lambda>a b. uint a < uint b) (l :: u8 list) \<Longrightarrow> c \<in> set l \<Longrightarrow> uint (hd l) \<le> uint c"
  by (cases l) auto

lemma u16_offset_nonzero:
  assumes "0 < a" "a < 10000" shows "of_nat a + 5 * ucast (c :: u8) \<noteq> (0 :: u16)"
proof -
  have "unat c < 2 ^ LENGTH(8)" by (rule unsigned_less)
  then have "unat (of_nat (a + 5 * unat c) :: u16) = a + 5 * unat c"
    using assms by (intro unat_of_nat_lt) simp
  moreover have "of_nat a + 5 * ucast c = (of_nat (a + 5 * unat c) :: u16)" by simp
  ultimately show ?thesis using assms by (metis add_is_0 not_gr0 unat_0)
qed

lemma channel_mhz_nonzero: "ch \<in> band_channels band \<Longrightarrow> opc_scan_channel_mhz band ch \<noteq> 0"
  using u16_offset_nonzero [of 2407 ch] u16_offset_nonzero [of 5000 ch] u16_offset_nonzero [of 5950 ch]
  by (auto simp: opc_scan_channel_mhz_def band_channels_def opc_scan_bit_for_channel_def
      opc_scan_band_known_def split: if_splits)

lemma selected_in_table: "selected band xs \<subseteq> band_channels band"
proof
  fix c assume "c \<in> selected band xs"
  then obtain r k where "r \<in> {0, 1}" "k < 32" "opc_scan_row_channel band r (int k) = c" "c \<noteq> 0"
    unfolding selected_def by blast
  then have "opc_scan_bit_for_channel band c = Some (r, int k)" by (simp add: bit_for_channel_Some_iff)
  then show "c \<in> band_channels band" by (simp add: band_channels_def)
qed

text \<open>The channel table of every band is injective and \<open>opc_scan_bit_for_channel\<close> is its inverse: it finds a
  row and bit exactly when that position carries the channel.\<close>

lemma scan_bit_for_channel_inverse:
  "opc_scan_bit_for_channel band ch = Some (r, b) \<longleftrightarrow>
    ch \<noteq> 0 \<and> r \<in> {OPC_SCAN_ROW_A, OPC_SCAN_ROW_B} \<and> 0 \<le> b \<and> b < 32 \<and> opc_scan_row_channel band r b = ch"
  using bit_for_channel_Some_iff by simp

text \<open>Setting the bits of any non-empty choice of channels of a band gives a valid list, and
  enumerating it returns exactly those channels, each once and in ascending order.\<close>

lemma scan_list_roundtrip:
  assumes band: "opc_scan_band_known band" and chs: "chs \<noteq> []"
    and tab: "list_all (\<lambda>ch. opc_scan_bit_for_channel band ch \<noteq> None) chs" and mx: "length chs \<le> mx"
  shows "let xs = fold (\<lambda>ch l. opc_scan_list_set_channel l band ch) chs (replicate 8 0);
             (n, out) = opc_scan_list_channels band xs mx
    in opc_scan_list_valid band xs \<and> set out = set chs \<and> length out = n
       \<and> sorted_wrt (\<lambda>a b. uint a < uint b) out"
proof -
  define xs where "xs = fold (\<lambda>ch l. opc_scan_list_set_channel l band ch) chs (replicate 8 0)"
  have "opc_scan_list_valid band (replicate 8 0)"
    by (auto simp: scan_list_valid_known [OF band] row_word_eq opc_be32_read_def)
  then have xs: "length xs = 8" "opc_scan_list_valid band xs" "selected band xs = set chs"
    using fold_set_channel [of "replicate 8 0" band chs] band tab
    by (auto simp: xs_def selected_zeros band_channels_def list_all_iff)
  then have "\<not> opc_scan_list_empty xs" using selected_not_empty [of xs band] chs by auto
  then have sel: "set (list_sel band xs) = set chs" by (simp add: set_list_sel xs)
  have "distinct (list_sel band xs)" by (rule sorted_uint_distinct [OF list_sel_sorted])
  then have "length (list_sel band xs) \<le> mx"
    using sel mx by (metis card_length distinct_card order_trans)
  then show ?thesis
    using xs sel list_sel_sorted [of band xs]
    by (simp add: scan_list_channels_eq [OF band] xs_def [symmetric])
qed

text \<open>C32: A channel list of a known band is valid exactly when each of its 64 bits that is set has a
  channel in the band's table; with no known band only the empty list is valid.\<close>

theorem scan_list_valid_iff:
  "opc_scan_list_valid band xs \<longleftrightarrow>
    (if opc_scan_band_known band
     then \<forall>r k. r \<in> {0, 1} \<and> k < 32 \<and> bit (opc_scan_row_word xs r) k
            \<longrightarrow> opc_scan_row_channel band r (int k) \<noteq> 0
     else opc_scan_list_empty xs)"
  using scan_list_valid_known by (auto simp: opc_scan_list_valid_def)

theorem scan_list_valid_iff_witness:
  "\<not> opc_scan_list_valid 2 [0, 0, 0, 0, 0, 0, 0, 1]"
proof
  assume v: "opc_scan_list_valid 2 [0, 0, 0, 0, 0, 0, 0, 1]"
  have "opc_scan_band_known 2" "bit (opc_scan_row_word [0, 0, 0, 0, 0, 0, 0, 1] 1) 0"
    "opc_scan_row_channel 2 1 (int 0) = 0" by code_simp+
  then show False
    using scan_list_valid_iff [THEN iffD1, OF v, rule_format] by (metis insertCI zero_less_numeral)
qed

text \<open>The row migration moves a 2.4/5 GHz list that sits only in row B to row A, keeping its bits, and
  leaves every other list alone.\<close>

lemma scan_list_normalize_rows_spec:
  assumes len: "length xs = 8" and res: "opc_scan_list_normalize_rows band xs = (moved, ys)"
  shows "(moved \<longleftrightarrow> opc_scan_band_supported band \<and> opc_scan_row_word xs 0 = 0 \<and> opc_scan_row_word xs 1 \<noteq> 0)
    \<and> (if moved then opc_scan_row_word ys 0 = opc_scan_row_word xs 1 \<and> opc_scan_row_word ys 1 = 0 else ys = xs)"
proof -
  let ?ys = "put 4 (replicate 4 0) (put 0 (slice 4 4 xs) xs)"
  have "slice 4 4 xs = drop 4 xs" using len by (simp add: slice_def)
  then have "?ys = drop 4 xs @ replicate 4 0" using len by (simp add: put_def)
  then have "opc_scan_row_word ?ys 0 = opc_scan_row_word xs 1" "opc_scan_row_word ?ys 1 = 0"
    using len by (simp_all add: row_word_eq opc_be32_read_def nth_append)
  with res show ?thesis
    by (auto simp: opc_scan_list_normalize_rows_def opc_scan_band_supported_def Let_def split: if_splits)
qed

text \<open>For a list that selects something the derived frequency is that of its lowest channel and the
  channel field is band and channel; a list that selects nothing derives 0/0.\<close>

lemma scan_derive_lowest:
  assumes len: "length xs = 8" and band: "opc_scan_band_known band"
  shows "if selected band xs = {} then opc_scan_derive_freq_ch band xs = (0, 0)
    else \<exists>ch. ch \<in> selected band xs \<and> (\<forall>c. c \<in> selected band xs \<longrightarrow> uint ch \<le> uint c)
      \<and> opc_scan_channel_mhz band ch \<noteq> 0
      \<and> opc_scan_derive_freq_ch band xs = (opc_scan_channel_mhz band ch, push_bit 8 (band AND 0xFF) OR ucast ch)"
proof (cases "opc_scan_list_empty xs")
  case True
  then have "selected band xs = {}" using len scan_list_empty_zeros selected_zeros by metis
  with True show ?thesis by (simp add: opc_scan_derive_freq_ch_def)
next
  case False
  then have sel: "set (list_sel band xs) = selected band xs" by (rule set_list_sel)
  show ?thesis
  proof (cases "list_sel band xs")
    case Nil
    with sel have "selected band xs = {}" by simp
    with Nil False band show ?thesis
      by (simp add: opc_scan_derive_freq_ch_def scan_list_channels_eq)
  next
    case (Cons ch cs)
    have ch: "ch \<in> selected band xs" using sel Cons by auto
    have "\<forall>c. c \<in> selected band xs \<longrightarrow> uint ch \<le> uint c"
      using sorted_uint_hd [OF list_sel_sorted [of band xs]] unfolding sel by (simp add: Cons)
    moreover have nz: "opc_scan_channel_mhz band ch \<noteq> 0"
      using channel_mhz_nonzero selected_in_table ch by blast
    moreover have "opc_scan_derive_freq_ch band xs =
        (opc_scan_channel_mhz band ch, push_bit 8 (band AND 0xFF) OR ucast ch)"
      using Cons False band nz by (simp add: opc_scan_derive_freq_ch_def scan_list_channels_eq)
    ultimately show ?thesis using ch by auto
  qed
qed

end
