(* ===== verification/Store.thy ===== *)
theory Store
  imports Opc_Prelude
begin

text \<open>
  Atomic file replacement (\<open>opcd/store.h\<close>, \<open>opcd/store.c\<close>). A path is the bytes of its C string. The results of
  the system calls of one run are the record \<open>store_sys\<close>; the run returns the return code, the outcome and the
  list of file-system operations it performed, in order. A crash keeps a prefix of that list. Files are a map
  from paths to contents.
\<close>

type_synonym path = "u8 list"
type_synonym files = "path \<rightharpoonup> u8 list"

datatype opc_store_outcome_t =
    OPC_STORE_UNCHANGED
  | OPC_STORE_REPLACED_UNSYNCED
  | OPC_STORE_DURABLE

datatype fs_op =
    Unlink path
  | Create path u32
  | Append path "u8 list"
  | FsyncFile path
  | Rename path path
  | FsyncDir path

fun fs_apply :: "fs_op \<Rightarrow> files \<Rightarrow> files" where
  "fs_apply (Unlink p) fs = fs(p := None)"
| "fs_apply (Create p m) fs = fs(p \<mapsto> [])"
| "fs_apply (Append p bs) fs = fs(p := map_option (\<lambda>c. c @ bs) (fs p))"
| "fs_apply (FsyncFile p) fs = fs"
| "fs_apply (Rename a b) fs = (fs(b := fs a))(a := None)"
| "fs_apply (FsyncDir p) fs = fs"

text \<open>One result of \<open>write\<close> or \<open>read\<close>: interrupted, failed, or a number of bytes. \<open>sys_writes\<close> and \<open>sys_reads\<close> are
  the results of the first calls; after them a call transfers everything that is left. A run that never
  ends (an endless series of interrupted or empty writes) has no such list.\<close>

datatype io_res = IoEintr | IoErr | IoOk nat

record store_sys =
  sys_pid :: nat
  sys_opendir :: "path \<Rightarrow> bool"
  sys_opentmp :: bool
  sys_chown_fails :: bool
  sys_writes :: "io_res list"
  sys_fsync :: bool
  sys_close :: bool
  sys_rename :: bool
  sys_fsyncdir :: bool
  sys_closedir :: bool
  sys_openread :: bool
  sys_reads :: "io_res list"

text \<open>\<open>%d\<close> of a non-negative number.\<close>

fun dec :: "nat \<Rightarrow> u8 list" where
  "dec n = (if n < 10 then [of_nat (48 + n)] else dec (n div 10) @ [of_nat (48 + n mod 10)])"

definition tmp_path :: "nat \<Rightarrow> path \<Rightarrow> path" where
  "tmp_path pid p = p @ bytes_of ''.tmp.'' @ dec pid"

definition parent_dir :: "path \<Rightarrow> path" where
  "parent_dir p =
     (if 47 \<notin> set p then bytes_of ''.''
      else let plen = length p - 1 - length (takeWhile (\<lambda>c. c \<noteq> 47) (rev p))
        in if plen = 0 then bytes_of ''/'' else take plen p)"

fun write_loop :: "io_res list \<Rightarrow> path \<Rightarrow> u8 list \<Rightarrow> bool \<times> fs_op list" where
  "write_loop ws tmp rest =
     (if rest = [] then (True, [])
      else case ws of
             [] \<Rightarrow> (True, [Append tmp rest])
           | IoEintr # ws' \<Rightarrow> write_loop ws' tmp rest
           | IoErr # ws' \<Rightarrow> (False, [])
           | IoOk n # ws' \<Rightarrow>
               (case write_loop ws' tmp (drop n rest) of (ok, ops) \<Rightarrow> (ok, Append tmp (take n rest) # ops)))"

definition opc_store_write_atomic_ex ::
  "store_sys \<Rightarrow> path ptr \<Rightarrow> u8 list ptr \<Rightarrow> nat \<Rightarrow> u32 \<Rightarrow> int \<times> opc_store_outcome_t \<times> fs_op list" where
  "opc_store_write_atomic_ex sys path data len mode =
     (case path of
        None \<Rightarrow> (-1, OPC_STORE_UNCHANGED, [])
      | Some p \<Rightarrow>
          if len > 0 \<and> data = None then (-1, OPC_STORE_UNCHANGED, [])
          else let mode = (if mode = 0 then 384 else mode);
                   tmp = tmp_path (sys_pid sys) p
            in if length tmp \<ge> 1024 then (-1, OPC_STORE_UNCHANGED, [])
          else if \<not> sys_opendir sys (parent_dir p) then (-1, OPC_STORE_UNCHANGED, [])
          else if \<not> sys_opentmp sys then (-1, OPC_STORE_UNCHANGED, [Unlink tmp])
          else if sys_chown_fails sys then (-1, OPC_STORE_UNCHANGED, [Unlink tmp, Create tmp mode, Unlink tmp])
          else case write_loop (sys_writes sys) tmp (case data of None \<Rightarrow> [] | Some d \<Rightarrow> take len d) of
                 (ok, ws) \<Rightarrow>
                   let ops = [Unlink tmp, Create tmp mode] @ ws in
                   if \<not> ok then (-1, OPC_STORE_UNCHANGED, ops @ [Unlink tmp])
                   else if \<not> sys_fsync sys then (-1, OPC_STORE_UNCHANGED, ops @ [Unlink tmp])
                   else if \<not> sys_close sys then (-1, OPC_STORE_UNCHANGED, ops @ [FsyncFile tmp, Unlink tmp])
                   else if \<not> sys_rename sys then (-1, OPC_STORE_UNCHANGED, ops @ [FsyncFile tmp, Unlink tmp])
                   else let ops = ops @ [FsyncFile tmp, Rename tmp p] in
                     if \<not> sys_fsyncdir sys then (-1, OPC_STORE_REPLACED_UNSYNCED, ops)
                     else if \<not> sys_closedir sys then
                       (-1, OPC_STORE_REPLACED_UNSYNCED, ops @ [FsyncDir (parent_dir p)])
                     else (0, OPC_STORE_DURABLE, ops @ [FsyncDir (parent_dir p)]))"

definition opc_store_write_atomic :: "store_sys \<Rightarrow> path ptr \<Rightarrow> u8 list ptr \<Rightarrow> nat \<Rightarrow> u32 \<Rightarrow> int \<times> fs_op list" where
  "opc_store_write_atomic sys path data len mode =
     (case opc_store_write_atomic_ex sys path data len mode of (rc, _, ops) \<Rightarrow> (rc, ops))"

text \<open>The files after a run of the writer.\<close>

definition fs_run :: "fs_op list \<Rightarrow> files \<Rightarrow> files" where
  "fs_run ops fs = fold fs_apply ops fs"

fun read_loop :: "io_res list \<Rightarrow> u8 list \<Rightarrow> nat \<Rightarrow> u8 list option" where
  "read_loop rs content cap =
     (if cap = 0 then Some []
      else case rs of
             [] \<Rightarrow> Some (take cap content)
           | IoEintr # rs' \<Rightarrow> read_loop rs' content cap
           | IoErr # rs' \<Rightarrow> None
           | IoOk n # rs' \<Rightarrow>
               (let k = min n (min cap (length content)) in
                if k = 0 then Some []
                else map_option (\<lambda>r. take k content @ r) (read_loop rs' (drop k content) (cap - k))))"

definition opc_store_read_all :: "store_sys \<Rightarrow> files \<Rightarrow> path ptr \<Rightarrow> nat \<Rightarrow> u8 list option" where
  "opc_store_read_all sys fs path cap =
     (case path of
        None \<Rightarrow> None
      | Some p \<Rightarrow>
          if \<not> sys_openread sys then None
          else case fs p of None \<Rightarrow> None | Some content \<Rightarrow> read_loop (sys_reads sys) content cap)"

text \<open>An operation on the temporary file only.\<close>

fun tmp_op :: "path \<Rightarrow> fs_op \<Rightarrow> bool" where
  "tmp_op tmp (Unlink p) = (p = tmp)"
| "tmp_op tmp (Create p m) = (p = tmp)"
| "tmp_op tmp (Append p bs) = (p = tmp)"
| "tmp_op tmp (FsyncFile p) = (p = tmp)"
| "tmp_op tmp _ = False"

text \<open>A machine on which every call succeeds at once.\<close>

definition sys_ok :: store_sys where
  "sys_ok = \<lparr>sys_pid = 1, sys_opendir = (\<lambda>_. True), sys_opentmp = True, sys_chown_fails = False,
     sys_writes = [], sys_fsync = True, sys_close = True, sys_rename = True, sys_fsyncdir = True,
     sys_closedir = True, sys_openread = True, sys_reads = []\<rparr>"

subsection \<open>Effect of a run\<close>

declare write_loop.simps [simp del] read_loop.simps [simp del] dec.simps [simp del]

lemma dec_not_empty: "dec n \<noteq> []"
  by (subst dec.simps) simp

lemma tmp_path_neq [simp]: "tmp_path pid p \<noteq> p" "p \<noteq> tmp_path pid p"
  by (simp_all add: tmp_path_def bytes_of_def dec_not_empty)

lemma fs_run_simps [simp]:
  "fs_run [] fs = fs"
  "fs_run (o1 # ops) fs = fs_run ops (fs_apply o1 fs)"
  "fs_run (ops1 @ ops2) fs = fs_run ops2 (fs_run ops1 fs)"
  by (simp_all add: fs_run_def)

lemma write_loop_ops:
  "write_loop ws tmp rest = (ok, ops) \<Longrightarrow> op \<in> set ops \<Longrightarrow> \<exists>bs. op = Append tmp bs"
proof (induction ws tmp rest arbitrary: ok ops rule: write_loop.induct)
  case (1 ws tmp rest)
  from 1(3) 1(4) show ?case
    by (subst (asm) write_loop.simps)
      (auto split: if_splits list.splits io_res.splits prod.splits dest: 1(1,2))
qed

lemma fs_run_append:
  assumes "\<And>op. op \<in> set ops \<Longrightarrow> \<exists>bs. op = Append tmp bs" "q \<noteq> tmp"
  shows "fs_run ops fs q = fs q"
  using assms(1)
proof (induction ops arbitrary: fs)
  case (Cons a ops)
  then obtain bs where "a = Append tmp bs" by auto
  with Cons assms(2) show ?case by simp
qed simp

lemma write_loop_content:
  "write_loop ws tmp rest = (True, ops) \<Longrightarrow> fs tmp = Some c \<Longrightarrow> fs_run ops fs tmp = Some (c @ rest)"
proof (induction ws arbitrary: rest ops fs c)
  case Nil
  then show ?case by (subst (asm) write_loop.simps) (auto split: if_splits)
next
  case (Cons w ws)
  show ?case
  proof (cases "rest = []")
    case True
    with Cons.prems show ?thesis by (subst (asm) write_loop.simps) simp
  next
    case False
    show ?thesis
    proof (cases w)
      case (IoOk n)
      with False Cons.prems(1) obtain ops' where o: "write_loop ws tmp (drop n rest) = (True, ops')"
          "ops = Append tmp (take n rest) # ops'"
        by (subst (asm) write_loop.simps) (auto split: prod.splits)
      have "fs_run ops' (fs_apply (Append tmp (take n rest)) fs) tmp = Some ((c @ take n rest) @ drop n rest)"
        by (rule Cons.IH [OF o(1)]) (simp add: Cons.prems(2))
      with o(2) show ?thesis by simp
    qed (use False Cons in \<open>simp_all add: write_loop.simps [of "_ # _"]\<close>)
  qed
qed

subsection \<open>What a run guarantees\<close>

lemma write_loop_prefix:
  assumes "write_loop ws tmp rest = (ok, ops)" "q \<noteq> tmp"
  shows "fs_run (take k ops) fs q = fs q"
  using write_loop_ops [OF assms(1)] assms(2) by (intro fs_run_append [of _ tmp]) (auto dest: in_set_takeD)

lemma tmp_ops_prefix:
  assumes "list_all (tmp_op tmp) ops" "q \<noteq> tmp"
  shows "fs_run (take k ops) fs q = fs q"
  using assms(1)
proof (induction ops arbitrary: k fs)
  case (Cons a ops)
  have "fs_apply a fs q = fs q" using Cons.prems assms(2) by (cases a) auto
  with Cons show ?case by (cases k) auto
qed simp

lemma write_loop_tmp_ops: "write_loop ws tmp rest = (ok, ops) \<Longrightarrow> list_all (tmp_op tmp) ops"
  using write_loop_ops by (fastforce simp: list_all_iff)

text \<open>All the ways a run can end: only the temporary file touched, or the complete data renamed over the
  target after a sync of the file.\<close>

lemma store_run_shape:
  fixes sys p
  defines "tmp \<equiv> tmp_path (sys_pid sys) p"
  assumes run: "opc_store_write_atomic_ex sys (Some p) (Some d) (length d) mode = (rc, outcome, ops)"
  shows "rc = -1 \<and> outcome = OPC_STORE_UNCHANGED \<and> list_all (tmp_op tmp) ops
    \<or> (\<exists>ws fin. ops = [Unlink tmp, Create tmp (if mode = 0 then 384 else mode)] @ ws
          @ [FsyncFile tmp, Rename tmp p] @ fin
        \<and> write_loop (sys_writes sys) tmp d = (True, ws)
        \<and> (fin = [] \<and> rc = -1 \<and> outcome = OPC_STORE_REPLACED_UNSYNCED
           \<or> fin = [FsyncDir (parent_dir p)] \<and> rc = -1 \<and> outcome = OPC_STORE_REPLACED_UNSYNCED
           \<or> fin = [FsyncDir (parent_dir p)] \<and> rc = 0 \<and> outcome = OPC_STORE_DURABLE))"
proof -
  obtain ok ws where w: "write_loop (sys_writes sys) tmp d = (ok, ws)" by fastforce
  show ?thesis
  proof (cases ok)
    case True
    with run w write_loop_tmp_ops [OF w] show ?thesis
      unfolding opc_store_write_atomic_ex_def Let_def
      by (auto simp: tmp_def [symmetric] split: if_splits)
  next
    case False
    with run w write_loop_tmp_ops [OF w] show ?thesis
      unfolding opc_store_write_atomic_ex_def Let_def
      by (auto simp: tmp_def [symmetric] split: if_splits)
  qed
qed


lemma replaced_run:
  assumes "write_loop (sys_writes sys) tmp d = (True, ws)" "tmp \<noteq> p"
    and "fin = [] \<or> fin = [FsyncDir dir]"
  shows "fs_run ([Unlink tmp, Create tmp m] @ ws @ [FsyncFile tmp, Rename tmp p] @ fin) fs = fs(p \<mapsto> d, tmp := None)"
proof
  fix q
  let ?fs1 = "fs_run ws (fs(tmp \<mapsto> []))"
  have tmp: "?fs1 tmp = Some d"
    using write_loop_content [OF assms(1), of "fs(tmp \<mapsto> [])" "[]"] by (simp del: fun_upd_apply add: fun_upd_same)
  have oth: "?fs1 q = fs q" if "q \<noteq> tmp"
    using write_loop_prefix [OF assms(1) that, of "length ws" "fs(tmp \<mapsto> [])"] that by simp
  have "fs_run ([Unlink tmp, Create tmp m] @ ws @ [FsyncFile tmp, Rename tmp p] @ fin) fs
      = (?fs1(p := ?fs1 tmp))(tmp := None)"
    using assms(3) by (auto simp del: fun_upd_apply)
  then show "fs_run ([Unlink tmp, Create tmp m] @ ws @ [FsyncFile tmp, Rename tmp p] @ fin) fs q
      = (fs(p \<mapsto> d, tmp := None)) q"
    using tmp oth assms(2) by auto
qed

lemma store_run_result:
  assumes run: "opc_store_write_atomic_ex sys (Some p) (Some d) (length d) mode = (rc, outcome, ops)"
  shows "outcome = OPC_STORE_UNCHANGED \<Longrightarrow> q \<noteq> tmp_path (sys_pid sys) p \<Longrightarrow> fs_run ops fs q = fs q"
    and "outcome \<noteq> OPC_STORE_UNCHANGED \<Longrightarrow> fs_run ops fs = fs(p \<mapsto> d, tmp_path (sys_pid sys) p := None)"
    and "rc = 0 \<longleftrightarrow> outcome = OPC_STORE_DURABLE"
proof -
  let ?tmp = "tmp_path (sys_pid sys) p"
  consider (un) "rc = -1" "outcome = OPC_STORE_UNCHANGED" "list_all (tmp_op ?tmp) ops"
    | (re) ws fin where "ops = [Unlink ?tmp, Create ?tmp (if mode = 0 then 384 else mode)] @ ws
          @ [FsyncFile ?tmp, Rename ?tmp p] @ fin" "write_loop (sys_writes sys) ?tmp d = (True, ws)"
        "fin = [] \<or> fin = [FsyncDir (parent_dir p)]" "outcome \<noteq> OPC_STORE_UNCHANGED"
        "rc = 0 \<longleftrightarrow> outcome = OPC_STORE_DURABLE"
    using store_run_shape [OF run] by fastforce
  note cs = this
  show "outcome = OPC_STORE_UNCHANGED \<Longrightarrow> q \<noteq> ?tmp \<Longrightarrow> fs_run ops fs q = fs q"
    using cs tmp_ops_prefix [of ?tmp ops q "length ops" fs] by cases simp_all
  show "outcome \<noteq> OPC_STORE_UNCHANGED \<Longrightarrow> fs_run ops fs = fs(p \<mapsto> d, ?tmp := None)"
    using cs by cases (simp_all only: replaced_run [OF _ tmp_path_neq(1)] simp_thms)
  show "rc = 0 \<longleftrightarrow> outcome = OPC_STORE_DURABLE" using cs by cases simp_all
qed

text \<open>The outcome tells what happened to the target. Unchanged: it has its old content. Otherwise it has
  exactly the new data. The call returns 0 exactly for a durable outcome, and no file but the target and
  the temporary name is touched.\<close>

lemma store_outcome_meaning:
  assumes run: "opc_store_write_atomic_ex sys (Some p) (Some d) (length d) mode = (rc, outcome, ops)"
  shows "fs_run ops fs p = (if outcome = OPC_STORE_UNCHANGED then fs p else Some d)
    \<and> (rc = 0 \<longleftrightarrow> outcome = OPC_STORE_DURABLE)
    \<and> (\<forall>q. q \<noteq> p \<and> q \<noteq> tmp_path (sys_pid sys) p \<longrightarrow> fs_run ops fs q = fs q)"
  using store_run_result(1) [OF run, of _ fs] store_run_result(2) [OF run, of fs] store_run_result(3) [OF run] by auto

text \<open>C23: A crash at any point of the run leaves the target with its complete old or its complete new
  content, never with a part of the data.\<close>

theorem store_crash_atomic:
  assumes run: "opc_store_write_atomic_ex sys (Some p) (Some d) (length d) mode = (rc, outcome, ops)"
  shows "fs_run (take k ops) fs p \<in> {fs p, Some d}"
proof (cases "outcome = OPC_STORE_UNCHANGED")
  case True
  then have o: "list_all (tmp_op (tmp_path (sys_pid sys) p)) ops" using store_run_shape [OF run] by auto
  then show ?thesis using tmp_ops_prefix [OF o, of p k fs] by simp
next
  case False
  let ?tmp = "tmp_path (sys_pid sys) p"
  obtain ws fin where ops: "ops = [Unlink ?tmp, Create ?tmp (if mode = 0 then 384 else mode)] @ ws
          @ [FsyncFile ?tmp, Rename ?tmp p] @ fin"
    and w: "write_loop (sys_writes sys) ?tmp d = (True, ws)"
    and fin: "fin = [] \<or> fin = [FsyncDir (parent_dir p)]"
    using store_run_shape [OF run] False by auto
  define pre where "pre = [Unlink ?tmp, Create ?tmp (if mode = 0 then 384 else mode)] @ ws @ [FsyncFile ?tmp]"
  have split: "ops = (pre @ [Rename ?tmp p]) @ fin" by (simp add: ops pre_def)
  show ?thesis
  proof (cases "k \<le> length pre")
    case True
    have "list_all (tmp_op ?tmp) pre" using write_loop_tmp_ops [OF w] by (simp add: pre_def)
    then show ?thesis using True tmp_ops_prefix [of ?tmp pre p k fs] by (simp add: split)
  next
    case False
    define fin' where "fin' = take (k - length (pre @ [Rename ?tmp p])) fin"
    have "fin' = [] \<or> fin' = [FsyncDir (parent_dir p)]"
      using fin by (auto simp: fin'_def take_Cons')
    moreover have "take k ops = [Unlink ?tmp, Create ?tmp (if mode = 0 then 384 else mode)] @ ws
          @ [FsyncFile ?tmp, Rename ?tmp p] @ fin'"
      using False by (simp add: split fin'_def pre_def take_Cons')
    ultimately show ?thesis using replaced_run [OF w, of p fin' "parent_dir p"] by simp
  qed
qed

theorem store_crash_atomic_witness:
  "fs_run (take 3 (snd (snd (opc_store_write_atomic_ex sys_ok (Some (bytes_of ''/a'')) (Some [7, 8, 9]) (length [7 :: u8, 8, 9]) 0))))
     [bytes_of ''/a'' \<mapsto> [1]] (bytes_of ''/a'') \<in> {Some [1], Some [7, 8, 9]}"
  using store_crash_atomic [of sys_ok "bytes_of ''/a''" "[7, 8, 9]" 0 _ _ _ 3 "[bytes_of ''/a'' \<mapsto> [1]]"]
  by (cases "opc_store_write_atomic_ex sys_ok (Some (bytes_of ''/a'')) (Some [7, 8, 9]) (length [7 :: u8, 8, 9]) 0") auto

text \<open>C28: When a run replaces the target, the complete data has been written to the temporary file and synced
  before the rename, and a durable outcome also syncs the directory after it.\<close>

theorem store_sync_order:
  assumes run: "opc_store_write_atomic_ex sys (Some p) (Some d) (length d) mode = (rc, outcome, ops)"
    and out: "outcome \<noteq> OPC_STORE_UNCHANGED"
  shows "\<exists>pre fin. ops = pre @ [FsyncFile (tmp_path (sys_pid sys) p), Rename (tmp_path (sys_pid sys) p) p] @ fin
    \<and> fs_run pre fs (tmp_path (sys_pid sys) p) = Some d
    \<and> (outcome = OPC_STORE_DURABLE \<longrightarrow> fin = [FsyncDir (parent_dir p)])"
proof -
  let ?tmp = "tmp_path (sys_pid sys) p"
  obtain ws fin where ops: "ops = ([Unlink ?tmp, Create ?tmp (if mode = 0 then 384 else mode)] @ ws)
          @ [FsyncFile ?tmp, Rename ?tmp p] @ fin"
    and w: "write_loop (sys_writes sys) ?tmp d = (True, ws)"
    and fin: "outcome = OPC_STORE_DURABLE \<longrightarrow> fin = [FsyncDir (parent_dir p)]"
    using store_run_shape [OF run] out by auto
  have "fs_run ([Unlink ?tmp, Create ?tmp (if mode = 0 then 384 else mode)] @ ws) fs ?tmp = Some d"
    using write_loop_content [OF w, of "fs(?tmp \<mapsto> [])" "[]"] by (simp del: fun_upd_apply add: fun_upd_same)
  with ops fin show ?thesis by blast
qed

theorem store_sync_order_witness:
  "\<exists>pre fin. snd (snd (opc_store_write_atomic_ex sys_ok (Some (bytes_of ''/a'')) (Some [7]) (length [7 :: u8]) 0))
     = pre @ [FsyncFile (tmp_path 1 (bytes_of ''/a'')), Rename (tmp_path 1 (bytes_of ''/a'')) (bytes_of ''/a'')] @ fin
   \<and> fin = [FsyncDir (bytes_of ''/'')]"
proof -
  obtain ops where r: "opc_store_write_atomic_ex sys_ok (Some (bytes_of ''/a'')) (Some [7]) (length [7 :: u8]) 0
      = (0, OPC_STORE_DURABLE, ops)"
    by (simp add: opc_store_write_atomic_ex_def sys_ok_def Let_def write_loop.simps tmp_path_def bytes_of_def dec.simps)
  have "parent_dir (bytes_of ''/a'') = bytes_of ''/''" "sys_pid sys_ok = 1" by code_simp+
  with r store_sync_order [OF r, of "\<lambda>_. None"] show ?thesis by auto
qed

text \<open>What the reader returns is a prefix of the file no longer than the buffer.\<close>

lemma read_loop_prefix: "read_loop rs content cap = Some r \<Longrightarrow> \<exists>k \<le> cap. r = take k content"
proof (induction rs arbitrary: content cap r)
  case Nil
  then show ?case by (subst (asm) read_loop.simps) (auto split: if_splits)
next
  case (Cons x rs)
  show ?case
  proof (cases "cap = 0")
    case True
    with Cons.prems show ?thesis by (subst (asm) read_loop.simps) auto
  next
    case False
    show ?thesis
    proof (cases x)
      case (IoOk n)
      define k where "k = min n (min cap (length content))"
      show ?thesis
      proof (cases "k = 0")
        case True
        with IoOk False Cons.prems show ?thesis
          by (subst (asm) read_loop.simps) (auto simp: k_def Let_def intro: exI [of _ 0])
      next
        case k: False
        have "read_loop (x # rs) content cap = map_option (\<lambda>r. take k content @ r) (read_loop rs (drop k content) (cap - k))"
          using IoOk False k by (subst read_loop.simps) (simp add: k_def [symmetric] Let_def)
        with Cons.prems obtain r' where r': "read_loop rs (drop k content) (cap - k) = Some r'" "r = take k content @ r'"
          by auto
        from Cons.IH [OF r'(1)] obtain j where j: "j \<le> cap - k" "r' = take j (drop k content)" by blast
        have "k \<le> cap" "k \<le> length content" by (simp_all add: k_def)
        then have "r = take (k + j) content" "k + j \<le> cap" using r' j by (simp_all add: take_add)
        then show ?thesis by blast
      qed
    qed (use False Cons in \<open>simp_all add: read_loop.simps [of "_ # _"]\<close>)
  qed
qed

text \<open>A completed write is read back: whatever a later successful read of a replaced target returns is a
  prefix of the new data, and an uninterrupted read with room for it returns all of it.\<close>

lemma store_read_back:
  assumes run: "opc_store_write_atomic_ex sys (Some p) (Some d) (length d) mode = (rc, outcome, ops)"
    and out: "outcome \<noteq> OPC_STORE_UNCHANGED"
  shows "(\<forall>r. opc_store_read_all sys' (fs_run ops fs) (Some p) cap = Some r \<longrightarrow> (\<exists>k. k \<le> cap \<and> r = take k d))
    \<and> (sys_openread sys' \<and> sys_reads sys' = [] \<and> length d \<le> cap
       \<longrightarrow> opc_store_read_all sys' (fs_run ops fs) (Some p) cap = Some d)"
proof -
  have p: "fs_run ops fs p = Some d" using store_run_result(2) [OF run out, of fs] by simp
  have "read_loop [] d cap = Some d" if "length d \<le> cap"
    using that by (subst read_loop.simps) auto
  with p show ?thesis by (auto simp: opc_store_read_all_def dest: read_loop_prefix)
qed

end
