(* ===== verification/Store_Async.thy ===== *)
theory Store_Async
  imports Store
begin

text \<open>
  The asynchronous writer (\<open>opcd/store_async.h\<close>, \<open>opcd/store_async.c\<close>): a table of 16 job slots, a ring of slot
  indexes that the single worker thread pops, and a completion harvest. Each critical section of the mutex is
  one operation. \<open>sa_running\<close> is the worker's local job index between its two critical sections, \<open>sa_event\<close> is
  whether the eventfd is readable. The handle is never NULL here: its users hold an option. \<open>saved_errno\<close> is only
  logged and is left out.
\<close>

definition OPC_STORE_ASYNC_QUEUE_DEPTH :: nat where [simp]: "OPC_STORE_ASYNC_QUEUE_DEPTH = 16"
definition OPC_STORE_ASYNC_DATA_MAX :: nat where [simp]: "OPC_STORE_ASYNC_DATA_MAX = 24576"

datatype job_state_t = JOB_FREE | JOB_RESERVED | JOB_QUEUED | JOB_DONE

datatype sa_errno = EINVAL | E2BIG | ENAMETOOLONG | ECANCELED | EAGAIN

record job_t =
  jb_state :: job_state_t
  jb_path :: path
  jb_echo_path :: path
  jb_data :: "u8 list"
  jb_len :: nat
  jb_mode :: u32
  jb_token :: u64
  jb_result :: int
  jb_outcome :: opc_store_outcome_t

record opc_store_async =
  sa_shutdown :: bool
  sa_joined :: bool
  sa_jobs :: "job_t list"
  sa_q :: "nat list"
  sa_q_head :: nat
  sa_q_count :: nat
  sa_running :: "nat option"
  sa_event :: bool

record opc_store_async_done_t =
  dn_token :: u64
  dn_result :: int
  dn_outcome :: opc_store_outcome_t

definition zero_job :: job_t where
  "zero_job = \<lparr>jb_state = JOB_FREE, jb_path = [], jb_echo_path = [], jb_data = [], jb_len = 0, jb_mode = 0,
     jb_token = 0, jb_result = 0, jb_outcome = OPC_STORE_UNCHANGED\<rparr>"

text \<open>The state after a successful creation: \<open>calloc\<close> zeroes the table.\<close>

definition opc_store_async_fresh :: opc_store_async where
  "opc_store_async_fresh = \<lparr>sa_shutdown = False, sa_joined = False,
     sa_jobs = replicate OPC_STORE_ASYNC_QUEUE_DEPTH zero_job,
     sa_q = replicate OPC_STORE_ASYNC_QUEUE_DEPTH 0, sa_q_head = 0, sa_q_count = 0,
     sa_running = None, sa_event = False\<rparr>"

text \<open>Creation. The record holds the results of the calls that can fail; every failure gives NULL.\<close>

record sa_create_sys =
  cs_calloc :: bool
  cs_eventfd :: bool
  cs_nonblock :: bool
  cs_mutex :: bool
  cs_cond :: bool
  cs_thread :: bool

definition opc_store_async_create :: "sa_create_sys \<Rightarrow> opc_store_async option" where
  "opc_store_async_create sys =
     (if \<not> cs_calloc sys then None
      else if \<not> cs_eventfd sys then None
      else if \<not> cs_nonblock sys then None
      else if \<not> cs_mutex sys then None
      else if \<not> cs_cond sys then None
      else if \<not> cs_thread sys then None
      else Some opc_store_async_fresh)"

definition set_job :: "nat \<Rightarrow> (job_t \<Rightarrow> job_t) \<Rightarrow> opc_store_async \<Rightarrow> opc_store_async" where
  "set_job i f sa = sa\<lparr>sa_jobs := (sa_jobs sa)[i := f (sa_jobs sa ! i)]\<rparr>"

fun first_free :: "job_t list \<Rightarrow> nat \<Rightarrow> nat option" where
  "first_free [] i = None"
| "first_free (j # js) i = (if jb_state j = JOB_FREE then Some i else first_free js (Suc i))"

definition opc_store_async_reserve ::
  "opc_store_async \<Rightarrow> path ptr \<Rightarrow> nat \<Rightarrow> (sa_errno + nat) \<times> opc_store_async" where
  "opc_store_async_reserve sa path len =
     (case path of
        None \<Rightarrow> (Inl EINVAL, sa)
      | Some p \<Rightarrow>
          if len > OPC_STORE_ASYNC_DATA_MAX then (Inl E2BIG, sa)
          else if length p \<ge> 1024 then (Inl ENAMETOOLONG, sa)
          else if sa_shutdown sa then (Inl ECANCELED, sa)
          else case first_free (sa_jobs sa) 0 of
                 None \<Rightarrow> (Inl EAGAIN, sa)
               | Some ji \<Rightarrow>
                   (Inr ji, set_job ji (\<lambda>j. j\<lparr>jb_path := p, jb_echo_path := [], jb_len := len,
                                              jb_state := JOB_RESERVED\<rparr>) sa))"

definition opc_store_async_cancel :: "opc_store_async \<Rightarrow> int \<Rightarrow> opc_store_async" where
  "opc_store_async_cancel sa reservation =
     (if reservation < 0 \<or> reservation \<ge> int OPC_STORE_ASYNC_QUEUE_DEPTH then sa
      else if jb_state (sa_jobs sa ! nat reservation) = JOB_RESERVED
        then set_job (nat reservation) (\<lambda>j. j\<lparr>jb_state := JOB_FREE\<rparr>) sa
        else sa)"

text \<open>The bytes of \<open>j->data\<close> beyond \<open>j->len\<close> are never read, so \<open>jb_data\<close> is the copied prefix.\<close>

definition opc_store_async_submit_reserved ::
  "opc_store_async \<Rightarrow> int \<Rightarrow> u8 list ptr \<Rightarrow> nat \<Rightarrow> u32 \<Rightarrow> u64 \<Rightarrow> (sa_errno + unit) \<times> opc_store_async" where
  "opc_store_async_submit_reserved sa reservation data len mode token =
     (if reservation < 0 \<or> reservation \<ge> int OPC_STORE_ASYNC_QUEUE_DEPTH \<or> (len > 0 \<and> data = None)
      then (Inl EINVAL, sa)
      else let r = nat reservation; j = sa_jobs sa ! r in
        if sa_shutdown sa \<or> jb_state j \<noteq> JOB_RESERVED \<or> len > jb_len j
        then (Inl (if sa_shutdown sa then ECANCELED else EINVAL), sa)
        else let sa = set_job r (\<lambda>j. j\<lparr>jb_data := (case data of None \<Rightarrow> [] | Some d \<Rightarrow> take len d), jb_len := len,
                        jb_mode := mode, jb_token := token, jb_result := 0, jb_outcome := OPC_STORE_UNCHANGED,
                        jb_state := JOB_QUEUED\<rparr>) sa
             in (Inr (), sa\<lparr>sa_q := (sa_q sa)[(sa_q_head sa + sa_q_count sa) mod OPC_STORE_ASYNC_QUEUE_DEPTH := r],
                            sa_q_count := sa_q_count sa + 1\<rparr>))"

definition opc_store_async_submit_echo ::
  "opc_store_async \<Rightarrow> path ptr \<Rightarrow> path ptr \<Rightarrow> u8 list ptr \<Rightarrow> nat \<Rightarrow> u32 \<Rightarrow> u64
   \<Rightarrow> (sa_errno + unit) \<times> opc_store_async" where
  "opc_store_async_submit_echo sa path echo_path data len mode token =
     (case echo_path of
        None \<Rightarrow> (Inl EINVAL, sa)
      | Some e \<Rightarrow>
          if length e \<ge> 1024 then (Inl ENAMETOOLONG, sa)
          else if len > 0 \<and> data = None then (Inl EINVAL, sa)
          else case opc_store_async_reserve sa path len of
                 (Inl err, sa) \<Rightarrow> (Inl err, sa)
               | (Inr r, sa) \<Rightarrow>
                   let sa = set_job r (\<lambda>j. j\<lparr>jb_echo_path := e\<rparr>) sa in
                   (case opc_store_async_submit_reserved sa (int r) data len mode token of
                      (Inl err, sa) \<Rightarrow> (Inl err, opc_store_async_cancel sa (int r))
                    | (Inr _, sa) \<Rightarrow> (Inr (), sa)))"

definition opc_store_async_submit ::
  "opc_store_async \<Rightarrow> path ptr \<Rightarrow> u8 list ptr \<Rightarrow> nat \<Rightarrow> u32 \<Rightarrow> u64 \<Rightarrow> (sa_errno + unit) \<times> opc_store_async" where
  "opc_store_async_submit sa path data len mode token =
     (if len > 0 \<and> data = None then (Inl EINVAL, sa)
      else case opc_store_async_reserve sa path len of
             (Inl err, sa) \<Rightarrow> (Inl err, sa)
           | (Inr r, sa) \<Rightarrow>
               (case opc_store_async_submit_reserved sa (int r) data len mode token of
                  (Inl err, sa) \<Rightarrow> (Inl err, opc_store_async_cancel sa (int r))
                | (Inr _, sa) \<Rightarrow> (Inr (), sa)))"

definition job_done :: "job_t \<Rightarrow> opc_store_async_done_t" where
  "job_done j = \<lparr>dn_token = jb_token j, dn_result = jb_result j, dn_outcome = jb_outcome j\<rparr>"

text \<open>The harvest loop: completed slots in index order, at most \<open>cap\<close> of them.\<close>

definition drain_slot ::
  "nat \<Rightarrow> nat \<Rightarrow> opc_store_async_done_t list \<times> bool \<times> opc_store_async
   \<Rightarrow> opc_store_async_done_t list \<times> bool \<times> opc_store_async" where
  "drain_slot cap i acc =
     (case acc of (out, leftover, sa) \<Rightarrow>
        let j = sa_jobs sa ! i in
        if jb_state j \<noteq> JOB_DONE then (out, leftover, sa)
        else if length out < cap then
          (out @ [job_done j], leftover, set_job i (\<lambda>j. j\<lparr>jb_state := JOB_FREE\<rparr>) sa)
        else (out, True, sa))"

definition opc_store_async_drain :: "opc_store_async \<Rightarrow> nat \<Rightarrow> opc_store_async_done_t list \<times> opc_store_async" where
  "opc_store_async_drain sa cap =
     (if cap = 0 then ([], sa)
      else case fold (drain_slot cap) [0..<OPC_STORE_ASYNC_QUEUE_DEPTH] ([], False, sa\<lparr>sa_event := False\<rparr>) of
             (out, leftover, sa) \<Rightarrow> (out, if leftover then sa\<lparr>sa_event := True\<rparr> else sa))"

subsection \<open>The worker thread\<close>

text \<open>First critical section: pop the head of the ring. \<open>None\<close>: nothing to do (waiting, or exiting on shutdown).\<close>

definition worker_take :: "opc_store_async \<Rightarrow> opc_store_async option" where
  "worker_take sa =
     (if sa_q_count sa = 0 \<or> sa_running sa \<noteq> None then None
      else Some (sa\<lparr>sa_running := Some (sa_q sa ! sa_q_head sa),
                    sa_q_head := (sa_q_head sa + 1) mod OPC_STORE_ASYNC_QUEUE_DEPTH,
                    sa_q_count := sa_q_count sa - 1\<rparr>))"

text \<open>Outside the lock: the write, then the echo of a visible replacement. The two records are the system call
  results of the two runs.\<close>

definition worker_write :: "store_sys \<times> store_sys \<Rightarrow> job_t \<Rightarrow> int \<times> opc_store_outcome_t \<times> fs_op list" where
  "worker_write env j =
     (case opc_store_write_atomic_ex (fst env) (Some (jb_path j)) (Some (jb_data j)) (jb_len j) (jb_mode j) of
        (rc, outcome, ops) \<Rightarrow>
          (rc, outcome,
           ops @ (if jb_echo_path j \<noteq> [] \<and> outcome \<noteq> OPC_STORE_UNCHANGED
                  then snd (opc_store_write_atomic (snd env) (Some (jb_echo_path j)) (Some (jb_data j)) (jb_len j) (jb_mode j))
                  else [])))"

text \<open>Second critical section: publish the result.\<close>

definition worker_publish :: "opc_store_async \<Rightarrow> nat \<Rightarrow> int \<Rightarrow> opc_store_outcome_t \<Rightarrow> opc_store_async" where
  "worker_publish sa ji rc outcome =
     (set_job ji (\<lambda>j. j\<lparr>jb_result := rc, jb_outcome := outcome, jb_state := JOB_DONE\<rparr>) sa)
       \<lparr>sa_running := None, sa_event := True\<rparr>"

definition worker_complete ::
  "store_sys \<times> store_sys \<Rightarrow> opc_store_async \<Rightarrow> files \<Rightarrow> opc_store_async \<times> files" where
  "worker_complete env sa fs =
     (case sa_running sa of
        None \<Rightarrow> (sa, fs)
      | Some ji \<Rightarrow>
          (case worker_write env (sa_jobs sa ! ji) of
             (rc, outcome, ops) \<Rightarrow> (worker_publish sa ji rc outcome, fs_run ops fs)))"

text \<open>\<open>n\<close> rounds of \<open>worker_main\<close>; the number of queued jobs is enough for all of them, because only the worker
  changes the ring after admission has stopped.\<close>

fun worker_run ::
  "nat \<Rightarrow> (nat \<Rightarrow> store_sys \<times> store_sys) \<Rightarrow> opc_store_async \<Rightarrow> files \<Rightarrow> opc_store_async \<times> files" where
  "worker_run 0 env sa fs = (sa, fs)"
| "worker_run (Suc n) env sa fs =
     (case worker_take sa of
        None \<Rightarrow> (sa, fs)
      | Some sa1 \<Rightarrow> (case worker_complete (env n) sa1 fs of (sa2, fs2) \<Rightarrow> worker_run n env sa2 fs2))"

definition opc_store_async_finish ::
  "(nat \<Rightarrow> store_sys \<times> store_sys) \<Rightarrow> opc_store_async \<Rightarrow> files \<Rightarrow> opc_store_async \<times> files" where
  "opc_store_async_finish env sa fs =
     (let sa = sa\<lparr>sa_shutdown := True\<rparr> in
      if sa_joined sa then (sa, fs)
      else case worker_complete (env (sa_q_count sa)) sa fs of
             (sa1, fs1) \<Rightarrow>
               (case worker_run (sa_q_count sa1) env sa1 fs1 of
                  (sa2, fs2) \<Rightarrow> (sa2\<lparr>sa_joined := True\<rparr>, fs2)))"

subsection \<open>Invariant and abstraction\<close>

text \<open>The slots in the ring, oldest first.\<close>

definition queue_of :: "opc_store_async \<Rightarrow> nat list" where
  "queue_of sa = map (\<lambda>i. sa_q sa ! ((sa_q_head sa + i) mod 16)) [0..<sa_q_count sa]"

definition busy :: "opc_store_async \<Rightarrow> nat list" where
  "busy sa = (case sa_running sa of None \<Rightarrow> [] | Some i \<Rightarrow> [i]) @ queue_of sa"

definition sa_inv :: "opc_store_async \<Rightarrow> bool" where
  "sa_inv sa \<longleftrightarrow> length (sa_jobs sa) = 16 \<and> length (sa_q sa) = 16 \<and> sa_q_head sa < 16
     \<and> distinct (busy sa)
     \<and> set (busy sa) = {i. i < 16 \<and> jb_state (sa_jobs sa ! i) = JOB_QUEUED}"

text \<open>Events of a FIFO writer as its clients see it, and a run of them: the accepted jobs, the served jobs and
  the final state.\<close>

datatype ('j, 'e) fifo_event = Submit 'j | Serve 'e | Harvest

fun fifo_run ::
  "('j \<Rightarrow> 's \<Rightarrow> 's option) \<Rightarrow> ('e \<Rightarrow> 's \<Rightarrow> ('j \<times> 's) option) \<Rightarrow> ('s \<Rightarrow> 's) \<Rightarrow> ('j, 'e) fifo_event list \<Rightarrow> 's
   \<Rightarrow> 'j list \<times> 'j list \<times> 's" where
  "fifo_run submit serve harvest [] s = ([], [], s)"
| "fifo_run submit serve harvest (Submit j # es) s =
     (case submit j s of
        None \<Rightarrow> fifo_run submit serve harvest es s
      | Some s' \<Rightarrow> (case fifo_run submit serve harvest es s' of (acc, srv, r) \<Rightarrow> (j # acc, srv, r)))"
| "fifo_run submit serve harvest (Serve e # es) s =
     (case serve e s of
        None \<Rightarrow> fifo_run submit serve harvest es s
      | Some (j, s') \<Rightarrow> (case fifo_run submit serve harvest es s' of (acc, srv, r) \<Rightarrow> (acc, j # srv, r)))"
| "fifo_run submit serve harvest (Harvest # es) s = fifo_run submit serve harvest es (harvest s)"

text \<open>One job as its submitter sees it, and the writer's operations over jobs and files.\<close>

type_synonym job_key = "path \<times> path \<times> u8 list \<times> u32 \<times> u64"

definition job_key :: "job_t \<Rightarrow> job_key" where
  "job_key j = (jb_path j, jb_echo_path j, jb_data j, jb_mode j, jb_token j)"

definition sa_submit :: "job_key \<Rightarrow> opc_store_async \<times> files \<Rightarrow> (opc_store_async \<times> files) option" where
  "sa_submit k s =
     (case k of (p, e, d, m, t) \<Rightarrow>
        case opc_store_async_submit_echo (fst s) (Some p) (Some e) (Some d) (length d) m t of
          (Inr _, sa) \<Rightarrow> Some (sa, snd s) | (Inl _, _) \<Rightarrow> None)"

definition sa_serve ::
  "store_sys \<times> store_sys \<Rightarrow> opc_store_async \<times> files \<Rightarrow> (job_key \<times> opc_store_async \<times> files) option" where
  "sa_serve env s =
     (case worker_take (fst s) of
        None \<Rightarrow> None
      | Some sa1 \<Rightarrow>
          Some (job_key (sa_jobs sa1 ! the (sa_running sa1)), worker_complete env sa1 (snd s)))"

definition sa_harvest :: "opc_store_async \<times> files \<Rightarrow> opc_store_async \<times> files" where
  "sa_harvest s = (snd (opc_store_async_drain (fst s) OPC_STORE_ASYNC_QUEUE_DEPTH), snd s)"

definition sa_pending :: "opc_store_async \<times> files \<Rightarrow> job_key list" where
  "sa_pending s = map (\<lambda>i. job_key (sa_jobs (fst s) ! i)) (queue_of (fst s))"

definition sa_idle :: "opc_store_async \<times> files \<Rightarrow> bool" where
  "sa_idle s \<longleftrightarrow> sa_inv (fst s) \<and> sa_running (fst s) = None"

text \<open>Every critical section of the main thread and of the worker as one step.\<close>

inductive sa_step :: "opc_store_async \<times> files \<Rightarrow> opc_store_async \<times> files \<Rightarrow> bool" where
  reserve: "opc_store_async_reserve sa path len = (res, sa') \<Longrightarrow> sa_step (sa, fs) (sa', fs)"
| cancel: "sa_step (sa, fs) (opc_store_async_cancel sa r, fs)"
| submit: "opc_store_async_submit_reserved sa r data len mode token = (res, sa') \<Longrightarrow> sa_step (sa, fs) (sa', fs)"
| echo: "jb_state (sa_jobs sa ! r) = JOB_RESERVED \<Longrightarrow> r < 16 \<Longrightarrow>
    sa_step (sa, fs) (set_job r (\<lambda>j. j\<lparr>jb_echo_path := e\<rparr>) sa, fs)"
| drain: "opc_store_async_drain sa cap = (out, sa') \<Longrightarrow> sa_step (sa, fs) (sa', fs)"
| pop: "worker_take sa = Some sa' \<Longrightarrow> sa_step (sa, fs) (sa', fs)"
| complete: "worker_complete env sa fs = (sa', fs') \<Longrightarrow> sa_step (sa, fs) (sa', fs')"
| stop: "sa_step (sa, fs) (sa\<lparr>sa_shutdown := True\<rparr>, fs)"

inductive sa_reachable :: "opc_store_async \<times> files \<Rightarrow> bool" where
  init: "sa_reachable (opc_store_async_fresh, fs)"
| step: "sa_reachable s \<Longrightarrow> sa_step s s' \<Longrightarrow> sa_reachable s'"

lemma distinct_bound: "distinct xs \<Longrightarrow> set xs \<subseteq> {..<n} \<Longrightarrow> length xs \<le> (n :: nat)"
  by (metis card_lessThan card_mono distinct_card finite_lessThan)

lemma set_job_simps [simp]:
  "sa_shutdown (set_job i f sa) = sa_shutdown sa" "sa_joined (set_job i f sa) = sa_joined sa"
  "sa_q (set_job i f sa) = sa_q sa" "sa_q_head (set_job i f sa) = sa_q_head sa"
  "sa_q_count (set_job i f sa) = sa_q_count sa" "sa_running (set_job i f sa) = sa_running sa"
  "sa_event (set_job i f sa) = sa_event sa"
  "length (sa_jobs (set_job i f sa)) = length (sa_jobs sa)"
  "busy (set_job i f sa) = busy sa" "queue_of (set_job i f sa) = queue_of sa"
  by (simp_all add: set_job_def busy_def queue_of_def)

lemma set_job_nth [simp]:
  "i < length (sa_jobs sa) \<Longrightarrow> sa_jobs (set_job i f sa) ! k = (if k = i then f (sa_jobs sa ! i) else sa_jobs sa ! k)"
  by (simp add: set_job_def nth_list_update)

lemma busy_event [simp]: "busy (sa\<lparr>sa_event := b\<rparr>) = busy sa" "busy (sa\<lparr>sa_shutdown := b\<rparr>) = busy sa"
    "busy (sa\<lparr>sa_joined := b\<rparr>) = busy sa"
    "queue_of (sa\<lparr>sa_event := b\<rparr>) = queue_of sa" "queue_of (sa\<lparr>sa_shutdown := b\<rparr>) = queue_of sa"
    "queue_of (sa\<lparr>sa_joined := b\<rparr>) = queue_of sa"
  by (simp_all add: busy_def queue_of_def)

lemma sa_inv_flags [simp]: "sa_inv (sa\<lparr>sa_event := b\<rparr>) = sa_inv sa" "sa_inv (sa\<lparr>sa_shutdown := b\<rparr>) = sa_inv sa"
    "sa_inv (sa\<lparr>sa_joined := b\<rparr>) = sa_inv sa"
  by (simp_all add: sa_inv_def)

lemma sa_invD:
  assumes "sa_inv sa"
  shows "length (sa_jobs sa) = 16" "length (sa_q sa) = 16" "sa_q_head sa < 16" "distinct (busy sa)"
    "set (busy sa) = {i. i < 16 \<and> jb_state (sa_jobs sa ! i) = JOB_QUEUED}"
  using assms by (simp_all add: sa_inv_def)

lemma sa_inv_create: "sa_inv opc_store_async_fresh"
  by (simp add: sa_inv_def opc_store_async_fresh_def busy_def queue_of_def zero_job_def)

lemma sa_inv_bounds:
  assumes "sa_inv sa"
  shows "length (sa_jobs sa) = 16" "length (busy sa) \<le> 16" "sa_q_count sa \<le> 16"
proof -
  have "set (busy sa) \<subseteq> {..<16}" using assms by (auto simp: sa_inv_def)
  then show b: "length (busy sa) \<le> 16" using assms by (intro distinct_bound) (simp_all add: sa_inv_def)
  then show "sa_q_count sa \<le> 16" by (simp add: busy_def queue_of_def split: option.splits)
  show "length (sa_jobs sa) = 16" using assms by (simp add: sa_inv_def)
qed

text \<open>A change of a slot that is not queued, to a state that is not queued, keeps the invariant.\<close>

lemma sa_inv_set_job:
  assumes "sa_inv sa" "i < 16" "jb_state (sa_jobs sa ! i) \<noteq> JOB_QUEUED" "jb_state (f (sa_jobs sa ! i)) \<noteq> JOB_QUEUED"
  shows "sa_inv (set_job i f sa)"
  using assms by (auto simp: sa_inv_def)

lemma sa_inv_set_job_same:
  assumes "sa_inv sa" "i < 16" "jb_state (f (sa_jobs sa ! i)) = jb_state (sa_jobs sa ! i)"
  shows "sa_inv (set_job i f sa)"
  using assms by (auto simp: sa_inv_def)

lemma first_free_Some:
  "first_free js k = Some i \<Longrightarrow> k \<le> i \<and> i - k < length js \<and> jb_state (js ! (i - k)) = JOB_FREE"
proof (induction js arbitrary: k)
  case (Cons j js)
  then show ?case by (fastforce split: if_splits simp: nth_Cons' Suc_diff_le dest: Suc_le_D)
qed simp

lemma first_free_None: "first_free js k = None \<longleftrightarrow> (\<forall>j\<in>set js. jb_state j \<noteq> JOB_FREE)"
  by (induction js arbitrary: k) auto

lemma reserve_cases:
  assumes "opc_store_async_reserve sa path len = (res, sa')"
  shows "(\<exists>e. res = Inl e \<and> sa' = sa)
    \<or> (\<exists>i p. res = Inr i \<and> path = Some p \<and> i < length (sa_jobs sa) \<and> jb_state (sa_jobs sa ! i) = JOB_FREE
        \<and> \<not> sa_shutdown sa \<and> len \<le> OPC_STORE_ASYNC_DATA_MAX
        \<and> sa' = set_job i (\<lambda>j. j\<lparr>jb_path := p, jb_echo_path := [], jb_len := len, jb_state := JOB_RESERVED\<rparr>) sa)"
  using assms by (auto simp: opc_store_async_reserve_def split: option.splits if_splits dest!: first_free_Some)

lemma reserve_inv:
  assumes "sa_inv sa" "opc_store_async_reserve sa path len = (res, sa')"
  shows "sa_inv sa'" "busy sa' = busy sa"
  using reserve_cases [OF assms(2)] assms(1) sa_inv_bounds(1) [OF assms(1)]
  by (auto intro!: sa_inv_set_job)

lemma cancel_inv:
  assumes "sa_inv sa" shows "sa_inv (opc_store_async_cancel sa r)" "busy (opc_store_async_cancel sa r) = busy sa"
  using assms by (auto simp: opc_store_async_cancel_def intro!: sa_inv_set_job)

text \<open>Appending to the ring.\<close>

lemma ring_push:
  assumes "length q = 16" "c < 16"
  shows "map (\<lambda>i. q[(h + c) mod 16 := r] ! ((h + i) mod 16)) [0..<Suc c]
    = map (\<lambda>i. q ! ((h + i) mod 16)) [0..<c] @ [r]"
proof -
  have "(h + i) mod 16 \<noteq> (h + c) mod 16" if "i < c" for i
  proof
    assume "(h + i) mod 16 = (h + c) mod 16"
    then have "16 dvd (h + c) - (h + i)" using that by (metis mod_eq_dvd_iff_nat add_le_cancel_left less_imp_le)
    then have "16 dvd c - i" by simp
    with that assms(2) show False by (auto dest: dvd_imp_le)
  qed
  then have "q[(h + c) mod 16 := r] ! ((h + i) mod 16) = q ! ((h + i) mod 16)" if "i < c" for i
    using that by (metis nth_list_update_neq)
  then show ?thesis using assms by simp
qed

lemma submit_reserved_cases:
  assumes "opc_store_async_submit_reserved sa r data len mode token = (res, sa')"
  shows "(\<exists>e. res = Inl e \<and> sa' = sa)
    \<or> (res = Inr () \<and> 0 \<le> r \<and> r < 16 \<and> jb_state (sa_jobs sa ! nat r) = JOB_RESERVED \<and> \<not> sa_shutdown sa
       \<and> sa' = (set_job (nat r) (\<lambda>j. j\<lparr>jb_data := (case data of None \<Rightarrow> [] | Some d \<Rightarrow> take len d), jb_len := len,
                        jb_mode := mode, jb_token := token, jb_result := 0, jb_outcome := OPC_STORE_UNCHANGED,
                        jb_state := JOB_QUEUED\<rparr>) sa)
               \<lparr>sa_q := (sa_q sa)[(sa_q_head sa + sa_q_count sa) mod 16 := nat r], sa_q_count := sa_q_count sa + 1\<rparr>)"
  using assms by (auto simp: opc_store_async_submit_reserved_def Let_def split: if_splits)

lemma submit_reserved_inv:
  assumes inv: "sa_inv sa" and run: "opc_store_async_submit_reserved sa r data len mode token = (res, sa')"
  shows "sa_inv sa'" "busy sa' = (if res = Inr () then busy sa @ [nat r] else busy sa)"
proof -
  have len: "length (sa_jobs sa) = 16" "length (sa_q sa) = 16" using inv by (simp_all add: sa_inv_def)
  have "sa_inv sa' \<and> busy sa' = (if res = Inr () then busy sa @ [nat r] else busy sa)"
  proof (cases "res = Inr ()")
    case False
    then show ?thesis using submit_reserved_cases [OF run] inv by auto
  next
    case True
    then have r: "0 \<le> r" "r < 16" "jb_state (sa_jobs sa ! nat r) = JOB_RESERVED"
      and sa': "sa' = (set_job (nat r) (\<lambda>j. j\<lparr>jb_data := (case data of None \<Rightarrow> [] | Some d \<Rightarrow> take len d), jb_len := len,
                        jb_mode := mode, jb_token := token, jb_result := 0, jb_outcome := OPC_STORE_UNCHANGED,
                        jb_state := JOB_QUEUED\<rparr>) sa)
               \<lparr>sa_q := (sa_q sa)[(sa_q_head sa + sa_q_count sa) mod 16 := nat r], sa_q_count := sa_q_count sa + 1\<rparr>"
      using submit_reserved_cases [OF run] by auto
    have notin: "nat r \<notin> set (busy sa)" using r inv by (auto simp: sa_inv_def)
    have "set (busy sa) \<subseteq> {..<16}" using inv by (auto simp: sa_inv_def)
    then have "set (nat r # busy sa) \<subseteq> {..<16}" using r by simp
    then have "length (nat r # busy sa) \<le> 16"
      using notin inv by (intro distinct_bound) (simp_all add: sa_inv_def)
    then have c: "sa_q_count sa < 16" by (simp add: busy_def queue_of_def split: option.splits)
    have b: "busy sa' = busy sa @ [nat r]"
      using ring_push [OF len(2) c, of "sa_q_head sa" "nat r"] by (simp add: sa' busy_def queue_of_def)
    have "set (busy sa') = {i. i < 16 \<and> jb_state (sa_jobs sa' ! i) = JOB_QUEUED}"
    proof -
      have "set (busy sa) = {i. i < 16 \<and> jb_state (sa_jobs sa ! i) = JOB_QUEUED}" "nat r < 16"
        using inv r by (simp_all add: sa_inv_def)
      then show ?thesis unfolding b using len by (auto simp: sa')
    qed
    then have "sa_inv sa'" using inv notin b by (simp add: sa_inv_def sa')
    with b True show ?thesis by simp
  qed
  then show "sa_inv sa'" "busy sa' = (if res = Inr () then busy sa @ [nat r] else busy sa)" by auto
qed

lemma ring_pop:
  assumes "h < 16"
  shows "map (\<lambda>i. q ! ((h + i) mod 16)) [0..<Suc c] = q ! h # map (\<lambda>i. q ! (((h + 1) mod 16 + i) mod 16)) [0..<c]"
proof -
  have "map (\<lambda>i. q ! ((h + i) mod 16)) [0..<Suc c] = q ! ((h + 0) mod 16) # map (\<lambda>i. q ! ((h + Suc i) mod 16)) [0..<c]"
    by (simp only: upt_conv_Cons [OF zero_less_Suc] list.map map_Suc_upt [symmetric] map_map comp_def)
  also have "map (\<lambda>i. q ! ((h + Suc i) mod 16)) [0..<c] = map (\<lambda>i. q ! (((h + 1) mod 16 + i) mod 16)) [0..<c]"
    by (simp add: mod_add_left_eq)
  finally show ?thesis using assms by simp
qed

lemma worker_take_queue:
  assumes "sa_inv sa" "worker_take sa = Some sa'"
  obtains ji where "sa_running sa = None" "sa_running sa' = Some ji" "queue_of sa = ji # queue_of sa'"
    "sa_jobs sa' = sa_jobs sa" "sa_q_count sa = Suc (sa_q_count sa')" "sa_shutdown sa' = sa_shutdown sa"
    "sa_joined sa' = sa_joined sa"
proof -
  from assms obtain c where c: "sa_q_count sa = Suc c" "sa_running sa = None"
    by (auto simp: worker_take_def gr0_conv_Suc split: if_splits)
  have h: "sa_q_head sa < 16" using assms(1) by (simp add: sa_inv_def)
  have sa': "sa' = sa\<lparr>sa_running := Some (sa_q sa ! sa_q_head sa), sa_q_head := (sa_q_head sa + 1) mod 16,
      sa_q_count := c\<rparr>" using assms(2) c by (simp add: worker_take_def)
  have "queue_of sa = sa_q sa ! sa_q_head sa # queue_of sa'"
    using ring_pop [OF h, of "sa_q sa" c] c by (simp add: queue_of_def sa' del: upt_Suc)
  then show thesis using c by (intro that) (simp_all add: sa')
qed

lemma worker_take_inv:
  assumes "sa_inv sa" "worker_take sa = Some sa'"
  shows "sa_inv sa'" "busy sa' = busy sa"
proof -
  obtain ji where j: "sa_running sa = None" "sa_running sa' = Some ji" "queue_of sa = ji # queue_of sa'"
    "sa_jobs sa' = sa_jobs sa" by (rule worker_take_queue [OF assms])
  then show b: "busy sa' = busy sa" by (simp add: busy_def)
  have "sa_q_head sa' < 16" "length (sa_q sa') = 16" using assms(2) sa_invD(2) [OF assms(1)] by (auto simp: worker_take_def split: if_splits)
  then show "sa_inv sa'" using sa_invD [OF assms(1)] j(4) b by (simp add: sa_inv_def)
qed

lemma worker_publish_inv:
  assumes inv: "sa_inv sa" and run: "sa_running sa = Some ji"
  shows "sa_inv (worker_publish sa ji rc out)" "queue_of (worker_publish sa ji rc out) = queue_of sa"
    "sa_running (worker_publish sa ji rc out) = None"
proof -
  let ?sa = "worker_publish sa ji rc out"
  have b: "busy sa = ji # queue_of sa" using run by (simp add: busy_def)
  have q: "queue_of ?sa = queue_of sa" and r: "sa_running ?sa = None"
    by (simp_all add: worker_publish_def queue_of_def)
  then have b': "busy ?sa = queue_of sa" by (simp add: busy_def)
  have len: "length (sa_jobs sa) = 16" using inv by (simp add: sa_inv_def)
  have set: "set (ji # queue_of sa) = {i. i < 16 \<and> jb_state (sa_jobs sa ! i) = JOB_QUEUED}"
    and d: "distinct (ji # queue_of sa)" using inv b by (simp_all add: sa_inv_def)
  have "ji \<in> set (ji # queue_of sa)" by simp
  then have ji: "ji < 16" unfolding set by simp
  have "jb_state (sa_jobs ?sa ! i) = (if i = ji then JOB_DONE else jb_state (sa_jobs sa ! i))" for i
    using ji len by (simp add: worker_publish_def)
  then have "{i. i < 16 \<and> jb_state (sa_jobs ?sa ! i) = JOB_QUEUED} = set (ji # queue_of sa) - {ji}"
    unfolding set by auto
  then have "set (queue_of sa) = {i. i < 16 \<and> jb_state (sa_jobs ?sa ! i) = JOB_QUEUED}"
    using d by simp
  then show "sa_inv ?sa" using sa_invD [OF inv] d unfolding sa_inv_def b' by (simp add: worker_publish_def)
  show "queue_of ?sa = queue_of sa" "sa_running ?sa = None" by (fact q) (fact r)
qed

lemma worker_complete_inv:
  assumes "sa_inv sa" "worker_complete env sa fs = (sa', fs')"
  shows "sa_inv sa'" "queue_of sa' = queue_of sa" "sa_running sa' = None" "sa_q_count sa' = sa_q_count sa"
    "sa_shutdown sa' = sa_shutdown sa" "sa_joined sa' = sa_joined sa"
    "sa_running sa \<noteq> Some i \<Longrightarrow> sa_jobs sa' ! i = sa_jobs sa ! i"
proof -
  have "sa_inv sa' \<and> queue_of sa' = queue_of sa \<and> sa_running sa' = None \<and> sa_q_count sa' = sa_q_count sa
    \<and> sa_shutdown sa' = sa_shutdown sa \<and> sa_joined sa' = sa_joined sa
    \<and> (sa_running sa \<noteq> Some i \<longrightarrow> sa_jobs sa' ! i = sa_jobs sa ! i)"
  proof (cases "sa_running sa")
    case None
    then show ?thesis using assms by (simp add: worker_complete_def)
  next
    case (Some ji)
    then obtain rc out where sa': "sa' = worker_publish sa ji rc out"
      using assms(2) by (auto simp: worker_complete_def split: prod.splits)
    show ?thesis
      using worker_publish_inv [OF assms(1) Some, of rc out] Some
      by (simp add: sa') (simp add: worker_publish_def set_job_def)
  qed
  then show "sa_inv sa'" "queue_of sa' = queue_of sa" "sa_running sa' = None" "sa_q_count sa' = sa_q_count sa"
    "sa_shutdown sa' = sa_shutdown sa" "sa_joined sa' = sa_joined sa"
    "sa_running sa \<noteq> Some i \<Longrightarrow> sa_jobs sa' ! i = sa_jobs sa ! i"
    by simp_all
qed

lemma drain_slot_inv:
  assumes "sa_inv sa" "i < 16" "drain_slot cap i (out, lo, sa) = (out', lo', sa')"
  shows "sa_inv sa'" "busy sa' = busy sa"
  using assms by (auto simp: drain_slot_def Let_def split: if_splits intro!: sa_inv_set_job)

lemma drain_fold_inv:
  assumes "sa_inv sa" "list_all (\<lambda>i. i < 16) is" "fold (drain_slot cap) is (out, lo, sa) = (out', lo', sa')"
  shows "sa_inv sa' \<and> busy sa' = busy sa"
  using assms
proof (induction "is" arbitrary: out lo sa)
  case (Cons i "is")
  obtain o1 l1 sa1 where s: "drain_slot cap i (out, lo, sa) = (o1, l1, sa1)" by (cases "drain_slot cap i (out, lo, sa)")
  with Cons drain_slot_inv [OF Cons.prems(1) _ s] show ?case by simp
qed auto

lemma drain_inv:
  assumes "sa_inv sa" "opc_store_async_drain sa cap = (out, sa')"
  shows "sa_inv sa'" "busy sa' = busy sa"
proof -
  obtain o1 l1 sa1 where f: "fold (drain_slot cap) [0..<16] ([], False, sa\<lparr>sa_event := False\<rparr>) = (o1, l1, sa1)"
    by (cases "fold (drain_slot cap) [0..<16] ([], False, sa\<lparr>sa_event := False\<rparr>)")
  have "sa_inv sa1 \<and> busy sa1 = busy sa"
    using drain_fold_inv [OF _ _ f] assms(1) by (simp add: list_all_iff)
  then show "sa_inv sa'" "busy sa' = busy sa"
    using assms f by (auto simp: opc_store_async_drain_def split: if_splits)
qed

locale job_fifo =
  fixes inv :: "'s \<Rightarrow> bool" and pending :: "'s \<Rightarrow> 'j list" and submit :: "'j \<Rightarrow> 's \<Rightarrow> 's option"
    and serve :: "'e \<Rightarrow> 's \<Rightarrow> ('j \<times> 's) option" and harvest :: "'s \<Rightarrow> 's"
  assumes submit_law: "inv s \<Longrightarrow> submit j s = Some s' \<Longrightarrow> inv s' \<and> pending s' = pending s @ [j]"
    and serve_law: "inv s \<Longrightarrow> serve e s = Some (j, s') \<Longrightarrow> inv s' \<and> pending s = j # pending s'"
    and serve_none: "inv s \<Longrightarrow> serve e s = None \<Longrightarrow> pending s = []"
    and harvest_law: "inv s \<Longrightarrow> inv (harvest s) \<and> pending (harvest s) = pending s"

begin

lemma run_fifo:
  "inv s \<Longrightarrow> fifo_run submit serve harvest es s = (acc, srv, s') \<Longrightarrow>
   inv s' \<and> srv @ pending s' = pending s @ acc"
proof (induction es arbitrary: s acc srv)
  case (Cons e es)
  show ?case
  proof (cases e)
    case (Submit j)
    then show ?thesis
      using Cons submit_law [OF Cons.prems(1), of j]
      by (fastforce split: option.splits prod.splits)
  next
    case (Serve x)
    then show ?thesis
      using Cons serve_law [OF Cons.prems(1), of x]
      by (fastforce split: option.splits prod.splits)
  next
    case Harvest
    then show ?thesis using Cons harvest_law [OF Cons.prems(1)] by fastforce
  qed
qed simp

lemma drained_order:
  "inv s \<Longrightarrow> fifo_run submit serve harvest es s = (acc, srv, s') \<Longrightarrow> serve e s' = None \<Longrightarrow> srv = pending s @ acc"
  using run_fifo [of s es acc srv s'] serve_none [of s' e] by auto

end

lemma drain_slot_keeps:
  assumes "drain_slot cap i (out, lo, sa) = (out', lo', sa')" "i < length (sa_jobs sa)"
  shows "job_key (sa_jobs sa' ! k) = job_key (sa_jobs sa ! k)" "length (sa_jobs sa') = length (sa_jobs sa)"
    "sa_running sa' = sa_running sa" "queue_of sa' = queue_of sa"
  using assms by (auto simp: drain_slot_def Let_def job_key_def split: if_splits)

lemma drain_fold_keeps:
  assumes "list_all (\<lambda>i. i < length (sa_jobs sa)) is" "fold (drain_slot cap) is (out, lo, sa) = (out', lo', sa')"
  shows "job_key (sa_jobs sa' ! k) = job_key (sa_jobs sa ! k) \<and> sa_running sa' = sa_running sa \<and> queue_of sa' = queue_of sa"
  using assms
proof (induction "is" arbitrary: out lo sa)
  case (Cons i "is")
  obtain o1 l1 sa1 where s: "drain_slot cap i (out, lo, sa) = (o1, l1, sa1)" by (cases "drain_slot cap i (out, lo, sa)")
  have i: "i < length (sa_jobs sa)" using Cons.prems by simp
  have "job_key (sa_jobs sa' ! k) = job_key (sa_jobs sa1 ! k) \<and> sa_running sa' = sa_running sa1 \<and> queue_of sa' = queue_of sa1"
    using Cons.prems s drain_slot_keeps(2) [OF s i] by (intro Cons.IH [of sa1 o1 l1]) simp_all
  then show ?case using drain_slot_keeps [OF s i] by simp
qed auto

lemma drain_keeps:
  assumes "sa_inv sa" "opc_store_async_drain sa cap = (out, sa')"
  shows "job_key (sa_jobs sa' ! k) = job_key (sa_jobs sa ! k)" "sa_running sa' = sa_running sa" "queue_of sa' = queue_of sa"
proof -
  obtain o1 l1 sa1 where f: "fold (drain_slot cap) [0..<16] ([], False, sa\<lparr>sa_event := False\<rparr>) = (o1, l1, sa1)"
    by (cases "fold (drain_slot cap) [0..<16] ([], False, sa\<lparr>sa_event := False\<rparr>)")
  have "job_key (sa_jobs sa1 ! k) = job_key (sa_jobs sa ! k) \<and> sa_running sa1 = sa_running sa \<and> queue_of sa1 = queue_of sa"
    using drain_fold_keeps [OF _ f, of k] sa_invD(1) [OF assms(1)] by (simp add: list_all_iff)
  then show "job_key (sa_jobs sa' ! k) = job_key (sa_jobs sa ! k)" "sa_running sa' = sa_running sa" "queue_of sa' = queue_of sa"
    using assms(2) f by (auto simp: opc_store_async_drain_def split: if_splits)
qed

lemma submit_echo_ok:
  assumes inv: "sa_inv sa"
    and run: "opc_store_async_submit_echo sa (Some p) (Some e) (Some d) (length d) m t = (Inr u, sa')"
  obtains r where "r < 16" "jb_state (sa_jobs sa ! r) = JOB_FREE" "r \<notin> set (busy sa)"
    "sa_inv sa'" "sa_running sa' = sa_running sa" "queue_of sa' = queue_of sa @ [r]"
    "job_key (sa_jobs sa' ! r) = (p, e, d, m, t)" "\<And>i. i \<noteq> r \<Longrightarrow> sa_jobs sa' ! i = sa_jobs sa ! i"
proof -
  obtain r sa1 where res: "opc_store_async_reserve sa (Some p) (length d) = (Inr r, sa1)"
    using run by (auto simp: opc_store_async_submit_echo_def split: if_splits prod.splits sum.splits)
  from reserve_cases [OF res] sa_invD(1) [OF inv]
  have r: "r < 16" "jb_state (sa_jobs sa ! r) = JOB_FREE"
    and sa1: "sa1 = set_job r (\<lambda>j. j\<lparr>jb_path := p, jb_echo_path := [], jb_len := length d, jb_state := JOB_RESERVED\<rparr>) sa"
    by auto
  define sa2 where "sa2 = set_job r (\<lambda>j. j\<lparr>jb_echo_path := e\<rparr>) sa1"
  have inv2: "sa_inv sa2" unfolding sa2_def
    using reserve_inv(1) [OF inv res] r(1) by (rule sa_inv_set_job_same) simp
  have sub: "opc_store_async_submit_reserved sa2 (int r) (Some d) (length d) m t = (Inr (), sa')"
    using run res by (auto simp: opc_store_async_submit_echo_def sa2_def split: if_splits prod.splits sum.splits)
  have busy: "busy sa2 = busy sa" "queue_of sa2 = queue_of sa" "sa_running sa2 = sa_running sa"
    by (simp_all add: sa2_def sa1)
  have b: "sa_inv sa'" "busy sa' = busy sa @ [r]"
    using submit_reserved_inv [OF inv2 sub] busy by simp_all
  have run': "sa_running sa' = sa_running sa" using submit_reserved_cases [OF sub] busy by auto
  then have q: "queue_of sa' = queue_of sa @ [r]" using b(2) by (simp add: busy_def split: option.splits)
  have notin: "r \<notin> set (busy sa)" using sa_invD(4) [OF b(1)] b(2) by simp
  have len: "length (sa_jobs sa) = 16" by (rule sa_invD(1) [OF inv])
  have jobs: "job_key (sa_jobs sa' ! r) = (p, e, d, m, t)" "\<And>i. i \<noteq> r \<Longrightarrow> sa_jobs sa' ! i = sa_jobs sa ! i"
    using submit_reserved_cases [OF sub] r(1) len by (auto simp: sa2_def sa1 job_key_def)
  show thesis by (rule that [OF r notin b(1) run' q jobs])
qed

interpretation sa_fifo: job_fifo sa_idle sa_pending sa_submit sa_serve sa_harvest
proof unfold_locales
  fix s j s' assume idle: "sa_idle s" and sub: "sa_submit j s = Some s'"
  obtain p e d m t where j: "j = (p, e, d, m, t)" by (cases j)
  obtain sa where sa: "opc_store_async_submit_echo (fst s) (Some p) (Some e) (Some d) (length d) m t = (Inr (), sa)"
      "s' = (sa, snd s)"
    using sub by (auto simp: sa_submit_def j split: prod.splits sum.splits)
  obtain r where r: "r \<notin> set (busy (fst s))" "sa_inv sa" "sa_running sa = sa_running (fst s)"
      "queue_of sa = queue_of (fst s) @ [r]" "job_key (sa_jobs sa ! r) = (p, e, d, m, t)"
      "\<And>i. i \<noteq> r \<Longrightarrow> sa_jobs sa ! i = sa_jobs (fst s) ! i"
    using submit_echo_ok [OF _ sa(1)] idle by (metis sa_idle_def)
  then have "r \<notin> set (queue_of (fst s))" by (simp add: busy_def)
  then have "map (\<lambda>i. job_key (sa_jobs sa ! i)) (queue_of (fst s)) = map (\<lambda>i. job_key (sa_jobs (fst s) ! i)) (queue_of (fst s))"
    by (intro map_cong) (metis r(6))+
  then have "sa_pending s' = sa_pending s @ [j]" by (simp add: sa_pending_def sa(2) j r(4,5))
  with r idle show "sa_idle s' \<and> sa_pending s' = sa_pending s @ [j]" by (simp add: sa_idle_def sa(2))
next
  fix s j s' env assume idle: "sa_idle s" and srv: "sa_serve env s = Some (j, s')"
  then obtain sa1 where t: "worker_take (fst s) = Some sa1"
    and j: "j = job_key (sa_jobs sa1 ! the (sa_running sa1))" "s' = worker_complete env sa1 (snd s)"
    by (auto simp: sa_serve_def split: option.splits)
  have inv: "sa_inv (fst s)" using idle by (simp add: sa_idle_def)
  obtain ji where ji: "sa_running sa1 = Some ji" "queue_of (fst s) = ji # queue_of sa1" "sa_jobs sa1 = sa_jobs (fst s)"
    by (rule worker_take_queue [OF inv t])
  obtain sa2 fs2 where c: "worker_complete env sa1 (snd s) = (sa2, fs2)" by fastforce
  note w = worker_complete_inv [OF worker_take_inv(1) [OF inv t] c]
  have "ji \<notin> set (queue_of sa1)"
    using sa_invD(4) [OF worker_take_inv(1) [OF inv t]] ji(1) by (simp add: busy_def)
  then have "map (\<lambda>i. job_key (sa_jobs sa2 ! i)) (queue_of sa1) = map (\<lambda>i. job_key (sa_jobs sa1 ! i)) (queue_of sa1)"
    by (intro map_cong) (metis w(7) ji(1) option.inject)+
  then have "sa_pending s = j # sa_pending s'" using ji j c w(2) by (simp add: sa_pending_def)
  then show "sa_idle s' \<and> sa_pending s = j # sa_pending s'" using w j c by (simp add: sa_idle_def)
next
  fix s env assume "sa_idle s" "sa_serve env s = None"
  then show "sa_pending s = []"
    by (auto simp: sa_serve_def sa_idle_def worker_take_def sa_pending_def queue_of_def split: if_splits option.splits)
next
  fix s assume idle: "sa_idle s"
  obtain out sa where d: "opc_store_async_drain (fst s) 16 = (out, sa)" by fastforce
  have inv: "sa_inv (fst s)" using idle by (simp add: sa_idle_def)
  from drain_inv [OF inv d] drain_keeps [OF inv d] idle d
  show "sa_idle (sa_harvest s) \<and> sa_pending (sa_harvest s) = sa_pending s"
    by (simp add: sa_harvest_def sa_idle_def sa_pending_def)
qed

lemma sa_step_inv: "sa_step s s' \<Longrightarrow> sa_inv (fst s) \<Longrightarrow> sa_inv (fst s')"
  by (induction rule: sa_step.induct)
    (auto intro: reserve_inv cancel_inv submit_reserved_inv drain_inv worker_take_inv worker_complete_inv
      sa_inv_set_job_same)

lemma sa_reachable_inv: "sa_reachable s \<Longrightarrow> sa_inv (fst s)"
  by (induction rule: sa_reachable.induct) (auto simp: sa_inv_create intro: sa_step_inv)

text \<open>C25: In every state the writer can reach, a job slot is queued exactly when it is in the ring or being
  written by the worker, and it is there only once, so the ring never overflows its 16 entries.\<close>

theorem store_async_ring_invariant:
  assumes "sa_reachable (sa, fs)"
  shows "distinct (busy sa) \<and> sa_q_count sa \<le> OPC_STORE_ASYNC_QUEUE_DEPTH
    \<and> (\<forall>i. i \<in> set (busy sa) \<longleftrightarrow> i < OPC_STORE_ASYNC_QUEUE_DEPTH \<and> jb_state (sa_jobs sa ! i) = JOB_QUEUED)"
  using sa_invD [of sa] sa_inv_bounds [of sa] sa_reachable_inv [OF assms] by auto

theorem store_async_ring_invariant_witness:
  "distinct (busy (snd (opc_store_async_reserve opc_store_async_fresh (Some [47]) 5)))"
proof -
  obtain res sa' where r: "opc_store_async_reserve opc_store_async_fresh (Some [47]) 5 = (res, sa')" by fastforce
  have "sa_reachable (sa', \<lambda>_. None)"
    by (rule sa_reachable.step [OF sa_reachable.init sa_step.reserve [OF r]])
  from store_async_ring_invariant [OF this] show ?thesis by (simp add: r)
qed




lemma create_first_free: "first_free (sa_jobs opc_store_async_fresh) 0 = Some 0"
  by code_simp


lemma worker_complete_job:
  assumes "sa_inv sa" "sa_running sa = Some ji" "worker_complete env sa fs = (sa', fs')"
  shows "jb_state (sa_jobs sa' ! ji) = JOB_DONE" "job_key (sa_jobs sa' ! ji) = job_key (sa_jobs sa ! ji)"
proof -
  have "ji \<in> set (busy sa)" using assms(2) by (simp add: busy_def)
  then have "ji < length (sa_jobs sa)" unfolding sa_invD(5) [OF assms(1)] using sa_invD(1) [OF assms(1)] by simp
  then show "jb_state (sa_jobs sa' ! ji) = JOB_DONE" "job_key (sa_jobs sa' ! ji) = job_key (sa_jobs sa ! ji)"
    using assms(2,3) by (auto simp: worker_complete_def worker_publish_def job_key_def split: prod.splits)
qed

text \<open>The worker finishes everything that is queued, in as many rounds as there are jobs.\<close>

lemma worker_run_drains:
  "sa_inv sa \<Longrightarrow> sa_running sa = None \<Longrightarrow> sa_q_count sa = n \<Longrightarrow> worker_run n env sa fs = (sa', fs') \<Longrightarrow>
   sa_inv sa' \<and> busy sa' = [] \<and> sa_shutdown sa' = sa_shutdown sa
   \<and> (\<forall>i. i \<notin> set (queue_of sa) \<longrightarrow> sa_jobs sa' ! i = sa_jobs sa ! i)
   \<and> (\<forall>i. i \<in> set (queue_of sa) \<longrightarrow> jb_state (sa_jobs sa' ! i) = JOB_DONE
          \<and> job_key (sa_jobs sa' ! i) = job_key (sa_jobs sa ! i))"
proof (induction n arbitrary: sa fs)
  case 0
  then show ?case by (simp add: queue_of_def busy_def)
next
  case (Suc n)
  obtain sa1 where t: "worker_take sa = Some sa1" using Suc.prems by (simp add: worker_take_def)
  obtain ji where ji: "sa_running sa1 = Some ji" "queue_of sa = ji # queue_of sa1" "sa_jobs sa1 = sa_jobs sa"
      "sa_q_count sa = Suc (sa_q_count sa1)" "sa_shutdown sa1 = sa_shutdown sa"
    by (rule worker_take_queue [OF Suc.prems(1) t])
  have inv1: "sa_inv sa1" by (rule worker_take_inv(1) [OF Suc.prems(1) t])
  obtain sa2 fs2 where c: "worker_complete (env n) sa1 fs = (sa2, fs2)" by fastforce
  note w = worker_complete_inv [OF inv1 c]
  note j = worker_complete_job [OF inv1 ji(1) c]
  have run: "worker_run n env sa2 fs2 = (sa', fs')" using Suc.prems(4) t c by simp
  have ih: "sa_inv sa' \<and> busy sa' = [] \<and> sa_shutdown sa' = sa_shutdown sa2
   \<and> (\<forall>i. i \<notin> set (queue_of sa2) \<longrightarrow> sa_jobs sa' ! i = sa_jobs sa2 ! i)
   \<and> (\<forall>i. i \<in> set (queue_of sa2) \<longrightarrow> jb_state (sa_jobs sa' ! i) = JOB_DONE
          \<and> job_key (sa_jobs sa' ! i) = job_key (sa_jobs sa2 ! i))"
    using Suc.IH [OF w(1) w(3) _ run] w(4) ji(4) Suc.prems(3) by simp
  have ne: "ji \<notin> set (queue_of sa1)" using sa_invD(4) [OF inv1] ji(1) by (simp add: busy_def)
  have old: "sa_jobs sa2 ! i = sa_jobs sa ! i" if "i \<noteq> ji" for i using w(7) [of i] that ji by simp
  show ?case
    using ih j ne old w(2,5) ji(2,3,5) by (metis list.set_intros(1,2) set_ConsD)
qed

text \<open>C26: Shutdown completes all admitted work: after \<open>opc_store_async_finish\<close> nothing is queued or running, every
  job that was is completed with its own path, data and token, and every other slot is as before.\<close>

theorem store_async_finish_completes:
  assumes inv: "sa_inv sa" and nj: "\<not> sa_joined sa" and fin: "opc_store_async_finish env sa fs = (sa', fs')"
  shows "busy sa' = [] \<and> sa_shutdown sa'
    \<and> (\<forall>i. i < 16 \<longrightarrow>
         (if jb_state (sa_jobs sa ! i) = JOB_QUEUED
          then jb_state (sa_jobs sa' ! i) = JOB_DONE \<and> job_key (sa_jobs sa' ! i) = job_key (sa_jobs sa ! i)
          else sa_jobs sa' ! i = sa_jobs sa ! i))"
proof -
  let ?sa = "sa\<lparr>sa_shutdown := True\<rparr>"
  obtain sa1 fs1 where c: "worker_complete (env (sa_q_count ?sa)) ?sa fs = (sa1, fs1)" by fastforce
  obtain sa2 fs2 where r: "worker_run (sa_q_count sa1) env sa1 fs1 = (sa2, fs2)" by fastforce
  have sa': "sa' = sa2\<lparr>sa_joined := True\<rparr>" using fin nj c r by (simp add: opc_store_async_finish_def Let_def)
  have inv': "sa_inv ?sa" using inv by simp
  note w = worker_complete_inv [OF inv' c]
  note d = worker_run_drains [OF w(1) w(3) refl r]
  have q: "queue_of sa1 = queue_of sa" using w(2) by simp
  have job: "if jb_state (sa_jobs sa ! i) = JOB_QUEUED
      then jb_state (sa_jobs sa2 ! i) = JOB_DONE \<and> job_key (sa_jobs sa2 ! i) = job_key (sa_jobs sa ! i)
      else sa_jobs sa2 ! i = sa_jobs sa ! i" if i: "i < 16" for i
  proof (cases "sa_running sa = Some i")
    case True
    then have "jb_state (sa_jobs sa1 ! i) = JOB_DONE \<and> job_key (sa_jobs sa1 ! i) = job_key (sa_jobs sa ! i)"
      using worker_complete_job [OF inv' _ c] by simp
    moreover have "i \<notin> set (queue_of sa1)" "i \<in> set (busy sa)"
      using sa_invD(4) [OF inv] True q by (simp_all add: busy_def)
    moreover from this(2) have "jb_state (sa_jobs sa ! i) = JOB_QUEUED" unfolding sa_invD(5) [OF inv] by simp
    ultimately show ?thesis using d by simp
  next
    case False
    have "i \<in> set (queue_of sa) \<longleftrightarrow> i \<in> set (busy sa)" using False by (auto simp: busy_def split: option.splits)
    also have "\<dots> \<longleftrightarrow> jb_state (sa_jobs sa ! i) = JOB_QUEUED" unfolding sa_invD(5) [OF inv] using i by simp
    finally have "i \<in> set (queue_of sa1) \<longleftrightarrow> jb_state (sa_jobs sa ! i) = JOB_QUEUED" by (simp add: q)
    moreover have "sa_jobs sa1 ! i = sa_jobs sa ! i" using w(7) [of i] False by simp
    ultimately show ?thesis using d by auto
  qed
  show ?thesis using d w(5) job by (simp add: sa')
qed

theorem store_async_finish_completes_witness:
  "case opc_store_async_submit opc_store_async_fresh (Some (bytes_of ''/a'')) (Some [7]) 1 0 4 of
     (res, sa) \<Rightarrow> busy (fst (opc_store_async_finish (\<lambda>_. (sys_ok, sys_ok)) sa (\<lambda>_. None))) = []"
proof -
  obtain res sa where s: "opc_store_async_submit opc_store_async_fresh (Some (bytes_of ''/a'')) (Some [7]) 1 0 4 = (res, sa)"
    by fastforce
  obtain r sa1 where r: "opc_store_async_reserve opc_store_async_fresh (Some (bytes_of ''/a'')) 1 = (Inr r, sa1)"
    using create_first_free by (simp add: opc_store_async_reserve_def bytes_of_def) (simp add: opc_store_async_fresh_def)
  obtain res2 sa2 where u: "opc_store_async_submit_reserved sa1 (int r) (Some [7]) 1 0 4 = (res2, sa2)" by fastforce
  have "sa_inv sa2" by (rule submit_reserved_inv(1) [OF reserve_inv(1) [OF sa_inv_create r] u])
  then have inv: "sa_inv sa"
    using s r u cancel_inv(1) by (auto simp: opc_store_async_submit_def split: sum.splits)
  have "\<not> sa_joined sa1" using reserve_cases [OF r] by (auto simp: opc_store_async_fresh_def)
  then have "\<not> sa_joined sa2" using submit_reserved_cases [OF u] by auto
  then have "\<not> sa_joined sa"
    using s r u by (auto simp: opc_store_async_submit_def opc_store_async_cancel_def split: sum.splits if_splits)
  obtain sa' fs' where "opc_store_async_finish (\<lambda>_. (sys_ok, sys_ok)) sa (\<lambda>_. None) = (sa', fs')" by fastforce
  from store_async_finish_completes [OF inv \<open>\<not> sa_joined sa\<close> this] this s show ?thesis by simp
qed

lemma drain_fold_done:
  assumes "distinct is" "list_all (\<lambda>i. i < length (sa_jobs sa)) is" "length out + length is \<le> cap"
    and "fold (drain_slot cap) is (out, lo, sa) = (out', lo', sa')"
  shows "out' = out @ map (\<lambda>i. job_done (sa_jobs sa ! i)) (filter (\<lambda>i. jb_state (sa_jobs sa ! i) = JOB_DONE) is)
    \<and> lo' = lo
    \<and> (\<forall>i. jb_state (sa_jobs sa' ! i) =
        (if i \<in> set is \<and> jb_state (sa_jobs sa ! i) = JOB_DONE then JOB_FREE else jb_state (sa_jobs sa ! i)))"
  using assms
proof (induction "is" arbitrary: out lo sa)
  case (Cons i "is")
  obtain o1 l1 sa1 where s: "drain_slot cap i (out, lo, sa) = (o1, l1, sa1)" by (cases "drain_slot cap i (out, lo, sa)")
  have i: "i < length (sa_jobs sa)" and ni: "i \<notin> set is" and len: "length out < cap" using Cons.prems by simp_all
  have o1: "length o1 \<le> Suc (length out)" "length (sa_jobs sa1) = length (sa_jobs sa)"
    using s drain_slot_keeps(2) [OF s i] by (auto simp: drain_slot_def Let_def split: if_splits)
  have ih: "out' = o1 @ map (\<lambda>i. job_done (sa_jobs sa1 ! i)) (filter (\<lambda>i. jb_state (sa_jobs sa1 ! i) = JOB_DONE) is)
      \<and> lo' = l1 \<and> (\<forall>i. jb_state (sa_jobs sa' ! i) =
        (if i \<in> set is \<and> jb_state (sa_jobs sa1 ! i) = JOB_DONE then JOB_FREE else jb_state (sa_jobs sa1 ! i)))"
    using Cons.prems s o1 by (intro Cons.IH) simp_all
  show ?case
  proof (cases "jb_state (sa_jobs sa ! i) = JOB_DONE")
    case True
    then have s1: "o1 = out @ [job_done (sa_jobs sa ! i)]" "l1 = lo"
        "sa1 = set_job i (\<lambda>j. j\<lparr>jb_state := JOB_FREE\<rparr>) sa"
      using s len by (simp_all add: drain_slot_def Let_def)
    have nth: "sa_jobs sa1 ! k = sa_jobs sa ! k" if "k \<noteq> i" for k using i that by (simp add: s1)
    have st: "jb_state (sa_jobs sa1 ! i) = JOB_FREE" using i by (simp add: s1)
    have fl: "filter (\<lambda>i. jb_state (sa_jobs sa1 ! i) = JOB_DONE) is = filter (\<lambda>i. jb_state (sa_jobs sa ! i) = JOB_DONE) is"
      by (rule filter_cong) (use ni nth in metis)+
    have mp: "map (\<lambda>i. job_done (sa_jobs sa1 ! i)) ks = map (\<lambda>i. job_done (sa_jobs sa ! i)) ks" if "i \<notin> set ks" for ks
      by (rule map_cong) (use that nth in metis)+
    show ?thesis using ih ni True st nth by (simp add: fl mp s1(1,2)) metis
  next
    case False
    then have "o1 = out" "l1 = lo" "sa1 = sa" using s by (simp_all add: drain_slot_def Let_def)
    with False ih show ?thesis by auto
  qed
qed auto

lemma drain_all:
  assumes inv: "sa_inv sa" and d: "opc_store_async_drain sa OPC_STORE_ASYNC_QUEUE_DEPTH = (out, sa')"
  shows "out = map (\<lambda>i. job_done (sa_jobs sa ! i)) (filter (\<lambda>i. jb_state (sa_jobs sa ! i) = JOB_DONE) [0..<16])
    \<and> \<not> sa_event sa'
    \<and> (\<forall>i. i < 16 \<longrightarrow> jb_state (sa_jobs sa' ! i) =
         (if jb_state (sa_jobs sa ! i) = JOB_DONE then JOB_FREE else jb_state (sa_jobs sa ! i)))"
proof -
  let ?sa = "sa\<lparr>sa_event := False\<rparr>"
  obtain o1 l1 sa1 where f: "fold (drain_slot 16) [0..<16] ([], False, ?sa) = (o1, l1, sa1)"
    by (cases "fold (drain_slot 16) [0..<16] ([], False, ?sa)")
  note r = drain_fold_done [OF distinct_upt _ _ f]
  have l: "list_all (\<lambda>i. i < length (sa_jobs ?sa)) [0..<16]" using sa_invD(1) [OF inv] by (simp add: list_all_iff)
  have ev: "sa_event sa1 = sa_event ?sa"
  proof -
    have "sa_event (snd (snd (drain_slot 16 i acc))) = sa_event (snd (snd acc))" for i acc
      by (cases acc) (auto simp: drain_slot_def Let_def)
    then have "sa_event (snd (snd (fold (drain_slot 16) ks acc))) = sa_event (snd (snd acc))" for ks acc
      by (induction ks arbitrary: acc) simp_all
    from this [of "[0..<16]" "([], False, ?sa)"] f show ?thesis by simp
  qed
  show ?thesis using r [OF l] d f ev by (auto simp: opc_store_async_drain_def)
qed

text \<open>A harvest with room for all slots returns every completed job exactly once, in slot order, with the
  result its write had, frees exactly those slots and leaves no completion behind.\<close>

lemma store_async_drain_all:
  assumes inv: "sa_inv sa" and d: "opc_store_async_drain sa OPC_STORE_ASYNC_QUEUE_DEPTH = (out, sa')"
  shows "out = map (\<lambda>i. job_done (sa_jobs sa ! i)) (filter (\<lambda>i. jb_state (sa_jobs sa ! i) = JOB_DONE) [0..<16])
    \<and> \<not> sa_event sa'
    \<and> (\<forall>i. i < 16 \<longrightarrow> jb_state (sa_jobs sa' ! i) =
         (if jb_state (sa_jobs sa ! i) = JOB_DONE then JOB_FREE else jb_state (sa_jobs sa ! i)))"
  by (rule drain_all [OF assms])

end
