(* ===== verification/Cstdio.thy ===== *)
theory Cstdio
  imports Opc_Prelude
begin

text \<open>
  The parts of the C library's text input that the daemon uses: \<open>strtol\<close>, \<open>strtoul\<close>, the conversions of
  \<open>sscanf\<close>, \<open>strstr\<close>, \<open>fgets\<close>, and the line loop that every reader of \<open>opc.conf\<close> shares. A C string is the bytes
  before its NUL; \<open>long\<close> has 64 bits. Scanning functions return the rest of the text.
\<close>

subsection \<open>Characters and numbers\<close>

definition is_space :: "u8 \<Rightarrow> bool" where
  "is_space c \<longleftrightarrow> c = 32 \<or> (9 \<le> c \<and> c \<le> 13)"

definition is_digit :: "u8 \<Rightarrow> bool" where
  "is_digit c \<longleftrightarrow> 48 \<le> c \<and> c \<le> 57"

definition digits_val :: "u8 list \<Rightarrow> nat" where
  "digits_val d = foldl (\<lambda>v c. v * 10 + (unat c - 48)) 0 d"

definition skip_ws :: "u8 list \<Rightarrow> u8 list" where
  "skip_ws s = dropWhile is_space s"

text \<open>The common part of the decimal conversions: sign, magnitude and the rest; \<open>None\<close> when there is no digit.\<close>

definition scan_decimal :: "u8 list \<Rightarrow> (bool \<times> nat \<times> u8 list) option" where
  "scan_decimal s =
     (let s = skip_ws s;
          neg = (s \<noteq> [] \<and> hd s = 45);
          s = (if s \<noteq> [] \<and> (hd s = 45 \<or> hd s = 43) then tl s else s);
          d = takeWhile is_digit s
      in if d = [] then None else Some (neg, digits_val d, drop (length d) s))"

definition LONG_MAX :: int where "LONG_MAX = 9223372036854775807"
definition ULONG_MAX :: nat where "ULONG_MAX = 18446744073709551615"

text \<open>\<open>strtol(s, &end, 10)\<close> and \<open>strtoul(s, &end, 10)\<close>: \<open>None\<close> is \<open>end == s\<close> with the value 0.\<close>

definition strtol :: "u8 list \<Rightarrow> (int \<times> u8 list) option" where
  "strtol s = map_option (\<lambda>(neg, m, r).
     (if neg then max (- LONG_MAX - 1) (- int m) else min LONG_MAX (int m), r)) (scan_decimal s)"

definition strtoul :: "u8 list \<Rightarrow> (u64 \<times> u8 list) option" where
  "strtoul s = map_option (\<lambda>(neg, m, r).
     (if m > ULONG_MAX then of_nat ULONG_MAX else if neg then - of_nat m else of_nat m, r)) (scan_decimal s)"

subsection \<open>\<open>sscanf\<close> conversions\<close>

text \<open>\<open>%llu\<close> and \<open>%*u\<close> convert like \<open>strtoul\<close>; \<open>%ns\<close> and \<open>%n[set]\<close> take at least one and at most \<open>n\<close> bytes, the
  former after white space.\<close>

definition scan_llu :: "u8 list \<Rightarrow> (u64 \<times> u8 list) option" where
  "scan_llu s = strtoul s"

definition scan_set :: "nat \<Rightarrow> (u8 \<Rightarrow> bool) \<Rightarrow> u8 list \<Rightarrow> (u8 list \<times> u8 list) option" where
  "scan_set n ok s =
     (let w = takeWhile ok (take n s) in if w = [] then None else Some (w, drop (length w) s))"

definition scan_word :: "nat \<Rightarrow> u8 list \<Rightarrow> (u8 list \<times> u8 list) option" where
  "scan_word n s = scan_set n (\<lambda>c. \<not> is_space c) (skip_ws s)"

definition scan_char :: "u8 \<Rightarrow> u8 list \<Rightarrow> u8 list option" where
  "scan_char c s = (if s \<noteq> [] \<and> hd s = c then Some (tl s) else None)"

text \<open>Up to \<open>n\<close> numbers, as \<open>"%llu %llu ..."\<close> reads them.\<close>

fun scan_llus :: "nat \<Rightarrow> u8 list \<Rightarrow> u64 list" where
  "scan_llus 0 s = []"
| "scan_llus (Suc n) s = (case scan_llu s of None \<Rightarrow> [] | Some (v, r) \<Rightarrow> v # scan_llus n r)"

text \<open>\<open>n\<close> skipped numbers.\<close>

fun skip_us :: "nat \<Rightarrow> u8 list \<Rightarrow> u8 list option" where
  "skip_us 0 s = Some s"
| "skip_us (Suc n) s = (case scan_llu s of None \<Rightarrow> None | Some (_, r) \<Rightarrow> skip_us n r)"

text \<open>\<open>isxdigit\<close>, the value of a digit in any base up to 36, and the width-limited conversions: at most \<open>w\<close> bytes after
  white space, with sign; \<open>%x\<close> takes a prefix \<open>0x\<close>. The results are sign, magnitude and rest.\<close>

definition is_xdigit :: "u8 \<Rightarrow> bool" where
  "is_xdigit c \<longleftrightarrow> is_digit c \<or> (97 \<le> c \<and> c \<le> 102) \<or> (65 \<le> c \<and> c \<le> 70)"

definition digit_value :: "u8 \<Rightarrow> nat" where
  "digit_value c =
     (if is_digit c then unat c - 48
      else if 97 \<le> c \<and> c \<le> 122 then unat c - 87
      else if 65 \<le> c \<and> c \<le> 90 then unat c - 55
      else 36)"

definition radix_val :: "nat \<Rightarrow> u8 list \<Rightarrow> nat" where
  "radix_val base d = foldl (\<lambda>v c. v * base + digit_value c) 0 d"

definition hex_prefix :: "u8 list \<Rightarrow> bool" where
  "hex_prefix s \<longleftrightarrow> length s \<ge> 2 \<and> s ! 0 = 48 \<and> (s ! 1 = 120 \<or> s ! 1 = 88)"

definition scan_num :: "nat \<Rightarrow> nat \<Rightarrow> u8 list \<Rightarrow> (bool \<times> nat \<times> u8 list) option" where
  "scan_num base w s =
     (let t = skip_ws s; u = take w t;
          neg = (u \<noteq> [] \<and> hd u = 45);
          v = (if u \<noteq> [] \<and> (hd u = 45 \<or> hd u = 43) then tl u else u);
          v = (if base = 16 \<and> hex_prefix v then drop 2 v else v);
          d = takeWhile (\<lambda>c. digit_value c < base) v
      in if d = [] then None else Some (neg, radix_val base d, drop (length u - length v + length d) t))"

text \<open>\<open>strtoul\<close> and \<open>strtoull\<close> with a base of 0, 10 or 16: the value, whether it overflowed (\<open>ERANGE\<close>) and the rest.
  A prefix \<open>0x\<close> counts only before a hexadecimal digit.\<close>

definition strtoul_base :: "nat \<Rightarrow> u8 list \<Rightarrow> (u64 \<times> bool \<times> u8 list) option" where
  "strtoul_base base s =
     (let t = skip_ws s;
          neg = (t \<noteq> [] \<and> hd t = 45);
          v = (if t \<noteq> [] \<and> (hd t = 45 \<or> hd t = 43) then tl t else t);
          hex = (hex_prefix v \<and> length v > 2 \<and> is_xdigit (v ! 2) \<and> (base = 0 \<or> base = 16));
          b = (if base \<noteq> 0 then base else if hex then 16 else if v \<noteq> [] \<and> hd v = 48 then 8 else 10);
          v = (if hex then drop 2 v else v);
          d = takeWhile (\<lambda>c. digit_value c < b) v;
          m = radix_val b d
      in if d = [] then None
         else Some (if m > ULONG_MAX then of_nat ULONG_MAX else if neg then - of_nat m else of_nat m,
                    m > ULONG_MAX, drop (length d) v))"

text \<open>The text after the first newline; \<open>None\<close> when \<open>strchr\<close> finds none.\<close>

definition after_newline :: "u8 list \<Rightarrow> u8 list option" where
  "after_newline s = (if 10 \<in> set s then Some (tl (dropWhile (\<lambda>c. c \<noteq> 10) s)) else None)"

text \<open>\<open>strstr\<close>: the text from the first occurrence on.\<close>

fun strstr :: "u8 list \<Rightarrow> u8 list \<Rightarrow> u8 list option" where
  "strstr needle [] = (if needle = [] then Some [] else None)"
| "strstr needle (c # s) =
     (if take (length needle) (c # s) = needle then Some (c # s) else strstr needle s)"

subsection \<open>Reading a configuration file\<close>

text \<open>One \<open>fgets(line, cap, f)\<close> on the unread bytes: the bytes stored (none at the end of the file).\<close>

definition fgets :: "nat \<Rightarrow> u8 list \<Rightarrow> u8 list" where
  "fgets cap s =
     (let l = takeWhile (\<lambda>c. c \<noteq> 10) (take (cap - 1) s)
      in if length l < length (take (cap - 1) s) then l @ [10] else l)"

text \<open>\<open>feof\<close> after it: the read met the end of the file.\<close>

definition fgets_eof :: "nat \<Rightarrow> u8 list \<Rightarrow> bool" where
  "fgets_eof cap s \<longleftrightarrow> 10 \<notin> set (take (cap - 1) s) \<and> length s < cap - 1"

text \<open>The lines of the loops \<open>while (fgets(line, sizeof line, f))\<close> with a 160-byte buffer, as C strings: without
  a guard (\<open>fault_probe.c\<close>), and with the guard that drops a line longer than the buffer whole.\<close>

function plain_lines :: "u8 list \<Rightarrow> u8 list list" where
  "plain_lines s = (if s = [] then [] else cstr (fgets 160 s) # plain_lines (drop (length (fgets 160 s)) s))"
  by pat_completeness auto
termination
  by (relation "measure length") (auto simp: fgets_def Let_def neq_Nil_conv)

function conf_lines :: "u8 list \<Rightarrow> u8 list list" where
  "conf_lines s =
     (if s = [] then []
      else let line = fgets 160 s; r = drop (length line) s in
        if 10 \<notin> set (cstr line) \<and> \<not> fgets_eof 160 s
        then conf_lines (drop 1 (dropWhile (\<lambda>c. c \<noteq> 10) r))
        else cstr line # conf_lines r)"
  by pat_completeness auto
termination
proof (relation "measure length")
  fix s line r :: "u8 list"
  assume a: "s \<noteq> []" "line = fgets 160 s" "r = drop (length line) s"
  then have l: "length r < length s" by (auto simp: fgets_def Let_def neq_Nil_conv)
  then show "(r, s) \<in> measure length" by simp
  show "(drop 1 (dropWhile (\<lambda>c. c \<noteq> 10) r), s) \<in> measure length"
    using l length_dropWhile_le [of "\<lambda>c. c \<noteq> 10" r] by simp
qed simp

text \<open>\<open>sscanf(line, " %47[A-Za-z0-9_] = %63s", key, val) == 2\<close>.\<close>

definition is_key_char :: "u8 \<Rightarrow> bool" where
  "is_key_char c \<longleftrightarrow> (65 \<le> c \<and> c \<le> 90) \<or> (97 \<le> c \<and> c \<le> 122) \<or> is_digit c \<or> c = 95"

definition scan_assignment :: "u8 list \<Rightarrow> (u8 list \<times> u8 list) option" where
  "scan_assignment line =
     Option.bind (scan_set 47 is_key_char (skip_ws line)) (\<lambda>(key, r).
     Option.bind (scan_char 61 (skip_ws r)) (\<lambda>r.
     Option.bind (scan_word 63 r) (\<lambda>(val, r). Some (key, val))))"

text \<open>The \<open>key = value\<close> pairs of a file, in order.\<close>

definition conf_pairs :: "u8 list \<Rightarrow> (u8 list \<times> u8 list) list" where
  "conf_pairs s = List.map_filter scan_assignment (conf_lines s)"

declare plain_lines.simps [simp del] conf_lines.simps [simp del]

end
