(* ===== verification/Iplist_Text.thy ===== *)
theory Iplist_Text
  imports Store Commands Cstdio
begin

text \<open>
  The IP list as the customer's text file (\<open>opcd/iplist_text.h\<close>, \<open>opcd/iplist_text.c\<close>), with the list struct
  \<open>opcd_ip_list_t\<close> of \<open>opcd/opcd_state.h\<close>. Text is a list of bytes; \<open>[s, end)\<close> pointer pairs are the list between
  them. The diagnostic string \<open>why\<close> is left out, the line number of the first error is kept.
\<close>

record opcd_ip_list_t =
  il_slots :: "opc_ipcfg_entry_t list"
  il_present :: "bool list"

record opc_iplist_text_t =
  it_entry :: "opc_ipcfg_entry_t list"
  it_keys :: "u8 list"
  it_bad :: "bool list"
  it_first_error_line :: nat
  it_final_newline :: bool

definition OPC_IPLIST_TEXT_MAX :: nat where [simp]: "OPC_IPLIST_TEXT_MAX = 24576"
definition OPC_IPLIST_IMPORT_MAX :: nat where [simp]: "OPC_IPLIST_IMPORT_MAX = 65536"
definition OPC_IPLIST_KEY_IP :: u8 where [simp]: "OPC_IPLIST_KEY_IP = 0x01"
definition OPC_IPLIST_KEY_MASK :: u8 where [simp]: "OPC_IPLIST_KEY_MASK = 0x02"
definition OPC_IPLIST_KEY_GW :: u8 where [simp]: "OPC_IPLIST_KEY_GW = 0x04"
definition OPC_IPLIST_KEY_ESSID :: u8 where [simp]: "OPC_IPLIST_KEY_ESSID = 0x08"
definition OPC_IPLIST_KEY_NTP :: u8 where [simp]: "OPC_IPLIST_KEY_NTP = 0x10"
definition OPC_IPLIST_KEY_ALL :: u8 where [simp]: "OPC_IPLIST_KEY_ALL = 0x1F"

definition iplist_keys :: "(u8 list \<times> u8) list" where
  "iplist_keys = [(bytes_of ''IPAddress'', OPC_IPLIST_KEY_IP), (bytes_of ''IPSubnetMask'', OPC_IPLIST_KEY_MASK),
     (bytes_of ''IPDefaultGateway'', OPC_IPLIST_KEY_GW), (bytes_of ''WL54EssId'', OPC_IPLIST_KEY_ESSID),
     (bytes_of ''NTPServer'', OPC_IPLIST_KEY_NTP)]"

subsection \<open>Formatting\<close>

text \<open>\<open>buf\<close> is the text written so far (its length is \<open>*at\<close>); \<open>val\<close> is the value as its format string prints it.\<close>

definition put_kv :: "nat \<Rightarrow> u8 list \<Rightarrow> nat \<Rightarrow> u8 list \<Rightarrow> u8 list \<Rightarrow> u8 list option" where
  "put_kv cap key n val buf =
     (let w = key @ dec n @ bytes_of ''='' in
      if length w \<ge> cap - length buf then None
      else let buf = buf @ w in
        if length val \<ge> cap - length buf then None else Some (buf @ val))"

definition ipv4_str :: "u32 \<Rightarrow> u8 list" where
  "ipv4_str ip =
     dec (unat (drop_bit 24 ip)) @ bytes_of ''.'' @ dec (unat (drop_bit 16 ip AND 0xFF)) @ bytes_of ''.''
     @ dec (unat (drop_bit 8 ip AND 0xFF)) @ bytes_of ''.'' @ dec (unat (ip AND 0xFF))"

definition format_slot :: "nat \<Rightarrow> opcd_ip_list_t \<Rightarrow> nat \<Rightarrow> u8 list option \<Rightarrow> u8 list option" where
  "format_slot cap l i acc =
     (case acc of
        None \<Rightarrow> None
      | Some buf \<Rightarrow>
          if \<not> il_present l ! i then Some buf
          else let e = il_slots l ! i;
                   s = (take OPC_ESSID_FIELD_LEN (essid e))[OPC_ESSID_FIELD_LEN - 1 := 0]
            in Option.bind (put_kv cap (bytes_of ''IPAddress'') (i + 1) (ipv4_str (ip_address e) @ [10]) buf) (\<lambda>buf.
               Option.bind (put_kv cap (bytes_of ''IPSubnetMask'') (i + 1) (ipv4_str (subnet_mask e) @ [10]) buf) (\<lambda>buf.
               Option.bind (put_kv cap (bytes_of ''IPDefaultGateway'') (i + 1) (ipv4_str (default_gateway e) @ [10]) buf) (\<lambda>buf.
               Option.bind (put_kv cap (bytes_of ''WL54EssId'') (i + 1) ([34] @ cstr s @ [34, 10]) buf) (\<lambda>buf.
               put_kv cap (bytes_of ''NTPServer'') (i + 1) (ipv4_str (ntp_server e) @ [10]) buf)))))"

definition opc_iplist_text_format :: "opcd_ip_list_t \<Rightarrow> nat \<Rightarrow> u8 list option" where
  "opc_iplist_text_format l cap =
     (if cap = 0 then None else fold (format_slot cap l) [0..<OPC_IPCFG_LIST_MAX_SLOTS] (Some []))"

subsection \<open>Parsing\<close>

text \<open>The digit loops: at most \<open>mx\<close> digits and the rest of the text. Their number is \<^const>\<open>digits_val\<close>.\<close>

definition take_digits :: "nat \<Rightarrow> u8 list \<Rightarrow> u8 list \<times> u8 list" where
  "take_digits mx s = (let d = takeWhile is_digit (take mx s) in (d, drop (length d) s))"

fun parse_parts :: "nat \<Rightarrow> bool \<Rightarrow> u32 \<Rightarrow> u8 list \<Rightarrow> (u32 \<times> u8 list) option" where
  "parse_parts 0 first ip s = Some (ip, s)"
| "parse_parts (Suc n) first ip s =
     (if \<not> first \<and> (s = [] \<or> hd s \<noteq> 46) then None
      else let s = (if first then s else tl s) in
        case take_digits 3 s of
          (d, r) \<Rightarrow>
            let nd = length d; v = digits_val d in
            if nd = 0 \<or> v > 255 \<or> (nd > 1 \<and> hd d = 48) then None
            else if r \<noteq> [] \<and> is_digit (hd r) then None
            else parse_parts n False (push_bit 8 ip OR of_nat v) r)"

definition parse_ipv4 :: "u8 list \<Rightarrow> u32 option" where
  "parse_ipv4 s = (case parse_parts 4 True 0 s of Some (ip, []) \<Rightarrow> Some ip | _ \<Rightarrow> None)"

definition note_line :: "nat \<Rightarrow> opc_iplist_text_t \<Rightarrow> opc_iplist_text_t" where
  "note_line line out = (if it_first_error_line out \<noteq> 0 then out else out\<lparr>it_first_error_line := line\<rparr>)"

definition key_match :: "u8 list \<Rightarrow> u8 list \<Rightarrow> bool" where
  "key_match s name \<longleftrightarrow> length s > length name \<and> take (length name) s = name \<and> is_digit (s ! length name)"

definition essid_value :: "u8 list \<Rightarrow> u8 list option" where
  "essid_value p =
     (let vlen = length p in
      if vlen \<ge> 2 \<and> hd p = 34 \<and> last p = 34 \<and> vlen - 2 < OPC_ESSID_FIELD_LEN \<and> 34 \<notin> set (slice 1 (vlen - 2) p)
      then Some (slice 1 (vlen - 2) p) else None)"

definition parse_line :: "u8 list \<Rightarrow> nat \<Rightarrow> opc_iplist_text_t \<Rightarrow> opc_iplist_text_t" where
  "parse_line s line out =
     (if 0 \<in> set s then note_line line out
      else case find (\<lambda>k. key_match s (fst k)) iplist_keys of
             None \<Rightarrow> note_line line out
           | Some (name, b) \<Rightarrow>
               (case take_digits 4 (drop (length name) s) of
                  (d, p) \<Rightarrow>
                    let n = digits_val d in
                    if p = [] \<or> hd p \<noteq> 61 \<or> hd (drop (length name) s) = 48 \<or> n < 1 \<or> n > OPC_IPCFG_LIST_MAX_SLOTS
                    then note_line line out
                    else let p = tl p; i = n - 1; e = it_entry out ! i in
                      if it_keys out ! i AND b \<noteq> 0
                      then note_line line (out\<lparr>it_bad := (it_bad out)[i := True]\<rparr>)
                      else
                        let res =
                          (if b = OPC_IPLIST_KEY_ESSID then
                             map_option (\<lambda>v. e\<lparr>essid := put 0 v (replicate OPC_ESSID_FIELD_LEN 0)\<rparr>) (essid_value p)
                           else map_option (\<lambda>v.
                             if b = OPC_IPLIST_KEY_IP then e\<lparr>ip_address := v\<rparr>
                             else if b = OPC_IPLIST_KEY_MASK then e\<lparr>subnet_mask := v\<rparr>
                             else if b = OPC_IPLIST_KEY_GW then e\<lparr>default_gateway := v\<rparr>
                             else e\<lparr>ntp_server := v\<rparr>) (parse_ipv4 p))
                        in case res of
                             None \<Rightarrow> note_line line (out\<lparr>it_bad := (it_bad out)[i := True]\<rparr>)
                           | Some e' \<Rightarrow>
                               out\<lparr>it_entry := (it_entry out)[i := e'\<lparr>list_number := of_nat n\<rparr>],
                                   it_keys := (it_keys out)[i := it_keys out ! i OR b]\<rparr>))"

function parse_lines :: "nat \<Rightarrow> u8 list \<Rightarrow> opc_iplist_text_t \<Rightarrow> opc_iplist_text_t" where
  "parse_lines line p out =
     (if p = [] then out
      else let l = takeWhile (\<lambda>c. c \<noteq> 10) p;
               rest = drop (length l + 1) p;
               l = (if l \<noteq> [] \<and> last l = 13 then butlast l else l);
               out = (if l \<noteq> [] then parse_line l line out else out)
        in parse_lines (line + 1) rest out)"
  by pat_completeness auto
termination
  by (relation "measure (\<lambda>(line, p, out). length p)") auto

definition zero_iplist_text :: opc_iplist_text_t where
  "zero_iplist_text = \<lparr>it_entry = replicate OPC_IPCFG_LIST_MAX_SLOTS zero_ipcfg_entry,
     it_keys = replicate OPC_IPCFG_LIST_MAX_SLOTS 0, it_bad = replicate OPC_IPCFG_LIST_MAX_SLOTS False,
     it_first_error_line = 0, it_final_newline = False\<rparr>"

definition opc_iplist_text_parse :: "u8 list \<Rightarrow> opc_iplist_text_t" where
  "opc_iplist_text_parse buf =
     parse_lines 1 buf (zero_iplist_text\<lparr>it_final_newline := (buf = [] \<or> last buf = 10)\<rparr>)"

definition kv_line :: "u8 list \<Rightarrow> nat \<Rightarrow> u8 list \<Rightarrow> u8 list" where
  "kv_line key n val = key @ dec n @ 61 # val"

text \<open>The five lines of slot \<open>i\<close>.\<close>

definition slot_lines :: "opcd_ip_list_t \<Rightarrow> nat \<Rightarrow> u8 list list" where
  "slot_lines l i =
     (let e = il_slots l ! i; s = (take OPC_ESSID_FIELD_LEN (essid e))[OPC_ESSID_FIELD_LEN - 1 := 0]
      in [kv_line (bytes_of ''IPAddress'') (i + 1) (ipv4_str (ip_address e)),
          kv_line (bytes_of ''IPSubnetMask'') (i + 1) (ipv4_str (subnet_mask e)),
          kv_line (bytes_of ''IPDefaultGateway'') (i + 1) (ipv4_str (default_gateway e)),
          kv_line (bytes_of ''WL54EssId'') (i + 1) ([34] @ cstr s @ [34]),
          kv_line (bytes_of ''NTPServer'') (i + 1) (ipv4_str (ntp_server e))])"

definition list_lines :: "opcd_ip_list_t \<Rightarrow> nat list \<Rightarrow> u8 list list" where
  "list_lines l is = concat (map (\<lambda>i. if il_present l ! i then slot_lines l i else []) is)"

definition text_of :: "u8 list list \<Rightarrow> u8 list" where
  "text_of ls = concat (map (\<lambda>l. l @ [10]) ls)"

definition essid_chars :: "opc_ipcfg_entry_t \<Rightarrow> u8 list" where
  "essid_chars e = cstr ((take OPC_ESSID_FIELD_LEN (essid e))[OPC_ESSID_FIELD_LEN - 1 := 0])"

text \<open>What the text keeps of a slot: its number becomes the slot's own and the boundary flag is dropped.\<close>

definition slot_read_back :: "nat \<Rightarrow> opc_ipcfg_entry_t \<Rightarrow> opc_ipcfg_entry_t" where
  "slot_read_back i e = \<lparr>boundary_flag = 0, list_number = of_nat (i + 1), ip_address = ip_address e,
     subnet_mask = subnet_mask e, default_gateway = default_gateway e, ntp_server = ntp_server e,
     essid = put 0 (essid_chars e) (replicate OPC_ESSID_FIELD_LEN 0)\<rparr>"

definition slot_text_ok :: "opc_ipcfg_entry_t \<Rightarrow> bool" where
  "slot_text_ok e \<longleftrightarrow> length (essid e) = 32 \<and> 34 \<notin> set (essid_chars e) \<and> 10 \<notin> set (essid_chars e)"

text \<open>The parse result that a formatted list should give.\<close>

definition text_image :: "opcd_ip_list_t \<Rightarrow> nat list \<Rightarrow> opc_iplist_text_t \<Rightarrow> opc_iplist_text_t" where
  "text_image l is out = fold (\<lambda>i out. if il_present l ! i
     then out\<lparr>it_entry := (it_entry out)[i := slot_read_back i (il_slots l ! i)], it_keys := (it_keys out)[i := 0x1F]\<rparr>
     else out) is out"

definition iplist_text_ok :: "opcd_ip_list_t \<Rightarrow> bool" where
  "iplist_text_ok l \<longleftrightarrow> length (il_slots l) = 128 \<and> length (il_present l) = 128
     \<and> (\<forall>i. i < 128 \<and> il_present l ! i \<longrightarrow> slot_text_ok (il_slots l ! i))"

text \<open>A list with one slot, for the example.\<close>

definition one_slot_list :: opcd_ip_list_t where
  "one_slot_list = \<lparr>il_slots = replicate 128 (zero_ipcfg_entry\<lparr>ip_address := 0xC0A8000A,
     essid := 65 # 66 # 0 # replicate 29 0\<rparr>), il_present = True # replicate 127 False\<rparr>"

declare parse_lines.simps [simp del]

subsection \<open>Decimal numbers\<close>

lemma unat_digit: "d < 10 \<Longrightarrow> unat (of_nat (48 + d) :: u8) = 48 + d"
  by (intro unat_of_nat_lt) simp

lemma is_digit_of_nat: "d < 10 \<Longrightarrow> is_digit (of_nat (48 + d))"
  unfolding is_digit_def word_le_nat_alt by (simp only: unat_digit) simp

lemma digits_val_snoc: "digits_val (a @ [c]) = digits_val a * 10 + (unat c - 48)"
  by (simp add: digits_val_def)

lemma dec_digits: "list_all is_digit (dec n)"
proof (induction n rule: dec.induct)
  case (1 n)
  then show ?case using is_digit_of_nat [of n] is_digit_of_nat [of "n mod 10"]
    by (subst dec.simps) (auto simp del: of_nat_add)
qed

lemma digits_val_dec: "digits_val (dec n) = n"
proof (induction n rule: dec.induct)
  case (1 n)
  show ?case
  proof (cases "n < 10")
    case True
    then show ?thesis using unat_digit [of n] by (subst dec.simps) (simp add: digits_val_def del: of_nat_add)
  next
    case False
    then have "dec n = dec (n div 10) @ [of_nat (48 + n mod 10)]" by (subst dec.simps) simp
    then show ?thesis
      using 1 False unat_digit [of "n mod 10"] by (simp add: digits_val_snoc del: of_nat_add)
  qed
qed

lemma hd_dec: "hd (dec n) = 48 \<longleftrightarrow> n = 0"
proof (induction n rule: dec.induct)
  case (1 n)
  show ?case
  proof (cases "n < 10")
    case True
    have "of_nat (48 + n) = (48 :: u8) \<longleftrightarrow> n = 0"
      using unat_digit [OF True] by (metis add_cancel_right_right of_nat_numeral unat_digit zero_less_numeral)
    then show ?thesis using True by (subst dec.simps) (simp del: of_nat_add)
  next
    case False
    then have "dec n = dec (n div 10) @ [of_nat (48 + n mod 10)]" by (subst dec.simps) simp
    then show ?thesis using 1 False dec_not_empty [of "n div 10"] by (simp add: div_eq_0_iff)
  qed
qed

lemma length_dec_le: "n < 10 ^ Suc k \<Longrightarrow> length (dec n) \<le> Suc k"
proof (induction k arbitrary: n)
  case 0
  then show ?case by (subst dec.simps) simp
next
  case (Suc k)
  show ?case
  proof (cases "n < 10")
    case True
    then show ?thesis by (subst dec.simps) simp
  next
    case False
    then have "dec n = dec (n div 10) @ [of_nat (48 + n mod 10)]" by (subst dec.simps) simp
    moreover have "n div 10 < 10 ^ Suc k" using Suc.prems by (simp add: less_mult_imp_div_less)
    ultimately show ?thesis using Suc.IH by fastforce
  qed
qed

lemma take_digits_dec:
  assumes "length (dec n) \<le> mx" "r = [] \<or> \<not> is_digit (hd r)"
  shows "take_digits mx (dec n @ r) = (dec n, r)"
proof -
  have "takeWhile is_digit (take mx (dec n @ r)) = dec n @ takeWhile is_digit (take (mx - length (dec n)) r)"
    using assms(1) dec_digits [of n] by (simp add: takeWhile_append2 list_all_iff)
  also have "takeWhile is_digit (take (mx - length (dec n)) r) = []"
    using assms(2) by (cases r; cases "mx - length (dec n)") auto
  finally show ?thesis by (simp add: take_digits_def)
qed

subsection \<open>Addresses\<close>

lemma parse_octet:
  assumes "v \<le> 255" "r = [] \<or> \<not> is_digit (hd r)"
  shows "parse_parts (Suc n) True ip (dec v @ r) = parse_parts n False (push_bit 8 ip OR of_nat v) r"
    and "parse_parts (Suc n) False ip (46 # dec v @ r) = parse_parts n False (push_bit 8 ip OR of_nat v) r"
proof -
  have l: "length (dec v) \<le> 3" using length_dec_le [of v 2] assms(1) by simp
  have ok: "\<not> (length (dec v) = 0 \<or> v > 255 \<or> (length (dec v) > 1 \<and> hd (dec v) = 48))"
    using assms(1) dec_not_empty [of v] hd_dec [of v] by (auto simp: dec.simps [of 0])
  show "parse_parts (Suc n) True ip (dec v @ r) = parse_parts n False (push_bit 8 ip OR of_nat v) r"
    "parse_parts (Suc n) False ip (46 # dec v @ r) = parse_parts n False (push_bit 8 ip OR of_nat v) r"
    using take_digits_dec [OF l assms(2)] ok assms(2) by (auto simp: digits_val_dec)
qed

lemma not_digit [simp]: "\<not> is_digit 46" "\<not> is_digit 10" "\<not> is_digit 61" "\<not> is_digit 34"
  by (simp_all add: is_digit_def)

lemma ipv4_assemble:
  "push_bit 8 (push_bit 8 (push_bit 8 (push_bit 8 0 OR drop_bit 24 ip) OR (drop_bit 16 ip AND 0xFF))
     OR (drop_bit 8 ip AND 0xFF)) OR (ip AND 0xFF) = (ip :: u32)"
proof (rule bit_word_eqI)
  fix n assume n: "n < LENGTH(32)"
  have m: "(0xFF :: u32) = mask 8" by (simp add: mask_eq_exp_minus_1)
  consider "n < 8" | "8 \<le> n" "n < 16" | "16 \<le> n" "n < 24" | "24 \<le> n" by linarith
  then show "bit (push_bit 8 (push_bit 8 (push_bit 8 (push_bit 8 0 OR drop_bit 24 ip) OR (drop_bit 16 ip AND 0xFF))
     OR (drop_bit 8 ip AND 0xFF)) OR (ip AND 0xFF)) n = bit ip n"
    using n unfolding m by cases (auto simp: bit_simps)
qed

lemma parse_ipv4_str: "parse_ipv4 (ipv4_str ip) = Some ip"
proof -
  have a: "unat (x AND 0xFF) \<le> 255" for x :: u32
    using word_and_le1 [of x "0xFF"] by (simp add: word_le_nat_alt)
  have b: "unat (drop_bit 24 ip) \<le> 255"
  proof -
    have "unat ip < 2 ^ LENGTH(32)" by (rule unsigned_less)
    moreover have "unat (drop_bit 24 ip) = unat ip div 2 ^ 24" by (metis drop_bit_eq_div unat_drop_bit_eq)
    ultimately show ?thesis by simp
  qed
  have on: "of_nat (unat x) = x" for x :: u32 by simp
  have nd: "46 # r = [] \<or> \<not> is_digit (hd (46 # r))" for r by simp
  have fin: "parse_parts (Suc 0) False i (46 # dec v) = Some (push_bit 8 i OR of_nat v, [])" if "v \<le> 255" for i v
    using parse_octet(2) [OF that, of "[]" 0 i] by (simp del: parse_parts.simps(2))
  have "ipv4_str ip = dec (unat (drop_bit 24 ip)) @ 46 # dec (unat (drop_bit 16 ip AND 0xFF)) @ 46 #
      dec (unat (drop_bit 8 ip AND 0xFF)) @ 46 # dec (unat (ip AND 0xFF))"
    by (simp add: ipv4_str_def bytes_of_def)
  then have "parse_parts (Suc (Suc (Suc (Suc 0)))) True 0 (ipv4_str ip) = Some (ip, [])"
    by (simp only: parse_octet [OF a nd] parse_octet [OF b nd] fin [OF a] on ipv4_assemble)
  then show ?thesis by (simp add: parse_ipv4_def numeral_eq_Suc)
qed

lemma put_kv_Some: "put_kv cap key n val buf = Some buf' \<Longrightarrow> buf' = buf @ key @ dec n @ 61 # val"
  by (auto simp: put_kv_def Let_def bytes_of_def split: if_splits)

lemma put_kv_fits:
  "length buf + length key + length (dec n) + 1 + length val < cap \<Longrightarrow>
   put_kv cap key n val buf = Some (buf @ key @ dec n @ 61 # val)"
  by (simp add: put_kv_def Let_def bytes_of_def) linarith

lemma format_slot_Some:
  "format_slot cap l i (Some buf) = Some buf' \<Longrightarrow> buf' = buf @ text_of (list_lines l [i])"
  by (auto simp: format_slot_def Let_def list_lines_def slot_lines_def text_of_def kv_line_def
      split: if_splits bind_splits dest!: put_kv_Some)

lemma format_fold_None: "fold (format_slot cap l) is None = None"
  by (induction "is") (simp_all add: format_slot_def)

lemma format_fold_Some:
  "fold (format_slot cap l) is (Some buf) = Some buf' \<Longrightarrow> buf' = buf @ text_of (list_lines l is)"
proof (induction "is" arbitrary: buf)
  case Nil
  then show ?case by (simp add: list_lines_def text_of_def)
next
  case (Cons i "is")
  then obtain b where b: "format_slot cap l i (Some buf) = Some b"
    by (cases "format_slot cap l i (Some buf)") (auto simp: format_fold_None)
  have "buf' = b @ text_of (list_lines l is)" using Cons.prems b by (intro Cons.IH) simp
  then show ?case using format_slot_Some [OF b] by (simp add: list_lines_def text_of_def)
qed

subsection \<open>Lines\<close>

lemma parse_lines_Nil [simp]: "parse_lines line [] out = out"
  by (simp add: parse_lines.simps)

lemma parse_lines_line:
  assumes "10 \<notin> set l" "l \<noteq> []" "last l \<noteq> 13"
  shows "parse_lines line (l @ 10 # rest) out = parse_lines (line + 1) rest (parse_line l line out)"
proof -
  have "takeWhile (\<lambda>c. c \<noteq> 10) (l @ 10 # rest) = l" using assms(1) by (subst takeWhile_append2) auto
  then show ?thesis using assms(2,3) by (subst parse_lines.simps) simp
qed

lemma find_key:
  assumes "(name, b) \<in> set iplist_keys"
  shows "find (\<lambda>k. key_match (name @ dec n @ r) (fst k)) iplist_keys = Some (name, b)"
proof -
  obtain x xs where x: "dec n = x # xs" "is_digit x"
    using dec_digits [of n] dec_not_empty [of n] by (cases "dec n") simp_all
  consider "name = bytes_of ''IPAddress''" "b = 1" | "name = bytes_of ''IPSubnetMask''" "b = 2"
    | "name = bytes_of ''IPDefaultGateway''" "b = 4" | "name = bytes_of ''WL54EssId''" "b = 8"
    | "name = bytes_of ''NTPServer''" "b = 16"
    using assms by (auto simp: iplist_keys_def)
  then show ?thesis
    by cases (simp_all add: iplist_keys_def key_match_def bytes_of_def x)
qed

lemma parse_line_kv:
  assumes key: "(name, b) \<in> set iplist_keys" and n: "1 \<le> n" "n \<le> 128" and z: "0 \<notin> set name" "0 \<notin> set val"
    and fresh: "it_keys out ! (n - 1) AND b = 0"
    and res: "(if b = OPC_IPLIST_KEY_ESSID then
                 map_option (\<lambda>v. (it_entry out ! (n - 1))\<lparr>essid := put 0 v (replicate OPC_ESSID_FIELD_LEN 0)\<rparr>) (essid_value val)
               else map_option (\<lambda>v.
                 if b = OPC_IPLIST_KEY_IP then (it_entry out ! (n - 1))\<lparr>ip_address := v\<rparr>
                 else if b = OPC_IPLIST_KEY_MASK then (it_entry out ! (n - 1))\<lparr>subnet_mask := v\<rparr>
                 else if b = OPC_IPLIST_KEY_GW then (it_entry out ! (n - 1))\<lparr>default_gateway := v\<rparr>
                 else (it_entry out ! (n - 1))\<lparr>ntp_server := v\<rparr>) (parse_ipv4 val)) = Some e'"
  shows "parse_line (kv_line name n val) line out =
    out\<lparr>it_entry := (it_entry out)[n - 1 := e'\<lparr>list_number := of_nat n\<rparr>],
        it_keys := (it_keys out)[n - 1 := it_keys out ! (n - 1) OR b]\<rparr>"
proof -
  have l: "length (dec n) \<le> 4" using length_dec_le [of n 3] n by simp
  have td: "take_digits 4 (dec n @ 61 # val) = (dec n, 61 # val)" by (rule take_digits_dec [OF l]) simp
  have h: "hd (dec n @ 61 # val) \<noteq> 48" using hd_dec [of n] n dec_not_empty [of n] by simp
  have "0 \<notin> set (dec n)" using dec_digits [of n] by (auto simp: list_all_iff is_digit_def)
  then have nz: "0 \<notin> set (kv_line name n val)" using z by (simp add: kv_line_def)
  have f: "find (\<lambda>k. key_match (kv_line name n val) (fst k)) iplist_keys = Some (name, b)"
    unfolding kv_line_def by (rule find_key [OF key])
  have dr: "drop (length name) (kv_line name n val) = dec n @ 61 # val" by (simp add: kv_line_def)
  show ?thesis
    unfolding parse_line_def using nz f n h fresh res
    by (cases "b = 8") (auto simp: dr td digits_val_dec Let_def)
qed

lemma ipv4_str_chars: "c \<in> set (ipv4_str ip) \<Longrightarrow> is_digit c \<or> c = 46"
  using dec_digits by (auto simp: ipv4_str_def bytes_of_def list_all_iff)

lemma ipv4_str_clean: "0 \<notin> set (ipv4_str ip)" "10 \<notin> set (ipv4_str ip)" "13 \<notin> set (ipv4_str ip)" "ipv4_str ip \<noteq> []"
  using ipv4_str_chars [of 0 ip] ipv4_str_chars [of 10 ip] ipv4_str_chars [of 13 ip]
  by (auto simp: is_digit_def ipv4_str_def dec_not_empty)

lemma dec_clean: "0 \<notin> set (dec n)" "10 \<notin> set (dec n)" "13 \<notin> set (dec n)"
  using dec_digits [of n] by (auto simp: list_all_iff is_digit_def)

lemma key_clean:
  "(name, b) \<in> set iplist_keys \<Longrightarrow> 0 \<notin> set name \<and> 10 \<notin> set name \<and> name \<noteq> []"
  by (auto simp: iplist_keys_def bytes_of_def)

lemma essid_value_quoted:
  assumes "34 \<notin> set s" "length s < 32"
  shows "essid_value (34 # s @ [34]) = Some s"
  using assms by (simp add: essid_value_def Let_def slice_def)

text \<open>One well-formed line, read whole.\<close>

lemma parse_kv_line:
  assumes key: "(name, b) \<in> set iplist_keys" and n: "1 \<le> n" "n \<le> 128"
    and val: "0 \<notin> set val" "10 \<notin> set val" "val \<noteq> []" "last val \<noteq> 13"
    and fresh: "it_keys out ! (n - 1) AND b = 0"
    and res: "(if b = OPC_IPLIST_KEY_ESSID then
                 map_option (\<lambda>v. (it_entry out ! (n - 1))\<lparr>essid := put 0 v (replicate OPC_ESSID_FIELD_LEN 0)\<rparr>) (essid_value val)
               else map_option (\<lambda>v.
                 if b = OPC_IPLIST_KEY_IP then (it_entry out ! (n - 1))\<lparr>ip_address := v\<rparr>
                 else if b = OPC_IPLIST_KEY_MASK then (it_entry out ! (n - 1))\<lparr>subnet_mask := v\<rparr>
                 else if b = OPC_IPLIST_KEY_GW then (it_entry out ! (n - 1))\<lparr>default_gateway := v\<rparr>
                 else (it_entry out ! (n - 1))\<lparr>ntp_server := v\<rparr>) (parse_ipv4 val)) = Some e'"
  shows "parse_lines line (kv_line name n val @ 10 # rest) out =
    parse_lines (line + 1) rest
      (out\<lparr>it_entry := (it_entry out)[n - 1 := e'\<lparr>list_number := of_nat n\<rparr>],
           it_keys := (it_keys out)[n - 1 := it_keys out ! (n - 1) OR b]\<rparr>)"
proof -
  have "10 \<notin> set (kv_line name n val)" "kv_line name n val \<noteq> []" "last (kv_line name n val) \<noteq> 13"
    using key_clean [OF key] dec_clean val by (simp_all add: kv_line_def)
  then show ?thesis
    using parse_line_kv [OF key n _ val(1) fresh res, of line] key_clean [OF key] by (simp add: parse_lines_line)
qed

lemma essid_chars_short: "length (essid e) = 32 \<Longrightarrow> length (essid_chars e) < 32"
proof -
  assume l: "length (essid e) = 32"
  let ?s = "(take 32 (essid e))[31 := 0]"
  have "?s ! 31 = 0" "length ?s = 32" using l by simp_all
  then have "has_nul 32 ?s" using nth_mem [of 31 ?s] by (simp add: has_nul_iff)
  then show ?thesis using has_nul_cstr [of 32 ?s] \<open>length ?s = 32\<close> by (simp add: essid_chars_def)
qed

lemma parse_slot:
  assumes i: "i < 128" and ok: "slot_text_ok (il_slots l ! i)"
    and out: "length (it_entry out) = 128" "length (it_keys out) = 128" "it_entry out ! i = zero_ipcfg_entry" "it_keys out ! i = 0"
  shows "parse_lines line (text_of (slot_lines l i) @ rest) out =
    parse_lines (Suc (Suc (Suc (Suc (Suc line))))) rest (out\<lparr>it_entry := (it_entry out)[i := slot_read_back i (il_slots l ! i)],
                                     it_keys := (it_keys out)[i := 0x1F]\<rparr>)"
proof -
  let ?e = "il_slots l ! i"
  have keys: "(bytes_of ''IPAddress'', 1) \<in> set iplist_keys" "(bytes_of ''IPSubnetMask'', 2) \<in> set iplist_keys"
    "(bytes_of ''IPDefaultGateway'', 4) \<in> set iplist_keys" "(bytes_of ''WL54EssId'', 8) \<in> set iplist_keys"
    "(bytes_of ''NTPServer'', 16) \<in> set iplist_keys"
    by (simp_all add: iplist_keys_def)
  have s: "34 \<notin> set (essid_chars ?e)" "10 \<notin> set (essid_chars ?e)" "0 \<notin> set (essid_chars ?e)" "length (essid_chars ?e) < 32"
    using ok essid_chars_short cstr_no_nul by (auto simp: slot_text_ok_def) (auto simp: essid_chars_def cstr_no_nul)
  have ev: "essid_value (34 # essid_chars ?e @ [34]) = Some (essid_chars ?e)" by (rule essid_value_quoted) (fact s)+
  have n: "1 \<le> i + 1" "i + 1 \<le> 128" using i by simp_all
  have ipl: "last (ipv4_str a) \<noteq> 13" for a
    using ipv4_str_clean(3,4) [of a] last_in_set by metis
  note kv = parse_kv_line [OF _ n, simplified] and clean = ipv4_str_clean(1,2,4) ipl parse_ipv4_str
  have t: "text_of (slot_lines l i) @ rest =
      kv_line (bytes_of ''IPAddress'') (Suc i) (ipv4_str (ip_address ?e)) @ 10 #
      kv_line (bytes_of ''IPSubnetMask'') (Suc i) (ipv4_str (subnet_mask ?e)) @ 10 #
      kv_line (bytes_of ''IPDefaultGateway'') (Suc i) (ipv4_str (default_gateway ?e)) @ 10 #
      kv_line (bytes_of ''WL54EssId'') (Suc i) (34 # essid_chars ?e @ [34]) @ 10 #
      kv_line (bytes_of ''NTPServer'') (Suc i) (ipv4_str (ntp_server ?e)) @ 10 # rest"
    by (simp add: text_of_def slot_lines_def essid_chars_def Let_def)
  show ?thesis
    unfolding t
    apply (subst kv [OF keys(1)], simp_all add: clean out)
    apply (subst kv [OF keys(2)], simp_all add: clean out i)
    apply (subst kv [OF keys(3)], simp_all add: clean out i)
    apply (subst kv [OF keys(4)], simp_all add: s ev out i)
    apply (subst kv [OF keys(5)], simp_all add: clean out i)
    apply (simp add: slot_read_back_def zero_ipcfg_entry_def)
    done
qed

lemma text_of_append: "text_of (a @ b) = text_of a @ text_of b" "text_of [] = []"
  by (simp_all add: text_of_def)

lemma parse_list_lines:
  assumes "iplist_text_ok l" "distinct is" "\<And>i. i \<in> set is \<Longrightarrow> i < 128"
    and "length (it_entry out) = 128" "length (it_keys out) = 128"
    and "\<And>i. i \<in> set is \<Longrightarrow> it_entry out ! i = zero_ipcfg_entry \<and> it_keys out ! i = 0"
  shows "\<exists>line'. parse_lines line (text_of (list_lines l is)) out = parse_lines line' [] (text_image l is out)"
  using assms(2-)
proof (induction "is" arbitrary: line out)
  case Nil
  then show ?case by (simp add: text_of_def list_lines_def text_image_def)
next
  case (Cons i "is")
  have split: "text_of (list_lines l (i # is)) =
      (if il_present l ! i then text_of (slot_lines l i) else []) @ text_of (list_lines l is)"
    by (simp add: list_lines_def text_of_append)
  show ?case
  proof (cases "il_present l ! i")
    case False
    then show ?thesis using Cons.IH [of out line] Cons.prems by (simp add: split text_image_def)
  next
    case True
    define out' where "out' = out\<lparr>it_entry := (it_entry out)[i := slot_read_back i (il_slots l ! i)],
      it_keys := (it_keys out)[i := 0x1F]\<rparr>"
    have i: "i < 128" "i \<notin> set is" using Cons.prems by auto
    have "\<exists>line'. parse_lines (Suc (Suc (Suc (Suc (Suc line))))) (text_of (list_lines l is)) out'
        = parse_lines line' [] (text_image l is out')"
    proof (rule Cons.IH)
      show "it_entry out' ! k = zero_ipcfg_entry \<and> it_keys out' ! k = 0" if "k \<in> set is" for k
        using Cons.prems(5) [of k] that i by (cases "k = i") (auto simp: out'_def)
    qed (use Cons.prems in \<open>simp_all add: out'_def\<close>)
    moreover have "parse_lines line (text_of (list_lines l (i # is))) out =
        parse_lines (Suc (Suc (Suc (Suc (Suc line))))) (text_of (list_lines l is)) out'"
      using parse_slot [OF i(1)] Cons.prems assms(1) i(1) True
      by (simp add: split out'_def iplist_text_ok_def)
    moreover have "text_image l (i # is) out = text_image l is out'"
      using True by (simp add: text_image_def out'_def)
    ultimately show ?thesis by simp
  qed
qed

lemma text_image_nth:
  assumes "distinct is" "length (it_entry out) = 128" "length (it_keys out) = 128" "k < 128"
  shows "it_entry (text_image l is out) ! k =
      (if k \<in> set is \<and> il_present l ! k then slot_read_back k (il_slots l ! k) else it_entry out ! k)
    \<and> it_keys (text_image l is out) ! k = (if k \<in> set is \<and> il_present l ! k then 0x1F else it_keys out ! k)
    \<and> it_bad (text_image l is out) = it_bad out \<and> it_first_error_line (text_image l is out) = it_first_error_line out
    \<and> it_final_newline (text_image l is out) = it_final_newline out"
  using assms
proof (induction "is" arbitrary: out)
  case Nil
  then show ?case by (simp add: text_image_def)
next
  case (Cons i "is")
  define out' where "out' = (if il_present l ! i then out\<lparr>it_entry := (it_entry out)[i := slot_read_back i (il_slots l ! i)],
      it_keys := (it_keys out)[i := 0x1F]\<rparr> else out)"
  have o: "length (it_entry out') = 128" "length (it_keys out') = 128" using Cons.prems by (simp_all add: out'_def)
  have ti: "text_image l (i # is) out = text_image l is out'" by (simp add: text_image_def out'_def)
  have nth: "it_entry out' ! k = (if k = i \<and> il_present l ! i then slot_read_back i (il_slots l ! i) else it_entry out ! k)"
    "it_keys out' ! k = (if k = i \<and> il_present l ! i then 0x1F else it_keys out ! k)"
    "it_bad out' = it_bad out" "it_first_error_line out' = it_first_error_line out" "it_final_newline out' = it_final_newline out"
    using Cons.prems by (cases "k = i"; simp add: out'_def)+
  from Cons.IH [OF _ o] Cons.prems nth show ?case unfolding ti by auto
qed

lemma last_text_of: "text_of ls = [] \<or> last (text_of ls) = 10"
  by (induction ls rule: rev_induct) (auto simp: text_of_def)

lemma octet_le: "unat (x AND 0xFF :: u32) \<le> 255" "unat (drop_bit 24 (x :: u32)) \<le> 255"
proof -
  show "unat (x AND 0xFF) \<le> 255" using word_and_le1 [of x "0xFF"] by (simp add: word_le_nat_alt)
  have "unat x < 2 ^ LENGTH(32)" by (rule unsigned_less)
  moreover have "unat (drop_bit 24 x) = unat x div 2 ^ 24" by (metis drop_bit_eq_div unat_drop_bit_eq)
  ultimately show "unat (drop_bit 24 x) \<le> 255" by simp
qed

lemma length_dec_octet: "n \<le> 255 \<Longrightarrow> length (dec n) \<le> 3"
  using length_dec_le [of n 2] by simp

lemma length_ipv4_str: "length (ipv4_str ip) \<le> 15"
  using length_dec_octet [OF octet_le(2) [of ip]] length_dec_octet [OF octet_le(1) [of "drop_bit 16 ip"]]
    length_dec_octet [OF octet_le(1) [of "drop_bit 8 ip"]] length_dec_octet [OF octet_le(1) [of ip]]
  unfolding ipv4_str_def by (simp add: bytes_of_def del: dec.simps)

text \<open>A slot takes at most 173 bytes, so 128 of them fit the buffer of \<^const>\<open>OPC_IPLIST_TEXT_MAX\<close> bytes.\<close>

lemma format_slot_fits:
  assumes "i < 128" "il_present l ! i \<Longrightarrow> length (essid (il_slots l ! i)) = 32" "length buf + 173 < cap"
  shows "\<exists>buf'. format_slot cap l i (Some buf) = Some buf' \<and> length buf' \<le> length buf + 173"
proof (cases "il_present l ! i")
  case False
  then show ?thesis by (simp add: format_slot_def)
next
  case True
  let ?e = "il_slots l ! i"
  have d: "length (dec (Suc i)) \<le> 3" using length_dec_le [of "Suc i" 2] assms(1) by simp
  have s: "length (essid_chars ?e) \<le> 31" using essid_chars_short assms(2) True by fastforce
  note b = length_ipv4_str [of "ip_address ?e"] length_ipv4_str [of "subnet_mask ?e"]
    length_ipv4_str [of "default_gateway ?e"] length_ipv4_str [of "ntp_server ?e"] d s assms(3)
  show ?thesis
    unfolding format_slot_def using True b essid_chars_def [of ?e]
    by (simp add: put_kv_fits bytes_of_def Let_def del: dec.simps)
qed

lemma format_fold_fits:
  assumes "iplist_text_ok l" "\<And>i. i \<in> set is \<Longrightarrow> i < 128" "length buf + 173 * length is < cap"
  shows "\<exists>buf'. fold (format_slot cap l) is (Some buf) = Some buf'"
  using assms(2,3)
proof (induction "is" arbitrary: buf)
  case (Cons i "is")
  have "il_present l ! i \<Longrightarrow> length (essid (il_slots l ! i)) = 32"
    using assms(1) Cons.prems(1) by (simp add: iplist_text_ok_def slot_text_ok_def)
  then obtain b where b: "format_slot cap l i (Some buf) = Some b" "length b \<le> length buf + 173"
    using format_slot_fits [of i l buf cap] Cons.prems by auto
  then show ?case using Cons.IH [of b] Cons.prems by simp
qed simp

text \<open>C33: The text written for an IP list fits the buffer, and it is read back without an error: every
  populated slot has all five keys and its addresses and ESSID, and every other slot is empty.\<close>

theorem iplist_text_roundtrip:
  assumes ok: "iplist_text_ok l"
  shows "\<exists>tx. opc_iplist_text_format l OPC_IPLIST_TEXT_MAX = Some tx \<and>
    (let out = opc_iplist_text_parse tx in
      it_first_error_line out = 0 \<and> it_final_newline out
      \<and> (\<forall>i. i < 128 \<longrightarrow> \<not> it_bad out ! i
           \<and> it_keys out ! i = (if il_present l ! i then OPC_IPLIST_KEY_ALL else 0)
           \<and> it_entry out ! i = (if il_present l ! i then slot_read_back i (il_slots l ! i) else zero_ipcfg_entry)))"
proof -
  obtain tx where f: "fold (format_slot OPC_IPLIST_TEXT_MAX l) [0..<128] (Some []) = Some tx"
    using format_fold_fits [OF ok, of "[0..<128]" "[]" OPC_IPLIST_TEXT_MAX] by auto
  have tx: "tx = text_of (list_lines l [0..<128])" using format_fold_Some [OF f] by simp
  define out0 where "out0 = zero_iplist_text\<lparr>it_final_newline := True\<rparr>"
  have nl: "(tx = [] \<or> last tx = 10) = True" using last_text_of tx by auto
  have o: "length (it_entry out0) = 128" "length (it_keys out0) = 128"
    "\<And>i. i < 128 \<Longrightarrow> it_entry out0 ! i = zero_ipcfg_entry \<and> it_keys out0 ! i = 0 \<and> \<not> it_bad out0 ! i"
    "it_first_error_line out0 = 0" "it_final_newline out0"
    by (simp_all add: out0_def zero_iplist_text_def)
  have p: "opc_iplist_text_parse tx = text_image l [0..<128] out0"
    using parse_list_lines [OF ok distinct_upt _ o(1,2), of 0 128 1] o(3) tx
    unfolding opc_iplist_text_parse_def nl by (simp add: out0_def)
  note im = text_image_nth [of "[0..<128]" out0 _ l, OF distinct_upt o(1,2)]
  have "opc_iplist_text_format l OPC_IPLIST_TEXT_MAX = Some tx" using f by (simp add: opc_iplist_text_format_def)
  then show ?thesis using im [of 0] im o unfolding p [symmetric] by (auto simp: Let_def)
qed

theorem iplist_text_roundtrip_witness:
  "iplist_text_ok one_slot_list \<and>
   (\<exists>tx. opc_iplist_text_format one_slot_list OPC_IPLIST_TEXT_MAX = Some tx
      \<and> ip_address (it_entry (opc_iplist_text_parse tx) ! 0) = 0xC0A8000A)"
proof -
  have ok: "iplist_text_ok one_slot_list"
    by (auto simp: iplist_text_ok_def one_slot_list_def slot_text_ok_def essid_chars_def)
  have "ip_address (slot_read_back 0 (il_slots one_slot_list ! 0)) = 0xC0A8000A"
    by (simp add: slot_read_back_def one_slot_list_def)
  moreover have "il_present one_slot_list ! 0" by (simp add: one_slot_list_def)
  ultimately show ?thesis using iplist_text_roundtrip [OF ok] ok by (auto simp: Let_def)
qed

end
