(* ===== verification/Json_Util.thy ===== *)
theory Json_Util
  imports Cstdio Store
begin

text \<open>
  The JSON value extractor (\<open>opcd/json_util.h\<close>, \<open>opcd/json_util.c\<close>). A document is a C string; a pointer into it
  is the rest of the text from there. \<open>files\<close> is the file system as the process reads it, an unreadable file is
  absent.
\<close>

datatype json_errno = J_ENOENT | J_EINVAL

definition OPC_JSON_MAX_BYTES :: nat where [simp]: "OPC_JSON_MAX_BYTES = 1048576"

definition opc_json_slurp_file :: "files \<Rightarrow> path \<Rightarrow> u8 list option" where
  "opc_json_slurp_file fs p =
     (case fs p of None \<Rightarrow> None | Some c \<Rightarrow> if length c > OPC_JSON_MAX_BYTES then None else Some (cstr c))"

definition is_json_ws :: "u8 \<Rightarrow> bool" where
  "is_json_ws c \<longleftrightarrow> c = 32 \<or> c = 9 \<or> c = 10 \<or> c = 13"

text \<open>The needle stands here and a colon or white space follows it.\<close>

definition key_here :: "u8 list \<Rightarrow> u8 list \<Rightarrow> bool" where
  "key_here needle p \<longleftrightarrow>
     take (length needle) p = needle
     \<and> (case drop (length needle) p of [] \<Rightarrow> False | a # _ \<Rightarrow> a = 58 \<or> is_json_ws a)"

fun find_key_quote :: "u8 list \<Rightarrow> u8 list \<Rightarrow> u8 list option" where
  "find_key_quote needle [] = None"
| "find_key_quote needle (c # s) =
     (if key_here needle (c # s) then Some (c # s) else find_key_quote needle s)"

definition advance_to_value :: "u8 list \<Rightarrow> u8 list option" where
  "advance_to_value p =
     (if 58 \<in> set p then Some (dropWhile is_json_ws (tl (dropWhile (\<lambda>c. c \<noteq> 58) p))) else None)"

definition copy_quoted_value :: "u8 list \<Rightarrow> nat \<Rightarrow> json_errno + u8 list" where
  "copy_quoted_value p cap =
     (if p = [] \<or> hd p \<noteq> 34 then Inl J_ENOENT else Inr (takeWhile (\<lambda>c. c \<noteq> 34) (take (cap - 1) (tl p))))"

definition key_needle :: "u8 list \<Rightarrow> u8 list option" where
  "key_needle key = (let n = [34] @ key @ [34] in if length n \<ge> 64 then None else Some n)"

definition opc_json_string :: "u8 list ptr \<Rightarrow> u8 list ptr \<Rightarrow> outbuf \<Rightarrow> json_errno + u8 list" where
  "opc_json_string json key out =
     (case (json, key, out) of
        (Some j, Some k, Some cap) \<Rightarrow>
          if cap = 0 then Inl J_EINVAL
          else (case key_needle k of
                  None \<Rightarrow> Inl J_EINVAL
                | Some needle \<Rightarrow>
                    (case find_key_quote needle j of
                       None \<Rightarrow> Inl J_ENOENT
                     | Some p \<Rightarrow>
                         (case advance_to_value (drop (length needle) p) of
                            None \<Rightarrow> Inl J_ENOENT
                          | Some v \<Rightarrow> copy_quoted_value v cap)))
      | _ \<Rightarrow> Inl J_EINVAL)"

definition json_integer_at :: "u8 list \<Rightarrow> json_errno + int" where
  "json_integer_at v = (case strtol v of None \<Rightarrow> Inl J_EINVAL | Some (n, _) \<Rightarrow> Inr n)"

definition opc_json_integer :: "u8 list ptr \<Rightarrow> u8 list ptr \<Rightarrow> json_errno + int" where
  "opc_json_integer json key =
     (case (json, key) of
        (Some j, Some k) \<Rightarrow>
          (case key_needle k of
             None \<Rightarrow> Inl J_EINVAL
           | Some needle \<Rightarrow>
               (case find_key_quote needle j of
                  None \<Rightarrow> Inl J_ENOENT
                | Some p \<Rightarrow>
                    (case advance_to_value (drop (length needle) p) of
                       None \<Rightarrow> Inl J_ENOENT
                     | Some v \<Rightarrow> json_integer_at v)))
      | _ \<Rightarrow> Inl J_EINVAL)"

definition find_section_body :: "u8 list \<Rightarrow> u8 list \<Rightarrow> u8 list option" where
  "find_section_body json section =
     (case key_needle section of
        None \<Rightarrow> None
      | Some needle \<Rightarrow>
          (case find_key_quote needle json of
             None \<Rightarrow> None
           | Some sec \<Rightarrow>
               if 123 \<in> set sec then Some (tl (dropWhile (\<lambda>c. c \<noteq> 123) sec)) else None))"

text \<open>The rest of a string literal after its opening quote.\<close>

fun skip_literal :: "u8 list \<Rightarrow> u8 list" where
  "skip_literal [] = []"
| "skip_literal [c] = []"
| "skip_literal (c # d # s) =
     (if c = 34 then d # s else if c = 92 then skip_literal s else skip_literal (d # s))"

definition skip_json_string :: "u8 list \<Rightarrow> u8 list" where
  "skip_json_string p = (case p of [] \<Rightarrow> [] | c # s \<Rightarrow> if c \<noteq> 34 then p else skip_literal s)"

text \<open>The scan of a section body: the text after the key, or \<open>None\<close> when the section closes first.\<close>

function section_scan :: "u8 list \<Rightarrow> nat \<Rightarrow> u8 list \<Rightarrow> u8 list option" where
  "section_scan nk depth p =
     (if p = [] \<or> depth = 0 then None
      else if key_here nk p then Some (drop (length nk) p)
      else if hd p = 34 then section_scan nk depth (skip_json_string p)
      else if hd p = 123 then section_scan nk (depth + 1) (tl p)
      else if hd p = 125 then (if depth - 1 = 0 then None else section_scan nk (depth - 1) (tl p))
      else section_scan nk depth (tl p))"
  by pat_completeness auto
termination
proof (relation "measure (\<lambda>(nk, depth, p). length p)")
  fix nk p :: "u8 list" and depth :: nat
  assume a: "\<not> (p = [] \<or> depth = 0)" "hd p = 34"
  have "length (skip_literal s) \<le> length s" for s by (induction s rule: skip_literal.induct) auto
  then have "length (skip_json_string p) < length p"
    using a by (cases p) (auto simp: skip_json_string_def le_imp_less_Suc)
  then show "((nk, depth, skip_json_string p), nk, depth, p) \<in> measure (\<lambda>(nk, depth, p). length p)" by simp
qed auto

definition section_value ::
  "u8 list ptr \<Rightarrow> u8 list ptr \<Rightarrow> u8 list ptr \<Rightarrow> json_errno + u8 list" where
  "section_value json section key =
     (case (json, section, key) of
        (Some j, Some s, Some k) \<Rightarrow>
          (case find_section_body j s of
             None \<Rightarrow> Inl J_ENOENT
           | Some body \<Rightarrow>
               (case key_needle k of
                  None \<Rightarrow> Inl J_EINVAL
                | Some nk \<Rightarrow>
                    (case section_scan nk 1 body of
                       None \<Rightarrow> Inl J_ENOENT
                     | Some r \<Rightarrow> (case advance_to_value r of None \<Rightarrow> Inl J_ENOENT | Some v \<Rightarrow> Inr v))))
      | _ \<Rightarrow> Inl J_EINVAL)"

definition opc_json_string_section ::
  "u8 list ptr \<Rightarrow> u8 list ptr \<Rightarrow> u8 list ptr \<Rightarrow> outbuf \<Rightarrow> json_errno + u8 list" where
  "opc_json_string_section json section key out =
     (case out of
        None \<Rightarrow> Inl J_EINVAL
      | Some cap \<Rightarrow>
          if cap = 0 then Inl J_EINVAL
          else (case section_value json section key of Inl e \<Rightarrow> Inl e | Inr v \<Rightarrow> copy_quoted_value v cap))"

definition opc_json_integer_section ::
  "u8 list ptr \<Rightarrow> u8 list ptr \<Rightarrow> u8 list ptr \<Rightarrow> json_errno + int" where
  "opc_json_integer_section json section key =
     (case section_value json section key of Inl e \<Rightarrow> Inl e | Inr v \<Rightarrow> json_integer_at v)"

declare section_scan.simps [simp del]

end
