(* ===== verification/Fault_Probe.thy ===== *)
theory Fault_Probe
  imports Json_Util
begin

text \<open>
  The congestion probe behind FaultDetect (\<open>opcd/fault_probe.h\<close>, \<open>opcd/fault_probe.c\<close>). One sample reads its four
  sources from \<open>files\<close> and the clock \<open>now\<close>; all counters keep their 64-bit width. Messages to \<open>stderr\<close> are left
  out.
\<close>

definition OPCD_FAULT_THRESHOLD_PCT_DEFAULT :: u32 where [simp]: "OPCD_FAULT_THRESHOLD_PCT_DEFAULT = 80"
definition OPCD_FAULT_CLEAR_BAND_PCT :: u32 where [simp]: "OPCD_FAULT_CLEAR_BAND_PCT = 10"
definition OPCD_FAULT_CLEAR_PCT_DEFAULT :: u32 where [simp]: "OPCD_FAULT_CLEAR_PCT_DEFAULT = 70"
definition OPCD_FAULT_NET_CLOCK_SLACK_MS :: u64 where [simp]: "OPCD_FAULT_NET_CLOCK_SLACK_MS = 500"
definition OPCD_FAULT_NET_MISSING_LOG_SAMPLES :: u32 where [simp]: "OPCD_FAULT_NET_MISSING_LOG_SAMPLES = 6"
definition OPCD_FAULT_PROBE_INTERVAL_DEFAULT :: u32 where [simp]: "OPCD_FAULT_PROBE_INTERVAL_DEFAULT = 10"
definition OPCD_FAULT_PROBE_INTERVAL_MAX :: u64 where [simp]: "OPCD_FAULT_PROBE_INTERVAL_MAX = 3600"

record opcd_fault_probe_t =
  threshold_pct :: u32
  clear_pct :: u32
  disk_dev :: "u8 list"
  probe_interval_s :: u32
  probe_countdown_s :: u32
  cpu_congested :: bool
  mem_congested :: bool
  disk_congested :: bool
  net_congested :: bool
  cpu_notified :: bool
  mem_notified :: bool
  disk_notified :: bool
  net_notified :: bool
  path_proc_stat :: path
  path_meminfo :: path
  path_diskstats :: path
  net_link_json :: path
  primed :: bool
  cpu_primed :: bool
  disk_primed :: bool
  net_primed :: bool
  cpu_busy :: u64
  cpu_total :: u64
  disk_io_ms :: u64
  net_active_ms :: u64
  net_busy_ms :: u64
  net_mono_ms :: u64
  net_missing :: u32
  mono_ms :: u64

record opcd_fault_report_t =
  cpu_over :: bool
  cpu_pct :: u16
  mem_over :: bool
  mem_pct :: u16
  disk_over :: bool
  disk_pct :: u16
  net_over :: bool
  net_pct :: u16
  cpu_entered :: bool
  mem_entered :: bool
  disk_entered :: bool
  net_entered :: bool
  cpu_cleared :: bool
  mem_cleared :: bool
  disk_cleared :: bool
  net_cleared :: bool

datatype opcd_fault_res_t = OPCD_FAULT_RES_CPU | OPCD_FAULT_RES_DISK | OPCD_FAULT_RES_NET | OPCD_FAULT_RES_MEM

definition zero_fault_report :: opcd_fault_report_t where
  "zero_fault_report = \<lparr>cpu_over = False, cpu_pct = 0, mem_over = False, mem_pct = 0, disk_over = False,
     disk_pct = 0, net_over = False, net_pct = 0, cpu_entered = False, mem_entered = False,
     disk_entered = False, net_entered = False, cpu_cleared = False, mem_cleared = False,
     disk_cleared = False, net_cleared = False\<rparr>"

subsection \<open>Reading the sources\<close>

text \<open>A 32 KiB buffer with room for the NUL; the file is read by one \<open>read\<close>.\<close>

definition read_text :: "files \<Rightarrow> path \<Rightarrow> u8 list option" where
  "read_text fs p = map_option (\<lambda>c. cstr (take 32767 c)) (fs p)"

definition opcd_fault_parse_proc_stat :: "u8 list ptr \<Rightarrow> (u64 \<times> u64) option" where
  "opcd_fault_parse_proc_stat text =
     (case text of
        None \<Rightarrow> None
      | Some t \<Rightarrow>
          if take 4 t \<noteq> bytes_of ''cpu '' then None
          else let v = scan_llus 8 (drop 4 t) in
            if length v < 4 then None
            else let total = sum_list v in
              Some (total - v ! 3 - (if length v > 4 then v ! 4 else 0), total))"

text \<open>One attempt at the start of a line: device name and its \<open>io_ticks\<close>.\<close>

definition scan_diskstats_line :: "u8 list \<Rightarrow> (u8 list \<times> u64) option" where
  "scan_diskstats_line s =
     Option.bind (skip_us 2 s) (\<lambda>s.
     Option.bind (scan_word 32 s) (\<lambda>(name, s).
     Option.bind (skip_us 9 s) (\<lambda>s.
     Option.bind (scan_llu s) (\<lambda>(ticks, s). Some (name, ticks)))))"

function diskstats_loop :: "u8 list \<Rightarrow> u8 list \<Rightarrow> u64 option" where
  "diskstats_loop dev line =
     (if line = [] then None
      else case scan_diskstats_line line of
             Some (name, ticks) \<Rightarrow>
               if name = dev then Some ticks
               else (case after_newline line of None \<Rightarrow> None | Some r \<Rightarrow> diskstats_loop dev r)
           | None \<Rightarrow> (case after_newline line of None \<Rightarrow> None | Some r \<Rightarrow> diskstats_loop dev r))"
  by pat_completeness auto
termination
proof (relation "measure (\<lambda>(dev, line). length line)")
  have "length r < length line" if "after_newline line = Some r" for r line
    using that length_dropWhile_le [of "\<lambda>c. c \<noteq> 10" line] by (cases line) (auto simp: after_newline_def split: if_splits)
  then show "\<And>dev line r. after_newline line = Some r \<Longrightarrow> ((dev, r), dev, line) \<in> measure (\<lambda>(dev, line). length line)"
    "\<And>dev line r. after_newline line = Some r \<Longrightarrow> ((dev, r), dev, line) \<in> measure (\<lambda>(dev, line). length line)"
    by simp_all
qed simp

definition opcd_fault_parse_diskstats :: "u8 list ptr \<Rightarrow> u8 list ptr \<Rightarrow> u64 option" where
  "opcd_fault_parse_diskstats text dev =
     (case (text, dev) of (Some t, Some d) \<Rightarrow> diskstats_loop d t | _ \<Rightarrow> None)"

definition meminfo_keys :: "u8 list list" where
  "meminfo_keys = map bytes_of [''MemTotal'', ''MemFree'', ''Buffers'', ''Cached'', ''Slab'']"

definition scan_meminfo_line :: "u8 list \<Rightarrow> (u8 list \<times> u64) option" where
  "scan_meminfo_line s =
     Option.bind (scan_set 31 (\<lambda>c. c \<noteq> 58) s) (\<lambda>(key, s).
     Option.bind (scan_char 58 s) (\<lambda>s.
     Option.bind (scan_llu s) (\<lambda>(kb, s). Some (key, kb))))"

text \<open>\<open>v\<close> and \<open>seen\<close>: the value of each key, \<open>None\<close> until it is seen.\<close>

definition meminfo_line :: "u8 list \<Rightarrow> u64 option list \<Rightarrow> u64 option list" where
  "meminfo_line line v =
     (case scan_meminfo_line line of
        None \<Rightarrow> v
      | Some (key, kb) \<Rightarrow>
          (case find (\<lambda>i. meminfo_keys ! i = key) [0..<5] of None \<Rightarrow> v | Some i \<Rightarrow> v[i := Some kb]))"

function meminfo_loop :: "u8 list \<Rightarrow> u64 option list \<Rightarrow> u64 option list" where
  "meminfo_loop line v =
     (if line = [] then v
      else let v = meminfo_line line v in
        case after_newline line of None \<Rightarrow> v | Some r \<Rightarrow> meminfo_loop r v)"
  by pat_completeness auto
termination
proof (relation "measure (\<lambda>(line, v). length line)")
  have "length r < length line" if "after_newline line = Some r" for r line
    using that length_dropWhile_le [of "\<lambda>c. c \<noteq> 10" line] by (cases line) (auto simp: after_newline_def split: if_splits)
  then show "\<And>line v x r. after_newline line = Some r \<Longrightarrow> ((r, x), line, v) \<in> measure (\<lambda>(line, v). length line)"
    by simp
qed simp

definition opcd_fault_parse_meminfo :: "u8 list ptr \<Rightarrow> (u64 \<times> u64) option" where
  "opcd_fault_parse_meminfo text =
     (case text of
        None \<Rightarrow> None
      | Some t \<Rightarrow>
          let v = meminfo_loop t (replicate 5 None) in
          if None \<in> set v \<or> v ! 0 = Some 0 then None
          else let v = map the v;
                   not_used = foldl (\<lambda>nu x. if x > v ! 0 - nu then v ! 0 else nu + x) 0 (drop 1 v)
            in Some (v ! 0 - not_used, v ! 0))"

subsection \<open>Evaluation\<close>

definition fault_over :: "opcd_fault_probe_t \<Rightarrow> bool \<Rightarrow> u64 \<Rightarrow> bool" where
  "fault_over p in_band pct =
     (let release = clear_pct p;
          release = (if release = 0 \<or> release > threshold_pct p then threshold_pct p else release)
      in if in_band then pct \<ge> ucast release else pct \<ge> ucast (threshold_pct p))"

definition pct_of :: "u64 \<Rightarrow> u64 \<Rightarrow> u64" where
  "pct_of part whole = (let pct = part * 100 div whole in if pct > 100 then 100 else pct)"

definition opcd_fault_evaluate ::
  "opcd_fault_probe_t \<Rightarrow> u64 \<Rightarrow> u64 \<Rightarrow> u64 \<Rightarrow> u64 \<Rightarrow> u64 \<Rightarrow> u64 \<Rightarrow> u64 \<Rightarrow> u64 \<Rightarrow> opcd_fault_report_t" where
  "opcd_fault_evaluate p d_busy d_total d_disk_ms elapsed_ms d_net_busy_ms d_net_active_ms mem_used_kb mem_total_kb =
     (let out = zero_fault_report;
          out = (if d_total > 0 then let pct = pct_of d_busy d_total in
                   out\<lparr>cpu_pct := ucast pct, cpu_over := fault_over p (cpu_congested p) pct\<rparr> else out);
          out = (if mem_total_kb > 0 then let pct = pct_of mem_used_kb mem_total_kb in
                   out\<lparr>mem_pct := ucast pct, mem_over := fault_over p (mem_congested p) pct\<rparr> else out);
          out = (if elapsed_ms > 0 then let pct = pct_of d_disk_ms elapsed_ms in
                   out\<lparr>disk_pct := ucast pct, disk_over := fault_over p (disk_congested p) pct\<rparr> else out);
          out = (if d_net_active_ms > 0 then
                   let pct = (if d_net_busy_ms \<ge> d_net_active_ms then 100 else d_net_busy_ms * 100 div d_net_active_ms) in
                   out\<lparr>net_pct := ucast pct, net_over := fault_over p (net_congested p) pct\<rparr> else out)
      in out)"

definition net_link_json_path :: "string \<Rightarrow> path" where
  "net_link_json_path ifname = bytes_of ''/var/log/cantops/json/'' @ bytes_of ifname @ bytes_of ''/link.json''"

definition opcd_fault_probe_init :: opcd_fault_probe_t where
  "opcd_fault_probe_init = \<lparr>threshold_pct = OPCD_FAULT_THRESHOLD_PCT_DEFAULT, clear_pct = OPCD_FAULT_CLEAR_PCT_DEFAULT,
     disk_dev = bytes_of ''mmcblk0'', probe_interval_s = OPCD_FAULT_PROBE_INTERVAL_DEFAULT, probe_countdown_s = 0,
     cpu_congested = False, mem_congested = False, disk_congested = False, net_congested = False,
     cpu_notified = False, mem_notified = False, disk_notified = False, net_notified = False,
     path_proc_stat = bytes_of ''/proc/stat'', path_meminfo = bytes_of ''/proc/meminfo'',
     path_diskstats = bytes_of ''/proc/diskstats'', net_link_json = net_link_json_path ''mlan0'',
     primed = False, cpu_primed = False, disk_primed = False, net_primed = False, cpu_busy = 0, cpu_total = 0,
     disk_io_ms = 0, net_active_ms = 0, net_busy_ms = 0, net_mono_ms = 0, net_missing = 0, mono_ms = 0\<rparr>"

subsection \<open>Configuration\<close>

text \<open>\<open>strtoul(val, NULL, 10)\<close>: no digits read as 0.\<close>

definition strtoul0 :: "u8 list \<Rightarrow> u64" where
  "strtoul0 val = (case strtoul val of None \<Rightarrow> 0 | Some (v, _) \<Rightarrow> v)"

definition fault_conf_line :: "u8 list \<Rightarrow> opcd_fault_probe_t \<times> bool \<Rightarrow> opcd_fault_probe_t \<times> bool" where
  "fault_conf_line line acc =
     (case (acc, scan_assignment line) of
        ((p, clear_seen), Some (key, val)) \<Rightarrow>
          if key = bytes_of ''congestion_threshold_pct'' then
            let v = strtoul0 val in if v \<ge> 1 \<and> v \<le> 100 then (p\<lparr>threshold_pct := ucast v\<rparr>, clear_seen) else acc
          else if key = bytes_of ''congestion_clear_pct'' then
            (case strtoul val of
               Some (v, []) \<Rightarrow> if v \<ge> 1 \<and> v \<le> 100 then (p\<lparr>clear_pct := ucast v\<rparr>, True) else acc
             | _ \<Rightarrow> acc)
          else if key = bytes_of ''congestion_probe_interval_s'' then
            let v = strtoul0 val in
            if v \<ge> 1 \<and> v \<le> OPCD_FAULT_PROBE_INTERVAL_MAX then (p\<lparr>probe_interval_s := ucast v\<rparr>, clear_seen) else acc
          else if key = bytes_of ''congestion_disk_dev'' then
            if length val \<ge> 33 then acc else (p\<lparr>disk_dev := val\<rparr>, clear_seen)
          else if key = bytes_of ''congestion_net_if'' then
            if val = bytes_of ''mlan0'' then (p\<lparr>net_link_json := net_link_json_path ''mlan0''\<rparr>, clear_seen)
            else if val = bytes_of ''mlan1'' then (p\<lparr>net_link_json := net_link_json_path ''mlan1''\<rparr>, clear_seen)
            else acc
          else acc
      | _ \<Rightarrow> acc)"

definition opcd_fault_probe_conf :: "files \<Rightarrow> opcd_fault_probe_t \<Rightarrow> path ptr \<Rightarrow> opcd_fault_probe_t" where
  "opcd_fault_probe_conf fs p conf_path =
     (case conf_path of
        None \<Rightarrow> p
      | Some cp \<Rightarrow>
          (case fs cp of
             None \<Rightarrow> p
           | Some content \<Rightarrow>
               (case fold fault_conf_line (plain_lines content) (p, False) of
                  (p, clear_seen) \<Rightarrow>
                    let p = (if \<not> clear_seen then
                               let band = threshold_pct p div 2;
                                   band = (if band > OPCD_FAULT_CLEAR_BAND_PCT then OPCD_FAULT_CLEAR_BAND_PCT else band)
                               in p\<lparr>clear_pct := (if threshold_pct p > band then threshold_pct p - band else 1)\<rparr>
                             else p)
                    in if clear_pct p > threshold_pct p then p\<lparr>clear_pct := threshold_pct p\<rparr> else p)))"

subsection \<open>Sampling\<close>

definition opcd_fault_probe_due :: "opcd_fault_probe_t \<Rightarrow> u32 \<Rightarrow> bool \<times> opcd_fault_probe_t" where
  "opcd_fault_probe_due p elapsed_s =
     (let interval = (if probe_interval_s p \<noteq> 0 then probe_interval_s p else 1);
          elapsed_s = (if elapsed_s > interval then interval else elapsed_s);
          p = p\<lparr>probe_countdown_s := probe_countdown_s p + elapsed_s\<rparr>
      in if probe_countdown_s p < interval then (False, p) else (True, p\<lparr>probe_countdown_s := 0\<rparr>))"

fun opcd_fault_probe_rearm :: "opcd_fault_res_t \<Rightarrow> opcd_fault_probe_t \<Rightarrow> opcd_fault_probe_t" where
  "opcd_fault_probe_rearm OPCD_FAULT_RES_CPU p = p\<lparr>cpu_notified := False\<rparr>"
| "opcd_fault_probe_rearm OPCD_FAULT_RES_DISK p = p\<lparr>disk_notified := False\<rparr>"
| "opcd_fault_probe_rearm OPCD_FAULT_RES_NET p = p\<lparr>net_notified := False\<rparr>"
| "opcd_fault_probe_rearm OPCD_FAULT_RES_MEM p = p\<lparr>mem_notified := False\<rparr>"

definition opcd_fault_probe_reset_latch :: "opcd_fault_probe_t \<Rightarrow> opcd_fault_probe_t" where
  "opcd_fault_probe_reset_latch p =
     p\<lparr>cpu_notified := False, mem_notified := False, disk_notified := False, net_notified := False\<rparr>"

text \<open>The reading of the operating channel's survey: active, busy and stamp; and the probe with its diagnostic
  counter.\<close>

definition survey_field :: "u8 list \<Rightarrow> string \<Rightarrow> int" where
  "survey_field json key =
     (case opc_json_integer_section (Some json) (Some (bytes_of ''survey_in_use'')) (Some (bytes_of key)) of
        Inl _ \<Rightarrow> -1 | Inr v \<Rightarrow> v)"

definition read_net_survey :: "files \<Rightarrow> opcd_fault_probe_t \<Rightarrow> (u64 \<times> u64 \<times> u64) option \<times> opcd_fault_probe_t" where
  "read_net_survey fs p =
     (case opc_json_slurp_file fs (net_link_json p) of
        None \<Rightarrow> (None, p)
      | Some json \<Rightarrow>
          let active = survey_field json ''active_time_ms''; busy = survey_field json ''busy_time_ms'';
              stamp = survey_field json ''mono_ms''
          in if active \<ge> 0 \<and> busy \<ge> 0 \<and> stamp \<ge> 0
             then (Some (of_int active, of_int busy, of_int stamp), p\<lparr>net_missing := 0\<rparr>)
             else (None,
               case opc_json_string_section (Some json) (Some (bytes_of ''link'')) (Some (bytes_of ''address'')) (Some 32) of
                 Inr _ \<Rightarrow> if net_missing p < OPCD_FAULT_NET_MISSING_LOG_SAMPLES
                          then p\<lparr>net_missing := net_missing p + 1\<rparr> else p
               | Inl _ \<Rightarrow> p))"

definition monotone_delta :: "bool \<Rightarrow> u64 \<Rightarrow> u64 \<Rightarrow> u64" where
  "monotone_delta ok now before = (if ok \<and> now \<ge> before then now - before else 0)"

text \<open>The Network delta (busy, active) when the sample is measured.\<close>

definition net_delta :: "opcd_fault_probe_t \<Rightarrow> (u64 \<times> u64 \<times> u64) option \<Rightarrow> (u64 \<times> u64) option" where
  "net_delta p net =
     (case net of
        None \<Rightarrow> None
      | Some (active, busy, stamp) \<Rightarrow>
          if net_primed p \<and> active \<ge> net_active_ms p \<and> busy \<ge> net_busy_ms p \<and> stamp > net_mono_ms p
          then let da = active - net_active_ms p; dm = stamp - net_mono_ms p;
                   skew = (if da > dm then da - dm else dm - da)
            in if da > 0 \<and> skew \<le> OPCD_FAULT_NET_CLOCK_SLACK_MS then Some (busy - net_busy_ms p, da) else None
          else None)"

text \<open>Transitions and latches of the resources that were measured.\<close>

definition latch_cpu :: "bool \<Rightarrow> opcd_fault_probe_t \<times> opcd_fault_report_t \<Rightarrow> opcd_fault_probe_t \<times> opcd_fault_report_t" where
  "latch_cpu measured s = (case s of (p, out) \<Rightarrow>
     if \<not> measured then (p, out)
     else (p\<lparr>cpu_congested := cpu_over out, cpu_notified := cpu_over out\<rparr>,
           out\<lparr>cpu_entered := cpu_over out \<and> \<not> cpu_notified p, cpu_cleared := \<not> cpu_over out \<and> cpu_notified p\<rparr>))"

definition latch_mem :: "bool \<Rightarrow> opcd_fault_probe_t \<times> opcd_fault_report_t \<Rightarrow> opcd_fault_probe_t \<times> opcd_fault_report_t" where
  "latch_mem measured s = (case s of (p, out) \<Rightarrow>
     if \<not> measured then (p, out)
     else (p\<lparr>mem_congested := mem_over out, mem_notified := mem_over out\<rparr>,
           out\<lparr>mem_entered := mem_over out \<and> \<not> mem_notified p, mem_cleared := \<not> mem_over out \<and> mem_notified p\<rparr>))"

definition latch_disk :: "bool \<Rightarrow> opcd_fault_probe_t \<times> opcd_fault_report_t \<Rightarrow> opcd_fault_probe_t \<times> opcd_fault_report_t" where
  "latch_disk measured s = (case s of (p, out) \<Rightarrow>
     if \<not> measured then (p, out)
     else (p\<lparr>disk_congested := disk_over out, disk_notified := disk_over out\<rparr>,
           out\<lparr>disk_entered := disk_over out \<and> \<not> disk_notified p, disk_cleared := \<not> disk_over out \<and> disk_notified p\<rparr>))"

definition latch_net :: "bool \<Rightarrow> opcd_fault_probe_t \<times> opcd_fault_report_t \<Rightarrow> opcd_fault_probe_t \<times> opcd_fault_report_t" where
  "latch_net measured s = (case s of (p, out) \<Rightarrow>
     if \<not> measured then (p, out)
     else (p\<lparr>net_congested := net_over out, net_notified := net_over out\<rparr>,
           out\<lparr>net_entered := net_over out \<and> \<not> net_notified p, net_cleared := \<not> net_over out \<and> net_notified p\<rparr>))"

text \<open>The refresh of the baselines: a successful read primes its source, a failed one drops it.\<close>

definition refresh_baselines ::
  "(u64 \<times> u64) option \<Rightarrow> u64 option \<Rightarrow> (u64 \<times> u64 \<times> u64) option \<Rightarrow> u64 \<Rightarrow> opcd_fault_probe_t \<Rightarrow> opcd_fault_probe_t" where
  "refresh_baselines cpu disk net now p =
     (let p = (case cpu of None \<Rightarrow> p | Some (b, t) \<Rightarrow> p\<lparr>cpu_busy := b, cpu_total := t\<rparr>);
          p = (case disk of None \<Rightarrow> p | Some d \<Rightarrow> p\<lparr>disk_io_ms := d\<rparr>);
          p = (case net of None \<Rightarrow> p | Some (a, b, m) \<Rightarrow> p\<lparr>net_active_ms := a, net_busy_ms := b, net_mono_ms := m\<rparr>)
      in p\<lparr>cpu_primed := (cpu \<noteq> None), disk_primed := (disk \<noteq> None), net_primed := (net \<noteq> None),
           mono_ms := now, primed := True\<rparr>)"

definition opcd_fault_probe_sample ::
  "files \<Rightarrow> u64 \<Rightarrow> opcd_fault_probe_t \<Rightarrow> opcd_fault_report_t \<times> opcd_fault_probe_t" where
  "opcd_fault_probe_sample fs now p =
     (let cpu = opcd_fault_parse_proc_stat (read_text fs (path_proc_stat p));
          disk = opcd_fault_parse_diskstats (read_text fs (path_diskstats p)) (Some (disk_dev p));
          mem = opcd_fault_parse_meminfo (read_text fs (path_meminfo p))
      in case read_net_survey fs p of (net, p) \<Rightarrow>
        let cpu_m = (cpu \<noteq> None \<and> cpu_primed p); disk_m = (disk \<noteq> None \<and> disk_primed p);
            (out, p) =
              (if primed p then
                 let elapsed = (if now > mono_ms p then now - mono_ms p else 1);
                     d_busy = (case cpu of None \<Rightarrow> 0 | Some (b, t) \<Rightarrow> monotone_delta (cpu_primed p) b (cpu_busy p));
                     d_total = (case cpu of None \<Rightarrow> 0 | Some (b, t) \<Rightarrow> monotone_delta (cpu_primed p) t (cpu_total p));
                     d_disk = (case disk of None \<Rightarrow> 0 | Some d \<Rightarrow> monotone_delta (disk_primed p) d (disk_io_ms p));
                     nd = net_delta p net;
                     (d_net_busy, d_net_active) = (case nd of None \<Rightarrow> (0, 0) | Some d \<Rightarrow> d);
                     (mem_used, mem_total) = (case mem of None \<Rightarrow> (0, 0) | Some m \<Rightarrow> m);
                     out = opcd_fault_evaluate p d_busy d_total d_disk elapsed d_net_busy d_net_active mem_used mem_total;
                     (p, out) = latch_net (nd \<noteq> None) (latch_disk disk_m (latch_mem (mem \<noteq> None) (latch_cpu cpu_m (p, out))))
                 in (out, p)
               else (zero_fault_report, p));
            p = refresh_baselines cpu disk net now p
        in (out, p))"

declare diskstats_loop.simps [simp del] meminfo_loop.simps [simp del]

text \<open>The four resources, uniformly.\<close>

fun res_congested :: "opcd_fault_res_t \<Rightarrow> opcd_fault_probe_t \<Rightarrow> bool" where
  "res_congested OPCD_FAULT_RES_CPU p = cpu_congested p"
| "res_congested OPCD_FAULT_RES_MEM p = mem_congested p"
| "res_congested OPCD_FAULT_RES_DISK p = disk_congested p"
| "res_congested OPCD_FAULT_RES_NET p = net_congested p"

fun res_notified :: "opcd_fault_res_t \<Rightarrow> opcd_fault_probe_t \<Rightarrow> bool" where
  "res_notified OPCD_FAULT_RES_CPU p = cpu_notified p"
| "res_notified OPCD_FAULT_RES_MEM p = mem_notified p"
| "res_notified OPCD_FAULT_RES_DISK p = disk_notified p"
| "res_notified OPCD_FAULT_RES_NET p = net_notified p"

fun res_pct :: "opcd_fault_res_t \<Rightarrow> opcd_fault_report_t \<Rightarrow> u16" where
  "res_pct OPCD_FAULT_RES_CPU out = cpu_pct out"
| "res_pct OPCD_FAULT_RES_MEM out = mem_pct out"
| "res_pct OPCD_FAULT_RES_DISK out = disk_pct out"
| "res_pct OPCD_FAULT_RES_NET out = net_pct out"

fun res_over :: "opcd_fault_res_t \<Rightarrow> opcd_fault_report_t \<Rightarrow> bool" where
  "res_over OPCD_FAULT_RES_CPU out = cpu_over out"
| "res_over OPCD_FAULT_RES_MEM out = mem_over out"
| "res_over OPCD_FAULT_RES_DISK out = disk_over out"
| "res_over OPCD_FAULT_RES_NET out = net_over out"

fun res_entered :: "opcd_fault_res_t \<Rightarrow> opcd_fault_report_t \<Rightarrow> bool" where
  "res_entered OPCD_FAULT_RES_CPU out = cpu_entered out"
| "res_entered OPCD_FAULT_RES_MEM out = mem_entered out"
| "res_entered OPCD_FAULT_RES_DISK out = disk_entered out"
| "res_entered OPCD_FAULT_RES_NET out = net_entered out"

fun res_cleared :: "opcd_fault_res_t \<Rightarrow> opcd_fault_report_t \<Rightarrow> bool" where
  "res_cleared OPCD_FAULT_RES_CPU out = cpu_cleared out"
| "res_cleared OPCD_FAULT_RES_MEM out = mem_cleared out"
| "res_cleared OPCD_FAULT_RES_DISK out = disk_cleared out"
| "res_cleared OPCD_FAULT_RES_NET out = net_cleared out"

text \<open>The reports of successive samples.\<close>

fun fault_run :: "(files \<times> u64) list \<Rightarrow> opcd_fault_probe_t \<Rightarrow> opcd_fault_report_t list" where
  "fault_run [] p = []"
| "fault_run ((fs, now) # ss) p =
     (case opcd_fault_probe_sample fs now p of (out, p') \<Rightarrow> out # fault_run ss p')"

text \<open>Entries and clears take turns, starting with an entry unless one is already announced.\<close>

fun alternates :: "bool \<Rightarrow> (bool \<times> bool) list \<Rightarrow> bool" where
  "alternates latched [] = True"
| "alternates latched ((entered, cleared) # es) =
     (\<not> (entered \<and> latched) \<and> \<not> (cleared \<and> \<not> latched) \<and> alternates ((latched \<or> entered) \<and> \<not> cleared) es)"

definition fault_band_ok :: "opcd_fault_probe_t \<Rightarrow> bool" where
  "fault_band_ok p \<longleftrightarrow> 1 \<le> clear_pct p \<and> clear_pct p \<le> threshold_pct p \<and> threshold_pct p \<le> 100
     \<and> 1 \<le> probe_interval_s p \<and> probe_interval_s p \<le> 3600"

definition fault_latched :: "opcd_fault_probe_t \<Rightarrow> bool" where
  "fault_latched p \<longleftrightarrow> fault_band_ok p \<and> (\<forall>r. res_notified r p = res_congested r p)"

definition fault_conf_ranges :: "opcd_fault_probe_t \<Rightarrow> bool" where
  "fault_conf_ranges p \<longleftrightarrow> 1 \<le> clear_pct p \<and> clear_pct p \<le> 100 \<and> 1 \<le> threshold_pct p \<and> threshold_pct p \<le> 100
     \<and> 1 \<le> probe_interval_s p \<and> probe_interval_s p \<le> 3600"

text \<open>What one sample does to a resource: \<open>m\<close> tells whether it was measured.\<close>

definition res_step :: "opcd_fault_res_t \<Rightarrow> bool \<Rightarrow> opcd_fault_probe_t \<Rightarrow> opcd_fault_report_t \<Rightarrow> opcd_fault_probe_t \<Rightarrow> bool" where
  "res_step r m p out p' \<longleftrightarrow>
     unat (res_pct r out) \<le> 100
     \<and> res_entered r out = (m \<and> res_over r out \<and> \<not> res_notified r p)
     \<and> res_cleared r out = (m \<and> \<not> res_over r out \<and> res_notified r p)
     \<and> res_notified r p' = (if m then res_over r out else res_notified r p)
     \<and> res_congested r p' = (if m then res_over r out else res_congested r p)
     \<and> (m \<longrightarrow> res_over r out = (unat (if res_congested r p then clear_pct p else threshold_pct p) \<le> unat (res_pct r out)))
     \<and> threshold_pct p' = threshold_pct p \<and> clear_pct p' = clear_pct p \<and> probe_interval_s p' = probe_interval_s p"

text \<open>Three readings of \<open>/proc/stat\<close>: 90 percent busy, then 75 percent (inside the band), then idle.\<close>

definition stat_reading :: "string \<Rightarrow> files" where
  "stat_reading line = [bytes_of ''/proc/stat'' \<mapsto> bytes_of line]"

definition stat_samples :: "(files \<times> u64) list" where
  "stat_samples =
     [(stat_reading ''cpu  0 0 0 0'', 0), (stat_reading ''cpu  90 0 0 10'', 10000),
      (stat_reading ''cpu  165 0 0 35'', 20000), (stat_reading ''cpu  165 0 0 135'', 30000)]"

subsection \<open>Configuration\<close>

lemma ucast_range:
  assumes "1 \<le> (v :: u64)" "v \<le> of_nat n" "n < 2 ^ 32"
  shows "1 \<le> (ucast v :: u32)" "(ucast v :: u32) \<le> of_nat n"
proof -
  have n: "unat (of_nat n :: u64) = n" "unat (of_nat n :: u32) = n" using assms(3) by (simp_all add: unat_of_nat_lt)
  then have v: "unat v \<le> n" using assms(2) by (simp add: word_le_nat_alt)
  then have "unat (ucast v :: u32) = unat v" using assms(3) by (simp add: unsigned_ucast_eq take_bit_nat_eq_self)
  then show "1 \<le> (ucast v :: u32)" "(ucast v :: u32) \<le> of_nat n"
    using assms(1) v n by (simp_all add: word_le_nat_alt)
qed

lemma ucast_range_100: "1 \<le> (v :: u64) \<Longrightarrow> v \<le> 100 \<Longrightarrow> 1 \<le> (ucast v :: u32) \<and> (ucast v :: u32) \<le> 100"
  using ucast_range [of v 100] by simp

lemma ucast_range_3600: "1 \<le> (v :: u64) \<Longrightarrow> v \<le> 3600 \<Longrightarrow> 1 \<le> (ucast v :: u32) \<and> (ucast v :: u32) \<le> 3600"
  using ucast_range [of v 3600] by simp

lemma fault_conf_ranges_upd:
  assumes "fault_conf_ranges p"
  shows "1 \<le> v \<and> v \<le> 100 \<Longrightarrow> fault_conf_ranges (p\<lparr>threshold_pct := ucast (v :: u64)\<rparr>)"
    "1 \<le> v \<and> v \<le> 100 \<Longrightarrow> fault_conf_ranges (p\<lparr>clear_pct := ucast v\<rparr>)"
    "1 \<le> v \<and> v \<le> 3600 \<Longrightarrow> fault_conf_ranges (p\<lparr>probe_interval_s := ucast v\<rparr>)"
    "fault_conf_ranges (p\<lparr>disk_dev := d\<rparr>)" "fault_conf_ranges (p\<lparr>net_link_json := d\<rparr>)"
  using assms ucast_range_100 ucast_range_3600 by (simp_all add: fault_conf_ranges_def)

lemma ranges_if:
  "(c \<Longrightarrow> fault_conf_ranges (fst a)) \<Longrightarrow> (\<not> c \<Longrightarrow> fault_conf_ranges (fst b)) \<Longrightarrow>
   fault_conf_ranges (fst (if c then a else b))"
  by simp

lemma ranges_whole:
  "(\<And>v. r = Some (v, []) \<Longrightarrow> fault_conf_ranges (fst (f v))) \<Longrightarrow> fault_conf_ranges (fst a) \<Longrightarrow>
   fault_conf_ranges (fst (case r of Some (v, []) \<Rightarrow> f v | _ \<Rightarrow> a))"
  by (simp split: option.split list.split)

lemma fault_conf_line_ranges:
  assumes "fault_conf_ranges p"
  shows "fault_conf_ranges (fst (fault_conf_line line (p, cs)))"
proof (cases "scan_assignment line")
  case (Some kv)
  obtain key val where kv: "kv = (key, val)" by (cases kv)
  show ?thesis
    unfolding fault_conf_line_def Some kv prod.case option.case Let_def OPCD_FAULT_PROBE_INTERVAL_MAX_def
    by (intro ranges_if ranges_whole; unfold fst_conv; intro fault_conf_ranges_upd [OF assms] assms; assumption)
qed (simp add: fault_conf_line_def assms)

lemma fold_fault_conf_ranges:
  "fault_conf_ranges (fst acc) \<Longrightarrow> fault_conf_ranges (fst (fold fault_conf_line ls acc))"
proof (induction ls arbitrary: acc)
  case (Cons l ls)
  then show ?case using fault_conf_line_ranges [of "fst acc" l "snd acc"] by simp
qed simp

lemma band_derived:
  assumes "1 \<le> (t :: u32)" "t \<le> 100"
  defines "b \<equiv> (if t div 2 > 10 then 10 else t div 2)"
  shows "1 \<le> (if t > b then t - b else 1)" "(if t > b then t - b else 1) \<le> t"
proof -
  have u: "1 \<le> unat t" "unat t \<le> 100" using assms(1,2) by (simp_all add: word_le_nat_alt)
  have "unat (t div 2) = unat t div 2" by (simp add: unat_div_distrib)
  then have b: "unat b \<le> unat t div 2" by (auto simp: b_def word_less_nat_alt)
  then have lt: "b < t" using u by (simp add: word_less_nat_alt)
  then have "unat (t - b) = unat t - unat b" by (simp add: unat_sub less_imp_le)
  then show "1 \<le> (if t > b then t - b else 1)" "(if t > b then t - b else 1) \<le> t"
    using u b lt by (simp_all add: word_le_nat_alt)
qed

text \<open>Whatever \<open>opc.conf\<close> contains, the configured probe has a release level between 1 and its entry level,
  an entry level of at most 100 percent, and a watch period of 1 to 3600 seconds.\<close>

lemma fault_conf_band:
  "fault_band_ok (opcd_fault_probe_conf fs opcd_fault_probe_init cp)"
proof -
  have i: "fault_conf_ranges opcd_fault_probe_init" "fault_band_ok opcd_fault_probe_init"
    by (simp_all add: fault_conf_ranges_def fault_band_ok_def opcd_fault_probe_init_def)
  show ?thesis
  proof (cases "\<exists>c content. cp = Some c \<and> fs c = Some content")
    case False
    then show ?thesis using i(2) by (auto simp: opcd_fault_probe_conf_def split: option.split)
  next
    case True
    then obtain c content where c: "cp = Some c" "fs c = Some content" by blast
    obtain p cs where f: "fold fault_conf_line (plain_lines content) (opcd_fault_probe_init, False) = (p, cs)" by fastforce
    have "fault_conf_ranges p"
      using fold_fault_conf_ranges [of "(opcd_fault_probe_init, False)" "plain_lines content"] f i by simp
    then have p: "1 \<le> clear_pct p" "1 \<le> threshold_pct p" "threshold_pct p \<le> 100" "1 \<le> probe_interval_s p"
        "probe_interval_s p \<le> 3600"
      by (simp_all add: fault_conf_ranges_def)
    show ?thesis
      unfolding opcd_fault_probe_conf_def c option.case f prod.case Let_def OPCD_FAULT_CLEAR_BAND_PCT_def
      using band_derived [OF p(2,3)] p by (cases cs) (simp_all add: fault_band_ok_def not_less del: One_nat_def)
  qed
qed

subsection \<open>Hysteresis\<close>

lemma pct_of_le: "pct_of a b \<le> 100"
  by (simp add: pct_of_def Let_def not_less)

lemma net_pct_le:
  assumes "\<not> (b :: u64) \<ge> a"
  shows "b * 100 div a \<le> 100"
proof -
  have lt: "unat b < unat a" using assms by (simp add: word_less_nat_alt not_le)
  have "unat (b * 100) \<le> unat b * 100" by (simp add: unat_word_ariths)
  then have "unat (b * 100) \<le> 100 * unat a" using lt by linarith
  then have "unat (b * 100) div unat a \<le> 100 * unat a div unat a" by (rule div_le_mono)
  then show ?thesis using lt by (simp add: word_le_nat_alt unat_div_distrib)
qed

lemma ucast_pct: "(x :: u64) \<le> 100 \<Longrightarrow> unat (ucast x :: u16) = unat x"
  by (simp add: unsigned_ucast_eq take_bit_nat_eq_self word_le_nat_alt)

lemma fault_over_iff:
  assumes "fault_band_ok p" "pct \<le> 100"
  shows "fault_over p c pct \<longleftrightarrow> unat (if c then clear_pct p else threshold_pct p) \<le> unat (ucast pct :: u16)"
proof -
  have u: "unat (ucast x :: u64) = unat (x :: u32)" for x
    using unsigned_less [of x, where ?'a = nat] by (simp add: unsigned_ucast_eq take_bit_nat_eq_self)
  have c: "\<not> (clear_pct p = 0 \<or> clear_pct p > threshold_pct p)" using assms(1) by (auto simp: fault_band_ok_def)
  show ?thesis using c by (simp add: fault_over_def Let_def ucast_pct [OF assms(2)] word_le_nat_alt u)
qed

lemma evaluate_fields:
  fixes p a b c d e f g h
  defines "out \<equiv> opcd_fault_evaluate p a b c d e f g h"
  shows "cpu_pct out = (if b > 0 then ucast (pct_of a b) else 0)"
    "cpu_over out = (b > 0 \<and> fault_over p (cpu_congested p) (pct_of a b))"
    "mem_pct out = (if h > 0 then ucast (pct_of g h) else 0)"
    "mem_over out = (h > 0 \<and> fault_over p (mem_congested p) (pct_of g h))"
    "disk_pct out = (if d > 0 then ucast (pct_of c d) else 0)"
    "disk_over out = (d > 0 \<and> fault_over p (disk_congested p) (pct_of c d))"
    "net_pct out = (if f > 0 then ucast (if e \<ge> f then 100 else e * 100 div f) else 0)"
    "net_over out = (f > 0 \<and> fault_over p (net_congested p) (if e \<ge> f then 100 else e * 100 div f))"
    "\<not> cpu_entered out" "\<not> cpu_cleared out" "\<not> mem_entered out" "\<not> mem_cleared out" "\<not> disk_entered out"
    "\<not> disk_cleared out" "\<not> net_entered out" "\<not> net_cleared out"
  unfolding out_def opcd_fault_evaluate_def Let_def by (simp_all add: zero_fault_report_def)

lemma evaluate_res:
  assumes "fault_band_ok p"
  defines "out \<equiv> \<lambda>a b c d e f g h. opcd_fault_evaluate p a b c d e f g h"
  shows "unat (res_pct r (out a b c d e f g h)) \<le> 100"
    and "res_over r (out a b c d e f g h) =
      (unat (if res_congested r p then clear_pct p else threshold_pct p) \<le> unat (res_pct r (out a b c d e f g h)))"
    and "\<not> res_entered r (out a b c d e f g h)" "\<not> res_cleared r (out a b c d e f g h)"
proof -
  have n: "(if e \<ge> f then 100 else e * 100 div f) \<le> 100" using net_pct_le [of f e] by simp
  have u: "unat (ucast x :: u16) \<le> 100" if "x \<le> (100 :: u64)" for x
    using that by (simp add: ucast_pct word_le_nat_alt)
  have z: "\<not> unat (if q then clear_pct p else threshold_pct p) \<le> unat (0 :: u16)" for q
    using assms(1) by (auto simp: fault_band_ok_def word_le_nat_alt)
  note o = fault_over_iff [OF assms(1) pct_of_le] fault_over_iff [OF assms(1) n]
  show "unat (res_pct r (out a b c d e f g h)) \<le> 100"
    using u [OF pct_of_le] u [OF n] by (cases r) (simp_all add: out_def evaluate_fields)
  show "res_over r (out a b c d e f g h) =
      (unat (if res_congested r p then clear_pct p else threshold_pct p) \<le> unat (res_pct r (out a b c d e f g h)))"
    using z by (cases r) (simp_all only: out_def evaluate_fields o res_over.simps res_pct.simps res_congested.simps, simp_all)
  show "\<not> res_entered r (out a b c d e f g h)" "\<not> res_cleared r (out a b c d e f g h)"
    by (cases r; simp add: out_def evaluate_fields)+
qed

lemma read_net_survey_only_counter: "\<exists>k. snd (read_net_survey fs p) = p\<lparr>net_missing := k\<rparr>"
proof (cases "opc_json_slurp_file fs (net_link_json p)")
  case None
  then show ?thesis by (intro exI [of _ "net_missing p"]) (simp add: read_net_survey_def)
next
  case (Some json)
  have same: "\<exists>k. p = p\<lparr>net_missing := k\<rparr>" by (intro exI [of _ "net_missing p"]) simp
  have "snd (read_net_survey fs p) = p\<lparr>net_missing := 0\<rparr>
    \<or> snd (read_net_survey fs p) = p\<lparr>net_missing := net_missing p + 1\<rparr> \<or> snd (read_net_survey fs p) = p"
    by (simp add: read_net_survey_def Some Let_def split: sum.split)
  then show ?thesis using same by metis
qed

lemma res_counter [simp]:
  "res_congested r (p\<lparr>net_missing := k\<rparr>) = res_congested r p" "res_notified r (p\<lparr>net_missing := k\<rparr>) = res_notified r p"
  "fault_band_ok (p\<lparr>net_missing := k\<rparr>) = fault_band_ok p"
  by (cases r; simp add: fault_band_ok_def)+

lemma refresh_baselines_frame [simp]:
  "res_congested r (refresh_baselines cpu disk net now p) = res_congested r p"
  "res_notified r (refresh_baselines cpu disk net now p) = res_notified r p"
  "threshold_pct (refresh_baselines cpu disk net now p) = threshold_pct p"
  "clear_pct (refresh_baselines cpu disk net now p) = clear_pct p"
  "probe_interval_s (refresh_baselines cpu disk net now p) = probe_interval_s p"
  by (cases r; simp add: refresh_baselines_def Let_def split: option.split prod.split)+

text \<open>The two shapes of a sample: the first one only primes, a later one evaluates and latches.\<close>

lemma sample_shape:
  fixes fs p
  defines "p1 \<equiv> snd (read_net_survey fs p)"
  shows "(\<exists>cpu disk net. opcd_fault_probe_sample fs now p = (zero_fault_report, refresh_baselines cpu disk net now p1))
    \<or> (\<exists>cpu disk net a b c d e f g h mc mm md mn out q.
        opcd_fault_probe_sample fs now p = (out, refresh_baselines cpu disk net now q)
        \<and> latch_net mn (latch_disk md (latch_mem mm (latch_cpu mc (p1, opcd_fault_evaluate p1 a b c d e f g h)))) = (q, out))"
proof -
  obtain net where r: "read_net_survey fs p = (net, p1)" by (simp add: p1_def prod_eq_iff)
  show ?thesis
  proof (cases "primed p1")
    case False
    then show ?thesis by (auto simp: opcd_fault_probe_sample_def r Let_def)
  next
    case True
    obtain mb mt where m: "(case opcd_fault_parse_meminfo (read_text fs (path_meminfo p)) of None \<Rightarrow> (0, 0) | Some m \<Rightarrow> m) = (mb, mt)"
      by fastforce
    obtain nb na where n: "(case net_delta p1 net of None \<Rightarrow> (0, 0) | Some d \<Rightarrow> d) = (nb, na)" by fastforce
    define cpu where "cpu = opcd_fault_parse_proc_stat (read_text fs (path_proc_stat p))"
    define disk where "disk = opcd_fault_parse_diskstats (read_text fs (path_diskstats p)) (Some (disk_dev p))"
    define out0 where "out0 = opcd_fault_evaluate p1
      (case cpu of None \<Rightarrow> 0 | Some (b, t) \<Rightarrow> monotone_delta (cpu_primed p1) b (cpu_busy p1))
      (case cpu of None \<Rightarrow> 0 | Some (b, t) \<Rightarrow> monotone_delta (cpu_primed p1) t (cpu_total p1))
      (case disk of None \<Rightarrow> 0 | Some d \<Rightarrow> monotone_delta (disk_primed p1) d (disk_io_ms p1))
      (if now > mono_ms p1 then now - mono_ms p1 else 1) nb na mb mt"
    obtain q out where L: "latch_net (net_delta p1 net \<noteq> None) (latch_disk (disk \<noteq> None \<and> disk_primed p1)
        (latch_mem (opcd_fault_parse_meminfo (read_text fs (path_meminfo p)) \<noteq> None)
          (latch_cpu (cpu \<noteq> None \<and> cpu_primed p1) (p1, out0)))) = (q, out)"
      by fastforce
    have "opcd_fault_probe_sample fs now p = (out, refresh_baselines cpu disk net now q)"
      unfolding opcd_fault_probe_sample_def r Let_def prod.case m n cpu_def [symmetric] disk_def [symmetric]
        out0_def [symmetric] L if_P [OF True] ..
    then show ?thesis using L unfolding out0_def by (intro disjI2 exI conjI)
  qed
qed

lemma latch_cpu_frame:
  "r \<noteq> OPCD_FAULT_RES_CPU \<Longrightarrow> res_notified r (fst (latch_cpu m s)) = res_notified r (fst s)"
  "r \<noteq> OPCD_FAULT_RES_CPU \<Longrightarrow> res_congested r (fst (latch_cpu m s)) = res_congested r (fst s)"
  "r \<noteq> OPCD_FAULT_RES_CPU \<Longrightarrow> res_entered r (snd (latch_cpu m s)) = res_entered r (snd s)"
  "r \<noteq> OPCD_FAULT_RES_CPU \<Longrightarrow> res_cleared r (snd (latch_cpu m s)) = res_cleared r (snd s)"
  "res_over r (snd (latch_cpu m s)) = res_over r (snd s)" "res_pct r (snd (latch_cpu m s)) = res_pct r (snd s)"
  "threshold_pct (fst (latch_cpu m s)) = threshold_pct (fst s)" "clear_pct (fst (latch_cpu m s)) = clear_pct (fst s)"
  "probe_interval_s (fst (latch_cpu m s)) = probe_interval_s (fst s)"
  by (cases r; cases s; cases m; simp add: latch_cpu_def)+

lemma latch_cpu_own:
  "res_notified OPCD_FAULT_RES_CPU (fst (latch_cpu m s)) = (if m then res_over OPCD_FAULT_RES_CPU (snd s) else res_notified OPCD_FAULT_RES_CPU (fst s))"
  "res_congested OPCD_FAULT_RES_CPU (fst (latch_cpu m s)) = (if m then res_over OPCD_FAULT_RES_CPU (snd s) else res_congested OPCD_FAULT_RES_CPU (fst s))"
  "res_entered OPCD_FAULT_RES_CPU (snd (latch_cpu m s)) =
    (if m then res_over OPCD_FAULT_RES_CPU (snd s) \<and> \<not> res_notified OPCD_FAULT_RES_CPU (fst s) else res_entered OPCD_FAULT_RES_CPU (snd s))"
  "res_cleared OPCD_FAULT_RES_CPU (snd (latch_cpu m s)) =
    (if m then \<not> res_over OPCD_FAULT_RES_CPU (snd s) \<and> res_notified OPCD_FAULT_RES_CPU (fst s) else res_cleared OPCD_FAULT_RES_CPU (snd s))"
  by (cases s; simp add: latch_cpu_def)+

lemma latch_mem_frame:
  "r \<noteq> OPCD_FAULT_RES_MEM \<Longrightarrow> res_notified r (fst (latch_mem m s)) = res_notified r (fst s)"
  "r \<noteq> OPCD_FAULT_RES_MEM \<Longrightarrow> res_congested r (fst (latch_mem m s)) = res_congested r (fst s)"
  "r \<noteq> OPCD_FAULT_RES_MEM \<Longrightarrow> res_entered r (snd (latch_mem m s)) = res_entered r (snd s)"
  "r \<noteq> OPCD_FAULT_RES_MEM \<Longrightarrow> res_cleared r (snd (latch_mem m s)) = res_cleared r (snd s)"
  "res_over r (snd (latch_mem m s)) = res_over r (snd s)" "res_pct r (snd (latch_mem m s)) = res_pct r (snd s)"
  "threshold_pct (fst (latch_mem m s)) = threshold_pct (fst s)" "clear_pct (fst (latch_mem m s)) = clear_pct (fst s)"
  "probe_interval_s (fst (latch_mem m s)) = probe_interval_s (fst s)"
  by (cases r; cases s; cases m; simp add: latch_mem_def)+

lemma latch_mem_own:
  "res_notified OPCD_FAULT_RES_MEM (fst (latch_mem m s)) = (if m then res_over OPCD_FAULT_RES_MEM (snd s) else res_notified OPCD_FAULT_RES_MEM (fst s))"
  "res_congested OPCD_FAULT_RES_MEM (fst (latch_mem m s)) = (if m then res_over OPCD_FAULT_RES_MEM (snd s) else res_congested OPCD_FAULT_RES_MEM (fst s))"
  "res_entered OPCD_FAULT_RES_MEM (snd (latch_mem m s)) =
    (if m then res_over OPCD_FAULT_RES_MEM (snd s) \<and> \<not> res_notified OPCD_FAULT_RES_MEM (fst s) else res_entered OPCD_FAULT_RES_MEM (snd s))"
  "res_cleared OPCD_FAULT_RES_MEM (snd (latch_mem m s)) =
    (if m then \<not> res_over OPCD_FAULT_RES_MEM (snd s) \<and> res_notified OPCD_FAULT_RES_MEM (fst s) else res_cleared OPCD_FAULT_RES_MEM (snd s))"
  by (cases s; simp add: latch_mem_def)+

lemma latch_disk_frame:
  "r \<noteq> OPCD_FAULT_RES_DISK \<Longrightarrow> res_notified r (fst (latch_disk m s)) = res_notified r (fst s)"
  "r \<noteq> OPCD_FAULT_RES_DISK \<Longrightarrow> res_congested r (fst (latch_disk m s)) = res_congested r (fst s)"
  "r \<noteq> OPCD_FAULT_RES_DISK \<Longrightarrow> res_entered r (snd (latch_disk m s)) = res_entered r (snd s)"
  "r \<noteq> OPCD_FAULT_RES_DISK \<Longrightarrow> res_cleared r (snd (latch_disk m s)) = res_cleared r (snd s)"
  "res_over r (snd (latch_disk m s)) = res_over r (snd s)" "res_pct r (snd (latch_disk m s)) = res_pct r (snd s)"
  "threshold_pct (fst (latch_disk m s)) = threshold_pct (fst s)" "clear_pct (fst (latch_disk m s)) = clear_pct (fst s)"
  "probe_interval_s (fst (latch_disk m s)) = probe_interval_s (fst s)"
  by (cases r; cases s; cases m; simp add: latch_disk_def)+

lemma latch_disk_own:
  "res_notified OPCD_FAULT_RES_DISK (fst (latch_disk m s)) = (if m then res_over OPCD_FAULT_RES_DISK (snd s) else res_notified OPCD_FAULT_RES_DISK (fst s))"
  "res_congested OPCD_FAULT_RES_DISK (fst (latch_disk m s)) = (if m then res_over OPCD_FAULT_RES_DISK (snd s) else res_congested OPCD_FAULT_RES_DISK (fst s))"
  "res_entered OPCD_FAULT_RES_DISK (snd (latch_disk m s)) =
    (if m then res_over OPCD_FAULT_RES_DISK (snd s) \<and> \<not> res_notified OPCD_FAULT_RES_DISK (fst s) else res_entered OPCD_FAULT_RES_DISK (snd s))"
  "res_cleared OPCD_FAULT_RES_DISK (snd (latch_disk m s)) =
    (if m then \<not> res_over OPCD_FAULT_RES_DISK (snd s) \<and> res_notified OPCD_FAULT_RES_DISK (fst s) else res_cleared OPCD_FAULT_RES_DISK (snd s))"
  by (cases s; simp add: latch_disk_def)+

lemma latch_net_frame:
  "r \<noteq> OPCD_FAULT_RES_NET \<Longrightarrow> res_notified r (fst (latch_net m s)) = res_notified r (fst s)"
  "r \<noteq> OPCD_FAULT_RES_NET \<Longrightarrow> res_congested r (fst (latch_net m s)) = res_congested r (fst s)"
  "r \<noteq> OPCD_FAULT_RES_NET \<Longrightarrow> res_entered r (snd (latch_net m s)) = res_entered r (snd s)"
  "r \<noteq> OPCD_FAULT_RES_NET \<Longrightarrow> res_cleared r (snd (latch_net m s)) = res_cleared r (snd s)"
  "res_over r (snd (latch_net m s)) = res_over r (snd s)" "res_pct r (snd (latch_net m s)) = res_pct r (snd s)"
  "threshold_pct (fst (latch_net m s)) = threshold_pct (fst s)" "clear_pct (fst (latch_net m s)) = clear_pct (fst s)"
  "probe_interval_s (fst (latch_net m s)) = probe_interval_s (fst s)"
  by (cases r; cases s; cases m; simp add: latch_net_def)+

lemma latch_net_own:
  "res_notified OPCD_FAULT_RES_NET (fst (latch_net m s)) = (if m then res_over OPCD_FAULT_RES_NET (snd s) else res_notified OPCD_FAULT_RES_NET (fst s))"
  "res_congested OPCD_FAULT_RES_NET (fst (latch_net m s)) = (if m then res_over OPCD_FAULT_RES_NET (snd s) else res_congested OPCD_FAULT_RES_NET (fst s))"
  "res_entered OPCD_FAULT_RES_NET (snd (latch_net m s)) =
    (if m then res_over OPCD_FAULT_RES_NET (snd s) \<and> \<not> res_notified OPCD_FAULT_RES_NET (fst s) else res_entered OPCD_FAULT_RES_NET (snd s))"
  "res_cleared OPCD_FAULT_RES_NET (snd (latch_net m s)) =
    (if m then \<not> res_over OPCD_FAULT_RES_NET (snd s) \<and> res_notified OPCD_FAULT_RES_NET (fst s) else res_cleared OPCD_FAULT_RES_NET (snd s))"
  by (cases s; simp add: latch_net_def)+

lemmas latch_simps = latch_cpu_frame latch_mem_frame latch_disk_frame latch_net_frame
  latch_cpu_own latch_mem_own latch_disk_own latch_net_own

text \<open>Every sample is a step of each resource.\<close>

lemma sample_res:
  assumes band: "fault_band_ok p" and s: "opcd_fault_probe_sample fs now p = (out, p')"
  shows "\<exists>m. res_step r m p out p'"
proof -
  obtain k where k: "snd (read_net_survey fs p) = p\<lparr>net_missing := k\<rparr>" using read_net_survey_only_counter by blast
  have b1: "fault_band_ok (p\<lparr>net_missing := k\<rparr>)" using band by simp
  from sample_shape [of fs now p, unfolded k] show ?thesis
  proof (elim disjE exE conjE)
    fix cpu disk net
    assume "opcd_fault_probe_sample fs now p = (zero_fault_report, refresh_baselines cpu disk net now (p\<lparr>net_missing := k\<rparr>))"
    then have "res_step r False p out p'"
      using s by (cases r) (simp_all add: res_step_def zero_fault_report_def del: res_congested.simps res_notified.simps)
    then show ?thesis ..
  next
    fix cpu disk net a b c d e f g h mc mm md mn o' q
    assume sh: "opcd_fault_probe_sample fs now p = (o', refresh_baselines cpu disk net now q)"
      and l: "latch_net mn (latch_disk md (latch_mem mm (latch_cpu mc (p\<lparr>net_missing := k\<rparr>,
        opcd_fault_evaluate (p\<lparr>net_missing := k\<rparr>) a b c d e f g h)))) = (q, o')"
    define m where "m = (case r of OPCD_FAULT_RES_CPU \<Rightarrow> mc | OPCD_FAULT_RES_MEM \<Rightarrow> mm | OPCD_FAULT_RES_DISK \<Rightarrow> md
      | OPCD_FAULT_RES_NET \<Rightarrow> mn)"
    have p': "p' = refresh_baselines cpu disk net now q" and o: "out = snd (latch_net mn (latch_disk md (latch_mem mm
        (latch_cpu mc (p\<lparr>net_missing := k\<rparr>, opcd_fault_evaluate (p\<lparr>net_missing := k\<rparr>) a b c d e f g h)))))"
      and q: "q = fst (latch_net mn (latch_disk md (latch_mem mm
        (latch_cpu mc (p\<lparr>net_missing := k\<rparr>, opcd_fault_evaluate (p\<lparr>net_missing := k\<rparr>) a b c d e f g h)))))"
      using s sh l by simp_all
    note ev = evaluate_res [OF b1, where r = r and a = a and b = b and c = c and d = d and e = e and f = f and g = g and h = h]
    have "res_step r m p out p'"
      unfolding res_step_def o q p' refresh_baselines_frame m_def
      using ev by (cases r) (simp_all only: latch_simps fst_conv snd_conv res_counter opcd_fault_res_t.distinct not_False_eq_True
        opcd_fault_res_t.case, simp_all del: res_congested.simps res_notified.simps res_over.simps res_pct.simps
        res_entered.simps res_cleared.simps)
    then show ?thesis ..
  qed
qed

lemma sample_latched:
  assumes "fault_latched p" "opcd_fault_probe_sample fs now p = (out, p')"
  shows "fault_latched p'"
    and "threshold_pct p' = threshold_pct p" "clear_pct p' = clear_pct p"
    and "unat (res_pct r out) \<le> 100"
    and "res_entered r out \<Longrightarrow> \<not> res_notified r p \<and> unat (threshold_pct p) \<le> unat (res_pct r out)"
    and "res_cleared r out \<Longrightarrow> res_notified r p \<and> unat (res_pct r out) < unat (clear_pct p)"
    and "res_notified r p' = ((res_notified r p \<or> res_entered r out) \<and> \<not> res_cleared r out)"
proof -
  have band: "fault_band_ok p" and eq: "\<And>r. res_notified r p = res_congested r p"
    using assms(1) by (simp_all add: fault_latched_def)
  have st: "\<exists>m. res_step r m p out p'" for r using sample_res [OF band assms(2)] .
  show c: "threshold_pct p' = threshold_pct p" "clear_pct p' = clear_pct p" using st [of r] by (auto simp: res_step_def)
  have i: "probe_interval_s p' = probe_interval_s p" using st [of r] by (auto simp: res_step_def)
  have "res_notified r p' = res_congested r p'" for r using st [of r] eq [of r] by (auto simp: res_step_def split: if_splits)
  then show "fault_latched p'" using band c i by (simp add: fault_latched_def fault_band_ok_def)
  show "unat (res_pct r out) \<le> 100"
    "res_entered r out \<Longrightarrow> \<not> res_notified r p \<and> unat (threshold_pct p) \<le> unat (res_pct r out)"
    "res_cleared r out \<Longrightarrow> res_notified r p \<and> unat (res_pct r out) < unat (clear_pct p)"
    "res_notified r p' = ((res_notified r p \<or> res_entered r out) \<and> \<not> res_cleared r out)"
    using st [of r] eq [of r] by (auto simp: res_step_def split: if_splits)
qed

text \<open>C34: In any sequence of samples without a re-arm, each resource reports entries and clears in turn, an
  entry only at the entry level or above and a clear only below the release level, so a utilisation inside the
  band reports nothing; every percentage is at most 100.\<close>

theorem fault_run_hysteresis:
  assumes "fault_latched p"
  shows "alternates (res_notified r p) (map (\<lambda>out. (res_entered r out, res_cleared r out)) (fault_run ss p))
    \<and> list_all (\<lambda>out. unat (res_pct r out) \<le> 100
        \<and> (res_entered r out \<longrightarrow> unat (threshold_pct p) \<le> unat (res_pct r out))
        \<and> (res_cleared r out \<longrightarrow> unat (res_pct r out) < unat (clear_pct p))) (fault_run ss p)"
  using assms
proof (induction ss p rule: fault_run.induct)
  case (2 fs now ss p)
  obtain out p' where s: "opcd_fault_probe_sample fs now p = (out, p')" by fastforce
  note st = sample_latched [OF "2.prems" s]
  have "alternates (res_notified r p') (map (\<lambda>out. (res_entered r out, res_cleared r out)) (fault_run ss p'))"
    "list_all (\<lambda>out. unat (res_pct r out) \<le> 100
        \<and> (res_entered r out \<longrightarrow> unat (threshold_pct p) \<le> unat (res_pct r out))
        \<and> (res_cleared r out \<longrightarrow> unat (res_pct r out) < unat (clear_pct p))) (fault_run ss p')"
    using "2.IH" [OF s [symmetric] st(1)] st(2,3) by simp_all
  then show ?case using st(4-7) [of r] by (auto simp: s)
qed simp

theorem fault_run_hysteresis_witness:
  "alternates False (map (\<lambda>out. (res_entered OPCD_FAULT_RES_CPU out, res_cleared OPCD_FAULT_RES_CPU out))
      (fault_run stat_samples opcd_fault_probe_init))
   \<and> list_all (\<lambda>out. cpu_entered out \<longrightarrow> 80 \<le> unat (cpu_pct out)) (fault_run stat_samples opcd_fault_probe_init)"
proof -
  have l: "fault_latched opcd_fault_probe_init"
    unfolding fault_latched_def
  proof (intro conjI allI)
    show "res_notified r opcd_fault_probe_init = res_congested r opcd_fault_probe_init" for r
      by (cases r) (simp_all add: opcd_fault_probe_init_def)
  qed (simp add: fault_band_ok_def opcd_fault_probe_init_def)
  have n: "res_notified OPCD_FAULT_RES_CPU opcd_fault_probe_init = False" by (simp add: opcd_fault_probe_init_def)
  have th: "unat (threshold_pct opcd_fault_probe_init) = 80" by (simp add: opcd_fault_probe_init_def)
  show ?thesis
    using fault_run_hysteresis [OF l, of OPCD_FAULT_RES_CPU stat_samples] n th by (auto simp: list_all_iff)
qed

end
