(* ===== verification/Opcd_State.thy ===== *)
theory Opcd_State
  imports Commands Indications Scan_Chlist Store_Async Iplist_Text Fault_Probe
begin

text \<open>
  The daemon's state (\<open>opcd/opcd_state.h\<close>) and what it runs in: the platform interface (\<open>opcd/platform.h\<close>), the
  inventory (\<open>opcd/inventory.h\<close>), the clock, the file system and the socket. The state record holds the fields of
  \<open>struct opcd_state\<close>, and at its end the file system, a counter of system call runs, the log of what the
  process has done to its surroundings and whether it has called \<open>abort()\<close>. The record \<open>env\<close> is what a call
  reads from its surroundings; results that may differ from call to call are indexed by the length of the log
  or by the counter. A platform function gives \<open>None\<close> for a failure code.
\<close>

subsection \<open>Constants\<close>

definition OPC_STATION_SINGLE :: u16 where [simp]: "OPC_STATION_SINGLE = 0x0001"
definition OPC_STATION_DUAL :: u16 where [simp]: "OPC_STATION_DUAL = 0x0002"
definition OPC_DEVICE_BOOTING :: u32 where [simp]: "OPC_DEVICE_BOOTING = 0"
definition OPC_DEVICE_READY :: u32 where [simp]: "OPC_DEVICE_READY = 1"
definition OPC_DEVICE_LOGGED_IN :: u32 where [simp]: "OPC_DEVICE_LOGGED_IN = 2"
definition OPC_INIT_STATE_READY :: u32 where [simp]: "OPC_INIT_STATE_READY = 1"
definition OPC_INIT_STATE_RADIO_UP :: u32 where [simp]: "OPC_INIT_STATE_RADIO_UP = 2"
definition OPC_INIT_STATE_LOGGED_IN :: u32 where [simp]: "OPC_INIT_STATE_LOGGED_IN = 3"
definition OPC_INIT_STATE_LOGGED_OUT :: u32 where [simp]: "OPC_INIT_STATE_LOGGED_OUT = 4"
definition OPC_RESET_CAUSE_USER :: u32 where [simp]: "OPC_RESET_CAUSE_USER = 1"
definition OPCD_ASSOC_LATCH_TTL_S :: int where [simp]: "OPCD_ASSOC_LATCH_TTL_S = 5"
definition OPCD_PENDING_ACK_MAX :: nat where [simp]: "OPCD_PENDING_ACK_MAX = 16"
definition OPC_DEFAULT_UDP_PORT :: u16 where [simp]: "OPC_DEFAULT_UDP_PORT = 50607"
definition OPC_DEFAULT_ROAM_NOTIFY_PORT :: u16 where [simp]: "OPC_DEFAULT_ROAM_NOTIFY_PORT = 50608"
definition OPC_PASSWORD_DEFAULT :: "u8 list" where "OPC_PASSWORD_DEFAULT = bytes_of ''MyPassword''"

subsection \<open>Configuration\<close>

datatype opcd_freq_source_t = OPC_FREQ_SRC_LIVE | OPC_FREQ_SRC_AUTO | OPC_FREQ_SRC_CONFIG
datatype opcd_ip_iface_t = OPC_IP_IFACE_ETH0 | OPC_IP_IFACE_MLAN0
datatype opcd_topology_t = OPC_TOPOLOGY_ETH0_IP | OPC_TOPOLOGY_PEER_ROUTE

record opcd_conf_t =
  udp_port :: u16
  roam_notify_port :: u16
  default_station_type :: u16
  login_idle_s :: u32
  device_info_freq_source :: opcd_freq_source_t
  device_ip_iface :: opcd_ip_iface_t
  management_topology :: opcd_topology_t

record opcd_paths_t =
  p_conf :: path
  p_password :: path
  p_ip_list :: path
  p_ip_list_user :: "path ptr"
  p_ip_list_user_last :: "path ptr"
  p_ip_list_legacy :: "path ptr"
  p_radio :: path
  p_radio_marker :: "path ptr"
  p_device_info :: path
  p_temp_dir :: path
  p_wifi_init_conf :: "path ptr"
  p_reset_cause :: path

subsection \<open>Pending acknowledgments and staged indications\<close>

datatype opcd_persist_resource_t =
  OPCD_PERSIST_NONE | OPCD_PERSIST_PASSWORD | OPCD_PERSIST_IP_LIST | OPCD_PERSIST_RADIO

datatype opcd_radio_recovery_state_t =
    OPCD_RADIO_RECOVERY_HEALTHY
  | OPCD_RADIO_RECOVERY_DEGRADED_UNKNOWN_BASELINE
  | OPCD_RADIO_RECOVERY_DEGRADED_RESTORE_FAILED

text \<open>The receipt time of the request is only logged and is left out.\<close>

record opcd_pending_ack_t =
  pa_in_use :: bool
  pa_no_ack :: bool
  pa_resource :: opcd_persist_resource_t
  pa_req_id :: u16
  pa_seq :: u16
  pa_radio_gen :: u32
  pa_client_ip :: u32
  pa_client_port :: u16

record opcd_ind_coalesce =
  wlan_pending :: bool
  wlan_status :: u16
  wlan_ch :: u16
  roam_pending :: bool
  roam_snr :: u8
  roam_rssi :: u8
  roam_mac :: "u8 list"
  roam_ch :: u16
  apd_pending :: bool
  apd_msg_id :: u16
  apd_reason :: u16
  apd_mac :: "u8 list"
  fault_pending :: "bool list"
  fault_val :: "u16 list"

definition zero_pending_ack :: opcd_pending_ack_t where
  "zero_pending_ack = \<lparr>pa_in_use = False, pa_no_ack = False, pa_resource = OPCD_PERSIST_NONE, pa_req_id = 0,
     pa_seq = 0, pa_radio_gen = 0, pa_client_ip = 0, pa_client_port = 0\<rparr>"

definition zero_coalesce :: opcd_ind_coalesce where
  "zero_coalesce = \<lparr>wlan_pending = False, wlan_status = 0, wlan_ch = 0, roam_pending = False, roam_snr = 0,
     roam_rssi = 0, roam_mac = replicate 6 0, roam_ch = 0, apd_pending = False, apd_msg_id = 0, apd_reason = 0,
     apd_mac = replicate 6 0, fault_pending = replicate 4 False, fault_val = replicate 4 0\<rparr>"

definition zero_ip_list :: opcd_ip_list_t where
  "zero_ip_list = \<lparr>il_slots = replicate OPC_IPCFG_LIST_MAX_SLOTS zero_ipcfg_entry,
     il_present = replicate OPC_IPCFG_LIST_MAX_SLOTS False\<rparr>"

definition zero_radio_cfg :: opc_wlan_radio_cfg_t where
  "zero_radio_cfg = \<lparr>rc_mode = 0, rc_bandwidth = 0, rc_scan_band = 0, rc_scan_chlist = replicate OPC_SCAN_CHLIST_LEN 0\<rparr>"

definition zero_radio :: opc_set_radio_config_req_t where
  "zero_radio = \<lparr>station_type = 0, priority_ch = 0, wlan1 = zero_radio_cfg, wlan2 = zero_radio_cfg\<rparr>"

subsection \<open>Platform and environment\<close>

record opcd_platform_link_t =
  lk_freq_mhz :: u16
  lk_channel :: u16
  lk_bssid :: "u8 list"
  lk_snr :: u8
  lk_rssi :: u8
  lk_snr_valid :: bool
  lk_rssi_valid :: bool
  lk_associated :: bool

record opcd_platform_ops_t =
  get_eth_mac :: "u8 list option"
  get_dev_ipv4 :: "int \<Rightarrow> (u32 \<times> u32 \<times> u32) option"
  lookup_direct_route :: "u32 \<Rightarrow> u32 option"
  get_wlan_mac :: "int \<Rightarrow> u8 list option"
  get_essid :: "int \<Rightarrow> u8 list option"
  get_firmware_version :: "u8 list option"
  get_ntp_server :: "u32 option"
  get_wlan_count :: int
  get_link :: "int \<Rightarrow> opcd_platform_link_t option"
  validate_radio_config :: "opc_set_radio_config_req_t \<Rightarrow> u16"
  apply_radio_config :: "nat \<Rightarrow> opc_set_radio_config_req_t \<Rightarrow> int"
  apply_ip_change :: "nat \<Rightarrow> opc_ipcfg_entry_t \<Rightarrow> int \<Rightarrow> u16 \<Rightarrow> int"
  peer_route_refresh :: "nat \<Rightarrow> u32 \<Rightarrow> u32 \<Rightarrow> int"
  prepare_reset :: "nat \<Rightarrow> int"

record opcd_inventory_t =
  inv_vendor_code :: u32
  inv_product_code :: u16
  inv_product_subcode :: u16
  inv_hardware_version :: "u8 list"
  inv_serial_number :: "u8 list"
  inv_manufacture_date :: opc_date_t
  inv_shipment_date :: opc_date_t
  inv_ieee_11r :: u8
  inv_ieee_11ai :: u8
  inv_ieee_11k :: u8
  inv_ieee_11v :: u8

text \<open>What one call sees: \<open>CLOCK_MONOTONIC\<close> in seconds and in milliseconds, the KeepAlive time stamp, the platform,
  the inventory, the system calls of the k-th file access, whether the \<open>sendto\<close> that becomes entry k of the log sends
  the whole frame, the files under \<open>/proc\<close> and the link statistics, and of other paths their modification time and
  whether looking at, renaming or removing them fails for another reason than their absence.\<close>

record env =
  mono_now_s :: int
  mono_now_ms :: u64
  wall_stamp :: "u8 list"
  plat :: opcd_platform_ops_t
  inventory :: opcd_inventory_t
  store_calls :: "nat \<Rightarrow> store_sys"
  send_ok :: "nat \<Rightarrow> bool"
  proc_files :: files
  mtime_of :: "path \<Rightarrow> int \<times> int"
  stat_error :: "path \<Rightarrow> bool"
  rename_ok :: "path \<Rightarrow> bool"
  unlink_ok :: "path \<Rightarrow> bool"

text \<open>What the process does to its surroundings, in order; \<open>Datagram\<close> is one call of \<open>sendto\<close>.\<close>

datatype action =
    Datagram u32 u16 "u8 list"
  | ApplyRadio opc_set_radio_config_req_t
  | ApplyIp opc_ipcfg_entry_t int u16
  | PeerRoute u32 u32
  | StartReboot

subsection \<open>The state\<close>

record opcd_state_t =
  conf :: opcd_conf_t
  paths :: opcd_paths_t
  logged_in :: bool
  holder_ip :: u32
  holder_port :: u16
  idle_deadline :: int
  session_generation :: u32
  password :: "u8 list"
  password_unsynced :: bool
  password_unsynced_prev :: "u8 list"
  radio :: opc_set_radio_config_req_t
  radio_committed :: bool
  radio_applied_known :: bool
  radio_recovery_state :: opcd_radio_recovery_state_t
  radio_gen :: u32
  ip_list :: opcd_ip_list_t
  radio_revert_pending :: bool
  radio_revert_cfg :: opc_set_radio_config_req_t
  radio_revert_committed :: bool
  radio_persist_baseline_valid :: bool
  ip_list_staging :: opcd_ip_list_t
  ip_list_staging_active :: bool
  ip_change_pending :: bool
  ip_change_commit_armed :: bool
  ip_change_logout_deferred :: bool
  ip_change_list_no :: u16
  ip_change_armed_no :: u16
  ip_change_armed_entry :: opc_ipcfg_entry_t
  fault_probe :: opcd_fault_probe_t
  indication_enabled :: bool
  indication_recipient_ip :: u32
  indication_recipient_port :: u16
  indication_info_bits :: u8
  indication_period_s :: u8
  radio_up_reported :: bool
  wlan0_assoc_known :: bool
  wlan0_assoc :: bool
  wlan0_assoc_at :: int
  indication_seq :: u16
  indication_tick_counter :: int
  indication_coalesce :: "opcd_ind_coalesce list"
  boot_status :: u32
  store_async :: "opc_store_async option"
  pending_acks :: "opcd_pending_ack_t list"
  pending_password :: "u8 list"
  pending_ip_list :: opcd_ip_list_t
  pending_ip_staging :: opcd_ip_list_t
  pending_ip_staging_active :: bool
  pending_ip_staging_session_generation :: u32
  udp_fd :: int
  should_exit :: bool
  should_reset :: bool
  reset_notice_sent :: bool
  fs :: files
  fs_runs :: nat
  log :: "action list"
  aborted :: bool

subsection \<open>Start (\<open>state_set_defaults\<close> of \<open>opcd/opcd.c\<close>)\<close>

definition OPC_LOGIN_IDLE_S :: u32 where [simp]: "OPC_LOGIN_IDLE_S = 300"
definition OPC_PASSWORD_BUF :: nat where [simp]: "OPC_PASSWORD_BUF = 128"

definition opc_path :: "string \<Rightarrow> path" where
  "opc_path name = bytes_of (''/usr/local/opc/etc'' @ name)"

definition zero_password :: "u8 list" where
  "zero_password = replicate OPC_PASSWORD_BUF 0"

definition state_set_defaults :: "files \<Rightarrow> opcd_state_t" where
  "state_set_defaults F =
     \<lparr>conf = \<lparr>udp_port = OPC_DEFAULT_UDP_PORT, roam_notify_port = OPC_DEFAULT_ROAM_NOTIFY_PORT,
              default_station_type = OPC_STATION_SINGLE, login_idle_s = OPC_LOGIN_IDLE_S,
              device_info_freq_source = OPC_FREQ_SRC_LIVE, device_ip_iface = OPC_IP_IFACE_ETH0,
              management_topology = OPC_TOPOLOGY_ETH0_IP\<rparr>,
      paths = \<lparr>p_conf = opc_path ''/opc.conf'', p_password = opc_path ''/password'',
               p_ip_list = opc_path ''/iplist.txt'', p_ip_list_user = Some (bytes_of ''/home/admin/iplist.txt''),
               p_ip_list_user_last = Some (opc_path ''/iplist.user.last''),
               p_ip_list_legacy = Some (opc_path ''/iplist.cfg''), p_radio = opc_path ''/radio.conf'',
               p_radio_marker = Some (opc_path ''/radio.txn''), p_device_info = opc_path ''/device_info.json'',
               p_temp_dir = opc_path ''/temp'', p_wifi_init_conf = Some (bytes_of ''/usr/local/etc/wifi_init_conf.json''),
               p_reset_cause = bytes_of ''/run/opc/reset_cause''\<rparr>,
      logged_in = False, holder_ip = 0, holder_port = 0, idle_deadline = 0, session_generation = 0,
      password = put 0 OPC_PASSWORD_DEFAULT zero_password, password_unsynced = False,
      password_unsynced_prev = zero_password,
      radio = zero_radio\<lparr>station_type := OPC_STATION_SINGLE,
                wlan1 := zero_radio_cfg\<lparr>rc_scan_band := OPC_SCAN_BAND_UNSET\<rparr>,
                wlan2 := zero_radio_cfg\<lparr>rc_scan_band := OPC_SCAN_BAND_UNSET\<rparr>\<rparr>,
      radio_committed = False, radio_applied_known = False,
      radio_recovery_state = OPCD_RADIO_RECOVERY_HEALTHY, radio_gen = 0, ip_list = zero_ip_list,
      radio_revert_pending = False, radio_revert_cfg = zero_radio, radio_revert_committed = False,
      radio_persist_baseline_valid = False, ip_list_staging = zero_ip_list, ip_list_staging_active = False,
      ip_change_pending = False, ip_change_commit_armed = False, ip_change_logout_deferred = False,
      ip_change_list_no = 0, ip_change_armed_no = 0, ip_change_armed_entry = zero_ipcfg_entry,
      fault_probe = opcd_fault_probe_init, indication_enabled = False, indication_recipient_ip = 0,
      indication_recipient_port = 0, indication_info_bits = 0, indication_period_s = 0,
      radio_up_reported = False, wlan0_assoc_known = False, wlan0_assoc = False, wlan0_assoc_at = 0,
      indication_seq = 0, indication_tick_counter = 0, indication_coalesce = [zero_coalesce, zero_coalesce],
      boot_status = OPC_DEVICE_BOOTING, store_async = None,
      pending_acks = replicate OPCD_PENDING_ACK_MAX zero_pending_ack, pending_password = zero_password,
      pending_ip_list = zero_ip_list, pending_ip_staging = zero_ip_list, pending_ip_staging_active = False,
      pending_ip_staging_session_generation = 0, udp_fd = -1, should_exit = False, should_reset = False,
      reset_notice_sent = False, fs = F, fs_runs = 0, log = [], aborted = False\<rparr>"

end
