(* ===== verification/Radio_Events.thy ===== *)
theory Radio_Events
  imports Opcd_State Json_Util
begin

text \<open>
  Radio events: the channel field of the wire (\<open>opcd/chan_encode.c\<close>), the netlink parser
  (\<open>opcd/nl80211_parse.c\<close>) and the roam-notify datagrams (\<open>opcd/roam_datagram.c\<close>). A netlink message is its
  bytes; the host is little-endian.
\<close>

subsection \<open>Platform events (\<open>opcd/platform.h\<close>)\<close>

definition OPCD_WLAN_STATUS_DOWN :: u16 where [simp]: "OPCD_WLAN_STATUS_DOWN = 0"
definition OPCD_WLAN_STATUS_UP :: u16 where [simp]: "OPCD_WLAN_STATUS_UP = 1"
definition OPCD_WLAN_STATUS_ASSOCIATED :: u16 where [simp]: "OPCD_WLAN_STATUS_ASSOCIATED = 2"
definition OPCD_WLAN_STATUS_CHANNEL_CHANGE :: u16 where [simp]: "OPCD_WLAN_STATUS_CHANNEL_CHANGE = 3"

datatype opcd_platform_evt_t =
    OPCD_PEVT_NONE
  | OPCD_PEVT_INIT_COMPLETE u32
  | OPCD_PEVT_WLAN_STATUS u8 u16 u16
  | OPCD_PEVT_ROAMING u8 u8 u8 "u8 list" u16
  | OPCD_PEVT_AP_DISCONNECT u8 u16 u16 "u8 list"
  | OPCD_PEVT_FAULT_DETECT u16 u16
  | OPCD_PEVT_RESET_NOTICE u32

subsection \<open>Channel field\<close>

definition OPC_BAND_2_4GHZ :: u16 where [simp]: "OPC_BAND_2_4GHZ = 1"
definition OPC_BAND_5GHZ :: u16 where [simp]: "OPC_BAND_5GHZ = 2"
definition OPC_BAND_6GHZ :: u16 where [simp]: "OPC_BAND_6GHZ = 6"
definition OPC_WLAN_CH_UNSET :: u16 where [simp]: "OPC_WLAN_CH_UNSET = 0xFFFF"

definition opc_chan_field :: "u32 \<Rightarrow> u16 \<Rightarrow> u16" where
  "opc_chan_field freq_mhz ch =
     (if ch = 0 \<or> ch > 0xFF then 0
      else let band = (if freq_mhz \<ge> 2412 \<and> freq_mhz \<le> 2484 then OPC_BAND_2_4GHZ
                       else if freq_mhz \<ge> 5000 \<and> freq_mhz \<le> 5895 then OPC_BAND_5GHZ
                       else if freq_mhz \<ge> 5955 \<and> freq_mhz \<le> 7115 then OPC_BAND_6GHZ
                       else 0)
        in or (push_bit 8 band) ch)"

definition opc_assoc_chan_field :: "u32 \<Rightarrow> u16 \<Rightarrow> bool \<Rightarrow> u32 \<Rightarrow> u16 \<Rightarrow> u16" where
  "opc_assoc_chan_field evt_freq evt_ch fb_valid fb_freq fb_ch =
     (let ch = opc_chan_field evt_freq evt_ch;
          ch = (if ch = 0 \<and> fb_valid
                then let fb_field = opc_chan_field fb_freq fb_ch in
                  (if drop_bit 8 fb_field \<noteq> 0 then fb_field else ch)
                else ch)
      in if ch \<noteq> 0 then ch else OPC_WLAN_CH_UNSET)"

definition opc_notify_chan_field :: "u32 \<Rightarrow> u16 \<Rightarrow> u16" where
  "opc_notify_chan_field freq_mhz ch =
     (let field = opc_chan_field freq_mhz ch in if drop_bit 8 field \<noteq> 0 then field else OPC_WLAN_CH_UNSET)"

subsection \<open>Netlink\<close>

definition NL_HDRS :: nat where [simp]: "NL_HDRS = 20"
definition NL80211_CMD_GET_INTERFACE :: u8 where [simp]: "NL80211_CMD_GET_INTERFACE = 5"
definition NL80211_ATTR_IFINDEX :: u16 where [simp]: "NL80211_ATTR_IFINDEX = 3"
definition NLM_F_REQUEST :: u16 where [simp]: "NLM_F_REQUEST = 1"
definition NLA_TYPE_MASK :: u16 where [simp]: "NLA_TYPE_MASK = 0x3FFF"

definition NLA_ALIGN :: "nat \<Rightarrow> nat" where
  "NLA_ALIGN n = (n + 3) div 4 * 4"

definition rd_u16 :: "u8 list \<Rightarrow> u16" where
  "rd_u16 p = opc_be16_read (rev (take 2 p))"

definition rd_u32 :: "u8 list \<Rightarrow> u32" where
  "rd_u32 p = opc_be32_read (rev (take 4 p))"

definition wr_u16 :: "u16 \<Rightarrow> u8 list" where
  "wr_u16 v = rev (opc_be16_write v)"

definition wr_u32 :: "u32 \<Rightarrow> u8 list" where
  "wr_u32 v = rev (opc_be32_write v)"

definition freq_to_channel :: "u32 \<Rightarrow> u16" where
  "freq_to_channel f =
     (if f \<ge> 2412 \<and> f \<le> 2472 then ucast ((f - 2407) div 5)
      else if f = 2484 then 14
      else if f \<ge> 5000 \<and> f \<le> 5895 then ucast ((f - 5000) div 5)
      else if f \<ge> 5955 \<and> f \<le> 7115 then ucast ((f - 5950) div 5)
      else 0)"

datatype opcd_nl_kind_t =
    OPCD_NL_IGNORE | OPCD_NL_CONNECT | OPCD_NL_DISCONNECT | OPCD_NL_ROAM | OPCD_NL_CH_SWITCH
  | OPCD_NL_INTERFACE | OPCD_NL_DEAUTH | OPCD_NL_DISASSOC

record opcd_nl_evt_t =
  ev_kind :: opcd_nl_kind_t
  ev_ifindex :: u32
  ev_freq_mhz :: u32
  ev_channel :: u16
  ev_mac :: "u8 list"
  ev_mac_present :: bool
  ev_ap_frame_mac :: "u8 list"
  ev_reason_code :: u16
  ev_status_code :: u16
  ev_by_ap :: bool
  ev_ssid :: "u8 list"
  ev_ssid_present :: bool

definition zero_nl_evt :: opcd_nl_evt_t where
  "zero_nl_evt = \<lparr>ev_kind = OPCD_NL_IGNORE, ev_ifindex = 0, ev_freq_mhz = 0, ev_channel = 0,
     ev_mac = replicate 6 0, ev_mac_present = False, ev_ap_frame_mac = replicate 6 0, ev_reason_code = 0,
     ev_status_code = 0, ev_by_ap = False, ev_ssid = replicate 33 0, ev_ssid_present = False\<rparr>"

definition cmd_to_kind :: "u8 \<Rightarrow> opcd_nl_kind_t" where
  "cmd_to_kind cmd =
     (if cmd = 46 then OPCD_NL_CONNECT
      else if cmd = 47 then OPCD_NL_ROAM
      else if cmd = 48 then OPCD_NL_DISCONNECT
      else if cmd = 39 then OPCD_NL_DEAUTH
      else if cmd = 40 then OPCD_NL_DISASSOC
      else if cmd = 88 then OPCD_NL_CH_SWITCH
      else if cmd = 7 then OPCD_NL_INTERFACE
      else OPCD_NL_IGNORE)"

text \<open>The walk over an attribute area that the parsers share: the attributes in order as type and payload; it
  stops at the first malformed one.\<close>

function nl_attrs :: "u8 list \<Rightarrow> (u16 \<times> u8 list) list" where
  "nl_attrs s =
     (if length s < 4 then []
      else let nla_len = unat (rd_u16 s); nla_type = and (rd_u16 (drop 2 s)) NLA_TYPE_MASK in
        if nla_len < 4 then []
        else if nla_len > length s then []
        else (nla_type, slice 4 (nla_len - 4) s) # nl_attrs (drop (NLA_ALIGN nla_len) s))"
  by pat_completeness auto
termination by (relation "measure length") (auto simp: NLA_ALIGN_def)

definition nl_attr :: "opcd_nl_kind_t \<Rightarrow> u16 \<times> u8 list \<Rightarrow> opcd_nl_evt_t \<Rightarrow> opcd_nl_evt_t" where
  "nl_attr kind a out =
     (case a of (ty, pl) \<Rightarrow>
        if ty = NL80211_ATTR_IFINDEX then (if length pl \<ge> 4 then out\<lparr>ev_ifindex := rd_u32 pl\<rparr> else out)
        else if ty = 38 then
          (if length pl \<ge> 4 then out\<lparr>ev_freq_mhz := rd_u32 pl, ev_channel := freq_to_channel (rd_u32 pl)\<rparr> else out)
        else if ty = 72 then (if length pl \<ge> 2 then out\<lparr>ev_status_code := rd_u16 pl\<rparr> else out)
        else if ty = 54 then (if length pl \<ge> 2 then out\<lparr>ev_reason_code := rd_u16 pl\<rparr> else out)
        else if ty = 6 then (if length pl \<ge> 6 then out\<lparr>ev_mac := take 6 pl, ev_mac_present := True\<rparr> else out)
        else if ty = 51 then
          (let subtype = (if kind = OPCD_NL_DEAUTH then 0xC0 else 0xA0) in
           if (kind = OPCD_NL_DEAUTH \<or> kind = OPCD_NL_DISASSOC) \<and> length pl \<ge> 26 \<and> pl ! 0 = subtype
              \<and> and (pl ! 1) 3 = 0 \<and> and (pl ! 10) 1 = 0 \<and> slice 10 6 pl \<noteq> replicate 6 0
              \<and> slice 10 6 pl = slice 16 6 pl
           then out\<lparr>ev_ap_frame_mac := slice 10 6 pl\<rparr> else out)
        else if ty = 71 then out\<lparr>ev_by_ap := True\<rparr>
        else if ty = 52 then
          (if length pl > 0 \<and> length pl \<le> 32
           then out\<lparr>ev_ssid := put 0 (pl @ [0]) (ev_ssid out), ev_ssid_present := True\<rparr> else out)
        else out)"

text \<open>The event record and whether the call returned 0; the record is absent when \<open>out\<close> is NULL.\<close>

definition nl80211_parse_evt :: "u8 list ptr \<Rightarrow> int \<Rightarrow> opcd_nl_evt_t ptr \<Rightarrow> bool \<times> opcd_nl_evt_t option" where
  "nl80211_parse_evt msg family_id out =
     (case (msg, out) of
        (Some m, Some _) \<Rightarrow>
          if length m < NL_HDRS then (False, Some zero_nl_evt)
          else if family_id < 0 \<or> family_id > 0xFFFF then (False, Some zero_nl_evt)
          else if rd_u16 (drop 4 m) \<noteq> word_of_int family_id then (False, Some zero_nl_evt)
          else let kind = cmd_to_kind (m ! 16) in
            if kind = OPCD_NL_IGNORE then (False, Some zero_nl_evt)
            else (True, Some (fold (nl_attr kind) (nl_attrs (drop NL_HDRS m)) (zero_nl_evt\<lparr>ev_kind := kind\<rparr>)))
      | (_, None) \<Rightarrow> (False, None)
      | (None, Some _) \<Rightarrow> (False, Some zero_nl_evt))"

definition ctrl_grp_attr :: "u16 \<times> u8 list \<Rightarrow> bool \<times> u16 option \<Rightarrow> bool \<times> u16 option" where
  "ctrl_grp_attr a acc =
     (case (a, acc) of ((ty, pl), (is_mlme, grp_id)) \<Rightarrow>
        if ty = 1 then (is_mlme \<or> length pl \<ge> 5 \<and> take 5 pl = bytes_of ''mlme'' @ [0], grp_id)
        else if ty = 2 then (is_mlme, if length pl \<ge> 4 then Some (ucast (rd_u32 pl)) else grp_id)
        else (is_mlme, grp_id))"

definition ctrl_grp_is_mlme :: "u8 list \<Rightarrow> u16 option" where
  "ctrl_grp_is_mlme base =
     (case fold ctrl_grp_attr (nl_attrs base) (False, None) of (is_mlme, grp_id) \<Rightarrow> if is_mlme then grp_id else None)"

text \<open>The element loop: the first group that is \<open>mlme\<close>.\<close>

fun first_mlme :: "(u16 \<times> u8 list) list \<Rightarrow> u16 option" where
  "first_mlme [] = None"
| "first_mlme ((_, epl) # es) = (case ctrl_grp_is_mlme epl of Some g \<Rightarrow> Some g | None \<Rightarrow> first_mlme es)"

definition ctrl_attr :: "u16 \<times> u8 list \<Rightarrow> u16 option \<times> u16 option \<Rightarrow> u16 option \<times> u16 option" where
  "ctrl_attr a acc =
     (case (a, acc) of ((ty, pl), (fam, grp)) \<Rightarrow>
        if ty = 1 then (if length pl \<ge> 2 then (Some (rd_u16 pl), grp) else (fam, grp))
        else if ty = 7 then (fam, if grp = None then first_mlme (nl_attrs pl) else grp)
        else (fam, grp))"

definition nl80211_parse_ctrl_family :: "u8 list ptr \<Rightarrow> (u16 \<times> u16) option" where
  "nl80211_parse_ctrl_family msg =
     (case msg of
        None \<Rightarrow> None
      | Some m \<Rightarrow>
          if length m < NL_HDRS then None
          else (case fold ctrl_attr (nl_attrs (drop NL_HDRS m)) (None, None) of
                  (Some fam, Some grp) \<Rightarrow> Some (fam, grp)
                | _ \<Rightarrow> None))"

definition nl80211_build_get_interface :: "nat \<Rightarrow> u16 \<Rightarrow> u32 \<Rightarrow> u8 list option" where
  "nl80211_build_get_interface cap family_id ifindex =
     (let nla_len = 8; total = NL_HDRS + NLA_ALIGN nla_len in
      if cap < total then None
      else Some (put 24 (wr_u32 ifindex) (put 22 (wr_u16 NL80211_ATTR_IFINDEX) (put 20 (wr_u16 (of_nat nla_len))
                 (put 16 [NL80211_CMD_GET_INTERFACE, 0] (put 6 (wr_u16 NLM_F_REQUEST) (put 4 (wr_u16 family_id)
                 (put 0 (wr_u32 (of_nat total)) (replicate total 0)))))))))"

text \<open>An attribute as the kernel writes it.\<close>

definition nla_bytes :: "u16 \<times> u8 list \<Rightarrow> u8 list" where
  "nla_bytes a = (case a of (ty, pl) \<Rightarrow>
     wr_u16 (of_nat (4 + length pl)) @ wr_u16 ty @ pl @ replicate (NLA_ALIGN (length pl) - length pl) 0)"

definition nla_ok :: "u16 \<times> u8 list \<Rightarrow> bool" where
  "nla_ok a \<longleftrightarrow> fst a \<le> NLA_TYPE_MASK \<and> length (snd a) \<le> 65531"

definition nl_connect_hdr :: "u8 list" where
  "nl_connect_hdr = wr_u32 0 @ wr_u16 28 @ replicate 10 0 @ [46, 0, 0, 0]"

subsection \<open>Roam-notify datagrams\<close>

text \<open>\<open>%2x:%2x:%2x:%2x:%2x:%2x\<close>; what follows the sixth octet does not matter.\<close>

fun scan_octets :: "nat \<Rightarrow> u8 list \<Rightarrow> u32 list option" where
  "scan_octets 0 s = Some []"
| "scan_octets (Suc n) s =
     (case scan_num 16 2 s of
        None \<Rightarrow> None
      | Some (neg, m, r) \<Rightarrow>
          let v = (if neg then - of_nat m else of_nat m) in
          if n = 0 then Some [v]
          else (case scan_char 58 r of
                  None \<Rightarrow> None
                | Some r \<Rightarrow> map_option ((#) v) (scan_octets n r)))"

definition roam_parse_bssid :: "u8 list \<Rightarrow> u8 list option" where
  "roam_parse_bssid s =
     (case scan_octets 6 s of
        None \<Rightarrow> None
      | Some v \<Rightarrow> if list_ex (\<lambda>x. x > 0xFF) v then None else Some (map ucast v))"

definition clamp_int8 :: "int \<Rightarrow> int" where
  "clamp_int8 v = (if v > 127 then 127 else if v < -128 then -128 else v)"

definition roam_iface :: "u8 list \<Rightarrow> u8 option" where
  "roam_iface json =
     (case opc_json_string (Some json) (Some (bytes_of ''iface'')) (Some 16) of
        Inl _ \<Rightarrow> Some 0
      | Inr iface \<Rightarrow>
          if iface = bytes_of ''mlan0'' then Some 0
          else if iface = bytes_of ''mlan1'' then Some 1
          else None)"

definition json_int_or :: "int \<Rightarrow> u8 list \<Rightarrow> string \<Rightarrow> int" where
  "json_int_or d json key = (case opc_json_integer (Some json) (Some (bytes_of key)) of Inl _ \<Rightarrow> d | Inr v \<Rightarrow> v)"

definition roam_datagram_to_evt :: "u8 list \<Rightarrow> opcd_platform_evt_t option" where
  "roam_datagram_to_evt json =
     (case opc_json_string (Some json) (Some (bytes_of ''ap_mac'')) (Some 32) of
        Inl _ \<Rightarrow> None
      | Inr mac_str \<Rightarrow>
     (case roam_parse_bssid mac_str of
        None \<Rightarrow> None
      | Some mac \<Rightarrow>
     (case roam_iface json of
        None \<Rightarrow> None
      | Some idx \<Rightarrow>
          let rssi = json_int_or (-128) json ''rssi''; snr = json_int_or (-128) json ''snr'' in
     (case opc_json_integer (Some json) (Some (bytes_of ''channel'')) of
        Inl _ \<Rightarrow> None
      | Inr channel \<Rightarrow>
          if channel < 1 \<or> channel > 255 then None
          else
     (case opc_json_integer (Some json) (Some (bytes_of ''freq'')) of
        Inl _ \<Rightarrow> None
      | Inr freq \<Rightarrow>
          if freq < 2400 \<or> freq > 7300 then None
          else Some (OPCD_PEVT_ROAMING idx (word_of_int (clamp_int8 snr)) (word_of_int (clamp_int8 rssi)) mac
                       (opc_chan_field (word_of_int freq) (word_of_int channel))))))))"

subsection \<open>The channel field\<close>

declare nl_attrs.simps [simp del]

lemma unat_freq [simp]: "unat (ucast (x :: u32) :: u16) = unat x mod 65536"
  by (simp add: unsigned_ucast_eq take_bit_eq_mod)

lemma word_bit_below:
  fixes x :: "'a::len word"
  assumes "unat x < 2 ^ k" "bit x n"
  shows "n < k"
proof -
  have "bit (unat x) n" using assms(2) by (simp add: bit_unsigned_iff bit_imp_le_length)
  moreover have "take_bit k (unat x) = unat x" using assms(1) by (simp add: take_bit_nat_eq_self)
  ultimately show ?thesis by (metis bit_take_bit_iff)
qed

lemma chan_field_parts:
  assumes "ch \<le> (0xFF :: u16)" "b \<le> (6 :: u16)"
  shows "drop_bit 8 (or (push_bit 8 b) ch) = b" "and (or (push_bit 8 b) ch) 0xFF = ch"
proof -
  have b: "bit b n \<Longrightarrow> n < 3" and c: "bit ch n \<Longrightarrow> n < 8" for n
    using assms by (auto intro!: word_bit_below [of b 3] word_bit_below [of ch 8] simp: word_le_nat_alt)
  show "drop_bit 8 (or (push_bit 8 b) ch) = b"
    by (rule bit_eqI) (use b c in \<open>fastforce simp: bit_simps\<close>)
  have m: "(0xFF :: u16) = mask 8" by (simp add: mask_eq_exp_minus_1)
  show "and (or (push_bit 8 b) ch) 0xFF = ch"
    unfolding m by (rule bit_eqI) (use c in \<open>fastforce simp: bit_simps\<close>)
qed

lemma freq_to_channel_le: "freq_to_channel f \<le> 0xFF"
proof -
  have "unat (ucast ((f - b) div 5) :: u16) \<le> 255" if "b \<le> f" "f \<le> b + 1279" "b \<le> 6000" for b :: u32
  proof -
    have "unat (b + 1279) = unat b + 1279" using that(3) by (simp add: unat_word_ariths word_le_nat_alt)
    then have "unat (f - b) \<le> 1279" using that by (simp add: unat_sub word_le_nat_alt)
    then show ?thesis by (simp add: unat_div)
  qed
  note b = this [of 2407] this [of 5000] this [of 5950]
  show ?thesis unfolding word_le_nat_alt freq_to_channel_def using b
    by (auto simp: word_le_nat_alt)
qed

lemma freq_to_channel_band:
  assumes "freq_to_channel f \<noteq> 0"
  shows "f \<ge> 2412 \<and> f \<le> 2484 \<or> f \<ge> 5000 \<and> f \<le> 5895 \<or> f \<ge> 5955 \<and> f \<le> 7115"
  using assms by (auto simp: freq_to_channel_def word_le_nat_alt split: if_splits)

text \<open>A channel that the netlink parser derives from a frequency always has a band in the channel field: the
  upper byte of the field is one of the three band codes and the lower byte is the channel, so that the
  associated and notify encodings both report it and never the unset value.\<close>

lemma event_channel_band:
  assumes "freq_to_channel f \<noteq> 0"
  shows "drop_bit 8 (opc_chan_field f (freq_to_channel f)) \<in> {OPC_BAND_2_4GHZ, OPC_BAND_5GHZ, OPC_BAND_6GHZ}
    \<and> and (opc_chan_field f (freq_to_channel f)) 0xFF = freq_to_channel f
    \<and> opc_notify_chan_field f (freq_to_channel f) = opc_chan_field f (freq_to_channel f)
    \<and> opc_assoc_chan_field f (freq_to_channel f) v fb_freq fb_ch = opc_chan_field f (freq_to_channel f)"
proof -
  define ch where "ch = freq_to_channel f"
  have ch: "ch \<noteq> 0" "ch \<le> 0xFF" using assms freq_to_channel_le by (auto simp: ch_def)
  define b where "b = (if f \<ge> 2412 \<and> f \<le> 2484 then 1 else if f \<ge> 5000 \<and> f \<le> 5895 then 2 else (6 :: u16))"
  have b: "b \<le> 6" "b \<in> {1, 2, 6}" by (auto simp: b_def)
  have fld: "opc_chan_field f ch = or (push_bit 8 b) ch"
    using freq_to_channel_band [OF assms] ch by (auto simp: opc_chan_field_def b_def Let_def not_less)
  note parts = chan_field_parts [OF ch(2) b(1), folded fld]
  have nz: "b \<noteq> 0" using b(2) by auto
  have "opc_chan_field f ch \<noteq> 0" using parts(1) nz by auto
  with parts nz b(2) show ?thesis
    unfolding ch_def [symmetric] by (simp add: opc_notify_chan_field_def opc_assoc_chan_field_def)
qed

subsection \<open>Netlink attributes\<close>

lemma rd_wr_u16 [simp]: "rd_u16 (wr_u16 v @ r) = v" and length_wr_u16 [simp]: "length (wr_u16 v) = 2"
  using opc_be16_roundtrip [of v "[]"] by (simp_all add: rd_u16_def wr_u16_def)

lemma rd_wr_u32 [simp]: "rd_u32 (wr_u32 v @ r) = v" and length_wr_u32 [simp]: "length (wr_u32 v) = 4"
  using opc_be32_roundtrip [of v "[]"] by (simp_all add: rd_u32_def wr_u32_def)

lemma nla_type_mask: "ty \<le> NLA_TYPE_MASK \<Longrightarrow> and ty NLA_TYPE_MASK = ty"
proof -
  assume "ty \<le> NLA_TYPE_MASK"
  then have "unat ty < 2 ^ 14" by (simp add: word_le_nat_alt)
  then have "bit ty n \<Longrightarrow> n < 14" for n by (rule word_bit_below)
  then have "and ty (mask 14) = ty" by (auto intro!: bit_word_eqI simp: bit_simps)
  then show ?thesis by (simp add: mask_eq_exp_minus_1)
qed

lemma nl_attrs_cons:
  assumes "nla_ok a"
  shows "nl_attrs (nla_bytes a @ r) = a # nl_attrs r"
proof -
  obtain ty pl where a: "a = (ty, pl)" by force
  have len: "unat (of_nat (4 + length pl) :: u16) = 4 + length pl"
    using assms by (intro unat_of_nat_lt) (simp add: nla_ok_def a)
  have al: "NLA_ALIGN (4 + length pl) = 4 + NLA_ALIGN (length pl)" "NLA_ALIGN (length pl) \<ge> length pl"
    unfolding NLA_ALIGN_def by presburger+
  let ?s = "nla_bytes a @ r"
  have s: "?s = wr_u16 (of_nat (4 + length pl)) @ wr_u16 ty @ pl @ replicate (NLA_ALIGN (length pl) - length pl) 0 @ r"
    by (simp add: nla_bytes_def a)
  have l: "length ?s = 4 + NLA_ALIGN (length pl) + length r" using al(2) by (simp add: s)
  have r1: "unat (rd_u16 ?s) = 4 + length pl" using len by (simp add: s)
  have r2: "and (rd_u16 (drop 2 ?s)) NLA_TYPE_MASK = ty"
    unfolding s using nla_type_mask [of ty] assms by (simp add: nla_ok_def a)
  have r3: "slice 4 (length pl) ?s = pl" "drop (4 + NLA_ALIGN (length pl)) ?s = r"
    using al(2) by (simp_all add: s slice_def)
  show ?thesis
    using al(2) l r1 r2 r3 by (subst nl_attrs.simps) (simp add: Let_def al(1) a)
qed

lemma nl_attrs_all: "list_all nla_ok as \<Longrightarrow> nl_attrs (concat (map nla_bytes as) @ r) = as @ nl_attrs r"
  by (induction as) (simp_all add: nl_attrs_cons)

lemma nl_attrs_nil [simp]: "nl_attrs [] = []"
  by (subst nl_attrs.simps) simp



lemma build_get_interface_attrs:
  assumes "nl80211_build_get_interface cap fam idx = Some m"
  shows "length m = 28 \<and> nl_attrs (drop NL_HDRS m) = [(NL80211_ATTR_IFINDEX, wr_u32 idx)]"
proof -
  have m: "m = wr_u32 28 @ wr_u16 fam @ wr_u16 1 @ replicate 8 0 @ [5, 0, 0, 0]
      @ nla_bytes (NL80211_ATTR_IFINDEX, wr_u32 idx)"
    using assms
    by (simp add: nl80211_build_get_interface_def NLA_ALIGN_def nla_bytes_def put_def split: if_splits)
      (simp add: wr_u32_def wr_u16_def opc_be16_write_def opc_be32_write_def numeral_eq_Suc)
  have "nl_attrs (nla_bytes (NL80211_ATTR_IFINDEX, wr_u32 idx) @ []) = [(NL80211_ATTR_IFINDEX, wr_u32 idx)]"
    by (subst nl_attrs_cons) (simp_all add: nla_ok_def)
  then show ?thesis by (simp add: m nla_bytes_def NLA_ALIGN_def)
qed

end
