(* ===== verification/Conf_Readers.thy ===== *)
theory Conf_Readers
  imports Opcd_State Json_Util
begin

text \<open>
  The readers of configuration files: \<open>opc.conf\<close> (\<open>opcd/freq_source.c\<close>, \<open>opcd/ip_iface.c\<close>,
  \<open>opcd/roam_notify_conf.c\<close>, \<open>opcd/topology.c\<close>), \<open>wifi_init_conf.json\<close> (\<open>opcd/topology.c\<close>, \<open>opcd/devinfo_cfg.c\<close>),
  \<open>device_info.json\<close> (\<open>opcd/inventory.c\<close>), the reset cause and the shutdown probe (\<open>opcd/reset_cause.c\<close>) and
  \<open>timesyncd.conf\<close> (\<open>opcd/ntp_parse.c\<close>). A pointer into a text is the rest of the text from there.
\<close>

subsection \<open>Keys of \<open>opc.conf\<close>\<close>

definition opcd_freq_source_from_token :: "u8 list ptr \<Rightarrow> opcd_freq_source_t" where
  "opcd_freq_source_from_token val =
     (if val = None then OPC_FREQ_SRC_LIVE
      else if val = Some (bytes_of ''config'') then OPC_FREQ_SRC_CONFIG
      else if val = Some (bytes_of ''auto'') then OPC_FREQ_SRC_AUTO
      else OPC_FREQ_SRC_LIVE)"

text \<open>The loop that the readers share: the last value of a key decides.\<close>

definition conf_last :: "u8 list \<Rightarrow> string \<Rightarrow> (u8 list \<Rightarrow> 'a \<Rightarrow> 'a) \<Rightarrow> 'a \<Rightarrow> 'a" where
  "conf_last text0 key f d = fold (\<lambda>(k, v) acc. if k = bytes_of key then f v acc else acc) (conf_pairs text0) d"

definition opcd_freq_source_parse :: "files \<Rightarrow> path ptr \<Rightarrow> opcd_freq_source_t" where
  "opcd_freq_source_parse F conf_path =
     (case Option.bind conf_path F of
        None \<Rightarrow> OPC_FREQ_SRC_LIVE
      | Some c \<Rightarrow> conf_last c ''device_info_freq_source'' (\<lambda>v _. opcd_freq_source_from_token (Some v)) OPC_FREQ_SRC_LIVE)"

definition opcd_ip_iface_from_token :: "u8 list ptr \<Rightarrow> opcd_ip_iface_t" where
  "opcd_ip_iface_from_token val =
     (if val = None then OPC_IP_IFACE_ETH0
      else if val = Some (bytes_of ''mlan0'') then OPC_IP_IFACE_MLAN0
      else OPC_IP_IFACE_ETH0)"

definition opcd_ip_iface_idx :: "opcd_ip_iface_t \<Rightarrow> int" where
  "opcd_ip_iface_idx v = (if v = OPC_IP_IFACE_MLAN0 then 1 else 0)"

definition opcd_ip_iface_parse :: "files \<Rightarrow> path ptr \<Rightarrow> opcd_ip_iface_t" where
  "opcd_ip_iface_parse F conf_path =
     (case Option.bind conf_path F of
        None \<Rightarrow> OPC_IP_IFACE_ETH0
      | Some c \<Rightarrow> conf_last c ''device_ip_iface'' (\<lambda>v _. opcd_ip_iface_from_token (Some v)) OPC_IP_IFACE_ETH0)"

text \<open>One value of a port key; the state is the port, \<open>seen_bad\<close> and \<open>seen_good\<close>.\<close>

definition port_value :: "u8 list \<Rightarrow> u16 \<times> bool \<times> bool \<Rightarrow> u16 \<times> bool \<times> bool" where
  "port_value val acc =
     (case acc of (port, bad, good) \<Rightarrow>
        case strtol val of
          None \<Rightarrow> (port, True, good)
        | Some (n, rest) \<Rightarrow>
            if rest \<noteq> [] \<or> n < 1 \<or> n > 65535 then (port, True, good) else (word_of_int n, bad, True))"

definition opcd_conf_port_parse :: "files \<Rightarrow> path ptr \<Rightarrow> string ptr \<Rightarrow> u16 \<Rightarrow> u16 \<times> bool" where
  "opcd_conf_port_parse F conf_path key dflt =
     (case (Option.bind conf_path F, key) of
        (Some c, Some k) \<Rightarrow>
          (case conf_last c k port_value (dflt, False, False) of (port, bad, good) \<Rightarrow> (port, bad \<and> \<not> good))
      | _ \<Rightarrow> (dflt, False))"

definition opcd_roam_notify_port_parse :: "files \<Rightarrow> path ptr \<Rightarrow> u16 \<Rightarrow> u16" where
  "opcd_roam_notify_port_parse F conf_path dflt =
     fst (opcd_conf_port_parse F conf_path (Some ''roam_notify_port'') dflt)"

subsection \<open>String-aware JSON walks\<close>

text \<open>The text after a string literal, from behind its opening quote.\<close>

fun skip_lit :: "u8 list \<Rightarrow> u8 list option" where
  "skip_lit [] = None"
| "skip_lit [c] = (if c = 34 then Some [] else None)"
| "skip_lit (c # d # s) =
     (if c = 92 then skip_lit s else if c = 34 then Some (d # s) else skip_lit (d # s))"

definition skip_string :: "u8 list \<Rightarrow> u8 list option" where
  "skip_string p = skip_lit (tl p)"

definition at_key :: "u8 list \<Rightarrow> u8 list \<Rightarrow> u8 list option" where
  "at_key p name =
     (let tok = [34] @ name @ [34] in
      if take (length tok) p \<noteq> tok then None
      else let q = dropWhile is_json_ws (drop (length tok) p) in
        if q = [] \<or> hd q \<noteq> 58 then None else Some (dropWhile is_json_ws (tl q)))"

function member_loop :: "u8 list \<Rightarrow> int \<Rightarrow> u8 list \<Rightarrow> u8 list option" where
  "member_loop name depth p =
     (if p = [] then None
      else if hd p = 34 then
        (if depth = 1 \<and> at_key p name \<noteq> None then at_key p name
         else case skip_string p of None \<Rightarrow> None | Some r \<Rightarrow> member_loop name depth r)
      else if hd p = 123 \<or> hd p = 91 then member_loop name (depth + 1) (tl p)
      else if hd p = 125 \<or> hd p = 93 then
        (if depth - 1 = 0 then None else member_loop name (depth - 1) (tl p))
      else member_loop name depth (tl p))"
  by pat_completeness auto
termination
proof (relation "measure (\<lambda>(name, depth, p). length p)")
  fix name p r :: "u8 list" and depth :: int
  assume a: "p \<noteq> []" "skip_string p = Some r"
  have "skip_lit s = Some t \<Longrightarrow> length t \<le> length s" for s t
    by (induction s arbitrary: t rule: skip_lit.induct) (auto split: if_splits simp: le_SucI)
  with a have "length r < length p" by (cases p) (auto simp: skip_string_def le_imp_less_Suc)
  then show "((name, depth, r), name, depth, p) \<in> measure (\<lambda>(name, depth, p). length p)" by simp
qed auto

definition member :: "u8 list ptr \<Rightarrow> string \<Rightarrow> u8 list option" where
  "member obj name =
     (case obj of
        None \<Rightarrow> None
      | Some p \<Rightarrow> if p = [] \<or> hd p \<noteq> 123 then None else member_loop (bytes_of name) 0 p)"

subsection \<open>The configured mode and bandwidth (\<open>devinfo_cfg.c\<close>)\<close>

definition OPC_WLAN_MODE_UNSET :: u8 where [simp]: "OPC_WLAN_MODE_UNSET = 0xFF"
definition OPC_BANDWIDTH_UNSET :: u8 where [simp]: "OPC_BANDWIDTH_UNSET = 0xFF"
definition OPC_WLAN_MODE_11A :: u8 where [simp]: "OPC_WLAN_MODE_11A = 4"
definition OPC_WLAN_MODE_11B :: u8 where [simp]: "OPC_WLAN_MODE_11B = 5"
definition OPC_WLAN_MODE_11G :: u8 where [simp]: "OPC_WLAN_MODE_11G = 6"
definition OPC_WLAN_MODE_11N :: u8 where [simp]: "OPC_WLAN_MODE_11N = 7"
definition OPC_WLAN_MODE_11AC :: u8 where [simp]: "OPC_WLAN_MODE_11AC = 9"
definition OPC_WLAN_MODE_11AX :: u8 where [simp]: "OPC_WLAN_MODE_11AX = 11"

definition scalar :: "u8 list ptr \<Rightarrow> nat \<Rightarrow> u8 list option" where
  "scalar v cap =
     (case v of
        None \<Rightarrow> None
      | Some v \<Rightarrow>
          if v \<noteq> [] \<and> hd v = 34 then
            (let s = takeWhile (\<lambda>c. c \<noteq> 34) (tl v) in
             if 34 \<notin> set (tl v) \<or> 92 \<in> set s \<or> length s \<ge> cap then None else Some s)
          else
            (let s = takeWhile (\<lambda>c. is_digit c \<or> (97 \<le> c \<and> c \<le> 122)) v in
             if length s \<ge> cap \<or> s = [] then None else Some s))"

definition mode_from_radio :: "u8 list \<Rightarrow> bool \<Rightarrow> u8" where
  "mode_from_radio t mlan1 =
     (if t = bytes_of ''b'' then OPC_WLAN_MODE_11B
      else if t = bytes_of ''g'' then OPC_WLAN_MODE_11G
      else if t = bytes_of ''a'' then OPC_WLAN_MODE_11A
      else if t = bytes_of ''n'' then OPC_WLAN_MODE_11N
      else if t = bytes_of ''ac'' then OPC_WLAN_MODE_11AC
      else if t = bytes_of ''ax'' \<and> \<not> mlan1 then OPC_WLAN_MODE_11AX
      else OPC_WLAN_MODE_UNSET)"

definition mode_from_standard :: "u8 list \<Rightarrow> bool \<Rightarrow> u8" where
  "mode_from_standard t mlan1 =
     (if length t \<ge> 8 then OPC_WLAN_MODE_UNSET
      else let s = map (\<lambda>c. if 65 \<le> c \<and> c \<le> 90 then c - 65 + 97 else c) t in
        if s = bytes_of ''n'' \<or> s = bytes_of ''4'' then OPC_WLAN_MODE_11N
        else if s = bytes_of ''ac'' \<or> s = bytes_of ''5'' then OPC_WLAN_MODE_11AC
        else if s = bytes_of ''ax'' \<or> s = bytes_of ''6'' then (if mlan1 then OPC_WLAN_MODE_11AC else OPC_WLAN_MODE_11AX)
        else OPC_WLAN_MODE_UNSET)"

definition std_value :: "u8 list ptr \<Rightarrow> nat \<Rightarrow> u8 list option" where
  "std_value v cap =
     (case scalar v cap of
        None \<Rightarrow> None
      | Some t \<Rightarrow> if t \<noteq> [] \<and> t \<noteq> bytes_of ''null'' \<and> t \<noteq> bytes_of ''false'' then Some t else None)"

definition bw_from_token :: "u8 list \<Rightarrow> u8" where
  "bw_from_token t =
     (if t = bytes_of ''20'' then 0
      else if t = bytes_of ''40'' then 1
      else if t = bytes_of ''80'' then 2
      else OPC_BANDWIDTH_UNSET)"

definition opcd_devinfo_cfg_from_json :: "u8 list ptr \<Rightarrow> string ptr \<Rightarrow> u8 \<times> u8" where
  "opcd_devinfo_cfg_from_json json iface =
     (case (json, iface) of
        (Some j, Some ifn) \<Rightarrow>
          (let root = (if take 3 j = [0xEF, 0xBB, 0xBF] then drop 3 j else j);
               root = Some (dropWhile is_json_ws root);
               mlan1 = (ifn = ''mlan1'');
               ifo = member root ifn;
               radio = member ifo ''radio'';
               mode = (case scalar (member radio ''mode'') 16 of
                         Some t \<Rightarrow> mode_from_radio t mlan1 | None \<Rightarrow> OPC_WLAN_MODE_UNSET);
               bandwidth = (case scalar (member radio ''bw'') 16 of
                              Some t \<Rightarrow> bw_from_token t | None \<Rightarrow> OPC_BANDWIDTH_UNSET)
           in if mode \<noteq> OPC_WLAN_MODE_UNSET then (mode, bandwidth)
              else case std_value (member ifo ''STANDARD'') 16 of
                     Some t \<Rightarrow> (mode_from_standard t mlan1, bandwidth)
                   | None \<Rightarrow>
                       (case std_value (member (member root ''global'') ''STANDARD'') 16 of
                          Some t \<Rightarrow> (mode_from_standard t mlan1, bandwidth)
                        | None \<Rightarrow> (mode, bandwidth)))
      | _ \<Rightarrow> (OPC_WLAN_MODE_UNSET, OPC_BANDWIDTH_UNSET))"

definition opcd_devinfo_cfg_read :: "files \<Rightarrow> path ptr \<Rightarrow> string \<Rightarrow> u8 \<times> u8" where
  "opcd_devinfo_cfg_read F path iface =
     opcd_devinfo_cfg_from_json (Option.bind path (opc_json_slurp_file F)) (Some iface)"

subsection \<open>Management topology (\<open>topology.c\<close>)\<close>

datatype opcd_topology_conf_t = OPC_TOPOLOGY_CONF_AUTO | OPC_TOPOLOGY_CONF_ETH0_IP | OPC_TOPOLOGY_CONF_PEER_ROUTE

definition opcd_topology_from_token :: "u8 list ptr \<Rightarrow> opcd_topology_conf_t" where
  "opcd_topology_from_token val =
     (if val = None then OPC_TOPOLOGY_CONF_AUTO
      else if val = Some (bytes_of ''peer_route'') then OPC_TOPOLOGY_CONF_PEER_ROUTE
      else if val = Some (bytes_of ''eth0_ip'') then OPC_TOPOLOGY_CONF_ETH0_IP
      else OPC_TOPOLOGY_CONF_AUTO)"

function find_object_loop :: "u8 list \<Rightarrow> int \<Rightarrow> int \<Rightarrow> u8 list \<Rightarrow> u8 list option" where
  "find_object_loop name want depth p =
     (if p = [] then None
      else if hd p = 34 then
        (if depth = want \<and> at_key p name \<noteq> None then at_key p name
         else case skip_string p of None \<Rightarrow> None | Some r \<Rightarrow> find_object_loop name want depth r)
      else if hd p = 123 then find_object_loop name want (depth + 1) (tl p)
      else if hd p = 125 then
        (if depth - 1 < want then None else find_object_loop name want (depth - 1) (tl p))
      else find_object_loop name want depth (tl p))"
  by pat_completeness auto
termination
proof (relation "measure (\<lambda>(name, want, depth, p). length p)")
  fix name p r :: "u8 list" and want depth :: int
  assume a: "p \<noteq> []" "skip_string p = Some r"
  have "skip_lit s = Some t \<Longrightarrow> length t \<le> length s" for s t
    by (induction s arbitrary: t rule: skip_lit.induct) (auto split: if_splits simp: le_SucI)
  with a have "length r < length p" by (cases p) (auto simp: skip_string_def le_imp_less_Suc)
  then show "((name, want, depth, r), name, want, depth, p) \<in> measure (\<lambda>(name, want, depth, p). length p)" by simp
qed auto

definition find_object_key :: "u8 list \<Rightarrow> string \<Rightarrow> int \<Rightarrow> u8 list option" where
  "find_object_key p name want_depth = find_object_loop (bytes_of name) want_depth 0 p"

text \<open>The text is a C string: its end is the NUL. \<open>None\<close> is -1.\<close>

definition json_bool_at :: "u8 list \<Rightarrow> bool option" where
  "json_bool_at v =
     (let quoted = (v \<noteq> [] \<and> hd v = 34); v = (if quoted then tl v else v);
          n = (if take 4 v = bytes_of ''true'' then 4 else if take 5 v = bytes_of ''false'' then 5 else (0 :: nat))
      in if n = 0 then None
         else let c = (case drop n v of [] \<Rightarrow> 0 | x # _ \<Rightarrow> x) in
           if (if quoted then c \<noteq> 34 else c \<notin> {0, 44, 125, 32, 9, 13, 10}) then None else Some (n = 4))"

definition opcd_topology_json_peer_route :: "u8 list ptr \<Rightarrow> bool option" where
  "opcd_topology_json_peer_route json =
     (case json of
        None \<Rightarrow> None
      | Some j \<Rightarrow>
     (case find_object_key j ''wbridge'' 1 of
        None \<Rightarrow> None
      | Some wb \<Rightarrow>
          if wb = [] \<or> hd wb \<noteq> 123 then None
          else
     (case find_object_key wb ''peer_route'' 1 of
        None \<Rightarrow> None
      | Some pr \<Rightarrow>
          if pr = [] \<or> hd pr \<noteq> 123 then None
          else (case find_object_key pr ''enabled'' 1 of None \<Rightarrow> None | Some val \<Rightarrow> json_bool_at val))))"

definition conf_override :: "files \<Rightarrow> path ptr \<Rightarrow> opcd_topology_conf_t" where
  "conf_override F conf_path =
     (case Option.bind conf_path F of
        None \<Rightarrow> OPC_TOPOLOGY_CONF_AUTO
      | Some c \<Rightarrow> conf_last c ''management_topology'' (\<lambda>v _. opcd_topology_from_token (Some v)) OPC_TOPOLOGY_CONF_AUTO)"

definition slurp :: "files \<Rightarrow> path ptr \<Rightarrow> u8 list option" where
  "slurp F path =
     (case Option.bind path F of None \<Rightarrow> None | Some c \<Rightarrow> if length c \<ge> 1048576 then None else Some (cstr c))"

definition opcd_topology_parse :: "files \<Rightarrow> path ptr \<Rightarrow> path ptr \<Rightarrow> opcd_topology_t" where
  "opcd_topology_parse F opc_conf_path wifi_init_conf_path =
     (case conf_override F opc_conf_path of
        OPC_TOPOLOGY_CONF_PEER_ROUTE \<Rightarrow> OPC_TOPOLOGY_PEER_ROUTE
      | OPC_TOPOLOGY_CONF_ETH0_IP \<Rightarrow> OPC_TOPOLOGY_ETH0_IP
      | OPC_TOPOLOGY_CONF_AUTO \<Rightarrow>
          (case slurp F wifi_init_conf_path of
             None \<Rightarrow> OPC_TOPOLOGY_ETH0_IP
           | Some json \<Rightarrow>
               if opcd_topology_json_peer_route (Some json) = Some False then OPC_TOPOLOGY_ETH0_IP
               else OPC_TOPOLOGY_PEER_ROUTE))"

subsection \<open>Inventory (\<open>inventory.c\<close>)\<close>

definition parse_unsigned :: "u8 list \<Rightarrow> u64 option" where
  "parse_unsigned s =
     (if s = [] then None
      else case strtoul_base 0 s of
             None \<Rightarrow> None
           | Some (v, erange, rest) \<Rightarrow> if erange \<or> rest \<noteq> [] then None else Some v)"

definition scan_u :: "nat \<Rightarrow> u8 list \<Rightarrow> (u32 \<times> u8 list) option" where
  "scan_u w s = map_option (\<lambda>(neg, m, r). (if neg then - of_nat m else of_nat m, r)) (scan_num 10 w s)"

definition parse_date :: "u8 list \<Rightarrow> opc_date_t option" where
  "parse_date s =
     Option.bind (scan_u 4 s) (\<lambda>(y, r).
     Option.bind (scan_char 45 r) (\<lambda>r.
     Option.bind (scan_u 2 r) (\<lambda>(m, r).
     Option.bind (scan_char 45 r) (\<lambda>r.
     Option.bind (scan_u 2 r) (\<lambda>(d, r).
       if y < 1970 \<or> y > 9999 then None
       else if m < 1 \<or> m > 12 then None
       else if d < 1 \<or> d > 31 then None
       else Some \<lparr>year = ucast y, month = ucast m, day = ucast d\<rparr>)))))"

definition json_str :: "u8 list \<Rightarrow> string \<Rightarrow> nat \<Rightarrow> u8 list option" where
  "json_str json key cap = (case opc_json_string (Some json) (Some (bytes_of key)) (Some cap) of Inl _ \<Rightarrow> None | Inr v \<Rightarrow> Some v)"

definition load_code32 :: "u8 list \<Rightarrow> string \<Rightarrow> u32 option" where
  "load_code32 json key =
     Option.bind (json_str json key 32) (\<lambda>buf.
     Option.bind (parse_unsigned buf) (\<lambda>v. if v > 0xFFFFFFFF then None else Some (ucast v)))"

definition load_code16 :: "u8 list \<Rightarrow> string \<Rightarrow> u16 option" where
  "load_code16 json key =
     Option.bind (json_str json key 32) (\<lambda>buf.
     Option.bind (parse_unsigned buf) (\<lambda>v. if v > 0xFFFF then None else Some (ucast v)))"

definition load_cap_bit :: "u8 list \<Rightarrow> string \<Rightarrow> u8 option" where
  "load_cap_bit json key =
     (case opc_json_integer (Some json) (Some (bytes_of key)) of Inl _ \<Rightarrow> None | Inr v \<Rightarrow> Some (if v \<noteq> 0 then 1 else 0))"

text \<open>One recognised field: its value replaces the member and counts.\<close>

definition recover :: "'a option \<Rightarrow> ('a \<Rightarrow> opcd_inventory_t \<Rightarrow> opcd_inventory_t) \<Rightarrow> opcd_inventory_t \<times> nat \<Rightarrow> opcd_inventory_t \<times> nat" where
  "recover v upd acc = (case v of None \<Rightarrow> acc | Some x \<Rightarrow> (upd x (fst acc), Suc (snd acc)))"

definition opcd_inventory_load :: "files \<Rightarrow> path ptr \<Rightarrow> opcd_inventory_t \<Rightarrow> bool \<times> opcd_inventory_t" where
  "opcd_inventory_load F path g_inv =
     (case Option.bind path (opc_json_slurp_file F) of
        None \<Rightarrow> (False, g_inv)
      | Some json \<Rightarrow>
          (let acc = (g_inv, 0);
               acc = recover (load_code32 json ''vendor_code'') (\<lambda>x i. i\<lparr>inv_vendor_code := x\<rparr>) acc;
               acc = recover (load_code16 json ''product_code'') (\<lambda>x i. i\<lparr>inv_product_code := x\<rparr>) acc;
               acc = recover (load_code16 json ''product_subcode'') (\<lambda>x i. i\<lparr>inv_product_subcode := x\<rparr>) acc;
               acc = recover (json_str json ''hardware_version'' OPC_VERSION_FIELD_LEN) (\<lambda>x i. i\<lparr>inv_hardware_version := x\<rparr>) acc;
               acc = recover (json_str json ''serial_number'' OPC_SERIAL_FIELD_LEN) (\<lambda>x i. i\<lparr>inv_serial_number := x\<rparr>) acc;
               acc = recover (Option.bind (json_str json ''manufacture_date'' 16) parse_date)
                       (\<lambda>x i. i\<lparr>inv_manufacture_date := x\<rparr>) acc;
               acc = recover (Option.bind (json_str json ''shipment_date'' 16) parse_date)
                       (\<lambda>x i. i\<lparr>inv_shipment_date := x\<rparr>) acc;
               acc = recover (load_cap_bit json ''ieee_11r'') (\<lambda>x i. i\<lparr>inv_ieee_11r := x\<rparr>) acc;
               acc = recover (load_cap_bit json ''ieee_11ai'') (\<lambda>x i. i\<lparr>inv_ieee_11ai := x\<rparr>) acc;
               acc = recover (load_cap_bit json ''ieee_11k'') (\<lambda>x i. i\<lparr>inv_ieee_11k := x\<rparr>) acc;
               acc = recover (load_cap_bit json ''ieee_11v'') (\<lambda>x i. i\<lparr>inv_ieee_11v := x\<rparr>) acc
           in if snd acc = 0 then (False, g_inv) else (True, fst acc)))"

subsection \<open>Reset cause (\<open>reset_cause.c\<close>)\<close>

definition OPC_RESET_CAUSE_SYSTEM :: u32 where [simp]: "OPC_RESET_CAUSE_SYSTEM = 2"

definition opcd_reset_cause_read :: "files \<Rightarrow> path ptr \<Rightarrow> u32" where
  "opcd_reset_cause_read F path =
     (case Option.bind path F of
        None \<Rightarrow> 0
      | Some c \<Rightarrow>
          if c = [] then 0
          else let p = skip_ws (cstr (fgets 64 c));
                   base = (if hex_prefix p then 16 else 10);
                   p = (if hex_prefix p then drop 2 p else p)
            in if p = [] \<or> \<not> is_xdigit (hd p) \<or> (base = 10 \<and> \<not> is_digit (hd p)) then 0
               else case strtoul_base base p of
                      None \<Rightarrow> 0
                    | Some (v, erange, rest) \<Rightarrow>
                        if erange then 0
                        else if skip_ws rest \<noteq> [] then 0
                        else if v = 0 \<or> v > 0xFFFFFFFF then 0
                        else ucast v)"

text \<open>The probe of \<open>systemctl\<close>. A run is the sequence of its turns with the time of each: what \<open>poll\<close> and \<open>read\<close> gave,
  then what \<open>waitpid\<close> gave. After the last turn of the first list the deadline has passed.\<close>

datatype probe_turn = PollEintr | PollNone | ReadEintr | ReadErr | ReadData "u8 list"
datatype wait_turn = WaitAgain | WaitErr | WaitDone bool int

fun probe_read :: "u64 \<Rightarrow> (u64 \<times> probe_turn) list \<Rightarrow> u8 list \<Rightarrow> bool \<times> u8 list" where
  "probe_read deadline [] out = (False, out)"
| "probe_read deadline ((t, r) # es) out =
     (if t \<ge> deadline then (False, out)
      else case r of
             PollEintr \<Rightarrow> probe_read deadline es out
           | PollNone \<Rightarrow> (False, out)
           | ReadEintr \<Rightarrow> probe_read deadline es out
           | ReadErr \<Rightarrow> (False, out)
           | ReadData bs \<Rightarrow>
               let bs = take (63 - length out) bs in
               if bs = [] then (True, out)
               else if length (out @ bs) \<ge> 63 then (True, out @ bs)
               else probe_read deadline es (out @ bs))"

fun probe_reap :: "u64 \<Rightarrow> (u64 \<times> wait_turn) list \<Rightarrow> (bool \<times> int) option" where
  "probe_reap deadline [] = None"
| "probe_reap deadline ((t, w) # ws) =
     (case w of
        WaitDone exited code \<Rightarrow> Some (exited, code)
      | WaitErr \<Rightarrow> None
      | WaitAgain \<Rightarrow> if t \<ge> deadline then None else probe_reap deadline ws)"

definition opcd_system_stopping ::
  "path ptr \<Rightarrow> int \<Rightarrow> bool \<Rightarrow> u64 \<Rightarrow> (u64 \<times> probe_turn) list \<Rightarrow> (u64 \<times> wait_turn) list \<Rightarrow> int" where
  "opcd_system_stopping systemctl_path timeout_ms started now turns waits =
     (if systemctl_path = None \<or> timeout_ms < 0 then -1
      else if \<not> started then -1
      else let deadline = now + word_of_int timeout_ms in
        case probe_read deadline turns [] of
          (ok, out) \<Rightarrow>
            (case probe_reap deadline waits of
               None \<Rightarrow> -1
             | Some (exited, code) \<Rightarrow>
                 if \<not> ok then -1
                 else if exited \<and> code = 127 then -1
                 else let s = skip_ws (cstr out) in
                   if take 8 s = bytes_of ''stopping'' \<and> (drop 8 s = [] \<or> is_space (s ! 8)) then 1 else 0))"

definition opcd_shutdown_reset_cause :: "int \<Rightarrow> u32 \<Rightarrow> u32" where
  "opcd_shutdown_reset_cause stopping file_cause =
     (if stopping \<noteq> 1 then 0 else if file_cause \<noteq> 0 then file_cause else OPC_RESET_CAUSE_SYSTEM)"

subsection \<open>NTP server (\<open>ntp_parse.c\<close>)\<close>

text \<open>\<open>inet_pton(AF_INET, ...)\<close>: the number of octets begun, whether the current one has a digit, its value and
  the octets before it.\<close>

fun pton_loop :: "nat \<Rightarrow> bool \<Rightarrow> nat \<Rightarrow> u32 \<Rightarrow> u8 list \<Rightarrow> u32 option" where
  "pton_loop octets saw cur acc [] = (if octets < 4 then None else Some (acc * 256 + of_nat cur))"
| "pton_loop octets saw cur acc (c # s) =
     (if is_digit c then
        (let new = cur * 10 + digit_value c in
         if saw \<and> cur = 0 then None
         else if new > 255 then None
         else if \<not> saw \<and> octets \<ge> 4 then None
         else pton_loop (if saw then octets else Suc octets) True new acc s)
      else if c = 46 \<and> saw then
        (if octets = 4 then None else pton_loop octets False 0 (acc * 256 + of_nat cur) s)
      else None)"

definition inet_pton :: "u8 list \<Rightarrow> u32 option" where
  "inet_pton s = pton_loop 0 False 0 0 s"

function ntp_tokens :: "u8 list \<Rightarrow> u32 option" where
  "ntp_tokens p =
     (let p = dropWhile (\<lambda>c. c = 32 \<or> c = 9) p in
      if p = [] \<or> hd p = 10 \<or> hd p = 13 \<or> hd p = 35 then None
      else let tok = takeWhile (\<lambda>c. c \<notin> {32, 9, 10, 13, 35}) p; r = drop (length tok) p in
        if length tok \<ge> 64 then ntp_tokens r
        else case inet_pton tok of Some a \<Rightarrow> Some a | None \<Rightarrow> ntp_tokens r)"
  by pat_completeness auto
termination
proof (relation "measure length")
  fix p q tok r :: "u8 list"
  assume a: "q = dropWhile (\<lambda>c. c = 32 \<or> c = 9) p" "\<not> (q = [] \<or> hd q = 10 \<or> hd q = 13 \<or> hd q = 35)"
    "tok = takeWhile (\<lambda>c. c \<notin> {32, 9, 10, 13, 35}) q" "r = drop (length tok) q"
  have "hd q \<noteq> 32" "hd q \<noteq> 9" using a(1,2) hd_dropWhile [of "\<lambda>c. c = 32 \<or> c = 9" p] by auto
  then have "tok \<noteq> []" using a(2,3) by (cases q) auto
  then have "length r < length q" using a(2,4) by (simp add: length_greater_0_conv)
  moreover have "length q \<le> length p" using a(1) length_dropWhile_le by blast
  ultimately have "(r, p) \<in> measure length" by simp
  then show "(r, p) \<in> measure length" "(r, p) \<in> measure length" by simp_all
qed simp

definition opc_ntp_parse_line :: "u8 list ptr \<Rightarrow> u32 option" where
  "opc_ntp_parse_line line =
     (case line of
        None \<Rightarrow> None
      | Some l \<Rightarrow>
          let l = dropWhile (\<lambda>c. c = 32 \<or> c = 9) l in
          if take 4 l \<noteq> bytes_of ''NTP='' then None else ntp_tokens (drop 4 l))"

end
