(* ===== verification/Route_Lookup.thy ===== *)
theory Route_Lookup
  imports Codec Cstdio
begin

text \<open>
  Reachability without a gateway over a dump of \<open>/proc/net/route\<close> (\<open>opcd/route_lookup.c\<close>): the scan of the table
  and the choice of the best route, with the result that the choice is the longest prefix match.
\<close>

definition RT_UP :: u64 where [simp]: "RT_UP = 0x0001"
definition RT_GATEWAY :: u64 where [simp]: "RT_GATEWAY = 0x0002"
definition RT_REJECT :: u64 where [simp]: "RT_REJECT = 0x0200"

function mask_bits :: "u32 \<Rightarrow> nat" where
  "mask_bits m = (if m = 0 then 0 else Suc (mask_bits (and m (m - 1))))"
  by pat_completeness auto
termination
proof (relation "measure unat")
  fix m :: u32
  assume m: "m \<noteq> 0"
  have "and m (m - 1) \<le> m - 1" by (rule word_and_le1)
  then have "unat (and m (m - 1)) < unat m" using measure_unat [OF m] by (simp add: word_le_nat_alt)
  then show "(and m (m - 1), m) \<in> measure unat" by simp
qed simp

text \<open>\<open>ntohl\<close> on a little-endian host.\<close>

definition ntohl :: "u32 \<Rightarrow> u32" where
  "ntohl v = opc_be32_read (rev (opc_be32_write v))"

record route_row =
  rt_iface :: "u8 list"
  rt_dest_raw :: u64
  rt_gw_raw :: u64
  rt_flags :: u64
  rt_metric :: u32
  rt_mask_raw :: u64

definition scan_lx :: "u8 list \<Rightarrow> (u64 \<times> u8 list) option" where
  "scan_lx s = map_option (\<lambda>(neg, m, r).
     (if m > ULONG_MAX then of_nat ULONG_MAX else if neg then - of_nat m else of_nat m, r)) (scan_num 16 (length s) s)"

definition scan_d :: "u8 list \<Rightarrow> (u32 \<times> u8 list) option" where
  "scan_d s = map_option (\<lambda>(n, r). (word_of_int n, r)) (strtol s)"

text \<open>\<open>sscanf(buf, "%31s %lx %lx %lx %d %d %d %lx", ...) == 8\<close>.\<close>

definition scan_route :: "u8 list \<Rightarrow> route_row option" where
  "scan_route buf =
     Option.bind (scan_word 31 buf) (\<lambda>(iface, r).
     Option.bind (scan_lx r) (\<lambda>(dest, r).
     Option.bind (scan_lx r) (\<lambda>(gw, r).
     Option.bind (scan_lx r) (\<lambda>(flags, r).
     Option.bind (scan_d r) (\<lambda>(refcnt, r).
     Option.bind (scan_d r) (\<lambda>(used, r).
     Option.bind (scan_d r) (\<lambda>(metric, r).
     Option.bind (scan_lx r) (\<lambda>(mask, r).
       Some \<lparr>rt_iface = iface, rt_dest_raw = dest, rt_gw_raw = gw, rt_flags = flags, rt_metric = metric,
             rt_mask_raw = mask\<rparr>))))))))"

function route_lines :: "u8 list \<Rightarrow> u8 list list" where
  "route_lines s =
     (if s = [] then []
      else takeWhile (\<lambda>c. c \<noteq> 10) s
           # (if 10 \<in> set s then route_lines (tl (dropWhile (\<lambda>c. c \<noteq> 10) s)) else []))"
  by pat_completeness auto
termination
proof (relation "measure length")
  fix s :: "u8 list"
  assume a: "s \<noteq> []" "10 \<in> set s"
  have "length (dropWhile (\<lambda>c. c \<noteq> 10) s) \<le> length s" by (rule length_dropWhile_le)
  then show "(tl (dropWhile (\<lambda>c. c \<noteq> 10) s), s) \<in> measure length" using a by (cases s) auto
qed simp

record best_route =
  best_bits :: int
  best_metric :: u32
  best_direct :: bool
  best_mask :: u32

definition route_mask :: "route_row \<Rightarrow> u32" where
  "route_mask r = ntohl (ucast (rt_mask_raw r))"

definition route_covers :: "u32 \<Rightarrow> route_row \<Rightarrow> bool" where
  "route_covers dst r \<longleftrightarrow> and dst (route_mask r) = ntohl (ucast (rt_dest_raw r))"

definition route_direct :: "route_row \<Rightarrow> bool" where
  "route_direct r \<longleftrightarrow> rt_gw_raw r = 0 \<and> and (rt_flags r) (or RT_GATEWAY RT_REJECT) = 0 \<and> rt_iface r \<noteq> bytes_of ''*''"

text \<open>One line of the table.\<close>

definition route_line :: "u32 \<Rightarrow> u8 list \<Rightarrow> best_route \<Rightarrow> best_route" where
  "route_line dst line b =
     (if length line \<ge> 256 then b
      else case scan_route line of
             None \<Rightarrow> b
           | Some r \<Rightarrow>
               if and (rt_flags r) RT_UP = 0 then b
               else if \<not> route_covers dst r then b
               else let bits = int (mask_bits (route_mask r)) in
                 if bits > best_bits b \<or> (bits = best_bits b \<and> rt_metric r < best_metric b)
                 then \<lparr>best_bits = bits, best_metric = rt_metric r, best_direct = route_direct r,
                       best_mask = route_mask r\<rparr>
                 else b)"

definition no_route :: best_route where
  "no_route = \<lparr>best_bits = -1, best_metric = 0, best_direct = False, best_mask = 0\<rparr>"

definition opcd_route_direct_lookup :: "u8 list ptr \<Rightarrow> u32 \<Rightarrow> u32 option" where
  "opcd_route_direct_lookup text0 dst_host =
     (case text0 of
        None \<Rightarrow> None
      | Some t \<Rightarrow>
          let b = fold (route_line dst_host) (route_lines t) no_route in
          if best_bits b < 0 \<or> \<not> best_direct b then None else Some (best_mask b))"

subsection \<open>Longest prefix match\<close>

text \<open>The usable rows of the table that cover the address, in the order of the file, and when one is preferred.\<close>

definition route_candidates :: "u32 \<Rightarrow> u8 list \<Rightarrow> route_row list" where
  "route_candidates dst t =
     filter (\<lambda>r. and (rt_flags r) RT_UP \<noteq> 0 \<and> route_covers dst r)
       (List.map_filter scan_route (filter (\<lambda>l. length l < 256) (route_lines t)))"

definition preferred :: "route_row \<Rightarrow> route_row \<Rightarrow> bool" where
  "preferred r s \<longleftrightarrow> mask_bits (route_mask r) > mask_bits (route_mask s)
     \<or> (mask_bits (route_mask r) = mask_bits (route_mask s) \<and> rt_metric r < rt_metric s)"

definition best_of :: "route_row option \<Rightarrow> best_route" where
  "best_of r = (case r of
     None \<Rightarrow> no_route
   | Some r \<Rightarrow> \<lparr>best_bits = int (mask_bits (route_mask r)), best_metric = rt_metric r,
               best_direct = route_direct r, best_mask = route_mask r\<rparr>)"

definition pick :: "route_row \<Rightarrow> route_row option \<Rightarrow> route_row option" where
  "pick r b = (case b of None \<Rightarrow> Some r | Some s \<Rightarrow> if preferred r s then Some r else Some s)"

text \<open>The first row that no row is preferred to.\<close>

definition first_best :: "route_row list \<Rightarrow> nat \<Rightarrow> bool" where
  "first_best rs i \<longleftrightarrow> i < length rs \<and> (\<forall>j<i. preferred (rs ! i) (rs ! j)) \<and> (\<forall>j<length rs. \<not> preferred (rs ! j) (rs ! i))"

declare mask_bits.simps [simp del] route_lines.simps [simp del]

lemma route_line_pick:
  "route_line dst line (best_of b) =
     (case (if length line < 256 then scan_route line else None) of
        None \<Rightarrow> best_of b
      | Some r \<Rightarrow> if and (rt_flags r) RT_UP \<noteq> 0 \<and> route_covers dst r then best_of (pick r b) else best_of b)"
  by (cases b; cases "scan_route line")
    (simp_all add: route_line_def best_of_def pick_def no_route_def preferred_def Let_def)

lemma fold_route_line:
  "fold (route_line dst) ls (best_of b) =
     best_of (fold pick (filter (\<lambda>r. and (rt_flags r) RT_UP \<noteq> 0 \<and> route_covers dst r)
       (List.map_filter scan_route (filter (\<lambda>l. length l < 256) ls))) b)"
  by (induction ls arbitrary: b) (auto simp: route_line_pick List.map_filter_simps split: option.splits)

text \<open>\<open>preferred\<close> is a strict order whose complement is transitive.\<close>

lemma preferred_trans: "preferred r s \<Longrightarrow> \<not> preferred q s \<Longrightarrow> preferred r q"
  and preferred_asym: "preferred r s \<Longrightarrow> \<not> preferred s r"
  and preferred_irrefl: "\<not> preferred r r"
  by (auto simp: preferred_def)

lemma pick_simps: "pick r None = Some r" "pick r (Some s) = (if preferred r s then Some r else Some s)"
  by (simp_all add: pick_def)

lemma first_best_unique: "first_best rs i \<Longrightarrow> first_best rs k \<Longrightarrow> k = i"
  unfolding first_best_def by (cases k i rule: linorder_cases) auto

lemma fold_pick:
  assumes "rs \<noteq> []"
  shows "\<exists>i. first_best rs i \<and> fold pick rs None = Some (rs ! i)"
  using assms
proof (induction rs rule: rev_nonempty_induct)
  case (single r)
  then show ?case by (simp add: pick_simps preferred_irrefl first_best_def)
next
  case (snoc r rs)
  then obtain i where i: "i < length rs" "fold pick rs None = Some (rs ! i)"
    "\<forall>j<i. preferred (rs ! i) (rs ! j)" "\<forall>j<length rs. \<not> preferred (rs ! j) (rs ! i)"
    by (auto simp: first_best_def)
  show ?case
  proof (cases "preferred r (rs ! i)")
    case True
    have "preferred r (rs ! j)" if "j < length rs" for j
      using i(4) that by (intro preferred_trans [OF True]) simp
    moreover from this have "\<not> preferred (rs ! j) r" if "j < length rs" for j
      using that by (intro preferred_asym) simp
    ultimately show ?thesis using i True
      by (intro exI [of _ "length rs"]) (simp add: pick_simps nth_append preferred_irrefl less_Suc_eq first_best_def)
  next
    case False
    then show ?thesis using i
      by (intro exI [of _ i]) (simp add: pick_simps nth_append less_Suc_eq first_best_def)
  qed
qed

text \<open>C36: The route lookup is the longest prefix match over the usable rows: it succeeds with a netmask exactly when the
  first row that no other usable row covering the address is preferred to (more mask bits, then a lower
  metric) leads there without a gateway, and the netmask is that row's.\<close>

theorem route_longest_prefix:
  "opcd_route_direct_lookup (Some t) dst = Some m \<longleftrightarrow>
     (\<exists>i. first_best (route_candidates dst t) i \<and> route_direct (route_candidates dst t ! i)
        \<and> m = route_mask (route_candidates dst t ! i))"
proof -
  define rs where "rs = route_candidates dst t"
  have f: "fold (route_line dst) (route_lines t) no_route = best_of (fold pick rs None)"
    using fold_route_line [of dst "route_lines t" None] by (simp add: best_of_def rs_def route_candidates_def)
  show ?thesis
  proof (cases "rs = []")
    case True
    then show ?thesis using f
      by (simp add: opcd_route_direct_lookup_def best_of_def no_route_def rs_def first_best_def)
  next
    case False
    obtain i where i: "first_best rs i" "fold pick rs None = Some (rs ! i)"
      using fold_pick [OF False] by blast
    have l: "opcd_route_direct_lookup (Some t) dst = (if route_direct (rs ! i) then Some (route_mask (rs ! i)) else None)"
      using f i(2) by (simp add: opcd_route_direct_lookup_def best_of_def)
    have e: "(\<exists>k. first_best rs k \<and> P k) \<longleftrightarrow> P i" for P
      using i(1) first_best_unique [OF i(1)] by blast
    show ?thesis unfolding l rs_def [symmetric] e by auto
  qed
qed

end
