(* ===== verification/Platform_Stub.thy ===== *)
theory Platform_Stub
  imports Opcd_State
begin

text \<open>
  The platform without hardware (\<open>opcd/platform_stub.c\<close>). Its file-static variables that an operation reads are
  the record \<open>stub_state\<close>; the counters that only the repository's tests read are left out. \<open>g_stub_ops\<close> is the
  table of functions over one such state. \<open>stub_env\<close> completes it to surroundings in which every system call
  succeeds.
\<close>

record stub_state =
  s_dev_ipv4 :: "(u32 \<times> u32 \<times> u32) option list"
  s_routes :: "(u32 \<times> u32 \<times> u32) list"
  s_route_explicit :: bool
  s_link :: "opcd_platform_link_t list"
  s_link_set :: "bool list"
  s_apply_radio_fail :: bool
  s_apply_radio_fail_once :: bool
  s_apply_radio_rc :: int
  s_validate_radio_error :: u16
  s_apply_ip_fail :: bool

definition zero_link :: opcd_platform_link_t where
  "zero_link = \<lparr>lk_freq_mhz = 0, lk_channel = 0, lk_bssid = replicate 6 0, lk_snr = 0, lk_rssi = 0,
     lk_snr_valid = False, lk_rssi_valid = False, lk_associated = False\<rparr>"

definition stub_zero :: stub_state where
  "stub_zero = \<lparr>s_dev_ipv4 = [None, None], s_routes = [], s_route_explicit = False, s_link = [zero_link, zero_link],
     s_link_set = [False, False], s_apply_radio_fail = False, s_apply_radio_fail_once = False,
     s_apply_radio_rc = 0, s_validate_radio_error = 0, s_apply_ip_fail = False\<rparr>"

definition stub_get_eth_mac :: "u8 list option" where
  "stub_get_eth_mac = Some (replicate 6 0)"

definition stub_set_dev_ipv4 :: "int \<Rightarrow> u32 \<Rightarrow> u32 \<Rightarrow> u32 \<Rightarrow> stub_state \<Rightarrow> stub_state" where
  "stub_set_dev_ipv4 iface ip msk gw s =
     (if iface < 0 \<or> iface > 1 then s else s\<lparr>s_dev_ipv4 := (s_dev_ipv4 s)[nat iface := Some (ip, msk, gw)]\<rparr>)"

definition stub_reset_dev_ipv4 :: "stub_state \<Rightarrow> stub_state" where
  "stub_reset_dev_ipv4 s = s\<lparr>s_dev_ipv4 := [None, None]\<rparr>"

definition stub_get_dev_ipv4 :: "stub_state \<Rightarrow> int \<Rightarrow> (u32 \<times> u32 \<times> u32) option" where
  "stub_get_dev_ipv4 s iface =
     (if (iface = 0 \<or> iface = 1) \<and> s_dev_ipv4 s ! nat iface \<noteq> None then s_dev_ipv4 s ! nat iface
      else if iface = 1 then Some (0xC0000264, 0xFFFFFF00, 0)
      else Some (0, 0, 0))"

definition stub_route_clear :: "stub_state \<Rightarrow> stub_state" where
  "stub_route_clear s = s\<lparr>s_route_explicit := True, s_routes := []\<rparr>"

definition stub_route_reset :: "stub_state \<Rightarrow> stub_state" where
  "stub_route_reset s = s\<lparr>s_route_explicit := False, s_routes := []\<rparr>"

definition stub_route_add :: "u32 \<Rightarrow> u32 \<Rightarrow> u32 \<Rightarrow> stub_state \<Rightarrow> stub_state" where
  "stub_route_add dest msk gw s =
     (let s = s\<lparr>s_route_explicit := True\<rparr> in
      if length (s_routes s) < 16 then s\<lparr>s_routes := s_routes s @ [(dest, msk, gw)]\<rparr> else s)"

definition stub_better :: "u32 \<Rightarrow> u32 \<times> u32 \<times> u32 \<Rightarrow> (u32 \<times> u32) option \<Rightarrow> (u32 \<times> u32) option" where
  "stub_better dst r best =
     (case r of (dest, msk, gw) \<Rightarrow>
        if and dst msk \<noteq> dest then best
        else case best of None \<Rightarrow> Some (msk, gw) | Some (m, g) \<Rightarrow> if msk > m then Some (msk, gw) else best)"

definition stub_lookup_direct_route :: "stub_state \<Rightarrow> u32 \<Rightarrow> u32 option" where
  "stub_lookup_direct_route s dst =
     (if \<not> s_route_explicit s then Some 0xFFFFFFFF
      else case fold (stub_better dst) (s_routes s) None of
             None \<Rightarrow> None
           | Some (msk, gw) \<Rightarrow> if gw \<noteq> 0 then None else Some msk)"

definition stub_get_wlan_count :: int where [simp]: "stub_get_wlan_count = 1"

definition stub_get_wlan_mac :: "int \<Rightarrow> u8 list option" where
  "stub_get_wlan_mac idx = (if idx < 0 \<or> idx \<ge> stub_get_wlan_count then None else Some (replicate 6 0))"

definition stub_get_essid :: "int \<Rightarrow> u8 list option" where
  "stub_get_essid idx = (if idx < 0 \<or> idx \<ge> stub_get_wlan_count then None else Some [])"

definition stub_copy_string :: "nat \<Rightarrow> u8 list \<Rightarrow> u8 list option" where
  "stub_copy_string cap src = (if cap = 0 then None else Some (take (cap - 1) src))"

definition stub_get_firmware_version :: "u8 list option" where
  "stub_get_firmware_version = stub_copy_string OPC_VERSION_FIELD_LEN []"

definition stub_get_ntp_server :: "u32 option" where
  "stub_get_ntp_server = Some 0"

definition stub_set_link :: "int \<Rightarrow> bool \<Rightarrow> u16 \<Rightarrow> u16 \<Rightarrow> stub_state \<Rightarrow> stub_state" where
  "stub_set_link idx assoc freq ch s =
     (if idx < 0 \<or> idx > 1 then s
      else let l = zero_link\<lparr>lk_associated := assoc, lk_freq_mhz := freq, lk_channel := ch\<rparr>;
               l = (if assoc then l\<lparr>lk_rssi := -55, lk_rssi_valid := True, lk_snr := 40, lk_snr_valid := True\<rparr> else l)
        in s\<lparr>s_link := (s_link s)[nat idx := l], s_link_set := (s_link_set s)[nat idx := True]\<rparr>)"

definition stub_set_link_signal :: "int \<Rightarrow> bool \<Rightarrow> u8 \<Rightarrow> bool \<Rightarrow> u8 \<Rightarrow> stub_state \<Rightarrow> stub_state" where
  "stub_set_link_signal idx rssi_ok rssi snr_ok snr s =
     (if idx < 0 \<or> idx > 1 then s
      else s\<lparr>s_link := (s_link s)[nat idx := (s_link s ! nat idx)\<lparr>lk_rssi_valid := rssi_ok, lk_rssi := rssi,
                                           lk_snr_valid := snr_ok, lk_snr := snr\<rparr>]\<rparr>)"

definition stub_reset_link :: "stub_state \<Rightarrow> stub_state" where
  "stub_reset_link s = s\<lparr>s_link_set := [False, False]\<rparr>"

definition stub_get_link :: "stub_state \<Rightarrow> int \<Rightarrow> opcd_platform_link_t option" where
  "stub_get_link s idx =
     (if idx \<ge> 0 \<and> idx < 2 \<and> s_link_set s ! nat idx then Some (s_link s ! nat idx)
      else if idx < 0 \<or> idx \<ge> stub_get_wlan_count then None
      else Some zero_link)"

definition stub_validate_radio_config :: "stub_state \<Rightarrow> opc_set_radio_config_req_t \<Rightarrow> u16" where
  "stub_validate_radio_config s cfg = s_validate_radio_error s"

definition stub_apply_radio_config :: "stub_state \<Rightarrow> opc_set_radio_config_req_t \<Rightarrow> int \<times> stub_state" where
  "stub_apply_radio_config s cfg =
     (if s_apply_radio_fail_once s then (-1, s\<lparr>s_apply_radio_fail_once := False\<rparr>)
      else if s_apply_radio_fail s then (-1, s)
      else if s_apply_radio_rc s \<noteq> 0 then (s_apply_radio_rc s, s)
      else (0, s))"

definition stub_apply_ip_change :: "stub_state \<Rightarrow> opc_ipcfg_entry_t \<Rightarrow> int \<Rightarrow> u16 \<Rightarrow> int" where
  "stub_apply_ip_change s slot iface slot_no = (if s_apply_ip_fail s then -1 else 0)"

definition stub_peer_route_refresh :: "u32 \<Rightarrow> u32 \<Rightarrow> int" where
  "stub_peer_route_refresh ip_host netmask_host = 0"

definition stub_prepare_reset :: int where
  "stub_prepare_reset = 0"

definition g_stub_ops :: "stub_state \<Rightarrow> opcd_platform_ops_t" where
  "g_stub_ops s = \<lparr>get_eth_mac = stub_get_eth_mac, get_dev_ipv4 = stub_get_dev_ipv4 s,
     lookup_direct_route = stub_lookup_direct_route s, get_wlan_mac = stub_get_wlan_mac, get_essid = stub_get_essid,
     get_firmware_version = stub_get_firmware_version, get_ntp_server = stub_get_ntp_server,
     get_wlan_count = stub_get_wlan_count, get_link = stub_get_link s,
     validate_radio_config = stub_validate_radio_config s,
     apply_radio_config = (\<lambda>_ cfg. fst (stub_apply_radio_config s cfg)),
     apply_ip_change = (\<lambda>_. stub_apply_ip_change s), peer_route_refresh = (\<lambda>_. stub_peer_route_refresh),
     prepare_reset = (\<lambda>_. stub_prepare_reset)\<rparr>"

definition zero_inventory :: opcd_inventory_t where
  "zero_inventory = \<lparr>inv_vendor_code = 0, inv_product_code = 0, inv_product_subcode = 0, inv_hardware_version = [],
     inv_serial_number = [], inv_manufacture_date = \<lparr>year = 0, month = 0, day = 0\<rparr>,
     inv_shipment_date = \<lparr>year = 0, month = 0, day = 0\<rparr>, inv_ieee_11r = 0, inv_ieee_11ai = 0, inv_ieee_11k = 0,
     inv_ieee_11v = 0\<rparr>"

definition stub_env :: "int \<Rightarrow> env" where
  "stub_env now = \<lparr>mono_now_s = now, mono_now_ms = word_of_int (now * 1000), wall_stamp = bytes_of ''2026-01-01T00:00:00Z'',
     plat = g_stub_ops stub_zero, inventory = zero_inventory, store_calls = (\<lambda>_. sys_ok), send_ok = (\<lambda>_. True),
     proc_files = Map.empty, mtime_of = (\<lambda>_. (0, 0)), stat_error = (\<lambda>_. False), rename_ok = (\<lambda>_. True),
     unlink_ok = (\<lambda>_. True)\<rparr>"

end
