(* ===== verification/Ind_Engine.thy ===== *)
theory Ind_Engine
  imports Opcd_State Platform_Stub
begin

text \<open>
  The indication engine (\<open>opcd/indication.c\<close>): the senders, the staging of state changes within a reporting period,
  the congestion watch and the period tick. An integer result 0 is \<open>True\<close>. Logging is left out.
\<close>


subsection \<open>Senders\<close>

definition ind_on :: "opcd_state_t \<Rightarrow> u8 \<Rightarrow> bool" where
  "ind_on st b \<longleftrightarrow> and (indication_info_bits st) b \<noteq> 0"

definition send_indication_frame :: "env \<Rightarrow> opcd_state_t \<Rightarrow> u8 list option \<Rightarrow> bool \<times> opcd_state_t" where
  "send_indication_frame E st frame =
     (case frame of
        None \<Rightarrow> (False, st)
      | Some f \<Rightarrow>
          if f = [] then (False, st)
          else if \<not> indication_enabled st \<or> udp_fd st < 0 then (True, st)
          else if indication_recipient_ip st = 0 \<or> indication_recipient_port st = 0 then (True, st)
          else (send_ok E (length (log st)),
                st\<lparr>log := log st @ [Datagram (indication_recipient_ip st) (indication_recipient_port st) f]\<rparr>))"

definition next_seq :: "opcd_state_t \<Rightarrow> u16 \<times> opcd_state_t" where
  "next_seq st = (indication_seq st, st\<lparr>indication_seq := indication_seq st + 1\<rparr>)"

definition opcd_ind_init_complete :: "env \<Rightarrow> opcd_state_t \<Rightarrow> u32 \<Rightarrow> bool \<times> opcd_state_t" where
  "opcd_ind_init_complete E st status =
     (if \<not> ind_on st OPC_IND_BIT_INIT_COMPLETE then (True, st)
      else case next_seq st of
             (seq, st) \<Rightarrow> send_indication_frame E st
               (opc_ind_init_complete_pack (Some OPC_FRAME_MAX) seq (Some \<lparr>ic_status = status\<rparr>)))"

definition emit_wlan_status :: "env \<Rightarrow> opcd_state_t \<Rightarrow> u16 \<Rightarrow> u16 \<Rightarrow> bool \<times> opcd_state_t" where
  "emit_wlan_status E st status ch =
     (case next_seq st of
        (seq, st) \<Rightarrow> send_indication_frame E st
          (opc_ind_wlan_status_change_pack (Some OPC_FRAME_MAX) seq
             (Some \<lparr>wsc_wlan_status = status, wsc_indication_ch = ch\<rparr>)))"

definition emit_roaming :: "env \<Rightarrow> opcd_state_t \<Rightarrow> u8 \<Rightarrow> u8 \<Rightarrow> u8 list \<Rightarrow> u16 \<Rightarrow> bool \<times> opcd_state_t" where
  "emit_roaming E st snr rssi ap_mac ch =
     (case next_seq st of
        (seq, st) \<Rightarrow> send_indication_frame E st
          (opc_ind_roaming_pack (Some OPC_FRAME_MAX) seq
             (Some \<lparr>ro_current_snr = snr, ro_current_rssi = rssi, ro_connect_ap_mac = take 6 ap_mac,
                    ro_ch_number = ch\<rparr>)))"

definition emit_ap_disconnect :: "env \<Rightarrow> opcd_state_t \<Rightarrow> u16 \<Rightarrow> u16 \<Rightarrow> u8 list \<Rightarrow> bool \<times> opcd_state_t" where
  "emit_ap_disconnect E st msg_id reason ap_mac =
     (case next_seq st of
        (seq, st) \<Rightarrow> send_indication_frame E st
          (opc_ind_ap_disconnect_pack (Some OPC_FRAME_MAX) seq
             (Some \<lparr>ad_message_id = msg_id, ad_result_code = reason, ad_disconnect_ap_mac = take 6 ap_mac\<rparr>)))"

definition opcd_ind_radio_up :: "env \<Rightarrow> opcd_state_t \<Rightarrow> opcd_state_t" where
  "opcd_ind_radio_up E st =
     (if \<not> indication_enabled st \<or> radio_up_reported st then st
      else snd (opcd_ind_init_complete E (st\<lparr>radio_up_reported := True\<rparr>) OPC_INIT_STATE_RADIO_UP))"

text \<open>Staging: an update of \<open>indication_coalesce[0]\<close>.\<close>

definition stage :: "(opcd_ind_coalesce \<Rightarrow> opcd_ind_coalesce) \<Rightarrow> opcd_state_t \<Rightarrow> opcd_state_t" where
  "stage f st = st\<lparr>indication_coalesce := (indication_coalesce st)[0 := f (indication_coalesce st ! 0)]\<rparr>"

definition opcd_ind_wlan_status :: "env \<Rightarrow> opcd_state_t \<Rightarrow> u16 \<Rightarrow> u16 \<Rightarrow> bool \<times> opcd_state_t" where
  "opcd_ind_wlan_status E st status ch =
     (let st = st\<lparr>wlan0_assoc_known := True, wlan0_assoc := (status = OPC_WLAN_STATUS_CONNECTED),
                  wlan0_assoc_at := mono_now_s E\<rparr>;
          st = (if status = OPC_WLAN_STATUS_CONNECTED then opcd_ind_radio_up E st else st)
      in if \<not> ind_on st OPC_IND_BIT_WLAN_STATUS_CHANGE then (True, st)
         else if indication_period_s st > 0
           then (True, stage (\<lambda>c. c\<lparr>wlan_status := status, wlan_ch := ch, wlan_pending := True\<rparr>) st)
           else emit_wlan_status E st status ch)"

definition opcd_ind_roaming :: "env \<Rightarrow> opcd_state_t \<Rightarrow> u8 \<Rightarrow> u8 \<Rightarrow> u8 list \<Rightarrow> u16 \<Rightarrow> bool \<times> opcd_state_t" where
  "opcd_ind_roaming E st snr rssi ap_mac ch =
     (if \<not> ind_on st OPC_IND_BIT_ROAMING then (True, st)
      else if indication_period_s st > 0
        then (True, stage (\<lambda>c. c\<lparr>roam_snr := snr, roam_rssi := rssi, roam_ch := ch, roam_mac := take 6 ap_mac,
                                 roam_pending := True\<rparr>) st)
        else emit_roaming E st snr rssi ap_mac ch)"

definition opcd_ind_ap_disconnect :: "env \<Rightarrow> opcd_state_t \<Rightarrow> u16 \<Rightarrow> u16 \<Rightarrow> u8 list \<Rightarrow> bool \<times> opcd_state_t" where
  "opcd_ind_ap_disconnect E st msg_id reason ap_mac =
     (if \<not> ind_on st OPC_IND_BIT_AP_DISCONNECT then (True, st)
      else if indication_period_s st > 0
        then (True, stage (\<lambda>c. c\<lparr>apd_msg_id := msg_id, apd_reason := reason, apd_mac := take 6 ap_mac,
                                 apd_pending := True\<rparr>) st)
        else emit_ap_disconnect E st msg_id reason ap_mac)"

definition opcd_ind_coalesce_reset :: "opcd_state_t \<Rightarrow> opcd_state_t" where
  "opcd_ind_coalesce_reset st =
     st\<lparr>indication_coalesce := map (\<lambda>_. zero_coalesce) (indication_coalesce st),
        fault_probe := opcd_fault_probe_reset_latch (fault_probe st)\<rparr>"

subsection \<open>Congestion\<close>

definition emit_fault_detect :: "env \<Rightarrow> opcd_state_t \<Rightarrow> u16 \<Rightarrow> u16 \<Rightarrow> bool \<times> opcd_state_t" where
  "emit_fault_detect E st cong_id val =
     (case next_seq st of
        (seq, st) \<Rightarrow> send_indication_frame E st
          (opc_ind_fault_detect_pack (Some OPC_FRAME_MAX) seq
             (Some \<lparr>fd_congestion_id = cong_id, fd_current_val = val\<rparr>)))"

definition fault_slot :: "u16 \<Rightarrow> nat option" where
  "fault_slot cong_id =
     (if cong_id \<ge> OPC_CONGESTION_CPU \<and> cong_id \<le> OPC_CONGESTION_NETWORK then Some (unat cong_id - 1) else None)"

definition opcd_ind_fault_clear :: "opcd_state_t \<Rightarrow> u16 \<Rightarrow> opcd_state_t" where
  "opcd_ind_fault_clear st cong_id =
     (if indication_period_s st = 0 then st
      else case fault_slot cong_id of
             None \<Rightarrow> st
           | Some slot \<Rightarrow> stage (\<lambda>c. c\<lparr>fault_pending := (fault_pending c)[slot := False]\<rparr>) st)"

definition opcd_ind_fault_detect :: "env \<Rightarrow> opcd_state_t \<Rightarrow> u16 \<Rightarrow> u16 \<Rightarrow> bool \<times> opcd_state_t" where
  "opcd_ind_fault_detect E st cong_id val =
     (if \<not> ind_on st OPC_IND_BIT_FAULT_DETECT then (True, st)
      else if indication_period_s st > 0
        then (case fault_slot cong_id of
                None \<Rightarrow> (False, st)
              | Some slot \<Rightarrow> (True, stage (\<lambda>c. c\<lparr>fault_val := (fault_val c)[slot := val],
                                                fault_pending := (fault_pending c)[slot := True]\<rparr>) st))
        else emit_fault_detect E st cong_id val)"

text \<open>One resource of the watch: an entry is notified, and re-armed when that fails.\<close>

definition fault_entry :: "env \<Rightarrow> bool \<Rightarrow> u16 \<Rightarrow> u16 \<Rightarrow> opcd_fault_res_t \<Rightarrow> opcd_state_t \<Rightarrow> opcd_state_t" where
  "fault_entry E entered cong_id val res st =
     (if \<not> entered then st
      else case opcd_ind_fault_detect E st cong_id val of
             (ok, st) \<Rightarrow> if ok then st else st\<lparr>fault_probe := opcd_fault_probe_rearm res (fault_probe st)\<rparr>)"

definition fault_probe_tick :: "env \<Rightarrow> opcd_state_t \<Rightarrow> u32 \<Rightarrow> opcd_state_t" where
  "fault_probe_tick E st elapsed_s =
     (if \<not> ind_on st OPC_IND_BIT_FAULT_DETECT then st
      else case opcd_fault_probe_due (fault_probe st) elapsed_s of
             (due, p) \<Rightarrow>
               let st = st\<lparr>fault_probe := p\<rparr> in
               if \<not> due then st
               else case opcd_fault_probe_sample (proc_files E) (mono_now_ms E) (fault_probe st) of
                      (rep, p) \<Rightarrow>
                        let st = st\<lparr>fault_probe := p\<rparr>;
                            st = fault_entry E (cpu_entered rep) OPC_CONGESTION_CPU (cpu_pct rep) OPCD_FAULT_RES_CPU st;
                            st = fault_entry E (mem_entered rep) OPC_CONGESTION_MEMORY (mem_pct rep) OPCD_FAULT_RES_MEM st;
                            st = fault_entry E (disk_entered rep) OPC_CONGESTION_DISK_IO (disk_pct rep) OPCD_FAULT_RES_DISK st;
                            st = fault_entry E (net_entered rep) OPC_CONGESTION_NETWORK (net_pct rep) OPCD_FAULT_RES_NET st;
                            st = (if cpu_cleared rep then opcd_ind_fault_clear st OPC_CONGESTION_CPU else st);
                            st = (if mem_cleared rep then opcd_ind_fault_clear st OPC_CONGESTION_MEMORY else st);
                            st = (if disk_cleared rep then opcd_ind_fault_clear st OPC_CONGESTION_DISK_IO else st)
                        in if net_cleared rep then opcd_ind_fault_clear st OPC_CONGESTION_NETWORK else st)"

subsection \<open>Reset notice, KeepAlive and the tick\<close>

definition opcd_ind_reset_notice :: "env \<Rightarrow> opcd_state_t \<Rightarrow> u32 \<Rightarrow> bool \<times> opcd_state_t" where
  "opcd_ind_reset_notice E st cause =
     (if \<not> ind_on st OPC_IND_BIT_RESET_NOTICE then (True, st)
      else case next_seq st of
             (seq, st) \<Rightarrow> send_indication_frame E st
               (opc_ind_reset_notice_pack (Some OPC_FRAME_MAX) seq (Some \<lparr>rn_reset_cause = cause\<rparr>)))"

definition opcd_ind_keep_alive :: "env \<Rightarrow> opcd_state_t \<Rightarrow> u8 list ptr \<Rightarrow> bool \<times> opcd_state_t" where
  "opcd_ind_keep_alive E st timestamp =
     (if \<not> ind_on st OPC_IND_BIT_KEEP_ALIVE then (True, st)
      else let stamp = (case timestamp of None \<Rightarrow> [] | Some t \<Rightarrow> take (OPC_IND_KEEP_ALIVE_BODY_LEN - 1) (cstr t)) in
        case next_seq st of
          (seq, st) \<Rightarrow> send_indication_frame E st
            (opc_ind_keep_alive_pack (Some OPC_FRAME_MAX) seq
               (Some \<lparr>ka_timestamp = put 0 stamp (replicate OPC_IND_KEEP_ALIVE_BODY_LEN 0)\<rparr>)))"

text \<open>The flush of one staged kind of link \<open>i\<close>: the flag is cleared when the frame went out.\<close>

definition flush_kind ::
  "nat \<Rightarrow> (opcd_ind_coalesce \<Rightarrow> bool) \<Rightarrow> (opcd_state_t \<Rightarrow> opcd_ind_coalesce \<Rightarrow> bool \<times> opcd_state_t)
   \<Rightarrow> (opcd_ind_coalesce \<Rightarrow> opcd_ind_coalesce) \<Rightarrow> opcd_state_t \<Rightarrow> opcd_state_t" where
  "flush_kind i pending emit clear st =
     (if \<not> pending (indication_coalesce st ! i) then st
      else case emit st (indication_coalesce st ! i) of
             (ok, st) \<Rightarrow>
               if ok then st\<lparr>indication_coalesce := (indication_coalesce st)[i := clear (indication_coalesce st ! i)]\<rparr>
               else st)"

definition flush_link :: "env \<Rightarrow> nat \<Rightarrow> opcd_state_t \<Rightarrow> opcd_state_t" where
  "flush_link E i st =
     (let st = flush_kind i wlan_pending (\<lambda>st c. emit_wlan_status E st (wlan_status c) (wlan_ch c))
                 (\<lambda>c. c\<lparr>wlan_pending := False\<rparr>) st;
          st = flush_kind i roam_pending
                 (\<lambda>st c. emit_roaming E st (roam_snr c) (roam_rssi c) (roam_mac c) (roam_ch c))
                 (\<lambda>c. c\<lparr>roam_pending := False\<rparr>) st;
          st = flush_kind i apd_pending
                 (\<lambda>st c. emit_ap_disconnect E st (apd_msg_id c) (apd_reason c) (apd_mac c))
                 (\<lambda>c. c\<lparr>apd_pending := False\<rparr>) st
      in fold (\<lambda>k st. flush_kind i (\<lambda>c. fault_pending c ! k)
                 (\<lambda>st c. emit_fault_detect E st (of_nat (k + 1)) (fault_val c ! k))
                 (\<lambda>c. c\<lparr>fault_pending := (fault_pending c)[k := False]\<rparr>) st) [0..<4] st)"

definition opcd_ind_tick_elapsed :: "env \<Rightarrow> opcd_state_t \<Rightarrow> u32 \<Rightarrow> opcd_state_t" where
  "opcd_ind_tick_elapsed E st elapsed_s =
     (if \<not> indication_enabled st then st
      else let st = fault_probe_tick E st elapsed_s in
        if indication_period_s st = 0 then st
        else if \<not> ind_on st (or OPC_IND_BIT_KEEP_ALIVE (or OPC_IND_BIT_FAULT_DETECT
                  (or OPC_IND_BIT_WLAN_STATUS_CHANGE (or OPC_IND_BIT_ROAMING OPC_IND_BIT_AP_DISCONNECT)))) then st
        else let period = uint (indication_period_s st);
                 st = st\<lparr>indication_tick_counter := indication_tick_counter st + min (uint elapsed_s) period\<rparr>
          in if indication_tick_counter st < period then st
             else let st = st\<lparr>indication_tick_counter := 0\<rparr>;
                      st = fold (flush_link E) [0..<length (indication_coalesce st)] st
               in if ind_on st OPC_IND_BIT_KEEP_ALIVE then snd (opcd_ind_keep_alive E st (Some (wall_stamp E))) else st)"

definition opcd_ind_tick :: "env \<Rightarrow> opcd_state_t \<Rightarrow> opcd_state_t" where
  "opcd_ind_tick E st = opcd_ind_tick_elapsed E st 1"

subsection \<open>Runs of the engine\<close>

text \<open>The public entry points, and a run of them; the surroundings may change from call to call.\<close>

datatype ind_event =
    IndInit u32
  | IndRadioUp
  | IndWlan u16 u16
  | IndRoam u8 u8 "u8 list" u16
  | IndApd u16 u16 "u8 list"
  | IndFault u16 u16
  | IndFaultClear u16
  | IndReset u32
  | IndKeepAlive "u8 list ptr"
  | IndCoalesceReset
  | IndTick u32

fun ind_apply :: "env \<Rightarrow> ind_event \<Rightarrow> opcd_state_t \<Rightarrow> opcd_state_t" where
  "ind_apply E (IndInit s) st = snd (opcd_ind_init_complete E st s)"
| "ind_apply E IndRadioUp st = opcd_ind_radio_up E st"
| "ind_apply E (IndWlan s c) st = snd (opcd_ind_wlan_status E st s c)"
| "ind_apply E (IndRoam s r m c) st = snd (opcd_ind_roaming E st s r m c)"
| "ind_apply E (IndApd i r m) st = snd (opcd_ind_ap_disconnect E st i r m)"
| "ind_apply E (IndFault i v) st = snd (opcd_ind_fault_detect E st i v)"
| "ind_apply E (IndFaultClear i) st = opcd_ind_fault_clear st i"
| "ind_apply E (IndReset c) st = snd (opcd_ind_reset_notice E st c)"
| "ind_apply E (IndKeepAlive t) st = snd (opcd_ind_keep_alive E st t)"
| "ind_apply E IndCoalesceReset st = opcd_ind_coalesce_reset st"
| "ind_apply E (IndTick n) st = opcd_ind_tick_elapsed E st n"

definition ind_run :: "(env \<times> ind_event) list \<Rightarrow> opcd_state_t \<Rightarrow> opcd_state_t" where
  "ind_run evs st = fold (\<lambda>(E, e) st. ind_apply E e st) evs st"

text \<open>What may be sent: frames to the configured recipient, of an enabled kind.\<close>

definition ind_kind_bit :: "u16 \<Rightarrow> u8" where
  "ind_kind_bit i =
     (if i = OPC_IND_INIT_COMPLETE then OPC_IND_BIT_INIT_COMPLETE
      else if i = OPC_IND_WLAN_STATUS_CHANGE then OPC_IND_BIT_WLAN_STATUS_CHANGE
      else if i = OPC_IND_ROAMING then OPC_IND_BIT_ROAMING
      else if i = OPC_IND_AP_DISCONNECT then OPC_IND_BIT_AP_DISCONNECT
      else if i = OPC_IND_FAULT_DETECT then OPC_IND_BIT_FAULT_DETECT
      else if i = OPC_IND_RESET_NOTICE then OPC_IND_BIT_RESET_NOTICE
      else if i = OPC_IND_KEEP_ALIVE then OPC_IND_BIT_KEEP_ALIVE
      else 0)"

definition ind_gated :: "opcd_state_t \<Rightarrow> action \<Rightarrow> bool" where
  "ind_gated st d =
     (case d of
        Datagram ip port f \<Rightarrow>
          indication_enabled st \<and> ip = indication_recipient_ip st \<and> port = indication_recipient_port st
          \<and> ind_on st (ind_kind_bit (opc_be16_read (drop 2 f)))
      | _ \<Rightarrow> False)"

text \<open>A kind is staged only while it is enabled.\<close>

definition staged_link_ok :: "opcd_state_t \<Rightarrow> opcd_ind_coalesce \<Rightarrow> bool" where
  "staged_link_ok st c \<longleftrightarrow>
     (wlan_pending c \<longrightarrow> ind_on st OPC_IND_BIT_WLAN_STATUS_CHANGE) \<and> (roam_pending c \<longrightarrow> ind_on st OPC_IND_BIT_ROAMING)
     \<and> (apd_pending c \<longrightarrow> ind_on st OPC_IND_BIT_AP_DISCONNECT) \<and> length (fault_pending c) = 4
     \<and> (True \<in> set (fault_pending c) \<longrightarrow> ind_on st OPC_IND_BIT_FAULT_DETECT)"

definition staged_ok :: "opcd_state_t \<Rightarrow> bool" where
  "staged_ok st \<longleftrightarrow> length (indication_coalesce st) = 2 \<and> list_all (staged_link_ok st) (indication_coalesce st)"

definition ind_cfg :: "opcd_state_t \<Rightarrow> bool \<times> u32 \<times> u16 \<times> u8 \<times> u8 \<times> int" where
  "ind_cfg st = (indication_enabled st, indication_recipient_ip st, indication_recipient_port st,
     indication_info_bits st, indication_period_s st, udp_fd st)"

text \<open>What every operation of the engine does: configuration kept, staging kept, gated frames appended.\<close>

definition ind_adv :: "opcd_state_t \<Rightarrow> opcd_state_t \<Rightarrow> bool" where
  "ind_adv st st' \<longleftrightarrow> (staged_ok st \<longrightarrow>
     ind_cfg st' = ind_cfg st \<and> staged_ok st' \<and> (\<exists>ds. log st' = log st @ ds \<and> list_all (ind_gated st) ds))"

text \<open>The frames that one call of \<open>send_indication_frame\<close> hands to the socket.\<close>

definition sent :: "opcd_state_t \<Rightarrow> u8 list \<Rightarrow> action list" where
  "sent st f =
     (if indication_enabled st \<and> udp_fd st \<ge> 0 \<and> indication_recipient_ip st \<noteq> 0 \<and> indication_recipient_port st \<noteq> 0
      then [Datagram (indication_recipient_ip st) (indication_recipient_port st) f] else [])"

text \<open>A subscriber of roaming events and KeepAlive with a period of five seconds.\<close>

definition subscribed :: "u8 \<Rightarrow> opcd_state_t" where
  "subscribed bits = (state_set_defaults Map.empty)\<lparr>indication_enabled := True, indication_recipient_ip := 0x0A000001,
     indication_recipient_port := 5000, indication_info_bits := bits, indication_period_s := 5, udp_fd := 3\<rparr>"

text \<open>Roaming events, one after the other.\<close>

definition roam_all :: "env \<Rightarrow> (u8 \<times> u8 \<times> u8 list \<times> u16) list \<Rightarrow> opcd_state_t \<Rightarrow> opcd_state_t" where
  "roam_all E evs st = fold (\<lambda>(s, r, m, c) st. snd (opcd_ind_roaming E st s r m c)) evs st"

definition tick_all :: "env list \<Rightarrow> opcd_state_t \<Rightarrow> opcd_state_t" where
  "tick_all Es st = fold (\<lambda>E st. opcd_ind_tick E st) Es st"

definition staged_roam :: "u8 \<times> u8 \<times> u8 list \<times> u16 \<Rightarrow> opcd_ind_coalesce \<Rightarrow> opcd_ind_coalesce" where
  "staged_roam e c = (case e of (s, r, m, ch) \<Rightarrow>
     c\<lparr>roam_snr := s, roam_rssi := r, roam_ch := ch, roam_mac := take 6 m, roam_pending := True\<rparr>)"

subsection \<open>The contract of a sender\<close>

locale ind_sender =
  fixes emit :: "env \<Rightarrow> opcd_state_t \<Rightarrow> 'a \<Rightarrow> bool \<times> opcd_state_t" and frame_of :: "u16 \<Rightarrow> 'a \<Rightarrow> u8 list" and kind :: u16
  assumes emit_eq: "ind_on st (ind_kind_bit kind) \<Longrightarrow> emit E st a =
      (case next_seq st of (seq, st) \<Rightarrow> send_indication_frame E st (Some (frame_of seq a)))"
    and frame_kind: "opc_be16_read (drop 2 (frame_of s a)) = kind"
    and frame_nonempty: "frame_of s a \<noteq> []"
begin

lemma emit_state:
  "ind_on st (ind_kind_bit kind) \<Longrightarrow> snd (emit E st a) =
     st\<lparr>indication_seq := indication_seq st + 1, log := log st @ sent st (frame_of (indication_seq st) a)\<rparr>"
  by (simp add: emit_eq next_seq_def send_indication_frame_def frame_nonempty sent_def)

lemma emit_ok:
  "ind_on st (ind_kind_bit kind) \<Longrightarrow>
     fst (emit E st a) \<longleftrightarrow> sent st (frame_of (indication_seq st) a) = [] \<or> send_ok E (length (log st))"
  by (simp add: emit_eq next_seq_def send_indication_frame_def frame_nonempty sent_def)

lemma emit_adv:
  assumes "ind_on st (ind_kind_bit kind)"
  shows "ind_adv st (snd (emit E st a))"
  using assms unfolding ind_adv_def emit_state [OF assms]
  by (auto simp: staged_ok_def staged_link_ok_def [abs_def] ind_on_def ind_cfg_def sent_def ind_gated_def frame_kind)

end

text \<open>A public entry point: silent when its kind is off.\<close>

locale guarded_sender = ind_sender +
  assumes emit_off: "\<not> ind_on st (ind_kind_bit kind) \<Longrightarrow> emit E st a = (True, st)"
begin

lemma guarded_adv: "ind_adv st (snd (emit E st a))"
proof (cases "ind_on st (ind_kind_bit kind)")
  case False
  then show ?thesis by (auto simp: emit_off ind_adv_def)
qed (rule emit_adv)

end

lemma frame_build_max:
  assumes "n \<le> 32"
  shows "opc_frame_build (Some OPC_FRAME_MAX) c i s l (Some b) n \<noteq> None"
    and "opc_be16_read (drop 2 (the (opc_frame_build (Some OPC_FRAME_MAX) c i s l (Some b) n))) = i"
    and "the (opc_frame_build (Some OPC_FRAME_MAX) c i s l (Some b) n) \<noteq> []"
proof -
  let ?h = "\<lparr>protocol_version = OPC_PROTOCOL_VERSION, command_type = c, req_indication_id = i, sequence_number = s,
    length_field = l\<rparr>"
  let ?p = "[OPC_PROTOCOL_VERSION, c] @ opc_be16_write i @ opc_be16_write s @ opc_be16_write l"
  have "opc_header_pack (Some 1424) (Some ?h) = Some (put 0 ?p (replicate 60 0 @ replicate 4 0))"
    by (simp add: opc_header_pack_def opc_fixed_header_pack_def flip: replicate_add)
  then have f: "opc_frame_build (Some OPC_FRAME_MAX) c i s l (Some b) n =
      Some (put 0 ?p (replicate 60 0 @ replicate 4 0) @ take n b)"
    using assms by (simp add: opc_frame_build_def)
  have p: "put 0 ?p (replicate 60 0 @ replicate 4 0) = ?p @ replicate 56 0"
    by (simp add: put_def flip: replicate_add)
  show "opc_frame_build (Some OPC_FRAME_MAX) c i s l (Some b) n \<noteq> None" using f by simp
  show "the (opc_frame_build (Some OPC_FRAME_MAX) c i s l (Some b) n) \<noteq> []" using f p by simp
  show "opc_be16_read (drop 2 (the (opc_frame_build (Some OPC_FRAME_MAX) c i s l (Some b) n))) = i"
    unfolding f p by (simp add: opc_be16_roundtrip)
qed

interpretation init_sender: guarded_sender opcd_ind_init_complete
    "\<lambda>s a. the (opc_ind_init_complete_pack (Some OPC_FRAME_MAX) s (Some \<lparr>ic_status = a\<rparr>))" OPC_IND_INIT_COMPLETE
  by unfold_locales
    (simp_all add: opcd_ind_init_complete_def ind_kind_bit_def opc_ind_init_complete_pack_def
      frame_build_max [simplified] split: prod.splits)

interpretation wlan_sender: ind_sender "\<lambda>E st (s, c). emit_wlan_status E st s c"
    "\<lambda>n (s, c). the (opc_ind_wlan_status_change_pack (Some OPC_FRAME_MAX) n
       (Some \<lparr>wsc_wlan_status = s, wsc_indication_ch = c\<rparr>))" OPC_IND_WLAN_STATUS_CHANGE
  by unfold_locales
    (simp_all add: emit_wlan_status_def opc_ind_wlan_status_change_pack_def
      frame_build_max [simplified] split: prod.splits)

interpretation roam_sender: ind_sender "\<lambda>E st (s, r, m, c). emit_roaming E st s r m c"
    "\<lambda>n (s, r, m, c). the (opc_ind_roaming_pack (Some OPC_FRAME_MAX) n
       (Some \<lparr>ro_current_snr = s, ro_current_rssi = r, ro_connect_ap_mac = take 6 m, ro_ch_number = c\<rparr>))" OPC_IND_ROAMING
  by unfold_locales
    (simp_all add: emit_roaming_def opc_ind_roaming_pack_def Let_def frame_build_max [simplified] split: prod.splits)

interpretation apd_sender: ind_sender "\<lambda>E st (i, r, m). emit_ap_disconnect E st i r m"
    "\<lambda>n (i, r, m). the (opc_ind_ap_disconnect_pack (Some OPC_FRAME_MAX) n
       (Some \<lparr>ad_message_id = i, ad_result_code = r, ad_disconnect_ap_mac = take 6 m\<rparr>))" OPC_IND_AP_DISCONNECT
  by unfold_locales
    (simp_all add: emit_ap_disconnect_def opc_ind_ap_disconnect_pack_def Let_def frame_build_max [simplified]
      split: prod.splits)

interpretation fault_sender: ind_sender "\<lambda>E st (i, v). emit_fault_detect E st i v"
    "\<lambda>n (i, v). the (opc_ind_fault_detect_pack (Some OPC_FRAME_MAX) n
       (Some \<lparr>fd_congestion_id = i, fd_current_val = v\<rparr>))" OPC_IND_FAULT_DETECT
  by unfold_locales
    (simp_all add: emit_fault_detect_def opc_ind_fault_detect_pack_def frame_build_max [simplified]
      split: prod.splits)

interpretation reset_sender: guarded_sender opcd_ind_reset_notice
    "\<lambda>s a. the (opc_ind_reset_notice_pack (Some OPC_FRAME_MAX) s (Some \<lparr>rn_reset_cause = a\<rparr>))" OPC_IND_RESET_NOTICE
  by unfold_locales
    (simp_all add: opcd_ind_reset_notice_def ind_kind_bit_def opc_ind_reset_notice_pack_def
      frame_build_max [simplified] split: prod.splits)

interpretation keep_alive_sender: guarded_sender opcd_ind_keep_alive
    "\<lambda>s a. the (opc_ind_keep_alive_pack (Some OPC_FRAME_MAX) s (Some \<lparr>ka_timestamp =
       put 0 (case a of None \<Rightarrow> [] | Some t \<Rightarrow> take (OPC_IND_KEEP_ALIVE_BODY_LEN - 1) (cstr t))
         (replicate OPC_IND_KEEP_ALIVE_BODY_LEN 0)\<rparr>))" OPC_IND_KEEP_ALIVE
  by unfold_locales
    (simp_all add: opcd_ind_keep_alive_def ind_kind_bit_def opc_ind_keep_alive_pack_def Let_def
      frame_build_max [simplified] split: prod.splits)

subsection \<open>Gating\<close>

lemma gated_cong: "ind_cfg st = ind_cfg st' \<Longrightarrow> ind_gated st = ind_gated st'"
  by (auto simp: ind_cfg_def ind_gated_def ind_on_def fun_eq_iff split: action.split)

lemma ind_adv_refl [simp, intro]: "ind_adv st st"
  by (auto simp: ind_adv_def)

lemma ind_adv_trans: "ind_adv a b \<Longrightarrow> ind_adv b c \<Longrightarrow> ind_adv a c"
  using gated_cong [of b a] by (auto simp: ind_adv_def)

lemma ind_adv_quiet:
  assumes "ind_cfg st' = ind_cfg st" "indication_coalesce st' = indication_coalesce st" "log st' = log st"
  shows "ind_adv st st'"
  using assms by (auto simp: ind_adv_def staged_ok_def staged_link_ok_def [abs_def] ind_on_def ind_cfg_def)

lemma ind_adv_coalesce:
  assumes "i < length (indication_coalesce st) \<Longrightarrow> staged_link_ok st (indication_coalesce st ! i) \<Longrightarrow>
    staged_link_ok st (f (indication_coalesce st ! i))"
  shows "ind_adv st (st\<lparr>indication_coalesce := (indication_coalesce st)[i := f (indication_coalesce st ! i)]\<rparr>)"
proof (cases "i < length (indication_coalesce st)")
  case True
  have c: "staged_link_ok (st\<lparr>indication_coalesce := x\<rparr>) = staged_link_ok st" for x
    by (simp add: staged_link_ok_def [abs_def] ind_on_def)
  show ?thesis
    using assms [OF True] True
    by (auto simp: ind_adv_def staged_ok_def c ind_cfg_def list_all_length nth_list_update)
qed (simp add: list_update_beyond)

lemma ind_adv_stage:
  "(staged_link_ok st (indication_coalesce st ! 0) \<Longrightarrow> staged_link_ok st (f (indication_coalesce st ! 0))) \<Longrightarrow>
     ind_adv st (stage f st)"
  unfolding stage_def by (rule ind_adv_coalesce)

lemma ind_on_cong: "ind_cfg st' = ind_cfg st \<Longrightarrow> ind_on st' = ind_on st"
  by (simp add: ind_cfg_def ind_on_def [abs_def])

lemma radio_up_adv: "ind_adv st (opcd_ind_radio_up E st)"
  unfolding opcd_ind_radio_up_def
  by (auto intro!: ind_adv_trans [OF ind_adv_quiet init_sender.guarded_adv] simp: ind_cfg_def)

lemma wlan_status_adv: "ind_adv st (snd (opcd_ind_wlan_status E st status ch))"
proof -
  define s1 where "s1 = st\<lparr>wlan0_assoc_known := True, wlan0_assoc := (status = OPC_WLAN_STATUS_CONNECTED),
    wlan0_assoc_at := mono_now_s E\<rparr>"
  define s2 where "s2 = (if status = OPC_WLAN_STATUS_CONNECTED then opcd_ind_radio_up E s1 else s1)"
  have 1: "ind_adv st s1" by (rule ind_adv_quiet) (simp_all add: s1_def ind_cfg_def)
  have 2: "ind_adv s1 s2" by (simp add: s2_def radio_up_adv)
  have 3: "ind_adv s2 (snd (if \<not> ind_on s2 OPC_IND_BIT_WLAN_STATUS_CHANGE then (True, s2)
         else if indication_period_s s2 > 0
           then (True, stage (\<lambda>c. c\<lparr>wlan_status := status, wlan_ch := ch, wlan_pending := True\<rparr>) s2)
           else emit_wlan_status E s2 status ch))"
    using wlan_sender.emit_adv [of s2 E "(status, ch)"]
    by (auto intro!: ind_adv_stage simp: ind_kind_bit_def staged_link_ok_def)
  show ?thesis
    unfolding opcd_ind_wlan_status_def Let_def s1_def [symmetric] s2_def [symmetric]
    by (rule ind_adv_trans [OF ind_adv_trans [OF 1 2] 3])
qed

lemma roaming_adv: "ind_adv st (snd (opcd_ind_roaming E st snr rssi m ch))"
  using roam_sender.emit_adv [of st E "(snr, rssi, m, ch)"]
  by (auto intro!: ind_adv_stage simp: opcd_ind_roaming_def ind_kind_bit_def staged_link_ok_def)

lemma ap_disconnect_adv: "ind_adv st (snd (opcd_ind_ap_disconnect E st i r m))"
  using apd_sender.emit_adv [of st E "(i, r, m)"]
  by (auto intro!: ind_adv_stage simp: opcd_ind_ap_disconnect_def ind_kind_bit_def staged_link_ok_def)

lemma staged_reset: "staged_ok st \<Longrightarrow> staged_ok (opcd_ind_coalesce_reset st)"
  by (auto simp: staged_ok_def opcd_ind_coalesce_reset_def list_all_length staged_link_ok_def zero_coalesce_def)

lemma coalesce_reset_adv: "ind_adv st (opcd_ind_coalesce_reset st)"
  using staged_reset by (simp add: ind_adv_def) (simp add: opcd_ind_coalesce_reset_def ind_cfg_def)

lemma fault_clear_adv: "ind_adv st (opcd_ind_fault_clear st i)"
  by (auto intro!: ind_adv_stage simp: opcd_ind_fault_clear_def staged_link_ok_def split: option.split
      dest: subsetD [OF set_update_subset_insert])

lemma fault_detect_adv: "ind_adv st (snd (opcd_ind_fault_detect E st i v))"
  using fault_sender.emit_adv [of st E "(i, v)"]
  by (auto intro!: ind_adv_stage simp: opcd_ind_fault_detect_def ind_kind_bit_def staged_link_ok_def split: option.split)

lemma fault_entry_adv: "ind_adv st (fault_entry E e i v r st)"
proof -
  have q: "ind_adv s (s\<lparr>fault_probe := p\<rparr>)" for s p by (rule ind_adv_quiet) (simp_all add: ind_cfg_def)
  show ?thesis
    using fault_detect_adv [of st E i v] q
    by (auto simp: fault_entry_def split: prod.split intro: ind_adv_trans)
qed

lemma fault_probe_tick_adv: "ind_adv st (fault_probe_tick E st n)"
proof -
  have q: "ind_adv s (s\<lparr>fault_probe := p\<rparr>)" for s p by (rule ind_adv_quiet) (simp_all add: ind_cfg_def)
  have c: "ind_adv a s \<Longrightarrow> ind_adv a (opcd_ind_fault_clear s i)" for a s i
    using fault_clear_adv ind_adv_trans by blast
  have e: "ind_adv a s \<Longrightarrow> ind_adv a (fault_entry E b i v r s)" for a s b i v r
    using fault_entry_adv ind_adv_trans by blast
  show ?thesis
    unfolding fault_probe_tick_def Let_def
    by (auto split: prod.split intro!: c e q ind_adv_trans [OF q q])
qed

lemma flush_kind_adv:
  assumes "\<And>st c. staged_ok st \<Longrightarrow> c \<in> set (indication_coalesce st) \<Longrightarrow> pending c \<Longrightarrow> ind_adv st (snd (emit st c))"
    and "\<And>st c. staged_link_ok st c \<Longrightarrow> staged_link_ok st (clear c)"
    and "i < 2"
  shows "ind_adv st (flush_kind i pending emit clear st)"
proof (cases "staged_ok st \<and> pending (indication_coalesce st ! i)")
  case True
  obtain ok s1 where e: "emit st (indication_coalesce st ! i) = (ok, s1)" by force
  have m: "indication_coalesce st ! i \<in> set (indication_coalesce st)"
    using True assms(3) by (simp add: staged_ok_def)
  have "ind_adv st s1" using assms(1) [OF _ m] True e by auto
  then show ?thesis
    using True by (auto simp: flush_kind_def e intro: ind_adv_trans [OF _ ind_adv_coalesce] assms(2))
qed (auto simp: flush_kind_def ind_adv_def)

lemma ind_adv_fold:
  assumes "\<And>x s. x \<in> set xs \<Longrightarrow> ind_adv s (f x s)"
  shows "ind_adv st (fold f xs st)"
  using assms
proof (induction xs arbitrary: st)
  case (Cons x xs)
  then show ?case using ind_adv_trans [of st "f x st" "fold f xs (f x st)"] by simp
qed simp

lemma staged_link: "staged_ok st \<Longrightarrow> c \<in> set (indication_coalesce st) \<Longrightarrow> staged_link_ok st c"
  by (simp add: staged_ok_def list_all_iff)

lemma flush_link_adv:
  assumes "i < 2"
  shows "ind_adv st (flush_link E i st)"
proof -
  have 1: "ind_adv s (flush_kind i wlan_pending (\<lambda>st c. emit_wlan_status E st (wlan_status c) (wlan_ch c))
      (\<lambda>c. c\<lparr>wlan_pending := False\<rparr>) s)" for s
    using wlan_sender.emit_adv [of _ E "(_, _)"] assms
    by (intro flush_kind_adv) (auto dest!: staged_link simp: staged_link_ok_def ind_kind_bit_def)
  have 2: "ind_adv s (flush_kind i roam_pending
      (\<lambda>st c. emit_roaming E st (roam_snr c) (roam_rssi c) (roam_mac c) (roam_ch c)) (\<lambda>c. c\<lparr>roam_pending := False\<rparr>) s)" for s
    using roam_sender.emit_adv [of _ E "(_, _, _, _)"] assms
    by (intro flush_kind_adv) (auto dest!: staged_link simp: staged_link_ok_def ind_kind_bit_def)
  have 3: "ind_adv s (flush_kind i apd_pending
      (\<lambda>st c. emit_ap_disconnect E st (apd_msg_id c) (apd_reason c) (apd_mac c)) (\<lambda>c. c\<lparr>apd_pending := False\<rparr>) s)" for s
    using apd_sender.emit_adv [of _ E "(_, _, _)"] assms
    by (intro flush_kind_adv) (auto dest!: staged_link simp: staged_link_ok_def ind_kind_bit_def)
  have 4: "ind_adv s (flush_kind i (\<lambda>c. fault_pending c ! k)
      (\<lambda>st c. emit_fault_detect E st (of_nat (k + 1)) (fault_val c ! k))
      (\<lambda>c. c\<lparr>fault_pending := (fault_pending c)[k := False]\<rparr>) s)" if "k \<in> set [0..<4]" for k s
  proof (rule flush_kind_adv)
    show "ind_adv st (snd (emit_fault_detect E st (of_nat (k + 1)) (fault_val c ! k)))"
      if "staged_ok st" "c \<in> set (indication_coalesce st)" "fault_pending c ! k" for st c
      using fault_sender.emit_adv [of st E "(of_nat (k + 1), fault_val c ! k)"] staged_link [OF that(1,2)] that(3)
        \<open>k \<in> set [0..<4]\<close> nth_mem [of k "fault_pending c"]
      by (simp add: staged_link_ok_def ind_kind_bit_def)
    show "staged_link_ok st c \<Longrightarrow> staged_link_ok st (c\<lparr>fault_pending := (fault_pending c)[k := False]\<rparr>)" for st c
      by (auto simp: staged_link_ok_def dest: subsetD [OF set_update_subset_insert])
  qed (rule assms)
  show ?thesis
    unfolding flush_link_def Let_def
    by (rule ind_adv_trans [OF ind_adv_trans [OF ind_adv_trans [OF 1 2] 3] ind_adv_fold]) (rule 4)
qed

lemma tick_adv: "ind_adv st (opcd_ind_tick_elapsed E st n)"
proof -
  have q: "ind_adv a s \<Longrightarrow> ind_adv a (s\<lparr>indication_tick_counter := x\<rparr>)" for a s x
    by (rule ind_adv_trans [OF _ ind_adv_quiet]) (simp_all add: ind_cfg_def)
  have f: "ind_adv s (fold (flush_link E) [0..<length (indication_coalesce s)] s)" for s
  proof (cases "length (indication_coalesce s) = 2")
    case True
    then show ?thesis by (intro ind_adv_fold flush_link_adv) simp
  qed (simp add: ind_adv_def staged_ok_def)
  have f': "ind_adv a s \<Longrightarrow> l = length (indication_coalesce s) \<Longrightarrow> ind_adv a (fold (flush_link E) [0..<l] s)" for a s l
    using f ind_adv_trans by blast
  have k: "ind_adv a s \<Longrightarrow> ind_adv a (snd (opcd_ind_keep_alive E s t))" for a s t
    using keep_alive_sender.guarded_adv ind_adv_trans by blast
  note p = fault_probe_tick_adv [of st E n]
  show ?thesis
    unfolding opcd_ind_tick_elapsed_def Let_def by (simp add: p q f' k)
qed

lemma ind_apply_adv: "ind_adv st (ind_apply E e st)"
  by (cases e) (simp_all add: init_sender.guarded_adv radio_up_adv wlan_status_adv roaming_adv ap_disconnect_adv
      fault_detect_adv fault_clear_adv reset_sender.guarded_adv keep_alive_sender.guarded_adv coalesce_reset_adv tick_adv)

text \<open>C37: Gating of indications: through any run of the engine, every datagram it hands to the socket goes to the
  configured recipient while indications are enabled and carries a kind whose bit is set in the Indication
  Information; a kind stays staged only while its bit is set.\<close>

theorem indications_gated:
  assumes "staged_ok st"
  shows "staged_ok (ind_run evs st)
    \<and> (\<exists>ds. log (ind_run evs st) = log st @ ds \<and> list_all (ind_gated st) ds)"
proof -
  have "ind_adv st (ind_run evs st)"
    unfolding ind_run_def by (rule ind_adv_fold) (auto simp: ind_apply_adv)
  with assms show ?thesis by (simp add: ind_adv_def)
qed

lemma subscribed_staged: "staged_ok (subscribed bits)"
  by (simp add: subscribed_def state_set_defaults_def staged_ok_def staged_link_ok_def zero_coalesce_def)

theorem indications_gated_witness:
  "staged_ok (ind_run [(stub_env 0, IndRoam 30 200 [2, 0, 0, 0, 0, 1] 0x224), (stub_env 5, IndTick 5)] (subscribed 0x84))"
  using indications_gated [OF subscribed_staged] by blast

subsection \<open>Coalescing\<close>

lemma roam_step:
  assumes "ind_on st OPC_IND_BIT_ROAMING" "indication_period_s st > 0"
  shows "snd (opcd_ind_roaming E st s r m c) = stage (staged_roam (s, r, m, c)) st"
proof -
  have "staged_roam (s, r, m, c) = (\<lambda>x. x\<lparr>roam_snr := s, roam_rssi := r, roam_ch := c, roam_mac := take 6 m, roam_pending := True\<rparr>)"
    by (simp add: staged_roam_def fun_eq_iff)
  then show ?thesis using assms by (simp add: opcd_ind_roaming_def)
qed

lemma stage_simps [simp]:
  "ind_on (stage f st) b = ind_on st b" "indication_period_s (stage f st) = indication_period_s st"
  "log (stage f st) = log st" "indication_enabled (stage f st) = indication_enabled st"
  "indication_info_bits (stage f st) = indication_info_bits st"
  by (simp_all add: stage_def ind_on_def)

lemma stage_roam_twice: "stage (staged_roam e) (stage (staged_roam d) st) = stage (staged_roam e) st"
proof -
  have "staged_roam e (staged_roam d c) = staged_roam e c" for c
    by (simp add: staged_roam_def split: prod.split)
  then show ?thesis
    by (cases "indication_coalesce st") (simp_all add: stage_def)
qed

lemma roam_all_latest:
  assumes "ind_on st OPC_IND_BIT_ROAMING" "indication_period_s st > 0" "evs \<noteq> []"
  shows "roam_all E evs st = stage (staged_roam (last evs)) st"
  using assms(3)
proof (induction evs rule: rev_nonempty_induct)
  case (single e)
  obtain s r m c where "e = (s, r, m, c)" by (cases e)
  then show ?case using assms(1,2) by (simp add: roam_all_def roam_step)
next
  case (snoc e evs)
  obtain s r m c where e: "e = (s, r, m, c)" by (cases e)
  have "roam_all E (evs @ [e]) st = snd (opcd_ind_roaming E (roam_all E evs st) s r m c)"
    by (simp add: roam_all_def e)
  also have "\<dots> = stage (staged_roam e) (stage (staged_roam (last evs)) st)"
    unfolding snoc.IH by (subst roam_step) (use assms(1,2) in \<open>simp_all add: e\<close>)
  finally show ?case by (simp add: stage_roam_twice)
qed

lemma flush_kind_idle [simp]: "\<not> pending (indication_coalesce st ! i) \<Longrightarrow> flush_kind i pending emit clear st = st"
  by (simp add: flush_kind_def)

lemma flush_link_idle:
  assumes "indication_coalesce st ! i = c" "\<not> wlan_pending c" "\<not> roam_pending c" "\<not> apd_pending c"
    "fault_pending c = replicate 4 False"
  shows "flush_link E i st = st"
  using assms by (simp add: flush_link_def upt_rec numeral_eq_Suc)



subsection \<open>The reporting period\<close>

lemma counter_kept [simp]:
  "indication_tick_counter (snd (send_indication_frame E st f)) = indication_tick_counter st"
  "indication_tick_counter (snd (next_seq st)) = indication_tick_counter st"
  "indication_tick_counter (stage g st) = indication_tick_counter st"
  by (simp_all add: send_indication_frame_def next_seq_def stage_def split: option.split)

lemma counter_emit [simp]:
  "indication_tick_counter (snd (emit_wlan_status E st a b)) = indication_tick_counter st"
  "indication_tick_counter (snd (emit_roaming E st c e l d)) = indication_tick_counter st"
  "indication_tick_counter (snd (emit_ap_disconnect E st a b l)) = indication_tick_counter st"
  "indication_tick_counter (snd (emit_fault_detect E st a b)) = indication_tick_counter st"
  "indication_tick_counter (snd (opcd_ind_keep_alive E st ts)) = indication_tick_counter st"
  by (simp_all add: emit_wlan_status_def emit_roaming_def emit_ap_disconnect_def emit_fault_detect_def
      opcd_ind_keep_alive_def next_seq_def Let_def)

lemma counter_fault [simp]:
  "indication_tick_counter (snd (opcd_ind_fault_detect E st i v)) = indication_tick_counter st"
  "indication_tick_counter (opcd_ind_fault_clear st i) = indication_tick_counter st"
  "indication_tick_counter (fault_entry E b i v r st) = indication_tick_counter st"
proof -
  show 1: "indication_tick_counter (snd (opcd_ind_fault_detect E st i v)) = indication_tick_counter st" for st
    by (simp add: opcd_ind_fault_detect_def split: option.split)
  show "indication_tick_counter (opcd_ind_fault_clear st i) = indication_tick_counter st"
    by (simp add: opcd_ind_fault_clear_def split: option.split)
  show "indication_tick_counter (fault_entry E b i v r st) = indication_tick_counter st"
    using 1 [of st] by (cases "opcd_ind_fault_detect E st i v") (simp add: fault_entry_def)
qed

lemma counter_probe [simp]: "indication_tick_counter (fault_probe_tick E st n) = indication_tick_counter st"
  by (simp add: fault_probe_tick_def Let_def split: prod.split)

lemma counter_flush_kind:
  assumes "\<And>s c. indication_tick_counter (snd (emit s c)) = indication_tick_counter s"
  shows "indication_tick_counter (flush_kind i p emit clear st) = indication_tick_counter st"
  using assms [of st "indication_coalesce st ! i"]
  by (cases "emit st (indication_coalesce st ! i)") (simp add: flush_kind_def)

lemma counter_fold:
  assumes "\<And>x s. indication_tick_counter (f x s) = indication_tick_counter s"
  shows "indication_tick_counter (fold f xs st) = indication_tick_counter st"
  using assms by (induction xs arbitrary: st) simp_all

lemma counter_flush [simp]: "indication_tick_counter (fold (flush_link E) xs st) = indication_tick_counter st"
  by (rule counter_fold) (simp add: flush_link_def Let_def counter_fold counter_flush_kind)

lemma ind_cfg_adv: "ind_adv st st' \<Longrightarrow> staged_ok st \<Longrightarrow> ind_cfg st' = ind_cfg st \<and> staged_ok st'"
  by (simp add: ind_adv_def)

lemma ind_cfg_fields:
  "ind_cfg a = ind_cfg b \<Longrightarrow> indication_enabled a = indication_enabled b \<and> indication_info_bits a = indication_info_bits b
    \<and> indication_period_s a = indication_period_s b \<and> udp_fd a = udp_fd b
    \<and> indication_recipient_ip a = indication_recipient_ip b \<and> indication_recipient_port a = indication_recipient_port b"
  by (simp add: ind_cfg_def)

text \<open>One second of the tick: it counts, or the period ends with a KeepAlive.\<close>

lemma tick_second:
  fixes st E
  defines "st' \<equiv> opcd_ind_tick E st"
  assumes "staged_ok st" "indication_enabled st" "ind_on st OPC_IND_BIT_KEEP_ALIVE" "indication_period_s st > 0"
  shows "indication_tick_counter st + 1 < uint (indication_period_s st) \<Longrightarrow>
      indication_tick_counter st' = indication_tick_counter st + 1"
    and "indication_tick_counter st + 1 \<ge> uint (indication_period_s st) \<Longrightarrow> indication_tick_counter st' = 0"
    and "indication_tick_counter st + 1 \<ge> uint (indication_period_s st) \<Longrightarrow>
      \<exists>st0. ind_cfg st0 = ind_cfg st \<and> st' = snd (opcd_ind_keep_alive E st0 (Some (wall_stamp E)))"
proof -
  define s1 where "s1 = fault_probe_tick E st 1"
  have s1: "ind_cfg s1 = ind_cfg st" "staged_ok s1" "indication_tick_counter s1 = indication_tick_counter st"
    using ind_cfg_adv [OF fault_probe_tick_adv assms(2)] by (simp_all add: s1_def)
  note f1 = ind_cfg_fields [OF s1(1)]
  have p: "1 \<le> uint (indication_period_s st)" using assms(5) by (simp add: word_less_def)
  have m: "min (uint (1 :: u32)) (uint (indication_period_s st)) = 1" using p by simp
  have on: "ind_on s1 158" "ind_on s1 OPC_IND_BIT_KEEP_ALIVE"
  proof -
    have "and (indication_info_bits st) 128 \<noteq> 0" using assms(4) by (simp add: ind_on_def)
    moreover have "and (indication_info_bits st) 128 = and (and (indication_info_bits st) 158) 128"
      by (simp add: and.assoc)
    ultimately show "ind_on s1 158" "ind_on s1 OPC_IND_BIT_KEEP_ALIVE" using f1 by (auto simp: ind_on_def)
  qed
  define s2 where "s2 = s1\<lparr>indication_tick_counter := 0\<rparr>"
  define s3 where "s3 = fold (flush_link E) [0..<length (indication_coalesce s2)] s2"
  have q: "ind_cfg s2 = ind_cfg s1" "staged_ok s2"
    using s1(2) by (simp_all add: s2_def ind_cfg_def staged_ok_def staged_link_ok_def [abs_def] ind_on_def)
  have "ind_adv s2 s3"
    unfolding s3_def by (rule ind_adv_fold) (use q(2) in \<open>auto simp: staged_ok_def intro: flush_link_adv\<close>)
  then have c3: "ind_cfg s3 = ind_cfg st" using ind_cfg_adv [OF _ q(2)] q(1) s1(1) by simp
  have u: "st' = (if indication_tick_counter st + 1 < uint (indication_period_s st)
      then s1\<lparr>indication_tick_counter := indication_tick_counter st + 1\<rparr>
      else if ind_on s3 OPC_IND_BIT_KEEP_ALIVE then snd (opcd_ind_keep_alive E s3 (Some (wall_stamp E))) else s3)"
    unfolding st'_def opcd_ind_tick_def opcd_ind_tick_elapsed_def Let_def s1_def [symmetric]
    using assms(3,5) f1 m on(1) s1(3) by (simp add: s2_def s3_def)
  have on3: "ind_on s3 OPC_IND_BIT_KEEP_ALIVE" using c3 s1(1) on(2) ind_on_cong [of s3 s1] by simp
  have z: "indication_tick_counter s3 = 0" by (simp add: s3_def s2_def)
  show "indication_tick_counter st + 1 < uint (indication_period_s st) \<Longrightarrow>
      indication_tick_counter st' = indication_tick_counter st + 1" by (simp add: u)
  show "indication_tick_counter st + 1 \<ge> uint (indication_period_s st) \<Longrightarrow> indication_tick_counter st' = 0"
    using on3 z by (simp add: u)
  show "indication_tick_counter st + 1 \<ge> uint (indication_period_s st) \<Longrightarrow>
      \<exists>st0. ind_cfg st0 = ind_cfg st \<and> st' = snd (opcd_ind_keep_alive E st0 (Some (wall_stamp E)))"
    using on3 c3 by (auto simp: u)
qed

text \<open>C39: KeepAlive within every period: with indications enabled, the KeepAlive bit set and a period of p seconds, the
  one-second ticks that are left of the running period end with a KeepAlive frame to the recipient, and the
  next period starts.\<close>

theorem keep_alive_every_period:
  assumes "staged_ok st" "indication_enabled st" "udp_fd st \<ge> 0" "indication_recipient_ip st \<noteq> 0"
    and "indication_recipient_port st \<noteq> 0" "ind_on st OPC_IND_BIT_KEEP_ALIVE" "indication_period_s st > 0"
    and "indication_tick_counter st + int (length Es) = uint (indication_period_s st)" "Es \<noteq> []"
  shows "indication_tick_counter (tick_all Es st) = 0
    \<and> (\<exists>ds f. log (tick_all Es st) = ds @ [Datagram (indication_recipient_ip st) (indication_recipient_port st) f]
          \<and> opc_be16_read (drop 2 f) = OPC_IND_KEEP_ALIVE)"
  using assms
proof (induction Es arbitrary: st)
  case (Cons E Es)
  let ?st = "opcd_ind_tick E st"
  have adv: "ind_cfg ?st = ind_cfg st" "staged_ok ?st"
    using ind_cfg_adv [OF tick_adv Cons.prems(1)] by (simp_all add: opcd_ind_tick_def)
  note f = ind_cfg_fields [OF adv(1)]
  have sec: "ind_on ?st = ind_on st" using adv(1) by (rule ind_on_cong)
  show ?case
  proof (cases "Es = []")
    case False
    then have "indication_tick_counter st + 1 < uint (indication_period_s st)"
      using Cons.prems(8) by (cases Es) auto
    then have "indication_tick_counter ?st = indication_tick_counter st + 1"
      using tick_second(1) [OF Cons.prems(1,2,6,7)] by simp
    then have "indication_tick_counter ?st + int (length Es) = uint (indication_period_s ?st)"
      using Cons.prems(8) f by simp
    then show ?thesis
      using Cons.IH [of ?st] Cons.prems adv(2) f sec False by (simp add: tick_all_def)
  next
    case True
    then have e: "indication_tick_counter st + 1 \<ge> uint (indication_period_s st)" using Cons.prems(8) by simp
    obtain s0 where s0: "ind_cfg s0 = ind_cfg st" "?st = snd (opcd_ind_keep_alive E s0 (Some (wall_stamp E)))"
      using tick_second(3) [OF Cons.prems(1,2,6,7) e, of E] by blast
    note g = ind_cfg_fields [OF s0(1)]
    have on: "ind_on s0 (ind_kind_bit OPC_IND_KEEP_ALIVE)"
      using Cons.prems(6) ind_on_cong [OF s0(1)] by (simp add: ind_kind_bit_def)
    define f where "f = the (opc_ind_keep_alive_pack (Some OPC_FRAME_MAX) (indication_seq s0) (Some \<lparr>ka_timestamp =
       put 0 (case Some (wall_stamp E) of None \<Rightarrow> [] | Some t \<Rightarrow> take (OPC_IND_KEEP_ALIVE_BODY_LEN - 1) (cstr t))
         (replicate OPC_IND_KEEP_ALIVE_BODY_LEN 0)\<rparr>))"
    have k: "opc_be16_read (drop 2 f) = OPC_IND_KEEP_ALIVE"
      unfolding f_def by (rule keep_alive_sender.frame_kind)
    have "log ?st = log s0 @ [Datagram (indication_recipient_ip st) (indication_recipient_port st) f]"
      unfolding s0(2) keep_alive_sender.emit_state [OF on] f_def [symmetric] using g Cons.prems(2-5)
      by (simp add: sent_def)
    then show ?thesis
      using tick_second(2) [OF Cons.prems(1,2,6,7) e] True k by (auto simp: tick_all_def)
  qed
qed simp

theorem keep_alive_every_period_witness:
  "\<exists>ds f. log (tick_all (map stub_env [1, 2, 3, 4, 5]) (subscribed 0x80)) = ds @ [Datagram 0x0A000001 5000 f]
     \<and> opc_be16_read (drop 2 f) = OPC_IND_KEEP_ALIVE"
  using keep_alive_every_period [of "subscribed 0x80" "map stub_env [1, 2, 3, 4, 5]", OF subscribed_staged]
  by (simp add: subscribed_def state_set_defaults_def ind_on_def)

end
