(* ===== verification/Handler_Base.thy ===== *)
theory Handler_Base
  imports Ind_Engine Conf_Readers Radio_Events
begin

text \<open>
  The first part of the command handler (\<open>opcd/handler.c\<close>): the session, the validators of request fields, the
  files of the radio configuration and of the IP list, and what the daemon reads from them at its start.
  \<open>fs_write\<close>, \<open>fs_read\<close> and \<open>fs_rename\<close> are the calls of \<open>opcd/store.c\<close> and of the C library on the daemon's files.
\<close>

definition OPC_ERR_INDICATION_SETTING_VIOLATION :: u16 where [simp]: "OPC_ERR_INDICATION_SETTING_VIOLATION = 0x0010"
definition OPC_ERR_PASSWORD_MISMATCH :: u16 where [simp]: "OPC_ERR_PASSWORD_MISMATCH = 0x0010"
definition OPC_ERR_SLOT_RANGE :: u16 where [simp]: "OPC_ERR_SLOT_RANGE = 0x0010"
definition OPC_ERR_STATION_TYPE :: u16 where [simp]: "OPC_ERR_STATION_TYPE = 0x0010"
definition OPC_ERR_IND_BITS :: u16 where [simp]: "OPC_ERR_IND_BITS = 0x0010"
definition OPC_ERR_SLOT_EMPTY :: u16 where [simp]: "OPC_ERR_SLOT_EMPTY = 0x0011"
definition OPC_ERR_RADIO_FREQ :: u16 where [simp]: "OPC_ERR_RADIO_FREQ = 0x0011"
definition OPC_ERR_LOGIN_PW_CHAR :: u16 where [simp]: "OPC_ERR_LOGIN_PW_CHAR = 0x0011"
definition OPC_ERR_OLD_PW_CHAR :: u16 where [simp]: "OPC_ERR_OLD_PW_CHAR = 0x0011"
definition OPC_ERR_IPCFG_IP :: u16 where [simp]: "OPC_ERR_IPCFG_IP = 0x0011"
definition OPC_ERR_IP_CHANGE_CONFLICT :: u16 where [simp]: "OPC_ERR_IP_CHANGE_CONFLICT = 0x0012"
definition OPC_ERR_RADIO_SCAN_CH :: u16 where [simp]: "OPC_ERR_RADIO_SCAN_CH = 0x0012"
definition OPC_ERR_IND_RECIPIENT_IP :: u16 where [simp]: "OPC_ERR_IND_RECIPIENT_IP = 0x0012"
definition OPC_ERR_PW_NUL :: u16 where [simp]: "OPC_ERR_PW_NUL = 0x0012"
definition OPC_ERR_IPCFG_NETMASK :: u16 where [simp]: "OPC_ERR_IPCFG_NETMASK = 0x0012"
definition OPC_ERR_RADIO_MODE :: u16 where [simp]: "OPC_ERR_RADIO_MODE = 0x0013"
definition OPC_ERR_NEW_PW_CHAR :: u16 where [simp]: "OPC_ERR_NEW_PW_CHAR = 0x0013"
definition OPC_ERR_IPCFG_GW :: u16 where [simp]: "OPC_ERR_IPCFG_GW = 0x0013"
definition OPC_ERR_RADIO_BW :: u16 where [simp]: "OPC_ERR_RADIO_BW = 0x0014"
definition OPC_ERR_NEW_PW_NUL :: u16 where [simp]: "OPC_ERR_NEW_PW_NUL = 0x0014"
definition OPC_ERR_IPCFG_NTP :: u16 where [simp]: "OPC_ERR_IPCFG_NTP = 0x0014"
definition OPC_ERR_RADIO_PRIO_BAND :: u16 where [simp]: "OPC_ERR_RADIO_PRIO_BAND = 0x0015"
definition OPC_ERR_IPCFG_ESSID_CHAR :: u16 where [simp]: "OPC_ERR_IPCFG_ESSID_CHAR = 0x0015"
definition OPC_ERR_RADIO_PRIO_CH :: u16 where [simp]: "OPC_ERR_RADIO_PRIO_CH = 0x0016"
definition OPC_ERR_IPCFG_ESSID_NUL :: u16 where [simp]: "OPC_ERR_IPCFG_ESSID_NUL = 0x0016"
definition OPC_ERR_IPCFG_LIST_SIZE :: u16 where [simp]: "OPC_ERR_IPCFG_LIST_SIZE = 0x0017"
definition OPC_ERR_LIST_SEQUENCE :: u16 where [simp]: "OPC_ERR_LIST_SEQUENCE = 0x0018"
definition OPC_ERR_IP_CHANGE_CLASH :: u16 where [simp]: "OPC_ERR_IP_CHANGE_CLASH = 0x0050"
definition OPC_ERR_RADIO_APPLY :: u16 where [simp]: "OPC_ERR_RADIO_APPLY = 0x0050"

subsection \<open>Session\<close>

definition session_touch :: "env \<Rightarrow> opcd_state_t \<Rightarrow> opcd_state_t" where
  "session_touch E st = st\<lparr>idle_deadline := mono_now_s E + uint (login_idle_s (conf st))\<rparr>"

definition session_owns :: "opcd_state_t \<Rightarrow> u32 \<Rightarrow> bool" where
  "session_owns st client_ip \<longleftrightarrow> logged_in st \<and> holder_ip st = client_ip"

definition effective_station_type :: "opcd_state_t \<Rightarrow> u16" where
  "effective_station_type st =
     (if station_type (radio st) \<noteq> 0 then station_type (radio st) else default_station_type (conf st))"

text \<open>\<open>Inl\<close> is the error cause of the NG answer, \<open>Inr\<close> the state after the timer was restarted.\<close>

definition check_login_required :: "env \<Rightarrow> opcd_state_t \<Rightarrow> u32 \<Rightarrow> u16 + opcd_state_t" where
  "check_login_required E st client_ip =
     (if \<not> logged_in st then Inl OPC_ERR_LOGIN_VIOLATION
      else if \<not> session_owns st client_ip then Inl OPC_ERR_LOGIN_CONDITION
      else Inr (session_touch E st))"

definition mgmt_ip_iface_idx :: "opcd_state_t \<Rightarrow> int" where
  "mgmt_ip_iface_idx st =
     (if management_topology (conf st) = OPC_TOPOLOGY_PEER_ROUTE then 1
      else opcd_ip_iface_idx (device_ip_iface (conf st)))"

definition opcd_session_logout :: "env \<Rightarrow> opcd_state_t \<Rightarrow> opcd_state_t" where
  "opcd_session_logout E st =
     (let st = snd (opcd_ind_init_complete E st OPC_INIT_STATE_LOGGED_OUT)
      in st\<lparr>session_generation := session_generation st + 1, logged_in := False, boot_status := OPC_DEVICE_READY,
            ip_list_staging_active := False, ip_list_staging := zero_ip_list\<rparr>)"

subsection \<open>Validators\<close>

definition valid_unicast_ipv4 :: "u32 \<Rightarrow> bool" where
  "valid_unicast_ipv4 ip =
     (if ip = 0 then False
      else if ip = 0xFFFFFFFF then False
      else if and ip 0xF0000000 = 0xE0000000 then False
      else True)"

definition valid_netmask :: "u32 \<Rightarrow> bool" where
  "valid_netmask m \<longleftrightarrow> m \<noteq> 0 \<and> and (not m) (not m + 1) = 0"

definition valid_ipcfg_addr :: "u32 \<Rightarrow> bool" where
  "valid_ipcfg_addr ip \<longleftrightarrow> valid_unicast_ipv4 ip \<and> drop_bit 24 ip \<noteq> 127"

definition indication_recipient_reachable :: "opcd_platform_ops_t ptr \<Rightarrow> u32 \<Rightarrow> bool" where
  "indication_recipient_reachable pl ip =
     (if drop_bit 24 ip = 127 then True
      else case pl of
             None \<Rightarrow> False
           | Some p \<Rightarrow>
               (case lookup_direct_route p ip of
                  None \<Rightarrow> False
                | Some m \<Rightarrow> if m < 0xFFFFFFFE \<and> ip = or ip (not m) then False else True))"

definition opc_charset :: "u8 \<Rightarrow> bool" where
  "opc_charset c \<longleftrightarrow> (65 \<le> c \<and> c \<le> 90) \<or> (97 \<le> c \<and> c \<le> 122) \<or> (48 \<le> c \<and> c \<le> 57)
     \<or> c \<in> {46, 45, 95, 43, 47, 58, 61, 126, 64}"

definition valid_opc_charset :: "u8 list \<Rightarrow> bool" where
  "valid_opc_charset s \<longleftrightarrow> list_all opc_charset (cstr s)"

definition ipcfg_entry_error :: "opc_ipcfg_entry_t \<Rightarrow> bool \<Rightarrow> u16" where
  "ipcfg_entry_error e terminated =
     (let ip = ip_address e; m = subnet_mask e; gw = default_gateway e; net = and ip m; bcast = or net (not m) in
      if \<not> valid_ipcfg_addr ip then OPC_ERR_IPCFG_IP
      else if \<not> valid_netmask m then OPC_ERR_IPCFG_NETMASK
      else if m \<noteq> 0xFFFFFFFF \<and> (ip = net \<or> ip = bcast) then OPC_ERR_IPCFG_IP
      else if gw \<noteq> 0 \<and> (\<not> valid_ipcfg_addr gw \<or> gw = ip \<or> (m \<noteq> 0xFFFFFFFF \<and> and gw m \<noteq> and ip m))
        then OPC_ERR_IPCFG_GW
      else if ntp_server e \<noteq> 0 \<and> \<not> valid_ipcfg_addr (ntp_server e) then OPC_ERR_IPCFG_NTP
      else if \<not> terminated then OPC_ERR_IPCFG_ESSID_NUL
      else if \<not> valid_opc_charset (essid e) then OPC_ERR_IPCFG_ESSID_CHAR
      else 0)"

text \<open>The response of a handler: no bytes when packing failed.\<close>

definition emit_ack :: "u8 list option \<Rightarrow> u8 list" where
  "emit_ack packed = (case packed of None \<Rightarrow> [] | Some f \<Rightarrow> f)"

subsection \<open>Files\<close>

definition fs_write ::
  "env \<Rightarrow> opcd_state_t \<Rightarrow> path \<Rightarrow> u8 list \<Rightarrow> u32 \<Rightarrow> (int \<times> opc_store_outcome_t) \<times> opcd_state_t" where
  "fs_write E st p data mode =
     (case opc_store_write_atomic_ex (store_calls E (fs_runs st)) (Some p) (Some data) (length data) mode of
        (rc, outcome, ops) \<Rightarrow> ((rc, outcome), st\<lparr>fs := fs_run ops (fs st), fs_runs := fs_runs st + 1\<rparr>))"

definition fs_read :: "env \<Rightarrow> opcd_state_t \<Rightarrow> path \<Rightarrow> nat \<Rightarrow> u8 list option \<times> opcd_state_t" where
  "fs_read E st p cap =
     (opc_store_read_all (store_calls E (fs_runs st)) (fs st) (Some p) cap, st\<lparr>fs_runs := fs_runs st + 1\<rparr>)"

definition fs_rename :: "env \<Rightarrow> opcd_state_t \<Rightarrow> path \<Rightarrow> path \<Rightarrow> opcd_state_t" where
  "fs_rename E st a b = (if fs st a \<noteq> None \<and> rename_ok E a then st\<lparr>fs := fs_apply (Rename a b) (fs st)\<rparr> else st)"

definition fs_unlink :: "env \<Rightarrow> opcd_state_t \<Rightarrow> path \<Rightarrow> opcd_state_t" where
  "fs_unlink E st p = (if unlink_ok E p then st\<lparr>fs := fs_apply (Unlink p) (fs st)\<rparr> else st)"

subsection \<open>Radio configuration file\<close>

definition OPCD_RADIO_CONF_LEGACY_LEN :: nat where [simp]: "OPCD_RADIO_CONF_LEGACY_LEN = 16"

text \<open>The raw bytes of \<open>opc_set_radio_config_req_t\<close> on the little-endian target: 28 bytes without padding.\<close>

definition wlan_cfg_bytes :: "opc_wlan_radio_cfg_t \<Rightarrow> u8 list" where
  "wlan_cfg_bytes w = [rc_mode w, rc_bandwidth w] @ wr_u16 (rc_scan_band w) @ rc_scan_chlist w"

definition radio_bytes :: "opc_set_radio_config_req_t \<Rightarrow> u8 list" where
  "radio_bytes r = wr_u16 (station_type r) @ wr_u16 (priority_ch r) @ wlan_cfg_bytes (wlan1 r) @ wlan_cfg_bytes (wlan2 r)"

definition wlan_cfg_of_bytes :: "u8 list \<Rightarrow> opc_wlan_radio_cfg_t" where
  "wlan_cfg_of_bytes b = \<lparr>rc_mode = b ! 0, rc_bandwidth = b ! 1, rc_scan_band = rd_u16 (drop 2 b),
     rc_scan_chlist = slice 4 8 b\<rparr>"

definition radio_of_bytes :: "u8 list \<Rightarrow> opc_set_radio_config_req_t" where
  "radio_of_bytes b = \<lparr>station_type = rd_u16 b, priority_ch = rd_u16 (drop 2 b),
     wlan1 = wlan_cfg_of_bytes (drop 4 b), wlan2 = wlan_cfg_of_bytes (drop 16 b)\<rparr>"

definition radio_txn_arm :: "env \<Rightarrow> opcd_state_t \<Rightarrow> opc_set_radio_config_req_t \<Rightarrow> bool \<times> opcd_state_t" where
  "radio_txn_arm E st req =
     (case p_radio_marker (paths st) of
        None \<Rightarrow> (True, st)
      | Some p \<Rightarrow> (case fs_write E st p (radio_bytes req) 420 of ((rc, _), st) \<Rightarrow> (rc = 0, st)))"

definition radio_txn_clear :: "env \<Rightarrow> opcd_state_t \<Rightarrow> opcd_state_t" where
  "radio_txn_clear E st = (case p_radio_marker (paths st) of None \<Rightarrow> st | Some p \<Rightarrow> fs_unlink E st p)"

definition legacy_radio_wlan_convert :: "u8 list \<Rightarrow> opc_wlan_radio_cfg_t" where
  "legacy_radio_wlan_convert b =
     (let freq_mhz = rd_u16 b; channel = rd_u16 (drop 2 b);
          band = (if freq_mhz \<ge> 2400 \<and> freq_mhz \<le> 2484 then OPC_SCAN_BAND_2_4GHZ
                  else if freq_mhz \<ge> 4900 \<and> freq_mhz \<le> 5925 then OPC_SCAN_BAND_5GHZ
                  else OPC_SCAN_BAND_UNSET);
          ch = (ucast (and channel 0xFF) :: u8);
          zero = replicate OPC_SCAN_CHLIST_LEN 0
      in \<lparr>rc_mode = b ! 4, rc_bandwidth = b ! 5, rc_scan_band = band,
          rc_scan_chlist = (if band \<noteq> OPC_SCAN_BAND_UNSET \<and> ch \<noteq> 0 then opc_scan_list_set_channel zero band ch else zero)\<rparr>)"

definition opcd_radio_conf_decode :: "u8 list ptr \<Rightarrow> (bool \<times> opc_set_radio_config_req_t) option" where
  "opcd_radio_conf_decode buf =
     (case buf of
        None \<Rightarrow> None
      | Some b \<Rightarrow>
          if length b = 28 then Some (False, radio_of_bytes b)
          else if length b = OPCD_RADIO_CONF_LEGACY_LEN then
            Some (True, \<lparr>station_type = rd_u16 b, priority_ch = rd_u16 (drop 2 b),
                         wlan1 = legacy_radio_wlan_convert (drop 4 b), wlan2 = legacy_radio_wlan_convert (drop 10 b)\<rparr>)
          else None)"

text \<open>The result: whether the lists are usable, whether a list moved, and the configuration.\<close>

definition opcd_radio_conf_migrate_lists ::
  "opc_set_radio_config_req_t \<Rightarrow> bool \<times> bool \<times> opc_set_radio_config_req_t" where
  "opcd_radio_conf_migrate_lists cfg =
     (let dual = (station_type cfg = OPC_STATION_DUAL);
          (m1, l1) = opc_scan_list_normalize_rows (rc_scan_band (wlan1 cfg)) (rc_scan_chlist (wlan1 cfg));
          (m2, l2) = (if dual then opc_scan_list_normalize_rows (rc_scan_band (wlan2 cfg)) (rc_scan_chlist (wlan2 cfg))
                      else (False, rc_scan_chlist (wlan2 cfg)));
          cfg = cfg\<lparr>wlan1 := (wlan1 cfg)\<lparr>rc_scan_chlist := l1\<rparr>, wlan2 := (wlan2 cfg)\<lparr>rc_scan_chlist := l2\<rparr>\<rparr>
      in (opc_scan_list_valid (rc_scan_band (wlan1 cfg)) l1
            \<and> (dual \<longrightarrow> opc_scan_list_valid (rc_scan_band (wlan2 cfg)) l2),
          m1 \<or> m2, cfg))"

datatype opcd_radio_restore_t =
    OPCD_RADIO_RESTORE_COMMITTED | OPCD_RADIO_RESTORE_MIGRATED | OPCD_RADIO_RESTORE_LEGACY
  | OPCD_RADIO_RESTORE_DISCARD_SIZE | OPCD_RADIO_RESTORE_DISCARD_INVALID

definition opcd_radio_conf_restore :: "u8 list ptr \<Rightarrow> opcd_radio_restore_t \<times> opc_set_radio_config_req_t option" where
  "opcd_radio_conf_restore buf =
     (case (case buf of Some [] \<Rightarrow> None | _ \<Rightarrow> opcd_radio_conf_decode buf) of
        None \<Rightarrow> (OPCD_RADIO_RESTORE_DISCARD_SIZE, None)
      | Some (legacy, cfg) \<Rightarrow>
          (case opcd_radio_conf_migrate_lists cfg of
             (ok, moved, cfg) \<Rightarrow>
               if \<not> ok then (OPCD_RADIO_RESTORE_DISCARD_INVALID, Some cfg)
               else if legacy then (OPCD_RADIO_RESTORE_LEGACY, Some cfg)
               else if moved then (OPCD_RADIO_RESTORE_MIGRATED, Some cfg)
               else (OPCD_RADIO_RESTORE_COMMITTED, Some cfg)))"

definition opcd_radio_conf_load :: "env \<Rightarrow> opcd_state_t \<Rightarrow> opcd_radio_restore_t \<times> opcd_state_t" where
  "opcd_radio_conf_load E st =
     (case fs_read E st (p_radio (paths st)) 64 of
        (buf, st) \<Rightarrow>
          (case opcd_radio_conf_restore buf of
             (rr, loaded) \<Rightarrow>
               (case (rr \<in> {OPCD_RADIO_RESTORE_DISCARD_SIZE, OPCD_RADIO_RESTORE_DISCARD_INVALID}, loaded) of
                  (False, Some cfg) \<Rightarrow>
                    let st = st\<lparr>radio := cfg, radio_committed := (rr \<noteq> OPCD_RADIO_RESTORE_LEGACY)\<rparr>;
                        marker = (case p_radio_marker (paths st) of None \<Rightarrow> False | Some p \<Rightarrow> fs st p \<noteq> None);
                        st = (if radio_committed st \<and> marker then st\<lparr>radio_committed := False\<rparr> else st)
                    in if rr \<noteq> OPCD_RADIO_RESTORE_MIGRATED then (rr, st)
                       else (case fs_write E st (p_radio (paths st)) (radio_bytes (radio st)) 420 of
                               ((rc, _), st) \<Rightarrow> (rr, if rc \<noteq> 0 then st\<lparr>radio_committed := False\<rparr> else st))
                | _ \<Rightarrow>
                    (rr, st\<lparr>radio := zero_radio\<lparr>station_type := default_station_type (conf st),
                              wlan1 := zero_radio_cfg\<lparr>rc_scan_band := OPC_SCAN_BAND_UNSET\<rparr>,
                              wlan2 := zero_radio_cfg\<lparr>rc_scan_band := OPC_SCAN_BAND_UNSET\<rparr>\<rparr>,
                            radio_committed := False\<rparr>))))"

subsection \<open>IP list files\<close>

text \<open>The raw bytes of \<open>opcd_ip_list_t\<close>: 128 entries of 52 bytes and 128 presence bytes.\<close>

definition IPCFG_RAW :: nat where [simp]: "IPCFG_RAW = 52"
definition IPLIST_RAW :: nat where [simp]: "IPLIST_RAW = 6784"

definition ipcfg_of_bytes :: "u8 list \<Rightarrow> opc_ipcfg_entry_t" where
  "ipcfg_of_bytes b = \<lparr>boundary_flag = rd_u16 b, list_number = rd_u16 (drop 2 b), ip_address = rd_u32 (drop 4 b),
     subnet_mask = rd_u32 (drop 8 b), default_gateway = rd_u32 (drop 12 b), ntp_server = rd_u32 (drop 16 b),
     essid = slice 20 32 b\<rparr>"

text \<open>Publishing one accepted entry in slot \<open>i\<close>.\<close>

definition list_put :: "nat \<Rightarrow> opc_ipcfg_entry_t \<Rightarrow> opcd_ip_list_t \<Rightarrow> opcd_ip_list_t" where
  "list_put i e l = l\<lparr>il_slots := (il_slots l)[i := e\<lparr>boundary_flag := 0, list_number := of_nat (i + 1)\<rparr>],
     il_present := (il_present l)[i := True]\<rparr>"

definition text_slot_ok :: "opc_iplist_text_t \<Rightarrow> nat \<Rightarrow> bool" where
  "text_slot_ok t i \<longleftrightarrow> \<not> it_bad t ! i \<and> it_keys t ! i = OPC_IPLIST_KEY_ALL
     \<and> (ip_address (it_entry t ! i) = 0 \<or> ipcfg_entry_error (it_entry t ! i) True = 0)"

definition from_text_slot :: "bool \<Rightarrow> opc_iplist_text_t \<Rightarrow> nat \<Rightarrow> opcd_ip_list_t option \<Rightarrow> opcd_ip_list_t option" where
  "from_text_slot strict t i out =
     (case out of
        None \<Rightarrow> None
      | Some l \<Rightarrow>
          if it_keys t ! i = 0 \<and> \<not> it_bad t ! i then Some l
          else if \<not> text_slot_ok t i then (if strict then None else Some l)
          else if ip_address (it_entry t ! i) = 0 then Some l
          else Some (list_put i (it_entry t ! i) l))"

definition iplist_from_text :: "u8 list \<Rightarrow> bool \<Rightarrow> opcd_ip_list_t option" where
  "iplist_from_text buf strict =
     (let buf = (if take 3 buf = [0xEF, 0xBB, 0xBF] then drop 3 buf else buf);
          t = opc_iplist_text_parse buf
      in if it_first_error_line t \<noteq> 0 \<and> strict then None
         else fold (from_text_slot strict t) [0..<OPC_IPCFG_LIST_MAX_SLOTS] (Some zero_ip_list))"

definition iplist_write :: "env \<Rightarrow> opcd_state_t \<Rightarrow> path \<Rightarrow> opcd_ip_list_t \<Rightarrow> bool \<Rightarrow> bool \<times> opcd_state_t" where
  "iplist_write E st p l skip_if_same =
     (case opc_iplist_text_format l OPC_IPLIST_TEXT_MAX of
        None \<Rightarrow> (False, st)
      | Some txt0 \<Rightarrow>
          (case (if skip_if_same then fs_read E st p (OPC_IPLIST_TEXT_MAX + 1) else (None, st)) of
             (cur, st) \<Rightarrow>
               if skip_if_same \<and> cur = Some txt0 then (True, st)
               else (case fs_write E st p txt0 420 of ((rc, _), st) \<Rightarrow> (rc = 0, st))))"

definition iplist_retire_legacy :: "env \<Rightarrow> opcd_state_t \<Rightarrow> path ptr \<Rightarrow> opcd_state_t" where
  "iplist_retire_legacy E st legacy =
     (case legacy of
        None \<Rightarrow> st
      | Some p \<Rightarrow>
          if length (p @ bytes_of ''.migrated'') \<ge> 1024 then st
          else fs_rename E st p (p @ bytes_of ''.migrated''))"

datatype opcd_iplist_load_t =
    OPCD_IPLIST_LOAD_NONE | OPCD_IPLIST_LOAD_TEXT | OPCD_IPLIST_LOAD_MIGRATED
  | OPCD_IPLIST_LOAD_LEGACY_UNSAVED | OPCD_IPLIST_LOAD_LEGACY_DISCARD
  | OPCD_IPLIST_LOAD_TOO_LARGE | OPCD_IPLIST_LOAD_ERROR

definition convert_slot :: "u8 list \<Rightarrow> nat \<Rightarrow> opcd_ip_list_t \<Rightarrow> opcd_ip_list_t" where
  "convert_slot raw i l =
     (if raw ! (IPCFG_RAW * OPC_IPCFG_LIST_MAX_SLOTS + i) = 0 then l
      else let e = ipcfg_of_bytes (drop (IPCFG_RAW * i) raw);
               verr = (if ip_address e = 0 then OPC_ERR_IPCFG_IP else ipcfg_entry_error e (has_nul OPC_ESSID_FIELD_LEN (essid e)))
        in if verr \<noteq> 0 then l else list_put i e l)"

definition iplist_convert_legacy :: "env \<Rightarrow> opcd_state_t \<Rightarrow> opcd_iplist_load_t \<times> opcd_state_t" where
  "iplist_convert_legacy E st =
     (let st = st\<lparr>ip_list := zero_ip_list\<rparr> in
      case p_ip_list_legacy (paths st) of
        None \<Rightarrow> (OPCD_IPLIST_LOAD_NONE, st)
      | Some p \<Rightarrow>
          (case fs_read E st p (IPLIST_RAW + 1) of
             (None, st) \<Rightarrow> (OPCD_IPLIST_LOAD_NONE, st)
           | (Some raw, st) \<Rightarrow>
               if length raw \<noteq> IPLIST_RAW then (OPCD_IPLIST_LOAD_LEGACY_DISCARD, st)
               else let st = st\<lparr>ip_list := fold (convert_slot raw) [0..<OPC_IPCFG_LIST_MAX_SLOTS] zero_ip_list\<rparr> in
                 (case iplist_write E st (p_ip_list (paths st)) (ip_list st) False of
                    (False, st) \<Rightarrow> (OPCD_IPLIST_LOAD_LEGACY_UNSAVED, st)
                  | (True, st) \<Rightarrow> (OPCD_IPLIST_LOAD_MIGRATED, iplist_retire_legacy E st (Some p)))))"

definition mtime_after :: "int \<times> int \<Rightarrow> int \<times> int \<Rightarrow> bool" where
  "mtime_after a b \<longleftrightarrow> fst a > fst b \<or> (fst a = fst b \<and> snd a > snd b)"

text \<open>The text of the daemon's own copy, after the legacy file has been dealt with.\<close>

definition load_own_text :: "env \<Rightarrow> opcd_state_t \<Rightarrow> opcd_iplist_load_t \<times> opcd_state_t" where
  "load_own_text E st =
     (case fs_read E st (p_ip_list (paths st)) (OPC_IPLIST_TEXT_MAX + 1) of
        (None, st) \<Rightarrow> (OPCD_IPLIST_LOAD_ERROR, st)
      | (Some txt0, st) \<Rightarrow>
          if length txt0 > OPC_IPLIST_TEXT_MAX then (OPCD_IPLIST_LOAD_TOO_LARGE, st)
          else (OPCD_IPLIST_LOAD_TEXT,
                st\<lparr>ip_list := (case iplist_from_text txt0 False of None \<Rightarrow> zero_ip_list | Some l \<Rightarrow> l)\<rparr>))"

definition iplist_load_own :: "env \<Rightarrow> opcd_state_t \<Rightarrow> opcd_iplist_load_t \<times> opcd_state_t" where
  "iplist_load_own E st =
     (let st = st\<lparr>ip_list := zero_ip_list\<rparr>; own = p_ip_list (paths st); legacy = p_ip_list_legacy (paths st) in
      if stat_error E own then (OPCD_IPLIST_LOAD_ERROR, st)
      else if fs st own = None then
        (if legacy = None then (OPCD_IPLIST_LOAD_NONE, st) else iplist_convert_legacy E st)
      else case legacy of
             None \<Rightarrow> load_own_text E st
           | Some lp \<Rightarrow>
               if stat_error E lp \<or> fs st lp = None then load_own_text E st
               else if length (the (fs st lp)) = IPLIST_RAW \<and> mtime_after (mtime_of E lp) (mtime_of E own) then
                 (case iplist_convert_legacy E st of
                    (cr, st) \<Rightarrow>
                      if cr = OPCD_IPLIST_LOAD_MIGRATED \<or> cr = OPCD_IPLIST_LOAD_LEGACY_UNSAVED then (cr, st)
                      else load_own_text E (st\<lparr>ip_list := zero_ip_list\<rparr>))
               else load_own_text E (iplist_retire_legacy E st legacy))"

datatype user_read = UserAbsent | UserUnusable | UserTooLarge | UserText "u8 list"

definition iplist_read_user :: "env \<Rightarrow> opcd_state_t \<Rightarrow> path \<Rightarrow> user_read" where
  "iplist_read_user E st p =
     (if stat_error E p then UserUnusable
      else case fs st p of
             None \<Rightarrow> UserAbsent
           | Some c \<Rightarrow> if length c > OPC_IPLIST_IMPORT_MAX then UserTooLarge else UserText c)"

definition iplist_write_user :: "env \<Rightarrow> opcd_state_t \<Rightarrow> path \<Rightarrow> opcd_state_t" where
  "iplist_write_user E st user =
     (case opc_iplist_text_format (ip_list st) OPC_IPLIST_TEXT_MAX of
        None \<Rightarrow> st
      | Some txt0 \<Rightarrow>
          (case fs_write E st user txt0 420 of
             ((rc, outcome), st) \<Rightarrow>
               (case p_ip_list_user_last (paths st) of
                  None \<Rightarrow> st
                | Some last0 \<Rightarrow> if outcome = OPC_STORE_UNCHANGED then st else snd (fs_write E st last0 txt0 420))))"

definition iplist_user_unreplaced :: "env \<Rightarrow> opcd_state_t \<Rightarrow> u8 list \<Rightarrow> bool \<times> opcd_state_t" where
  "iplist_user_unreplaced E st inp =
     (case p_ip_list_user_last (paths st) of
        None \<Rightarrow> (False, st)
      | Some p \<Rightarrow> (case fs_read E st p (OPC_IPLIST_IMPORT_MAX + 1) of (r, st) \<Rightarrow> (r = Some inp, st)))"

definition iplist_same :: "opcd_ip_list_t \<Rightarrow> opcd_ip_list_t \<Rightarrow> bool" where
  "iplist_same a b =
     (case (opc_iplist_text_format a OPC_IPLIST_TEXT_MAX, opc_iplist_text_format b OPC_IPLIST_TEXT_MAX) of
        (Some ta, Some tb) \<Rightarrow> ta = tb | _ \<Rightarrow> False)"

datatype opcd_iplist_user_t =
    OPCD_IPLIST_USER_UNSET | OPCD_IPLIST_USER_CREATED | OPCD_IPLIST_USER_UNUSABLE
  | OPCD_IPLIST_USER_KEPT | OPCD_IPLIST_USER_APPLIED | OPCD_IPLIST_USER_REJECTED

definition iplist_apply_user :: "env \<Rightarrow> opcd_state_t \<Rightarrow> u8 list \<Rightarrow> opcd_ip_list_t \<Rightarrow> opcd_state_t" where
  "iplist_apply_user E st inp l =
     (case iplist_write E (st\<lparr>ip_list := l\<rparr>) (p_ip_list (paths st)) l True of
        (False, st) \<Rightarrow> st
      | (True, st) \<Rightarrow>
          (case p_ip_list_user_last (paths st) of None \<Rightarrow> st | Some p \<Rightarrow> snd (fs_write E st p inp 420)))"

definition iplist_reject_user :: "env \<Rightarrow> opcd_state_t \<Rightarrow> path \<Rightarrow> opcd_state_t" where
  "iplist_reject_user E st user =
     (let rej = user @ bytes_of ''.rejected'';
          st = (if length rej < 1024 then fs_rename E st user rej else st)
      in iplist_write_user E st user)"

definition opcd_iplist_load :: "env \<Rightarrow> opcd_state_t \<Rightarrow> opcd_iplist_user_t \<times> opcd_state_t" where
  "opcd_iplist_load E st =
     (case iplist_load_own E st of
        (lr, st) \<Rightarrow>
          (case p_ip_list_user (paths st) of
             None \<Rightarrow> (OPCD_IPLIST_USER_UNSET, st)
           | Some user \<Rightarrow>
               (case iplist_read_user E st user of
                  UserAbsent \<Rightarrow> (OPCD_IPLIST_USER_CREATED, iplist_write_user E st user)
                | UserUnusable \<Rightarrow> (OPCD_IPLIST_USER_UNUSABLE, st)
                | UserTooLarge \<Rightarrow> (OPCD_IPLIST_USER_REJECTED, iplist_reject_user E st user)
                | UserText inp \<Rightarrow>
                    (case iplist_from_text inp True of
                       None \<Rightarrow> (OPCD_IPLIST_USER_REJECTED, iplist_reject_user E st user)
                     | Some l \<Rightarrow>
                         let own_read = (lr \<in> {OPCD_IPLIST_LOAD_TEXT, OPCD_IPLIST_LOAD_MIGRATED,
                                               OPCD_IPLIST_LOAD_LEGACY_UNSAVED}) in
                         (case (if own_read then iplist_user_unreplaced E st inp else (False, st)) of
                            (True, st) \<Rightarrow>
                              (OPCD_IPLIST_USER_KEPT,
                               if iplist_same l (ip_list st) then st else iplist_write_user E st user)
                          | (False, st) \<Rightarrow> (OPCD_IPLIST_USER_APPLIED, iplist_apply_user E st inp l))))))"

end
