(* ===== verification/Handler_Persist.thy ===== *)
theory Handler_Persist
  imports Handler_Base
begin

text \<open>
  The second part of the command handler (\<open>opcd/handler.c\<close>): admission and submission of NVRAM writes, the
  reconciliation of their completions with the published state, the deferred acknowledgments, the deferred
  radio revert and the deferred change of the device's address.
\<close>

definition OPCD_STORE_TOKEN_MIRROR :: u64 where "OPCD_STORE_TOKEN_MIRROR = -2"

subsection \<open>Pending acknowledgments\<close>

fun free_slot :: "opcd_pending_ack_t list \<Rightarrow> nat \<Rightarrow> nat option" where
  "free_slot [] i = None"
| "free_slot (pa # pas) i = (if \<not> pa_in_use pa then Some i else free_slot pas (Suc i))"

definition pending_ack_alloc :: "opcd_state_t \<Rightarrow> nat option" where
  "pending_ack_alloc st = free_slot (pending_acks st) 0"

definition pending_match :: "u16 \<Rightarrow> u32 \<Rightarrow> u16 \<Rightarrow> opcd_pending_ack_t \<Rightarrow> bool" where
  "pending_match req_id ip port pa \<longleftrightarrow>
     pa_in_use pa \<and> pa_req_id pa = req_id \<and> pa_client_ip pa = ip \<and> pa_client_port pa = port"

definition pending_slot_for :: "opcd_state_t \<Rightarrow> u16 \<Rightarrow> u32 \<Rightarrow> u16 \<Rightarrow> opcd_pending_ack_t option" where
  "pending_slot_for st req_id ip port = find (pending_match req_id ip port) (pending_acks st)"

definition is_request_retransmission :: "opcd_state_t \<Rightarrow> u16 \<Rightarrow> u32 \<Rightarrow> u16 \<Rightarrow> bool" where
  "is_request_retransmission st req_id ip port \<longleftrightarrow> pending_slot_for st req_id ip port \<noteq> None"

definition persist_resource_busy :: "opcd_state_t \<Rightarrow> opcd_persist_resource_t \<Rightarrow> bool" where
  "persist_resource_busy st resource \<longleftrightarrow> list_ex (\<lambda>pa. pa_in_use pa \<and> pa_resource pa = resource) (pending_acks st)"

subsection \<open>Writes\<close>

text \<open>The four ways a write can go: failed at once, written in line, or handed to the worker.\<close>

record persist_result =
  pr_ok :: bool
  pr_deferred :: bool
  pr_outcome :: opc_store_outcome_t

definition with_store :: "opcd_state_t \<Rightarrow> (opc_store_async \<Rightarrow> opc_store_async) \<Rightarrow> opcd_state_t" where
  "with_store st f = st\<lparr>store_async := map_option f (store_async st)\<rparr>"

definition persist_blob ::
  "env \<Rightarrow> opcd_state_t \<Rightarrow> path \<Rightarrow> u8 list \<Rightarrow> u32 \<Rightarrow> opcd_persist_resource_t \<Rightarrow> bool \<Rightarrow> u16 \<Rightarrow> u32 \<Rightarrow> u16 \<Rightarrow> u16 \<Rightarrow> int
   \<Rightarrow> persist_result \<times> opcd_state_t" where
  "persist_blob E st path data mode resource no_ack req_id ip port seq reservation =
     (case store_async st of
        None \<Rightarrow>
          (case fs_write E st path data mode of
             ((rc, outcome), st) \<Rightarrow> (\<lparr>pr_ok = (rc = 0), pr_deferred = False, pr_outcome = outcome\<rparr>, st))
      | Some sa \<Rightarrow>
          let failed = \<lparr>pr_ok = False, pr_deferred = False, pr_outcome = OPC_STORE_UNCHANGED\<rparr> in
          (case pending_ack_alloc st of
             None \<Rightarrow> (failed, with_store st (\<lambda>sa. opc_store_async_cancel sa reservation))
           | Some slot \<Rightarrow>
               (case opc_store_async_submit_reserved sa reservation (Some data) (length data) mode (of_nat slot) of
                  (Inl _, sa) \<Rightarrow> (failed, st\<lparr>store_async := Some (opc_store_async_cancel sa reservation)\<rparr>)
                | (Inr _, sa) \<Rightarrow>
                    (\<lparr>pr_ok = True, pr_deferred = True, pr_outcome = OPC_STORE_UNCHANGED\<rparr>,
                     st\<lparr>store_async := Some sa,
                        pending_acks := (pending_acks st)[slot := \<lparr>pa_in_use = True, pa_no_ack = no_ack,
                          pa_resource = resource, pa_req_id = req_id, pa_seq = seq, pa_radio_gen = 0,
                          pa_client_ip = ip, pa_client_port = port\<rparr>]\<rparr>))))"

definition persist_password ::
  "env \<Rightarrow> opcd_state_t \<Rightarrow> u8 list \<Rightarrow> u32 \<Rightarrow> u16 \<Rightarrow> u16 \<Rightarrow> int \<Rightarrow> persist_result \<times> opcd_state_t" where
  "persist_password E st candidate ip port seq reservation =
     persist_blob E st (p_password (paths st)) candidate 384 OPCD_PERSIST_PASSWORD False OPC_REQ_SET_PASSWORD ip port seq
       reservation"

definition password_resend_of_unsynced :: "opcd_state_t \<Rightarrow> opc_set_password_req_t \<Rightarrow> bool" where
  "password_resend_of_unsynced st req \<longleftrightarrow>
     password_unsynced st \<and> strncmp_eq (OPC_PASSWORD_BUF - 1) (sp_old_password req) (password_unsynced_prev st)
     \<and> strncmp_eq (OPC_PASSWORD_BUF - 1) (sp_new_password req) (password st)"

definition password_note_outcome :: "opcd_state_t \<Rightarrow> u8 list \<Rightarrow> opc_store_outcome_t \<Rightarrow> opcd_state_t" where
  "password_note_outcome st candidate outcome =
     (if outcome = OPC_STORE_DURABLE then st\<lparr>password_unsynced := False, password_unsynced_prev := zero_password\<rparr>
      else if outcome = OPC_STORE_REPLACED_UNSYNCED \<and> \<not> strncmp_eq (OPC_PASSWORD_BUF - 1) candidate (password st)
        then st\<lparr>password_unsynced_prev := password st, password_unsynced := True\<rparr>
      else st)"

definition persist_radio :: "env \<Rightarrow> opcd_state_t \<Rightarrow> u32 \<Rightarrow> u16 \<Rightarrow> u16 \<Rightarrow> int \<Rightarrow> persist_result \<times> opcd_state_t" where
  "persist_radio E st ip port seq reservation =
     persist_blob E st (p_radio (paths st)) (radio_bytes (radio st)) 420 OPCD_PERSIST_RADIO False
       OPC_REQ_SET_RADIO_CONFIG ip port seq reservation"

definition persist_ip_list ::
  "env \<Rightarrow> opcd_state_t \<Rightarrow> u32 \<Rightarrow> u16 \<Rightarrow> u16 \<Rightarrow> int \<Rightarrow> bool \<Rightarrow> opcd_ip_list_t \<Rightarrow> persist_result \<times> opcd_state_t" where
  "persist_ip_list E st ip port seq reservation no_ack candidate =
     (case opc_iplist_text_format candidate OPC_IPLIST_TEXT_MAX of
        None \<Rightarrow> (\<lparr>pr_ok = False, pr_deferred = False, pr_outcome = OPC_STORE_UNCHANGED\<rparr>,
                 with_store st (\<lambda>sa. opc_store_async_cancel sa reservation))
      | Some txt0 \<Rightarrow>
          persist_blob E st (p_ip_list (paths st)) txt0 420 OPCD_PERSIST_IP_LIST no_ack OPC_REQ_SET_IP_CONFIG_LIST
            ip port seq reservation)"

definition iplist_mirror_user :: "env \<Rightarrow> opcd_state_t \<Rightarrow> opcd_state_t" where
  "iplist_mirror_user E st =
     (case p_ip_list_user (paths st) of
        None \<Rightarrow> st
      | Some user \<Rightarrow>
          (case opc_iplist_text_format (ip_list st) OPC_IPLIST_TEXT_MAX of
             None \<Rightarrow> st
           | Some txt0 \<Rightarrow>
               (case store_async st of
                  None \<Rightarrow> iplist_write_user E st user
                | Some sa \<Rightarrow>
                    (case (case p_ip_list_user_last (paths st) of
                             Some e \<Rightarrow> opc_store_async_submit_echo sa (Some user) (Some e) (Some txt0) (length txt0) 420
                                         OPCD_STORE_TOKEN_MIRROR
                           | None \<Rightarrow> opc_store_async_submit sa (Some user) (Some txt0) (length txt0) 420
                                         OPCD_STORE_TOKEN_MIRROR) of
                       (Inr _, sa) \<Rightarrow> st\<lparr>store_async := Some sa\<rparr>
                     | (Inl _, sa) \<Rightarrow> iplist_write_user E (st\<lparr>store_async := Some sa\<rparr>) user))))"

subsection \<open>Deferred decisions\<close>

definition slot_in_range :: "u16 \<Rightarrow> bool" where
  "slot_in_range n \<longleftrightarrow> n \<ge> 1 \<and> n \<le> of_nat OPC_IPCFG_LIST_MAX_SLOTS"

definition arm_ip_change_from_committed :: "opcd_state_t \<Rightarrow> opcd_state_t" where
  "arm_ip_change_from_committed st =
     (let n = ip_change_list_no st; i = unat n - 1 in
      if slot_in_range n \<and> \<not> il_present (ip_list st) ! i then st\<lparr>ip_change_pending := False, ip_change_list_no := 0\<rparr>
      else if slot_in_range n then
        st\<lparr>ip_change_armed_entry := il_slots (ip_list st) ! i, ip_change_armed_no := n, ip_change_commit_armed := True\<rparr>
      else st)"

definition radio_arm_revert :: "opcd_state_t \<Rightarrow> opc_set_radio_config_req_t \<Rightarrow> bool \<Rightarrow> bool \<Rightarrow> opcd_state_t" where
  "radio_arm_revert st baseline baseline_committed baseline_valid =
     (if \<not> baseline_valid then
        st\<lparr>radio_applied_known := False, radio_committed := False,
           radio_recovery_state := OPCD_RADIO_RECOVERY_DEGRADED_UNKNOWN_BASELINE\<rparr>
      else st\<lparr>radio_revert_cfg := baseline, radio_revert_committed := baseline_committed, radio_revert_pending := True\<rparr>)"

text \<open>A call of the platform's \<open>apply_radio_config\<close>, with its entry in the log.\<close>

definition apply_radio :: "env \<Rightarrow> opcd_state_t \<Rightarrow> opc_set_radio_config_req_t \<Rightarrow> int \<times> opcd_state_t" where
  "apply_radio E st cfg =
     (apply_radio_config (plat E) (length (log st)) cfg, st\<lparr>log := log st @ [ApplyRadio cfg]\<rparr>)"

definition opcd_radio_revert_drain :: "env \<Rightarrow> opcd_state_t \<Rightarrow> opcd_state_t" where
  "opcd_radio_revert_drain E st =
     (if \<not> radio_revert_pending st then st
      else case apply_radio E st (radio_revert_cfg st) of
             (rc, st) \<Rightarrow>
               (if rc \<noteq> 0 then
                  st\<lparr>radio_applied_known := False, radio_committed := False,
                     radio_recovery_state := OPCD_RADIO_RECOVERY_DEGRADED_RESTORE_FAILED, radio_revert_pending := False\<rparr>
                else
                  st\<lparr>radio := radio_revert_cfg st, radio_committed := radio_revert_committed st,
                     radio_applied_known := True, radio_recovery_state := OPCD_RADIO_RECOVERY_HEALTHY,
                     radio_revert_pending := False\<rparr>))"

subsection \<open>Completions\<close>

definition done_password :: "opcd_state_t \<Rightarrow> opc_store_outcome_t \<Rightarrow> opcd_state_t" where
  "done_password st outcome =
     (let st = password_note_outcome st (pending_password st) outcome;
          st = (if outcome \<noteq> OPC_STORE_UNCHANGED then st\<lparr>password := pending_password st\<rparr> else st)
      in st\<lparr>pending_password := zero_password\<rparr>)"

definition done_ip_list :: "env \<Rightarrow> opcd_state_t \<Rightarrow> opc_store_outcome_t \<Rightarrow> opcd_state_t" where
  "done_ip_list E st outcome =
     (let st = (if outcome = OPC_STORE_UNCHANGED then st
                else let st = iplist_mirror_user E (st\<lparr>ip_list := pending_ip_list st\<rparr>) in
                  if logged_in st \<and> session_generation st = pending_ip_staging_session_generation st
                  then st\<lparr>ip_list_staging := pending_ip_staging st, ip_list_staging_active := pending_ip_staging_active st\<rparr>
                  else st);
          st = st\<lparr>pending_ip_list := zero_ip_list, pending_ip_staging := zero_ip_list,
                  pending_ip_staging_active := False, pending_ip_staging_session_generation := 0\<rparr>
      in if ip_change_logout_deferred st then
           (let st = st\<lparr>ip_change_logout_deferred := False\<rparr> in
            if ip_change_pending st \<and> \<not> ip_change_commit_armed st then arm_ip_change_from_committed st else st)
         else st)"

definition done_radio :: "env \<Rightarrow> opcd_state_t \<Rightarrow> opcd_pending_ack_t \<Rightarrow> opc_store_outcome_t \<Rightarrow> opcd_state_t" where
  "done_radio E st pa outcome =
     (let st = (if pa_radio_gen pa \<noteq> radio_gen st then st
                else if outcome = OPC_STORE_DURABLE then radio_txn_clear E (st\<lparr>radio_committed := True\<rparr>)
                else if outcome = OPC_STORE_REPLACED_UNSYNCED then st\<lparr>radio_committed := False\<rparr>
                else opcd_radio_revert_drain E (radio_arm_revert (st\<lparr>radio_committed := False\<rparr>)
                       (radio_revert_cfg st) (radio_revert_committed st) (radio_persist_baseline_valid st)))
      in st\<lparr>radio_persist_baseline_valid := False\<rparr>)"

definition deferred_ack :: "opcd_pending_ack_t \<Rightarrow> opc_ack_t \<Rightarrow> u8 list" where
  "deferred_ack pa ack =
     (if pa_req_id pa = OPC_REQ_SET_PASSWORD then
        emit_ack (opc_set_password_ack_pack (Some OPC_FRAME_MAX) (pa_seq pa) (Some ack))
      else if pa_req_id pa = OPC_REQ_SET_IP_CONFIG_LIST then
        emit_ack (opc_set_ip_config_list_ack_pack (Some OPC_FRAME_MAX) (pa_seq pa) (Some ack))
      else if pa_req_id pa = OPC_REQ_SET_RADIO_CONFIG then
        emit_ack (opc_set_radio_config_ack_pack (Some OPC_FRAME_MAX) (pa_seq pa) (Some ack))
      else [])"

definition done_ack :: "opc_store_async_done_t \<Rightarrow> opc_ack_t" where
  "done_ack d = (if dn_result d = 0 then \<lparr>ack_result = OPC_RESULT_OK, ack_error_cause = OPC_ERR_NONE\<rparr>
     else \<lparr>ack_result = OPC_RESULT_NG, ack_error_cause = OPC_ERR_NVRAM\<rparr>)"

definition done_apply :: "env \<Rightarrow> opcd_pending_ack_t \<Rightarrow> opc_store_outcome_t \<Rightarrow> opcd_state_t \<Rightarrow> opcd_state_t" where
  "done_apply E pa outcome st =
     (let st = (if pa_resource pa = OPCD_PERSIST_PASSWORD then done_password st outcome
                else if pa_resource pa = OPCD_PERSIST_IP_LIST then done_ip_list E st outcome
                else st)
      in if pa_req_id pa = OPC_REQ_SET_RADIO_CONFIG then done_radio E st pa outcome else st)"

definition done_reply :: "opcd_pending_ack_t \<Rightarrow> opc_ack_t \<Rightarrow> opcd_state_t \<Rightarrow> opcd_state_t" where
  "done_reply pa ack st =
     (let resp = deferred_ack pa ack in
      if \<not> pa_no_ack pa \<and> resp \<noteq> [] \<and> udp_fd st \<ge> 0
      then st\<lparr>log := log st @ [Datagram (pa_client_ip pa) (pa_client_port pa) resp]\<rparr> else st)"

definition on_done :: "env \<Rightarrow> opc_store_async_done_t \<Rightarrow> opcd_state_t \<Rightarrow> opcd_state_t" where
  "on_done E d st =
     (let i = unat (dn_token d); pa = pending_acks st ! i in
      if dn_token d = OPCD_STORE_TOKEN_MIRROR then st
      else if i \<ge> OPCD_PENDING_ACK_MAX then st
      else if \<not> pa_in_use pa then st
      else let st = done_reply pa (done_ack d) (done_apply E pa (dn_outcome d) st)
        in st\<lparr>pending_acks := (pending_acks st)[i := (pending_acks st ! i)\<lparr>pa_in_use := False\<rparr>]\<rparr>)"

definition opcd_store_async_on_ready :: "env \<Rightarrow> opcd_state_t \<Rightarrow> opcd_state_t" where
  "opcd_store_async_on_ready E st =
     (case store_async st of
        None \<Rightarrow> st
      | Some sa \<Rightarrow>
          (case opc_store_async_drain sa OPC_STORE_ASYNC_QUEUE_DEPTH of
             (done0, sa) \<Rightarrow> fold (on_done E) done0 (st\<lparr>store_async := Some sa\<rparr>)))"

subsection \<open>Admission\<close>

datatype admission = Admitted int | Saturated | Refused

definition admit_once :: "opcd_state_t \<Rightarrow> opcd_persist_resource_t \<Rightarrow> path \<Rightarrow> nat \<Rightarrow> admission option \<times> opcd_state_t" where
  "admit_once st resource path len =
     (if persist_resource_busy st resource then (Some Saturated, st)
      else if pending_ack_alloc st = None then (None, st)
      else case store_async st of
             None \<Rightarrow> (None, st)
           | Some sa \<Rightarrow>
               (case opc_store_async_reserve sa (Some path) len of
                  (Inr r, sa) \<Rightarrow> (Some (Admitted (int r)), st\<lparr>store_async := Some sa\<rparr>)
                | (Inl e, sa) \<Rightarrow> (if e \<noteq> EAGAIN then Some Refused else None, st\<lparr>store_async := Some sa\<rparr>)))"

definition persist_admit ::
  "env \<Rightarrow> opcd_state_t \<Rightarrow> opcd_persist_resource_t \<Rightarrow> path \<Rightarrow> nat \<Rightarrow> admission \<times> opcd_state_t" where
  "persist_admit E st resource path len =
     (if store_async st = None then (Admitted (-1), st)
      else case admit_once st resource path len of
             (Some a, st) \<Rightarrow> (a, st)
           | (None, st) \<Rightarrow>
               (case admit_once (opcd_store_async_on_ready E st) resource path len of
                  (Some a, st) \<Rightarrow> (a, st)
                | (None, st) \<Rightarrow> (Saturated, st)))"

subsection \<open>After the acknowledgment\<close>

definition opcd_post_ack :: "env \<Rightarrow> opcd_state_t \<Rightarrow> opcd_state_t" where
  "opcd_post_ack E st =
     (if should_reset st \<and> \<not> reset_notice_sent st
      then snd (opcd_ind_reset_notice E (st\<lparr>reset_notice_sent := True\<rparr>) OPC_RESET_CAUSE_USER) else st)"

text \<open>What follows an accepted change of the address; the peer routes are refreshed in that topology only.\<close>

definition ip_change_applied :: "env \<Rightarrow> opcd_state_t \<Rightarrow> opc_ipcfg_entry_t \<Rightarrow> opcd_state_t" where
  "ip_change_applied E st e =
     (let st = st\<lparr>indication_enabled := False\<rparr>;
          st = (if logged_in st then opcd_session_logout E st else st)
      in if management_topology (conf st) = OPC_TOPOLOGY_PEER_ROUTE
         then st\<lparr>log := log st @ [PeerRoute (ip_address e) (subnet_mask e)]\<rparr> else st)"

definition opcd_apply_pending_ip_change :: "env \<Rightarrow> opcd_state_t \<Rightarrow> opcd_state_t" where
  "opcd_apply_pending_ip_change E st =
     (if \<not> ip_change_commit_armed st then st
      else let e = ip_change_armed_entry st; no = ip_change_armed_no st; iface = mgmt_ip_iface_idx st;
               rc = apply_ip_change (plat E) (length (log st)) e iface no;
               st = st\<lparr>log := log st @ [ApplyIp e iface no]\<rparr>;
               st = (if rc \<noteq> 0 then st else ip_change_applied E st e)
        in st\<lparr>ip_change_pending := False, ip_change_commit_armed := False, ip_change_list_no := 0,
              ip_change_armed_no := 0, ip_change_armed_entry := zero_ipcfg_entry\<rparr>)"

end
