(* ===== verification/Handler_Cmds.thy ===== *)
theory Handler_Cmds
  imports Handler_Persist
begin

text \<open>
  The third part of the command handler (\<open>opcd/handler.c\<close>): the ten command handlers, the dispatcher and the length
  policy of received datagrams. A handler gets the frame, the sender's address, the capacity of the response
  buffer and the sequence number, and returns the response (no bytes for a response length of 0) and the
  state. The status file that GetDeviceInfo publishes is modelled in \<open>Snapshot\<close>, not as part of the handler; the platform is
  registered, as the main loop does before the first frame.
\<close>

definition OPC_WLAN_FREQ_UNSET :: u16 where [simp]: "OPC_WLAN_FREQ_UNSET = 0xFFFF"
definition OPC_WLAN_STATUS_INVALID :: u16 where [simp]: "OPC_WLAN_STATUS_INVALID = 0xFFFF"
definition OPC_WLAN_SIGNAL_INVALID :: u8 where [simp]: "OPC_WLAN_SIGNAL_INVALID = -128"
definition OPC_PRIORITY_CH_UNSET :: u16 where [simp]: "OPC_PRIORITY_CH_UNSET = 0xFFFF"
definition OPC_BANDWIDTH_20 :: u8 where [simp]: "OPC_BANDWIDTH_20 = 0"
definition OPC_BANDWIDTH_40 :: u8 where [simp]: "OPC_BANDWIDTH_40 = 1"
definition OPC_BANDWIDTH_80 :: u8 where [simp]: "OPC_BANDWIDTH_80 = 2"
definition OPC_BANDWIDTH_160 :: u8 where [simp]: "OPC_BANDWIDTH_160 = 3"
definition OPC_BANDWIDTH_80_80 :: u8 where [simp]: "OPC_BANDWIDTH_80_80 = 4"
definition OPC_BANDWIDTH_320 :: u8 where [simp]: "OPC_BANDWIDTH_320 = 12"

text \<open>The acknowledgment for an error cause; every NG of a handler has a cause other than \<open>OPC_ERR_NONE\<close>.\<close>

definition ack_of :: "u16 \<Rightarrow> opc_ack_t" where
  "ack_of err = \<lparr>ack_result = (if err = OPC_ERR_NONE then OPC_RESULT_OK else OPC_RESULT_NG), ack_error_cause = err\<rparr>"

subsection \<open>Login and Logout\<close>

definition login_error :: "opcd_state_t \<Rightarrow> opc_login_req_t option \<Rightarrow> u32 \<Rightarrow> u16" where
  "login_error st req ip =
     (case req of
        None \<Rightarrow> OPC_ERR_PACKET_SIZE
      | Some r \<Rightarrow>
          if boot_status st = OPC_DEVICE_BOOTING then OPC_ERR_LOGIN_VIOLATION
          else if logged_in st \<and> holder_ip st \<noteq> ip then OPC_ERR_LOGIN_CONDITION
          else if \<not> lr_password_terminated r then OPC_ERR_PW_NUL
          else if \<not> valid_opc_charset (lr_password r) then OPC_ERR_LOGIN_PW_CHAR
          else if cstr (password st) = [] then OPC_ERR_PASSWORD_MISMATCH
          else if \<not> strncmp_eq (OPC_PASSWORD_BUF - 1) (lr_password r) (password st) then OPC_ERR_PASSWORD_MISMATCH
          else OPC_ERR_NONE)"

definition login_grant :: "env \<Rightarrow> opcd_state_t \<Rightarrow> u32 \<Rightarrow> u16 \<Rightarrow> opcd_state_t" where
  "login_grant E st ip port =
     (let was_active = logged_in st;
          st = (if was_active then st else st\<lparr>session_generation := session_generation st + 1\<rparr>);
          st = st\<lparr>logged_in := True, holder_ip := ip, holder_port := port, boot_status := OPC_DEVICE_LOGGED_IN\<rparr>;
          st = (if \<not> was_active \<and> \<not> ip_change_commit_armed st \<and> \<not> ip_change_logout_deferred st
                then st\<lparr>ip_change_pending := False, ip_change_list_no := 0, ip_change_commit_armed := False\<rparr> else st)
      in snd (opcd_ind_init_complete E (session_touch E st) OPC_INIT_STATE_LOGGED_IN))"

definition handle_login ::
  "env \<Rightarrow> opcd_state_t \<Rightarrow> u8 list \<Rightarrow> u32 \<Rightarrow> u16 \<Rightarrow> nat \<Rightarrow> u16 \<Rightarrow> u8 list \<times> opcd_state_t" where
  "handle_login E st frame ip port rcap seq =
     (let err = login_error st (opc_login_req_unpack (Some frame)) ip;
          st = (if err = OPC_ERR_NONE then login_grant E st ip port else st)
      in (emit_ack (opc_login_ack_pack (Some rcap) seq (Some (ack_of err))), st))"

definition logout_arm :: "opcd_state_t \<Rightarrow> opcd_state_t" where
  "logout_arm st =
     (if ip_change_pending st \<and> \<not> ip_change_commit_armed st then
        (if persist_resource_busy st OPCD_PERSIST_IP_LIST then st\<lparr>ip_change_logout_deferred := True\<rparr>
         else arm_ip_change_from_committed st)
      else st)"

definition handle_logout ::
  "env \<Rightarrow> opcd_state_t \<Rightarrow> u8 list \<Rightarrow> u32 \<Rightarrow> u16 \<Rightarrow> nat \<Rightarrow> u16 \<Rightarrow> u8 list \<times> opcd_state_t" where
  "handle_logout E st frame ip port rcap seq =
     (let err = (if opc_logout_req_unpack (Some frame) = None then OPC_ERR_PACKET_SIZE
                 else if \<not> logged_in st then OPC_ERR_LOGIN_VIOLATION
                 else if \<not> session_owns st ip then OPC_ERR_LOGIN_CONDITION
                 else OPC_ERR_NONE);
          st = (if err = OPC_ERR_NONE then opcd_session_logout E (logout_arm st) else st)
      in (emit_ack (opc_logout_ack_pack (Some rcap) seq (Some (ack_of err))), st))"

subsection \<open>GetBasicInformation\<close>

definition pack_basic_info_ack :: "env \<Rightarrow> opcd_state_t \<Rightarrow> nat \<Rightarrow> u16 \<Rightarrow> u8 list option" where
  "pack_basic_info_ack E st rcap seq =
     opc_get_basic_info_ack_pack (Some rcap) seq
       (Some \<lparr>bi_vendor_code = inv_vendor_code (inventory E), bi_product_code = inv_product_code (inventory E),
              bi_product_subcode = inv_product_subcode (inventory E), bi_device_status = boot_status st,
              bi_station_type = effective_station_type st\<rparr>)"

definition handle_get_basic_info ::
  "env \<Rightarrow> opcd_state_t \<Rightarrow> u8 list \<Rightarrow> u32 \<Rightarrow> u16 \<Rightarrow> nat \<Rightarrow> u16 \<Rightarrow> u8 list \<times> opcd_state_t" where
  "handle_get_basic_info E st frame ip port rcap seq =
     (if opc_get_basic_info_req_unpack (Some frame) = None then
        (emit_ack (opc_simple_ack_pack (Some rcap) OPC_REQ_GET_BASIC_INFO seq OPC_SIMPLE_ACK_LENGTH OPC_RESULT_NG
                     OPC_ERR_PACKET_SIZE), st)
      else let st = (if session_owns st ip then session_touch E st else st)
        in (emit_ack (pack_basic_info_ack E st rcap seq), st))"

subsection \<open>GetDeviceInformation\<close>

definition zero_radio_state :: opc_wlan_radio_state_t where
  "zero_radio_state = \<lparr>rs_mac = replicate 6 0, rs_mode = 0, rs_bandwidth = 0, rs_freq_mhz = 0, rs_channel = 0,
     rs_status = 0, rs_snr = 0, rs_rssi = 0, rs_connect_ap_mac = replicate 6 0, rs_scan_band = 0,
     rs_scan_chlist = replicate OPC_SCAN_CHLIST_LEN 0\<rparr>"

definition zero_device_info :: opc_get_device_info_ack_t where
  "zero_device_info = \<lparr>di_result = 0, di_error_cause = 0, di_vendor_code = 0, di_product_code = 0,
     di_product_subcode = 0, di_manufacture = \<lparr>year = 0, month = 0, day = 0\<rparr>,
     di_shipment = \<lparr>year = 0, month = 0, day = 0\<rparr>, di_firmware_version = replicate OPC_VERSION_FIELD_LEN 0,
     di_hardware_version = replicate OPC_VERSION_FIELD_LEN 0, di_serial_number = replicate OPC_SERIAL_FIELD_LEN 0,
     di_ethernet_mac = replicate 6 0, di_ip_address = 0, di_subnet_mask = 0, di_default_gateway = 0,
     di_ntp_server = 0, di_essid = replicate OPC_ESSID_FIELD_LEN 0, di_device_status = 0, di_station_type = 0,
     di_priority_ch = 0, di_ieee_11r = 0, di_ieee_11ai = 0, di_ieee_11k = 0, di_ieee_11v = 0,
     di_wlan1 = zero_radio_state, di_wlan2 = zero_radio_state\<rparr>"

definition devinfo_wlan_unassociated :: "opc_wlan_radio_state_t \<Rightarrow> opc_wlan_radio_state_t" where
  "devinfo_wlan_unassociated w =
     w\<lparr>rs_freq_mhz := OPC_WLAN_FREQ_UNSET, rs_channel := OPC_WLAN_CH_UNSET, rs_status := 0,
       rs_snr := OPC_WLAN_SIGNAL_INVALID, rs_rssi := OPC_WLAN_SIGNAL_INVALID, rs_connect_ap_mac := replicate 6 0\<rparr>"

definition devinfo_wlan_invalid :: opc_wlan_radio_state_t where
  "devinfo_wlan_invalid =
     zero_radio_state\<lparr>rs_mode := OPC_WLAN_MODE_UNSET, rs_bandwidth := OPC_BANDWIDTH_UNSET,
       rs_freq_mhz := OPC_WLAN_FREQ_UNSET, rs_channel := OPC_WLAN_CH_UNSET, rs_status := OPC_WLAN_STATUS_INVALID,
       rs_snr := OPC_WLAN_SIGNAL_INVALID, rs_rssi := OPC_WLAN_SIGNAL_INVALID, rs_scan_band := OPC_SCAN_BAND_UNSET\<rparr>"

definition devinfo_wlan_cfg ::
  "opcd_state_t \<Rightarrow> opc_wlan_radio_cfg_t \<Rightarrow> string \<Rightarrow> opc_wlan_radio_state_t \<Rightarrow> opc_wlan_radio_state_t" where
  "devinfo_wlan_cfg st cfg iface w =
     (if rc_mode cfg \<noteq> 0 \<and> rc_mode cfg \<noteq> OPC_WLAN_MODE_UNSET
      then w\<lparr>rs_mode := rc_mode cfg, rs_bandwidth := rc_bandwidth cfg\<rparr>
      else case opcd_devinfo_cfg_read (fs st) (p_wifi_init_conf (paths st)) iface of
             (m, b) \<Rightarrow> w\<lparr>rs_mode := m, rs_bandwidth := b\<rparr>)"

definition select_devinfo_freq_ch :: "opcd_freq_source_t \<Rightarrow> bool \<Rightarrow> u16 \<Rightarrow> u16 \<Rightarrow> u16 \<Rightarrow> u16 \<Rightarrow> u16 \<times> u16" where
  "select_devinfo_freq_ch src assoc live_freq live_ch cfg_freq cfg_ch =
     (let live_ok = (assoc \<and> live_freq \<noteq> 0);
          use_live = (src = OPC_FREQ_SRC_LIVE \<or> (src = OPC_FREQ_SRC_AUTO \<and> live_ok))
      in if use_live \<and> live_ok then
           (let ch_field = opc_chan_field (ucast live_freq) live_ch in
            (live_freq, if drop_bit 8 ch_field \<noteq> 0 then ch_field else OPC_WLAN_CH_UNSET))
         else if use_live \<or> cfg_freq = 0 then (OPC_WLAN_FREQ_UNSET, OPC_WLAN_CH_UNSET)
         else (cfg_freq, cfg_ch))"

text \<open>The measured part of one WLAN block: the link readback, and the live frequency and channel when associated.\<close>

definition devinfo_link ::
  "opcd_platform_link_t option \<Rightarrow> opc_wlan_radio_state_t \<Rightarrow> opc_wlan_radio_state_t \<times> bool \<times> u16 \<times> u16" where
  "devinfo_link link w =
     (let w = devinfo_wlan_unassociated w in
      case link of
        None \<Rightarrow> (w, False, 0, 0)
      | Some l \<Rightarrow>
          if \<not> lk_associated l then (w, False, 0, 0)
          else let w = w\<lparr>rs_connect_ap_mac := take 6 (lk_bssid l)\<rparr>;
                   w = (if lk_snr_valid l then w\<lparr>rs_snr := lk_snr l\<rparr> else w);
                   w = (if lk_rssi_valid l then w\<lparr>rs_rssi := lk_rssi l\<rparr> else w)
            in (w\<lparr>rs_status := 1\<rparr>, True, lk_freq_mhz l, lk_channel l))"

text \<open>The configured part of one WLAN block.\<close>

definition devinfo_config ::
  "opcd_state_t \<Rightarrow> opc_wlan_radio_cfg_t \<Rightarrow> string \<Rightarrow> opc_wlan_radio_state_t \<times> bool \<times> u16 \<times> u16 \<Rightarrow> opc_wlan_radio_state_t" where
  "devinfo_config st cfg iface m =
     (case m of (w, assoc, lfreq, lch) \<Rightarrow>
        let w = w\<lparr>rs_scan_band := opc_scan_band_or_unset (rc_scan_band cfg), rs_scan_chlist := rc_scan_chlist cfg\<rparr>;
            (cfreq, cch) = opc_scan_derive_freq_ch (rs_scan_band w) (rs_scan_chlist w);
            (f, c) = select_devinfo_freq_ch (device_info_freq_source (conf st)) assoc lfreq lch cfreq cch
        in devinfo_wlan_cfg st cfg iface (w\<lparr>rs_freq_mhz := f, rs_channel := c\<rparr>))"

definition cstr_field :: "nat \<Rightarrow> u8 list \<Rightarrow> u8 list" where
  "cstr_field n s = put 0 (take n s) (replicate n 0)"

definition or_zero :: "'a \<Rightarrow> 'a option \<Rightarrow> 'a" where
  "or_zero z v = (case v of None \<Rightarrow> z | Some x \<Rightarrow> x)"

definition device_info :: "env \<Rightarrow> opcd_state_t \<Rightarrow> opc_get_device_info_ack_t" where
  "device_info E st =
     (let inv = inventory E; pl = plat E; stype = effective_station_type st; mac0 = replicate 6 0;
          (ip, msk, gw) = or_zero (0, 0, 0) (get_dev_ipv4 pl (mgmt_ip_iface_idx st));
          m1 = devinfo_link (get_link pl 0) (zero_radio_state\<lparr>rs_mac := or_zero mac0 (get_wlan_mac pl 0)\<rparr>);
          m2 = (if station_type (radio st) = OPC_STATION_DUAL
                then devinfo_link (get_link pl 1) (zero_radio_state\<lparr>rs_mac := or_zero mac0 (get_wlan_mac pl 1)\<rparr>)
                else (zero_radio_state, False, 0, 0))
      in zero_device_info
           \<lparr>di_vendor_code := inv_vendor_code inv, di_product_code := inv_product_code inv,
            di_product_subcode := inv_product_subcode inv, di_manufacture := inv_manufacture_date inv,
            di_shipment := inv_shipment_date inv,
            di_hardware_version := cstr_field OPC_VERSION_FIELD_LEN (inv_hardware_version inv),
            di_serial_number := cstr_field OPC_SERIAL_FIELD_LEN (inv_serial_number inv),
            di_firmware_version := cstr_field OPC_VERSION_FIELD_LEN (or_zero [] (get_firmware_version pl)),
            di_ntp_server := or_zero 0 (get_ntp_server pl), di_ethernet_mac := or_zero mac0 (get_eth_mac pl),
            di_ip_address := ip, di_subnet_mask := msk, di_default_gateway := gw,
            di_essid := cstr_field OPC_ESSID_FIELD_LEN (or_zero [] (get_essid pl 0)),
            di_ieee_11r := inv_ieee_11r inv, di_ieee_11ai := inv_ieee_11ai inv, di_ieee_11k := inv_ieee_11k inv,
            di_ieee_11v := inv_ieee_11v inv, di_device_status := boot_status st, di_station_type := stype,
            di_priority_ch := (if stype = OPC_STATION_DUAL \<and> priority_ch (radio st) \<noteq> 0
                               then priority_ch (radio st) else OPC_PRIORITY_CH_UNSET),
            di_wlan1 := devinfo_config st (wlan1 (radio st)) ''mlan0'' m1,
            di_wlan2 := (if stype \<noteq> OPC_STATION_DUAL then devinfo_wlan_invalid
                         else devinfo_config st (wlan2 (radio st)) ''mlan1'' m2)\<rparr>)"

definition handle_get_device_info ::
  "env \<Rightarrow> opcd_state_t \<Rightarrow> u8 list \<Rightarrow> u32 \<Rightarrow> u16 \<Rightarrow> nat \<Rightarrow> u16 \<Rightarrow> u8 list \<times> opcd_state_t" where
  "handle_get_device_info E st frame ip port rcap seq =
     (let ng = (\<lambda>err. zero_device_info\<lparr>di_result := OPC_RESULT_NG, di_error_cause := err\<rparr>);
          (ack, st) =
            (if opc_get_device_info_req_unpack (Some frame) = None then (ng OPC_ERR_PACKET_SIZE, st)
             else case check_login_required E st ip of
                    Inl err \<Rightarrow> (ng err, st)
                  | Inr st \<Rightarrow>
                      if indication_enabled st then (ng OPC_ERR_INDICATION_SETTING_VIOLATION, st)
                      else (device_info E st, session_touch E st))
      in (emit_ack (opc_get_device_info_ack_pack (Some rcap) seq (Some ack)), st))"

subsection \<open>SetPassword\<close>

definition set_password_error :: "opcd_state_t \<Rightarrow> opc_set_password_req_t \<Rightarrow> nat \<Rightarrow> u16" where
  "set_password_error st req newlen =
     (if \<not> sp_old_password_terminated req then OPC_ERR_PW_NUL
      else if \<not> sp_new_password_terminated req then OPC_ERR_NEW_PW_NUL
      else if \<not> valid_opc_charset (sp_old_password req) then OPC_ERR_OLD_PW_CHAR
      else if newlen = 0 \<or> \<not> valid_opc_charset (sp_new_password req) then OPC_ERR_NEW_PW_CHAR
      else if \<not> strncmp_eq (OPC_PASSWORD_BUF - 1) (sp_old_password req) (password st)
              \<and> \<not> password_resend_of_unsynced st req then OPC_ERR_PASSWORD_MISMATCH
      else OPC_ERR_NONE)"

text \<open>The part of SetPassword that may write: \<open>None\<close> means that no response is sent now.\<close>

definition set_password_store ::
  "env \<Rightarrow> opcd_state_t \<Rightarrow> u8 list \<Rightarrow> u32 \<Rightarrow> u16 \<Rightarrow> u16 \<Rightarrow> u16 option \<times> opcd_state_t" where
  "set_password_store E st new ip port seq =
     (case persist_admit E st OPCD_PERSIST_PASSWORD (p_password (paths st)) (length new) of
        (Saturated, st) \<Rightarrow> (None, session_touch E st)
      | (Refused, st) \<Rightarrow> (Some OPC_ERR_NVRAM, st)
      | (Admitted reservation, st) \<Rightarrow>
          let candidate = put 0 new zero_password;
              (r, st) = persist_password E st new ip port seq reservation;
              st = session_touch E st
          in if pr_deferred r then (None, st\<lparr>pending_password := candidate\<rparr>)
             else let st = password_note_outcome st candidate (pr_outcome r)
               in (Some (if pr_ok r then OPC_ERR_NONE else OPC_ERR_NVRAM),
                   if pr_outcome r \<noteq> OPC_STORE_UNCHANGED then st\<lparr>password := candidate\<rparr> else st))"

definition respond :: "(u16 \<Rightarrow> u8 list option) \<Rightarrow> u16 option \<times> opcd_state_t \<Rightarrow> u8 list \<times> opcd_state_t" where
  "respond pack r = (case r of (None, st) \<Rightarrow> ([], st) | (Some err, st) \<Rightarrow> (emit_ack (pack err), st))"

definition set_password_process ::
  "env \<Rightarrow> opcd_state_t \<Rightarrow> opc_set_password_req_t option \<Rightarrow> u32 \<Rightarrow> u16 \<Rightarrow> u16 \<Rightarrow> u16 option \<times> opcd_state_t" where
  "set_password_process E st rq ip port seq =
     (case rq of
        None \<Rightarrow> (Some OPC_ERR_PACKET_SIZE, st)
      | Some req \<Rightarrow>
          (case check_login_required E st ip of
             Inl err \<Rightarrow> (Some err, st)
           | Inr st \<Rightarrow>
               let new = take (OPC_PASSWORD_BUF - 1) (cstr (sp_new_password req));
                   err = set_password_error st req (length new)
               in if persist_resource_busy st OPCD_PERSIST_PASSWORD then (None, session_touch E st)
                  else if err \<noteq> OPC_ERR_NONE then (Some err, st)
                  else set_password_store E st new ip port seq))"

definition handle_set_password ::
  "env \<Rightarrow> opcd_state_t \<Rightarrow> u8 list \<Rightarrow> u32 \<Rightarrow> u16 \<Rightarrow> nat \<Rightarrow> u16 \<Rightarrow> u8 list \<times> opcd_state_t" where
  "handle_set_password E st frame ip port rcap seq =
     respond (\<lambda>err. opc_set_password_ack_pack (Some rcap) seq (Some (ack_of err)))
       (set_password_process E st (opc_set_password_req_unpack (Some frame)) ip port seq)"

subsection \<open>SetIpConfigList\<close>

text \<open>The local variables of the loop over the entries.\<close>

record list_txn =
  lt_candidate :: opcd_ip_list_t
  lt_staging :: opcd_ip_list_t
  lt_active :: bool
  lt_committed :: bool

definition slot_put :: "opcd_ip_list_t \<Rightarrow> nat \<Rightarrow> opc_ipcfg_entry_t ptr \<Rightarrow> opcd_ip_list_t" where
  "slot_put l slot e =
     (case e of
        None \<Rightarrow> l\<lparr>il_slots := (il_slots l)[slot := zero_ipcfg_entry], il_present := (il_present l)[slot := False]\<rparr>
      | Some e \<Rightarrow> l\<lparr>il_slots := (il_slots l)[slot := e], il_present := (il_present l)[slot := True]\<rparr>)"

definition list_entry_step :: "bool \<Rightarrow> opc_ipcfg_entry_t \<Rightarrow> list_txn \<Rightarrow> u16 + list_txn" where
  "list_entry_step terminated e t =
     (if \<not> slot_in_range (list_number e) then Inl OPC_ERR_SLOT_RANGE
      else let clear_slot = (ip_address e = 0);
               verr = (if clear_slot then 0 else ipcfg_entry_error e terminated);
               flag = boundary_flag e;
               opens = (flag = OPC_LIST_BOUNDARY_START \<or> flag = OPC_LIST_BOUNDARY_START_END);
               closes = (flag = OPC_LIST_BOUNDARY_END \<or> flag = OPC_LIST_BOUNDARY_START_END);
               slot = unat (list_number e) - 1
        in if verr \<noteq> 0 then Inl verr
           else if \<not> opens \<and> \<not> lt_active t then Inl OPC_ERR_LIST_SEQUENCE
           else let staging = (if opens then lt_candidate t else lt_staging t);
                    staging = slot_put staging slot (if clear_slot then None else Some e)
             in Inr (if closes
                     then \<lparr>lt_candidate = staging, lt_staging = zero_ip_list, lt_active = False, lt_committed = True\<rparr>
                     else t\<lparr>lt_staging := staging, lt_active := True\<rparr>))"

fun list_entries :: "u32 \<Rightarrow> nat \<Rightarrow> opc_ipcfg_entry_t list \<Rightarrow> list_txn \<Rightarrow> u16 \<times> list_txn" where
  "list_entries m i [] t = (OPC_ERR_NONE, t)"
| "list_entries m i (e # es) t =
     (case list_entry_step (bit m i) e t of
        Inl err \<Rightarrow> (err, t)
      | Inr t \<Rightarrow> list_entries m (Suc i) es t)"

definition set_ip_list_store ::
  "env \<Rightarrow> opcd_state_t \<Rightarrow> list_txn \<Rightarrow> u16 \<Rightarrow> u32 \<Rightarrow> u16 \<Rightarrow> u16 \<Rightarrow> int \<Rightarrow> u16 option \<times> opcd_state_t" where
  "set_ip_list_store E st t err ip port seq reservation =
     (if lt_committed t then
        (let no_ack = (err \<noteq> OPC_ERR_NONE);
             (r, st) = persist_ip_list E st ip port seq reservation no_ack (lt_candidate t);
             err = (if \<not> pr_ok r \<and> err = OPC_ERR_NONE then OPC_ERR_NVRAM else err)
         in if pr_deferred r then
              (if no_ack then Some err else None,
               st\<lparr>pending_ip_list := lt_candidate t, pending_ip_staging := lt_staging t,
                  pending_ip_staging_active := lt_active t,
                  pending_ip_staging_session_generation := session_generation st\<rparr>)
            else if pr_outcome r \<noteq> OPC_STORE_UNCHANGED then
              (Some err,
               iplist_mirror_user E (st\<lparr>ip_list := lt_candidate t, ip_list_staging := lt_staging t,
                                       ip_list_staging_active := lt_active t\<rparr>))
            else (Some err, st))
      else (Some err,
            with_store (st\<lparr>ip_list_staging := lt_staging t, ip_list_staging_active := lt_active t\<rparr>)
              (\<lambda>sa. opc_store_async_cancel sa reservation)))"

definition set_ip_list_process ::
  "env \<Rightarrow> opcd_state_t \<Rightarrow> int + opc_set_ip_config_list_req_t \<Rightarrow> u32 \<Rightarrow> u16 \<Rightarrow> u16 \<Rightarrow> u16 option \<times> opcd_state_t" where
  "set_ip_list_process E st rq ip port seq =
     (case rq of
        Inl urc \<Rightarrow> (Some (if urc = OPC_UNPACK_ERR_LIST_SIZE then OPC_ERR_IPCFG_LIST_SIZE else OPC_ERR_PACKET_SIZE), st)
      | Inr req \<Rightarrow>
          (case check_login_required E st ip of
             Inl err \<Rightarrow> (Some err, st)
           | Inr st \<Rightarrow>
               if is_request_retransmission st OPC_REQ_SET_IP_CONFIG_LIST ip port then (None, session_touch E st)
               else (case persist_admit E st OPCD_PERSIST_IP_LIST (p_ip_list (paths st)) OPC_IPLIST_TEXT_MAX of
                       (Saturated, st) \<Rightarrow> (None, session_touch E st)
                     | (Refused, st) \<Rightarrow> (Some OPC_ERR_NVRAM, st)
                     | (Admitted reservation, st) \<Rightarrow>
                         (case list_entries (essid_terminated_mask req) 0 (take (entry_count req) (entries req))
                                 \<lparr>lt_candidate = ip_list st, lt_staging = ip_list_staging st,
                                  lt_active = ip_list_staging_active st, lt_committed = False\<rparr> of
                            (err, t) \<Rightarrow> set_ip_list_store E (session_touch E st) t err ip port seq reservation))))"

definition handle_set_ip_config_list ::
  "env \<Rightarrow> opcd_state_t \<Rightarrow> u8 list \<Rightarrow> u32 \<Rightarrow> u16 \<Rightarrow> nat \<Rightarrow> u16 \<Rightarrow> u8 list \<times> opcd_state_t" where
  "handle_set_ip_config_list E st frame ip port rcap seq =
     respond (\<lambda>err. opc_set_ip_config_list_ack_pack (Some rcap) seq (Some (ack_of err)))
       (set_ip_list_process E st (opc_set_ip_config_list_req_unpack (Some frame)) ip port seq)"

subsection \<open>ChangeIpAddress\<close>

definition ipcfg_clashes_other_iface :: "env \<Rightarrow> opcd_state_t \<Rightarrow> opc_ipcfg_entry_t \<Rightarrow> bool" where
  "ipcfg_clashes_other_iface E st e =
     (let other = (if mgmt_ip_iface_idx st = 0 then 1 else 0) in
      case get_dev_ipv4 (plat E) other of
        None \<Rightarrow> False
      | Some (oip, omask, ogw) \<Rightarrow>
          if oip = 0 \<or> omask = 0 \<or> omask = 0xFFFFFFFF then False
          else and (and (xor (ip_address e) oip) (subnet_mask e)) omask = 0)"

definition change_ip_error :: "env \<Rightarrow> opcd_state_t \<Rightarrow> u16 \<Rightarrow> u16" where
  "change_ip_error E st n =
     (if ip_change_commit_armed st \<or> ip_change_logout_deferred st then OPC_ERR_IP_CHANGE_CONFLICT
      else if ip_list_staging_active st then OPC_ERR_IP_CHANGE_CONFLICT
      else if \<not> slot_in_range n then OPC_ERR_SLOT_RANGE
      else if \<not> il_present (ip_list st) ! (unat n - 1) then OPC_ERR_SLOT_EMPTY
      else if ipcfg_clashes_other_iface E st (il_slots (ip_list st) ! (unat n - 1)) then OPC_ERR_IP_CHANGE_CLASH
      else OPC_ERR_NONE)"

definition handle_change_ip_address ::
  "env \<Rightarrow> opcd_state_t \<Rightarrow> u8 list \<Rightarrow> u32 \<Rightarrow> u16 \<Rightarrow> nat \<Rightarrow> u16 \<Rightarrow> u8 list \<times> opcd_state_t" where
  "handle_change_ip_address E st frame ip port rcap seq =
     respond (\<lambda>err. opc_change_ip_address_ack_pack (Some rcap) seq (Some (ack_of err)))
       (case opc_change_ip_address_req_unpack (Some frame) of
          None \<Rightarrow> (Some OPC_ERR_PACKET_SIZE, st)
        | Some req \<Rightarrow>
            (case check_login_required E st ip of
               Inl err \<Rightarrow> (Some err, st)
             | Inr st \<Rightarrow>
                 let err = change_ip_error E st (ci_list_number req) in
                 (Some err,
                  if err = OPC_ERR_NONE
                  then session_touch E (st\<lparr>ip_change_pending := True, ip_change_list_no := ci_list_number req\<rparr>)
                  else st)))"

subsection \<open>SetRadioConfig\<close>

definition valid_wlan_mode :: "u8 \<Rightarrow> bool" where
  "valid_wlan_mode m \<longleftrightarrow> m = OPC_WLAN_MODE_11A \<or> m = OPC_WLAN_MODE_11B \<or> m = OPC_WLAN_MODE_11G \<or> m = OPC_WLAN_MODE_11N
     \<or> m = OPC_WLAN_MODE_11AC \<or> m = OPC_WLAN_MODE_11AX"

definition valid_wlan_bw :: "u8 \<Rightarrow> bool" where
  "valid_wlan_bw b \<longleftrightarrow> b = OPC_BANDWIDTH_20 \<or> b = OPC_BANDWIDTH_40 \<or> b = OPC_BANDWIDTH_80 \<or> b = OPC_BANDWIDTH_160
     \<or> b = OPC_BANDWIDTH_80_80 \<or> b = OPC_BANDWIDTH_320"

definition valid_scan_band :: "u16 \<Rightarrow> bool" where
  "valid_scan_band band \<longleftrightarrow> band = OPC_SCAN_BAND_UNSET \<or> opc_scan_band_supported band"

datatype prio_ch_verdict_t = PRIO_CH_OK | PRIO_CH_BAD_BAND | PRIO_CH_BAD_CH

definition check_priority_ch :: "u16 \<Rightarrow> prio_ch_verdict_t" where
  "check_priority_ch prio =
     (let band = drop_bit 8 prio; ch = (ucast prio :: u8) in
      if \<not> opc_scan_band_supported band then PRIO_CH_BAD_BAND
      else if ch = 0xFF then PRIO_CH_OK
      else if opc_scan_bit_for_channel band ch \<noteq> None then PRIO_CH_OK else PRIO_CH_BAD_CH)"

definition wlan_cfg_differs :: "opc_wlan_radio_cfg_t \<Rightarrow> opc_wlan_radio_cfg_t \<Rightarrow> bool" where
  "wlan_cfg_differs a b \<longleftrightarrow> rc_mode a \<noteq> rc_mode b \<or> rc_bandwidth a \<noteq> rc_bandwidth b \<or> rc_scan_band a \<noteq> rc_scan_band b
     \<or> rc_scan_chlist a \<noteq> rc_scan_chlist b"

definition radio_cfg_differs :: "opc_set_radio_config_req_t \<Rightarrow> opc_set_radio_config_req_t \<Rightarrow> bool" where
  "radio_cfg_differs a b =
     (if station_type a \<noteq> station_type b \<or> wlan_cfg_differs (wlan1 a) (wlan1 b) then True
      else if station_type a = OPC_STATION_DUAL
              \<and> (priority_ch a \<noteq> priority_ch b \<or> wlan_cfg_differs (wlan2 a) (wlan2 b)) then True
      else False)"

definition radio_baseline_covers :: "opcd_state_t \<Rightarrow> opc_set_radio_config_req_t \<Rightarrow> bool" where
  "radio_baseline_covers st nxt =
     (let r = radio st in
      if \<not> radio_applied_known st then False
      else if station_type r \<noteq> OPC_STATION_SINGLE \<and> station_type r \<noteq> OPC_STATION_DUAL then False
      else if \<not> valid_wlan_mode (rc_mode (wlan1 r)) \<or> \<not> valid_wlan_bw (rc_bandwidth (wlan1 r)) then False
      else if \<not> valid_scan_band (rc_scan_band (wlan1 r))
              \<or> \<not> opc_scan_list_valid (rc_scan_band (wlan1 r)) (rc_scan_chlist (wlan1 r)) then False
      else if station_type nxt = OPC_STATION_DUAL then
        (if station_type r \<noteq> OPC_STATION_DUAL then False
         else if \<not> valid_wlan_mode (rc_mode (wlan2 r)) \<or> \<not> valid_wlan_bw (rc_bandwidth (wlan2 r))
                 \<or> check_priority_ch (priority_ch r) \<noteq> PRIO_CH_OK then False
         else if \<not> valid_scan_band (rc_scan_band (wlan2 r))
                 \<or> \<not> opc_scan_list_valid (rc_scan_band (wlan2 r)) (rc_scan_chlist (wlan2 r)) then False
         else True)
      else True)"

definition radio_error :: "opc_set_radio_config_req_t \<Rightarrow> u16" where
  "radio_error req =
     (let dual = (station_type req = OPC_STATION_DUAL); w1 = wlan1 req; w2 = wlan2 req;
          prio_v = (if dual then check_priority_ch (priority_ch req) else PRIO_CH_OK)
      in if station_type req \<noteq> OPC_STATION_SINGLE then OPC_ERR_STATION_TYPE
         else if \<not> valid_wlan_mode (rc_mode w1) then OPC_ERR_RADIO_MODE
         else if \<not> valid_wlan_bw (rc_bandwidth w1) then OPC_ERR_RADIO_BW
         else if dual \<and> \<not> valid_wlan_mode (rc_mode w2) then OPC_ERR_RADIO_MODE
         else if dual \<and> \<not> valid_wlan_bw (rc_bandwidth w2) then OPC_ERR_RADIO_BW
         else if \<not> valid_scan_band (rc_scan_band w1) \<or> (dual \<and> \<not> valid_scan_band (rc_scan_band w2))
           then OPC_ERR_RADIO_FREQ
         else if \<not> opc_scan_list_valid (rc_scan_band w1) (rc_scan_chlist w1)
                 \<or> (dual \<and> \<not> opc_scan_list_valid (rc_scan_band w2) (rc_scan_chlist w2)) then OPC_ERR_RADIO_SCAN_CH
         else if prio_v \<noteq> PRIO_CH_OK
           then (if prio_v = PRIO_CH_BAD_BAND then OPC_ERR_RADIO_PRIO_BAND else OPC_ERR_RADIO_PRIO_CH)
         else OPC_ERR_NONE)"

text \<open>The result of the value checks: \<open>None\<close> when the platform's answer makes the code call \<open>abort()\<close>.\<close>

definition radio_verdict :: "env \<Rightarrow> opc_set_radio_config_req_t \<Rightarrow> u16 option" where
  "radio_verdict E req =
     (let err = radio_error req in
      if err \<noteq> OPC_ERR_NONE then Some err
      else let capability_err = validate_radio_config (plat E) req in
        if capability_err = OPC_ERR_RADIO_MODE \<or> capability_err = OPC_ERR_RADIO_BW then Some capability_err
        else if capability_err \<noteq> 0 then None
        else Some OPC_ERR_NONE)"

fun bind_radio_gen :: "u32 \<Rightarrow> u32 \<Rightarrow> u16 \<Rightarrow> opcd_pending_ack_t list \<Rightarrow> opcd_pending_ack_t list" where
  "bind_radio_gen g ip port [] = []"
| "bind_radio_gen g ip port (pa # pas) =
     (if pending_match OPC_REQ_SET_RADIO_CONFIG ip port pa then pa\<lparr>pa_radio_gen := g\<rparr> # pas
      else pa # bind_radio_gen g ip port pas)"

text \<open>What follows a successful application to the platform.\<close>

definition radio_applied ::
  "env \<Rightarrow> opcd_state_t \<Rightarrow> opc_set_radio_config_req_t \<Rightarrow> bool \<Rightarrow> u32 \<Rightarrow> u16 \<Rightarrow> u16 \<Rightarrow> int \<Rightarrow> u16 option \<times> opcd_state_t" where
  "radio_applied E st req baseline_valid ip port seq reservation =
     (let baseline = radio st; baseline_committed = radio_committed st;
          st = st\<lparr>radio := req, radio_applied_known := True, radio_recovery_state := OPCD_RADIO_RECOVERY_HEALTHY,
                  radio_gen := radio_gen st + 1, radio_committed := False\<rparr>;
          (r, st) = persist_radio E st ip port seq reservation
      in if \<not> pr_ok r then
           (Some OPC_ERR_NVRAM,
            session_touch E (if pr_outcome r = OPC_STORE_UNCHANGED
                             then radio_arm_revert st baseline baseline_committed baseline_valid else st))
         else if pr_deferred r then
           (None,
            session_touch E (st\<lparr>pending_acks := bind_radio_gen (radio_gen st) ip port (pending_acks st),
                               radio_revert_cfg := baseline, radio_revert_committed := baseline_committed,
                               radio_persist_baseline_valid := baseline_valid\<rparr>))
         else (Some OPC_ERR_NONE, session_touch E (radio_txn_clear E (st\<lparr>radio_committed := True\<rparr>))))"

definition radio_change ::
  "env \<Rightarrow> opcd_state_t \<Rightarrow> opc_set_radio_config_req_t \<Rightarrow> u32 \<Rightarrow> u16 \<Rightarrow> u16 \<Rightarrow> u16 option \<times> opcd_state_t" where
  "radio_change E st req ip port seq =
     (case persist_admit E st OPCD_PERSIST_RADIO (p_radio (paths st)) (length (radio_bytes (radio st))) of
        (Saturated, st) \<Rightarrow> (None, session_touch E st)
      | (Refused, st) \<Rightarrow> (Some OPC_ERR_NVRAM, st)
      | (Admitted reservation, st) \<Rightarrow>
          let baseline_valid = radio_baseline_covers st req;
              (armed, st) = radio_txn_arm E st req;
              cancel = (\<lambda>st. with_store st (\<lambda>sa. opc_store_async_cancel sa reservation))
          in if \<not> armed then (Some OPC_ERR_NVRAM, session_touch E (cancel st))
             else (case apply_radio E st req of
                     (rc, st) \<Rightarrow>
                       (if rc \<noteq> 0 then
                          (Some OPC_ERR_RADIO_APPLY,
                           session_touch E
                             (if radio_cfg_differs req (radio st)
                              then radio_arm_revert (cancel st) (radio st) (radio_committed st) baseline_valid
                              else cancel st))
                        else radio_applied E st req baseline_valid ip port seq reservation)))"

definition set_radio_process ::
  "env \<Rightarrow> opcd_state_t \<Rightarrow> opc_set_radio_config_req_t option \<Rightarrow> u32 \<Rightarrow> u16 \<Rightarrow> u16 \<Rightarrow> u16 option \<times> opcd_state_t" where
  "set_radio_process E st rq ip port seq =
     (case rq of
        None \<Rightarrow> (Some OPC_ERR_PACKET_SIZE, st)
      | Some req \<Rightarrow>
          (case check_login_required E st ip of
             Inl err \<Rightarrow> (Some err, st)
           | Inr st \<Rightarrow>
               if persist_resource_busy st OPCD_PERSIST_RADIO then (None, session_touch E st)
               else (case radio_verdict E req of
                       None \<Rightarrow> (None, st\<lparr>aborted := True\<rparr>)
                     | Some err \<Rightarrow>
                         if err \<noteq> OPC_ERR_NONE then (Some err, st)
                         else if radio_committed st \<and> \<not> radio_cfg_differs req (radio st)
                           then (Some OPC_ERR_NONE, session_touch E st)
                         else radio_change E st req ip port seq)))"

definition handle_set_radio_config ::
  "env \<Rightarrow> opcd_state_t \<Rightarrow> u8 list \<Rightarrow> u32 \<Rightarrow> u16 \<Rightarrow> nat \<Rightarrow> u16 \<Rightarrow> u8 list \<times> opcd_state_t" where
  "handle_set_radio_config E st frame ip port rcap seq =
     respond (\<lambda>err. opc_set_radio_config_ack_pack (Some rcap) seq (Some (ack_of err)))
       (set_radio_process E st (opc_set_radio_config_req_unpack (Some frame)) ip port seq)"

subsection \<open>SetIndicationConfig and Reset\<close>

definition indication_error :: "env \<Rightarrow> opc_set_indication_config_req_t \<Rightarrow> u16" where
  "indication_error E req =
     (if and (si_info_bits req) OPC_IND_BITS_RESERVED \<noteq> 0 then OPC_ERR_IND_BITS
      else if si_info_bits req \<noteq> 0
              \<and> (\<not> valid_unicast_ipv4 (si_recipient_ip req)
                 \<or> \<not> indication_recipient_reachable (Some (plat E)) (si_recipient_ip req)) then OPC_ERR_IND_RECIPIENT_IP
      else OPC_ERR_NONE)"

definition assoc_now :: "env \<Rightarrow> opcd_state_t \<Rightarrow> bool" where
  "assoc_now E st =
     (if wlan0_assoc_known st \<and> mono_now_s E - wlan0_assoc_at st \<le> OPCD_ASSOC_LATCH_TTL_S then wlan0_assoc st
      else case get_link (plat E) 0 of None \<Rightarrow> False | Some lk \<Rightarrow> lk_associated lk)"

definition indication_configure :: "env \<Rightarrow> opcd_state_t \<Rightarrow> opc_set_indication_config_req_t \<Rightarrow> opcd_state_t" where
  "indication_configure E st req =
     (let st = st\<lparr>indication_enabled := (si_info_bits req \<noteq> 0), indication_recipient_ip := si_recipient_ip req,
                  indication_recipient_port := si_recipient_port req, indication_info_bits := si_info_bits req,
                  indication_period_s := si_period_seconds req, indication_tick_counter := 0,
                  radio_up_reported := False\<rparr>;
          st = session_touch E (opcd_ind_coalesce_reset st)
      in if \<not> indication_enabled st then st
         else let st = snd (opcd_ind_init_complete E st OPC_INIT_STATE_READY);
                  st = (if assoc_now E st then opcd_ind_radio_up E st else st)
           in if logged_in st then snd (opcd_ind_init_complete E st OPC_INIT_STATE_LOGGED_IN) else st)"

definition handle_set_indication_config ::
  "env \<Rightarrow> opcd_state_t \<Rightarrow> u8 list \<Rightarrow> u32 \<Rightarrow> u16 \<Rightarrow> nat \<Rightarrow> u16 \<Rightarrow> u8 list \<times> opcd_state_t" where
  "handle_set_indication_config E st frame ip port rcap seq =
     respond (\<lambda>err. opc_set_indication_config_ack_pack (Some rcap) seq (Some (ack_of err)))
       (case opc_set_indication_config_req_unpack (Some frame) of
          None \<Rightarrow> (Some OPC_ERR_PACKET_SIZE, st)
        | Some req \<Rightarrow>
            (case check_login_required E st ip of
               Inl err \<Rightarrow> (Some err, st)
             | Inr st \<Rightarrow>
                 let err = indication_error E req in
                 (Some err, if err = OPC_ERR_NONE then indication_configure E st req else st)))"

definition handle_reset ::
  "env \<Rightarrow> opcd_state_t \<Rightarrow> u8 list \<Rightarrow> u32 \<Rightarrow> u16 \<Rightarrow> nat \<Rightarrow> u16 \<Rightarrow> u8 list \<times> opcd_state_t" where
  "handle_reset E st frame ip port rcap seq =
     respond (\<lambda>err. opc_reset_ack_pack (Some rcap) seq (Some (ack_of err)))
       (if opc_reset_req_unpack (Some frame) = None then (Some OPC_ERR_PACKET_SIZE, st)
        else case check_login_required E st ip of
               Inl err \<Rightarrow> (Some err, st)
             | Inr st \<Rightarrow> (Some OPC_ERR_NONE, st\<lparr>should_reset := True\<rparr>))"

subsection \<open>Dispatch\<close>

type_synonym opcd_handler_fn =
  "env \<Rightarrow> opcd_state_t \<Rightarrow> u8 list \<Rightarrow> u32 \<Rightarrow> u16 \<Rightarrow> nat \<Rightarrow> u16 \<Rightarrow> u8 list \<times> opcd_state_t"

definition opcd_dispatch_table :: "(u16 \<times> opcd_handler_fn) list" where
  "opcd_dispatch_table =
     [(OPC_REQ_LOGIN, handle_login), (OPC_REQ_LOGOUT, handle_logout), (OPC_REQ_GET_BASIC_INFO, handle_get_basic_info),
      (OPC_REQ_GET_DEVICE_INFO, handle_get_device_info), (OPC_REQ_SET_PASSWORD, handle_set_password),
      (OPC_REQ_SET_IP_CONFIG_LIST, handle_set_ip_config_list), (OPC_REQ_CHANGE_IP_ADDRESS, handle_change_ip_address),
      (OPC_REQ_SET_RADIO_CONFIG, handle_set_radio_config),
      (OPC_REQ_SET_INDICATION_CONFIG, handle_set_indication_config), (OPC_REQ_RESET, handle_reset)]"

definition idle_logout :: "env \<Rightarrow> opcd_state_t \<Rightarrow> opcd_state_t" where
  "idle_logout E st = (if logged_in st \<and> mono_now_s E \<ge> idle_deadline st then opcd_session_logout E st else st)"

text \<open>The result: the return code, the response and the state.\<close>

definition opcd_dispatch ::
  "env \<Rightarrow> opcd_state_t \<Rightarrow> u8 list \<Rightarrow> u32 \<Rightarrow> u16 \<Rightarrow> nat \<Rightarrow> int \<times> u8 list \<times> opcd_state_t" where
  "opcd_dispatch E st frame ip port rcap =
     (case opc_frame_parse (Some frame) of
        None \<Rightarrow> (-1, [], st)
      | Some (hdr, _) \<Rightarrow>
          if command_type hdr \<noteq> OPC_CMD_REQUEST then (-1, [], st)
          else let st = idle_logout E st in
            (case map_of opcd_dispatch_table (req_indication_id hdr) of
               None \<Rightarrow> (-1, [], st)
             | Some fn \<Rightarrow> (0, fn E st frame ip port rcap (sequence_number hdr))))"

subsection \<open>Length of received datagrams\<close>

definition opcd_intake_frame_len :: "u8 list ptr \<Rightarrow> nat" where
  "opcd_intake_frame_len frame =
     (case frame of
        None \<Rightarrow> 0
      | Some b \<Rightarrow>
          (case opc_fixed_header_unpack (Some b) of
             None \<Rightarrow> 0
           | Some hdr \<Rightarrow>
               let want = OPC_FIXED_HEADER_SIZE + unat (length_field hdr);
                   valid_extent = (want = OPC_FIXED_HEADER_SIZE \<or> (want \<ge> OPC_HEADER_SIZE \<and> want \<le> OPC_FRAME_MAX))
               in if \<not> valid_extent \<or> want > length b then 0 else want))"

definition opcd_reject_bad_length :: "opcd_state_t \<Rightarrow> u8 list ptr \<Rightarrow> u32 \<Rightarrow> u16 \<Rightarrow> opcd_state_t" where
  "opcd_reject_bad_length st frame cip cport =
     (if \<not> logged_in st \<or> holder_ip st \<noteq> cip then st
      else case frame of
             None \<Rightarrow> st
           | Some b \<Rightarrow>
               if length b < OPC_FIXED_HEADER_SIZE then st
               else (case opc_fixed_header_unpack (Some b) of
                       None \<Rightarrow> st
                     | Some hdr \<Rightarrow>
                         let packed =
                               (if command_type hdr = OPC_CMD_REQUEST \<and> req_indication_id hdr = OPC_REQ_GET_DEVICE_INFO
                                then opc_get_device_info_ack_pack (Some OPC_FRAME_MAX) (sequence_number hdr)
                                       (Some (zero_device_info\<lparr>di_result := OPC_RESULT_NG,
                                                               di_error_cause := OPC_ERR_PACKET_SIZE\<rparr>))
                                else opc_simple_ack_pack (Some OPC_FRAME_MAX) (req_indication_id hdr) (sequence_number hdr)
                                       OPC_SIMPLE_ACK_LENGTH OPC_RESULT_NG OPC_ERR_PACKET_SIZE)
                         in (case packed of
                               None \<Rightarrow> st
                             | Some resp \<Rightarrow>
                                 if resp = [] \<or> udp_fd st < 0 then st
                                 else st\<lparr>log := log st @ [Datagram cip cport resp]\<rparr>)))"

end
