(* ===== verification/Main_Loop.thy ===== *)
theory Main_Loop
  imports Handler_Cmds
begin

text \<open>
  The daemon's process (\<open>opcd/opcd.c\<close>): the start, the events of the epoll loop, the loop and the shutdown. The
  loop is a step relation over a program counter and the daemon's state. One turn serves at most eight ready descriptors and at
  most \<open>OPCD_INGRESS_BATCH_MAX\<close> datagrams of a socket; between two steps the writer thread may take a job or finish one.
  What the kernel delivers is an argument of the step. Notifications to the service manager (\<open>Service_Log\<close>), the refresh of the
  cached firmware version and the logs do not change the state and are left out.
\<close>

definition OPCD_INGRESS_BATCH_MAX :: nat where [simp]: "OPCD_INGRESS_BATCH_MAX = 16"
definition EPOLL_EVENTS_MAX :: nat where [simp]: "EPOLL_EVENTS_MAX = 8"
definition OPC_RESET_PROBE_TIMEOUT_MS :: int where [simp]: "OPC_RESET_PROBE_TIMEOUT_MS = 3000"
definition OPC_PATH_SYSTEMCTL :: path where "OPC_PATH_SYSTEMCTL = bytes_of ''/usr/bin/systemctl''"

subsection \<open>Platform events\<close>

definition wlan_status_to_wire :: "u16 \<Rightarrow> u16" where
  "wlan_status_to_wire internal =
     (if internal = OPCD_WLAN_STATUS_ASSOCIATED \<or> internal = OPCD_WLAN_STATUS_CHANNEL_CHANGE
      then OPC_WLAN_STATUS_CONNECTED else OPC_WLAN_STATUS_DISCONNECTED)"

fun on_platform_event :: "env \<Rightarrow> opcd_platform_evt_t \<Rightarrow> opcd_state_t \<Rightarrow> opcd_state_t" where
  "on_platform_event E (OPCD_PEVT_INIT_COMPLETE status) st = snd (opcd_ind_init_complete E st status)"
| "on_platform_event E (OPCD_PEVT_WLAN_STATUS idx status channel) st =
     (if idx \<noteq> 0 then st else snd (opcd_ind_wlan_status E st (wlan_status_to_wire status) channel))"
| "on_platform_event E (OPCD_PEVT_ROAMING idx snr rssi mac channel) st =
     (if idx \<noteq> 0 then st else snd (opcd_ind_roaming E st snr rssi mac channel))"
| "on_platform_event E (OPCD_PEVT_AP_DISCONNECT idx msg_id code mac) st =
     (if idx \<noteq> 0 then st else snd (opcd_ind_ap_disconnect E st msg_id code mac))"
| "on_platform_event E (OPCD_PEVT_FAULT_DETECT congestion_id val) st = snd (opcd_ind_fault_detect E st congestion_id val)"
| "on_platform_event E (OPCD_PEVT_RESET_NOTICE cause) st = snd (opcd_ind_reset_notice E st cause)"
| "on_platform_event E OPCD_PEVT_NONE st = st"

subsection \<open>Start\<close>

text \<open>The options of the command line, and the results of the calls that \<open>main\<close> makes before its loop.\<close>

record opcd_opts =
  port_override :: int
  idle_override :: int
  conf_path :: "path option"

record start_sys =
  ss_udp_fd :: int
  ss_init :: int
  ss_fds :: bool
  ss_create :: sa_create_sys
  ss_store_epoll :: bool

definition state_load_from_disk :: "env \<Rightarrow> opcd_state_t \<Rightarrow> opcd_inventory_t \<times> opcd_state_t" where
  "state_load_from_disk E st =
     (let inv = snd (opcd_inventory_load (fs st) (Some (p_device_info (paths st))) (inventory E));
          (pw, st) = fs_read E st (p_password (paths st)) (OPC_PASSWORD_BUF - 1);
          st = (case pw of
                  None \<Rightarrow> st
                | Some b \<Rightarrow> if b = [] then st else st\<lparr>password := put 0 b zero_password\<rparr>)
      in (inv, snd (opcd_iplist_load E (snd (opcd_radio_conf_load E st)))))"

text \<open>The configuration: the command line's \<open>-p\<close> and \<open>-i\<close> win over \<open>opc.conf\<close>.\<close>

definition main_configure :: "opcd_opts \<Rightarrow> opcd_state_t \<Rightarrow> opcd_state_t" where
  "main_configure o0 st =
     (let st = (case conf_path o0 of None \<Rightarrow> st | Some p \<Rightarrow> st\<lparr>paths := (paths st)\<lparr>p_conf := p\<rparr>\<rparr>);
          F = fs st; cp = Some (p_conf (paths st)); c = conf st;
          c = c\<lparr>udp_port := fst (opcd_conf_port_parse F cp (Some ''udp_port'') (udp_port c))\<rparr>;
          c = (if port_override o0 > 0 then c\<lparr>udp_port := word_of_int (port_override o0)\<rparr> else c);
          c = (if idle_override o0 > 0 then c\<lparr>login_idle_s := word_of_int (idle_override o0)\<rparr> else c);
          c = c\<lparr>device_info_freq_source := opcd_freq_source_parse F cp,
                device_ip_iface := opcd_ip_iface_parse F cp,
                management_topology := opcd_topology_parse F cp (p_wifi_init_conf (paths st)),
                roam_notify_port := opcd_roam_notify_port_parse F cp (roam_notify_port c)\<rparr>
      in st\<lparr>conf := c, fault_probe := opcd_fault_probe_conf F (fault_probe st) cp\<rparr>)"

text \<open>\<open>None\<close> stands for an exit before the loop.\<close>

definition main_start :: "env \<Rightarrow> start_sys \<Rightarrow> opcd_opts \<Rightarrow> files \<Rightarrow> opcd_state_t option" where
  "main_start E sys o0 F =
     (let (inv, st) = state_load_from_disk E (main_configure o0 (state_set_defaults F)) in
      if ss_udp_fd sys < 0 then None
      else if ss_init sys \<noteq> 0 then None
      else if get_wlan_count (plat E) < 1 then None
      else let st = st\<lparr>udp_fd := ss_udp_fd sys, boot_status := OPC_DEVICE_READY\<rparr> in
        if \<not> ss_fds sys then None
        else Some (st\<lparr>store_async := (if ss_store_epoll sys then opc_store_async_create (ss_create sys) else None)\<rparr>))"

subsection \<open>Events of the loop\<close>

text \<open>A shutdown signal: whether the first one read was \<open>SIGTERM\<close>, and the run of \<open>systemctl\<close> that follows it.\<close>

definition on_signal ::
  "env \<Rightarrow> bool \<Rightarrow> bool \<Rightarrow> (u64 \<times> probe_turn) list \<Rightarrow> (u64 \<times> wait_turn) list \<Rightarrow> opcd_state_t \<Rightarrow> opcd_state_t" where
  "on_signal E sigterm started turns waits st =
     (let st = (if \<not> sigterm then st
                else let stopping = opcd_system_stopping (Some OPC_PATH_SYSTEMCTL) OPC_RESET_PROBE_TIMEOUT_MS started
                                      (mono_now_ms E) turns waits;
                         cause = opcd_shutdown_reset_cause stopping
                                   (opcd_reset_cause_read (fs st) (Some (p_reset_cause (paths st))))
                  in if cause \<noteq> 0 then snd (opcd_ind_reset_notice E st cause) else st)
      in st\<lparr>should_exit := True\<rparr>)"

text \<open>The timer: the expirations read, summed in 64 bits.\<close>

definition on_timer :: "env \<Rightarrow> u64 list \<Rightarrow> opcd_state_t \<Rightarrow> opcd_state_t" where
  "on_timer E expirations st =
     (let elapsed = sum_list expirations;
          st = idle_logout E st;
          elapsed_s = (if elapsed > 0xFFFFFFFF then 0xFFFFFFFF else ucast elapsed)
      in opcd_ind_tick_elapsed E st elapsed_s)"

text \<open>A datagram on the roam-notify socket: at most 512 bytes, terminated in the buffer.\<close>

definition on_roam_datagram :: "env \<Rightarrow> u8 list \<Rightarrow> opcd_state_t \<Rightarrow> opcd_state_t" where
  "on_roam_datagram E d st =
     (if d = [] \<or> length d > 512 then st
      else case roam_datagram_to_evt (cstr d) of
             None \<Rightarrow> st
           | Some evt \<Rightarrow> on_platform_event E evt st)"

text \<open>What follows the dispatch of a frame.\<close>

definition after_dispatch :: "env \<Rightarrow> u32 \<Rightarrow> u16 \<Rightarrow> int \<times> u8 list \<times> opcd_state_t \<Rightarrow> opcd_state_t" where
  "after_dispatch E cip cport r =
     (case r of (rc, tx, st) \<Rightarrow>
        if aborted st then st
        else let st = (if rc = 0
                       then opcd_post_ack E (if tx \<noteq> [] then st\<lparr>log := log st @ [Datagram cip cport tx]\<rparr> else st)
                       else st)
          in opcd_radio_revert_drain E st)"

definition on_udp_datagram :: "env \<Rightarrow> u8 list \<Rightarrow> u32 \<Rightarrow> u16 \<Rightarrow> opcd_state_t \<Rightarrow> opcd_state_t" where
  "on_udp_datagram E d cip cport st =
     (let rx = take OPC_FRAME_MAX d; want = opcd_intake_frame_len (Some rx) in
      if want = 0 then opcd_reject_bad_length st (Some rx) cip cport
      else after_dispatch E cip cport (opcd_dispatch E st (take want rx) cip cport OPC_FRAME_MAX))"

subsection \<open>Shutdown\<close>

definition worker_sys :: "env \<Rightarrow> nat \<Rightarrow> store_sys \<times> store_sys" where
  "worker_sys E k = (store_calls E (2 * k), store_calls E (2 * k + 1))"

definition main_shutdown :: "env \<Rightarrow> opcd_state_t \<Rightarrow> opcd_state_t" where
  "main_shutdown E st =
     (let st = (case store_async st of
                  None \<Rightarrow> st
                | Some sa \<Rightarrow> (case opc_store_async_finish (worker_sys E) sa (fs st) of
                               (sa, F) \<Rightarrow> st\<lparr>store_async := Some sa, fs := F\<rparr>));
          st = opcd_store_async_on_ready E st;
          st = st\<lparr>ip_change_commit_armed := False, store_async := None\<rparr>
      in if should_reset st then st\<lparr>log := log st @ [StartReboot]\<rparr> else st)"

subsection \<open>The loop\<close>

text \<open>Waiting in \<open>epoll_wait\<close>; serving, with the number of ready descriptors left; draining the control socket,
  with the descriptors and the datagrams left; after the loop; exited.\<close>

datatype pc = Waiting | Serving nat | Draining nat nat | Leaving | Exited

text \<open>The steps of the main thread. A process that has called \<open>abort()\<close> takes no step.\<close>

inductive main_step :: "pc \<times> opcd_state_t \<Rightarrow> pc \<times> opcd_state_t \<Rightarrow> bool" where
  wait: "\<not> aborted st \<Longrightarrow> \<not> should_exit st \<Longrightarrow> \<not> should_reset st \<Longrightarrow> n \<le> EPOLL_EVENTS_MAX \<Longrightarrow>
    main_step (Waiting, st) (Serving n, st)"
| wait_fails: "\<not> aborted st \<Longrightarrow> \<not> should_exit st \<Longrightarrow> \<not> should_reset st \<Longrightarrow> main_step (Waiting, st) (Leaving, st)"
| leave: "\<not> aborted st \<Longrightarrow> should_exit st \<or> should_reset st \<Longrightarrow> main_step (Waiting, st) (Leaving, st)"
| signal: "\<not> aborted st \<Longrightarrow>
    main_step (Serving (Suc n), st) (Serving n, on_signal E sigterm started turns waits st)"
| timer: "\<not> aborted st \<Longrightarrow> main_step (Serving (Suc n), st) (Serving n, on_timer E expirations st)"
| store_ready: "\<not> aborted st \<Longrightarrow> main_step (Serving (Suc n), st) (Serving n, opcd_store_async_on_ready E st)"
| platform: "\<not> aborted st \<Longrightarrow>
    main_step (Serving (Suc n), st) (Serving n, fold (\<lambda>(E, evt). on_platform_event E evt) evts st)"
| roam: "\<not> aborted st \<Longrightarrow> length ds \<le> OPCD_INGRESS_BATCH_MAX \<Longrightarrow>
    main_step (Serving (Suc n), st) (Serving n, fold (\<lambda>(E, d). on_roam_datagram E d) ds st)"
| udp: "\<not> aborted st \<Longrightarrow> main_step (Serving (Suc n), st) (Draining n OPCD_INGRESS_BATCH_MAX, st)"
| udp_frame: "\<not> aborted st \<Longrightarrow> st' = on_udp_datagram E d cip cport st \<Longrightarrow>
    main_step (Draining n (Suc b), st) (if ip_change_commit_armed st' then Serving n else Draining n b, st')"
| udp_eintr: "\<not> aborted st \<Longrightarrow> main_step (Draining n (Suc b), st) (Draining n b, st)"
| udp_done: "\<not> aborted st \<Longrightarrow> main_step (Draining n b, st) (Serving n, st)"
| turn_end: "\<not> aborted st \<Longrightarrow> main_step (Serving 0, st) (Waiting, opcd_apply_pending_ip_change E st)"
| shutdown: "\<not> aborted st \<Longrightarrow> main_step (Leaving, st) (Exited, main_shutdown E st)"

text \<open>The steps of the writer thread.\<close>

inductive worker_step :: "opcd_state_t \<Rightarrow> opcd_state_t \<Rightarrow> bool" where
  take_job: "store_async st = Some sa \<Longrightarrow> worker_take sa = Some sa' \<Longrightarrow>
    worker_step st (st\<lparr>store_async := Some sa'\<rparr>)"
| finish_job: "store_async st = Some sa \<Longrightarrow> worker_complete sys sa (fs st) = (sa', F') \<Longrightarrow>
    worker_step st (st\<lparr>store_async := Some sa', fs := F'\<rparr>)"

inductive opcd_step :: "pc \<times> opcd_state_t \<Rightarrow> pc \<times> opcd_state_t \<Rightarrow> bool" where
  main_thread: "main_step s s' \<Longrightarrow> opcd_step s s'"
| worker_thread: "\<not> aborted st \<Longrightarrow> worker_step st st' \<Longrightarrow> opcd_step (p, st) (p, st')"

inductive opcd_reachable :: "pc \<times> opcd_state_t \<Rightarrow> bool" where
  start: "main_start E sys o0 F = Some st \<Longrightarrow> opcd_reachable (Waiting, st)"
| step: "opcd_reachable s \<Longrightarrow> opcd_step s s' \<Longrightarrow> opcd_reachable s'"

end
