(* ===== verification/Ind_Frame.thy ===== *)
theory Ind_Frame
  imports Ind_Engine
begin

text \<open>
  What the indication engine leaves alone: its operations change its own fields of the state only, and all they do to
  the surroundings is to send datagrams. The invariants of the daemon rest on this frame property.
\<close>

definition is_datagram :: "action \<Rightarrow> bool" where
  "is_datagram a \<longleftrightarrow> (case a of Datagram _ _ _ \<Rightarrow> True | _ \<Rightarrow> False)"

text \<open>The state without the engine's fields and the log.\<close>

definition ind_erase :: "opcd_state_t \<Rightarrow> opcd_state_t" where
  "ind_erase st = st\<lparr>indication_seq := 0, indication_tick_counter := 0, indication_coalesce := [],
     radio_up_reported := False, wlan0_assoc_known := False, wlan0_assoc := False, wlan0_assoc_at := 0,
     fault_probe := opcd_fault_probe_init, log := []\<rparr>"

definition ind_only :: "opcd_state_t \<Rightarrow> opcd_state_t \<Rightarrow> bool" where
  "ind_only st st' \<longleftrightarrow> ind_erase st' = ind_erase st \<and> (\<exists>ds. log st' = log st @ ds \<and> list_all is_datagram ds)"

lemma ind_only_refl [simp, intro]: "ind_only st st"
  by (auto simp: ind_only_def)

lemma ind_only_trans: "ind_only a b \<Longrightarrow> ind_only b c \<Longrightarrow> ind_only a c"
  by (fastforce simp: ind_only_def)

lemma ind_only_quiet: "ind_erase st' = ind_erase st \<Longrightarrow> log st' = log st \<Longrightarrow> ind_only st st'"
  by (auto simp: ind_only_def)

lemma ind_only_fold: "(\<And>x s. ind_only s (f x s)) \<Longrightarrow> ind_only st (fold f xs st)"
  by (induction xs arbitrary: st) (auto intro: ind_only_trans)

lemma ind_only_log:
  assumes "ind_only st st'"
  obtains ds where "log st' = log st @ ds" "list_all is_datagram ds"
  using assms by (auto simp: ind_only_def)

text \<open>A field outside the engine is kept: for every function of the state that does not depend on the erased fields.\<close>

lemma ind_only_keeps: "ind_only st st' \<Longrightarrow> (\<And>s. f (ind_erase s) = f s) \<Longrightarrow> f st' = f st"
  by (metis ind_only_def)

lemma send_frame_only: "ind_only st (snd (send_indication_frame E st f))"
  by (auto simp: send_indication_frame_def ind_only_def ind_erase_def is_datagram_def split: option.split)

lemma next_seq_only: "ind_only st (snd (next_seq st))"
  by (rule ind_only_quiet) (simp_all add: next_seq_def ind_erase_def)

lemma send_next_only:
  "ind_only st (snd (case next_seq st of (s, st) \<Rightarrow> send_indication_frame E st (f s)))"
  using next_seq_only [of st] send_frame_only by (auto split: prod.split intro: ind_only_trans)

lemma stage_only: "ind_only st (stage f st)"
  by (rule ind_only_quiet) (simp_all add: stage_def ind_erase_def)

lemma init_complete_only: "ind_only st (snd (opcd_ind_init_complete E st s))"
  by (simp add: opcd_ind_init_complete_def send_next_only)

lemma radio_up_only: "ind_only st (opcd_ind_radio_up E st)"
proof -
  have "ind_only st (st\<lparr>radio_up_reported := True\<rparr>)" by (rule ind_only_quiet) (simp_all add: ind_erase_def)
  then show ?thesis by (auto simp: opcd_ind_radio_up_def intro: ind_only_trans [OF _ init_complete_only])
qed

lemma emits_only:
  "ind_only st (snd (emit_wlan_status E st s c))"
  "ind_only st (snd (emit_roaming E st n r m c))"
  "ind_only st (snd (emit_ap_disconnect E st i x m))"
  "ind_only st (snd (emit_fault_detect E st i v))"
  by (simp_all add: emit_wlan_status_def emit_roaming_def emit_ap_disconnect_def emit_fault_detect_def send_next_only)

lemma wlan_status_only: "ind_only st (snd (opcd_ind_wlan_status E st status ch))"
proof -
  define s1 where "s1 = st\<lparr>wlan0_assoc_known := True, wlan0_assoc := (status = OPC_WLAN_STATUS_CONNECTED),
    wlan0_assoc_at := mono_now_s E\<rparr>"
  define s2 where "s2 = (if status = OPC_WLAN_STATUS_CONNECTED then opcd_ind_radio_up E s1 else s1)"
  have "ind_only st s1" by (rule ind_only_quiet) (simp_all add: s1_def ind_erase_def)
  moreover have "ind_only s1 s2" by (simp add: s2_def radio_up_only)
  moreover have "ind_only s2 (snd (if \<not> ind_on s2 OPC_IND_BIT_WLAN_STATUS_CHANGE then (True, s2)
         else if indication_period_s s2 > 0
           then (True, stage (\<lambda>c. c\<lparr>wlan_status := status, wlan_ch := ch, wlan_pending := True\<rparr>) s2)
           else emit_wlan_status E s2 status ch))"
    by (simp add: stage_only emits_only)
  ultimately show ?thesis
    unfolding opcd_ind_wlan_status_def Let_def s1_def [symmetric] s2_def [symmetric]
    by (blast intro: ind_only_trans)
qed

lemma reports_only:
  "ind_only st (snd (opcd_ind_roaming E st n r m c))"
  "ind_only st (snd (opcd_ind_ap_disconnect E st i x m))"
  "ind_only st (snd (opcd_ind_fault_detect E st i v))"
  "ind_only st (opcd_ind_fault_clear st i)"
  "ind_only st (snd (opcd_ind_reset_notice E st cause))"
  "ind_only st (snd (opcd_ind_keep_alive E st t))"
  by (auto simp: opcd_ind_roaming_def opcd_ind_ap_disconnect_def opcd_ind_fault_detect_def opcd_ind_fault_clear_def
      opcd_ind_reset_notice_def opcd_ind_keep_alive_def Let_def emits_only stage_only send_next_only split: option.split)

lemma coalesce_reset_only: "ind_only st (opcd_ind_coalesce_reset st)"
  by (rule ind_only_quiet) (simp_all add: opcd_ind_coalesce_reset_def ind_erase_def)

lemma fault_probe_only: "ind_only st (st\<lparr>fault_probe := p\<rparr>)"
  by (rule ind_only_quiet) (simp_all add: ind_erase_def)

lemma fault_entry_only: "ind_only st (fault_entry E e i v r st)"
  using reports_only(3) [of st E i v] fault_probe_only
  by (auto simp: fault_entry_def split: prod.split intro: ind_only_trans)

lemma fault_probe_tick_only: "ind_only st (fault_probe_tick E st n)"
proof -
  have c: "ind_only a s \<Longrightarrow> ind_only a (opcd_ind_fault_clear s i)" for a s i
    using reports_only(4) ind_only_trans by blast
  have e: "ind_only a s \<Longrightarrow> ind_only a (fault_entry E b i v r s)" for a s b i v r
    using fault_entry_only ind_only_trans by blast
  show ?thesis
    unfolding fault_probe_tick_def Let_def
    by (auto split: prod.split intro!: c e fault_probe_only ind_only_trans [OF fault_probe_only fault_probe_only])
qed

lemma flush_kind_only:
  assumes "\<And>s c. ind_only s (snd (emit s c))"
  shows "ind_only st (flush_kind i pending emit clear st)"
proof -
  have q: "ind_only s (s\<lparr>indication_coalesce := x\<rparr>)" for s x by (rule ind_only_quiet) (simp_all add: ind_erase_def)
  show ?thesis
    using assms [of st "indication_coalesce st ! i"]
    by (auto simp: flush_kind_def split: prod.split intro: ind_only_trans [OF _ q])
qed

lemma flush_link_only: "ind_only st (flush_link E i st)"
  unfolding flush_link_def Let_def
  by (intro ind_only_trans [OF _ ind_only_fold] ind_only_trans [OF _ flush_kind_only] ind_only_refl flush_kind_only
      emits_only)

lemma tick_only: "ind_only st (opcd_ind_tick_elapsed E st n)"
proof -
  have q: "ind_only s (s\<lparr>indication_tick_counter := x\<rparr>)" for s x by (rule ind_only_quiet) (simp_all add: ind_erase_def)
  have t: "ind_only a (fold (flush_link E) xs b)" if "ind_only a b" for a b xs
    using that ind_only_fold [of "flush_link E" b xs] flush_link_only by (blast intro: ind_only_trans)
  have k: "ind_only a (snd (opcd_ind_keep_alive E b x))" if "ind_only a b" for a b x
    using that reports_only(6) by (blast intro: ind_only_trans)
  show ?thesis
    unfolding opcd_ind_tick_elapsed_def Let_def
    by (auto intro!: t k intro: fault_probe_tick_only ind_only_trans [OF fault_probe_tick_only q]
        ind_only_trans [OF ind_only_trans [OF fault_probe_tick_only q] q])
qed

end
