(* ===== verification/Daemon_Inv.thy ===== *)
theory Daemon_Inv
  imports Main_Loop Ind_Frame
begin

text \<open>
  The invariant of the daemon and its preservation by every operation: the fixed sizes of the C arrays, the
  termination of stored passwords, the validity of every IP list and of every address that was or will be applied,
  the consistency of the writer's queue, and that every pending acknowledgment is backed by a job of the writer.
\<close>

subsection \<open>The invariant\<close>

definition entry_ok :: "nat \<Rightarrow> opc_ipcfg_entry_t \<Rightarrow> bool" where
  "entry_ok n e \<longleftrightarrow> list_number e = of_nat n \<and> ip_address e \<noteq> 0 \<and> ipcfg_entry_error e True = 0"

definition iplist_ok :: "opcd_ip_list_t \<Rightarrow> bool" where
  "iplist_ok l \<longleftrightarrow> length (il_slots l) = 128 \<and> length (il_present l) = 128
     \<and> (\<forall>i. i < 128 \<longrightarrow> il_present l ! i \<longrightarrow> entry_ok (i + 1) (il_slots l ! i))"

definition armed_ok :: "opc_ipcfg_entry_t \<Rightarrow> u16 \<Rightarrow> bool" where
  "armed_ok e n \<longleftrightarrow> slot_in_range n \<and> entry_ok (unat n) e"

definition action_ok :: "action \<Rightarrow> bool" where
  "action_ok a \<longleftrightarrow> (case a of ApplyIp e _ n \<Rightarrow> armed_ok e n | _ \<Rightarrow> True)"

definition pw_ok :: "u8 list \<Rightarrow> bool" where
  "pw_ok p \<longleftrightarrow> length p = OPC_PASSWORD_BUF \<and> p ! 127 = 0"

text \<open>A job of the writer that carries a token and is not answered yet.\<close>

definition job_live :: "opc_store_async \<Rightarrow> u64 \<Rightarrow> bool" where
  "job_live sa t \<longleftrightarrow> (\<exists>k<16. jb_state (sa_jobs sa ! k) \<in> {JOB_QUEUED, JOB_DONE} \<and> jb_token (sa_jobs sa ! k) = t)"

definition store_ok :: "bool \<Rightarrow> opc_store_async option \<Rightarrow> bool" where
  "store_ok joined s \<longleftrightarrow> (case s of None \<Rightarrow> True | Some sa \<Rightarrow> sa_inv sa \<and> sa_joined sa = joined)"

definition deferred_reqs :: "u16 set" where
  "deferred_reqs = {OPC_REQ_SET_PASSWORD, OPC_REQ_SET_IP_CONFIG_LIST, OPC_REQ_SET_RADIO_CONFIG}"

lemma deferred_reqs_mem:
  "OPC_REQ_SET_PASSWORD \<in> deferred_reqs" "OPC_REQ_SET_IP_CONFIG_LIST \<in> deferred_reqs"
  "OPC_REQ_SET_RADIO_CONFIG \<in> deferred_reqs"
  by (simp_all add: deferred_reqs_def)

text \<open>Every pending acknowledgment is for a request that is answered later, and has its job, in the writer or among the completions \<open>T\<close> that are being processed.\<close>

definition acks_backed :: "u64 set \<Rightarrow> opc_store_async option \<Rightarrow> opcd_pending_ack_t list \<Rightarrow> bool" where
  "acks_backed T s pas \<longleftrightarrow> length pas = 16
     \<and> (\<forall>i<16. pa_in_use (pas ! i) \<longrightarrow> pa_req_id (pas ! i) \<in> deferred_reqs
          \<and> (of_nat i \<in> T \<or> (\<exists>sa. s = Some sa \<and> job_live sa (of_nat i))))"

definition daemon_inv_with :: "bool \<Rightarrow> u64 set \<Rightarrow> opcd_state_t \<Rightarrow> bool" where
  "daemon_inv_with J T st \<longleftrightarrow>
     pw_ok (password st) \<and> pw_ok (pending_password st) \<and> pw_ok (password_unsynced_prev st)
     \<and> iplist_ok (ip_list st) \<and> iplist_ok (ip_list_staging st)
     \<and> iplist_ok (pending_ip_list st) \<and> iplist_ok (pending_ip_staging st)
     \<and> (ip_change_commit_armed st \<longrightarrow> armed_ok (ip_change_armed_entry st) (ip_change_armed_no st))
     \<and> list_all action_ok (log st)
     \<and> store_ok J (store_async st) \<and> acks_backed T (store_async st) (pending_acks st)"

abbreviation daemon_inv :: "opcd_state_t \<Rightarrow> bool" where
  "daemon_inv \<equiv> daemon_inv_with False {}"

lemma inv_keep:
  assumes "daemon_inv_with J T st"
    "password st' = password st" "pending_password st' = pending_password st"
    "password_unsynced_prev st' = password_unsynced_prev st" "ip_list st' = ip_list st"
    "ip_list_staging st' = ip_list_staging st" "pending_ip_list st' = pending_ip_list st"
    "pending_ip_staging st' = pending_ip_staging st" "ip_change_commit_armed st' = ip_change_commit_armed st"
    "ip_change_armed_entry st' = ip_change_armed_entry st" "ip_change_armed_no st' = ip_change_armed_no st"
    "log st' = log st @ ds" "list_all action_ok ds" "store_async st' = store_async st" "pending_acks st' = pending_acks st"
  shows "daemon_inv_with J T st'"
  using assms by (simp add: daemon_inv_with_def)

lemma inv_ind_only:
  assumes "ind_only st st'" "daemon_inv_with J T st"
  shows "daemon_inv_with J T st'"
proof -
  note k = ind_only_keeps [OF assms(1)]
  obtain ds where ds: "log st' = log st @ ds" "list_all is_datagram ds" using assms(1) by (rule ind_only_log)
  have "list_all action_ok ds"
    using ds(2) by (auto simp: list_all_iff is_datagram_def action_ok_def split: action.splits)
  then show ?thesis
    by (intro inv_keep [OF assms(2) _ _ _ _ _ _ _ _ _ _ ds(1)])
      (rule k, simp add: ind_erase_def | assumption)+
qed

lemma inv_touch [simp]: "daemon_inv_with J T (session_touch E st) = daemon_inv_with J T st"
  by (simp add: session_touch_def daemon_inv_with_def)

lemma iplist_okD: "iplist_ok l \<Longrightarrow> i < 128 \<Longrightarrow> il_present l ! i \<Longrightarrow> entry_ok (i + 1) (il_slots l ! i)"
  by (simp add: iplist_ok_def)

lemma iplist_ok_zero [simp]: "iplist_ok zero_ip_list"
  by (simp add: iplist_ok_def zero_ip_list_def)

lemma pw_ok_zero [simp]: "pw_ok zero_password"
  by (simp add: pw_ok_def zero_password_def)

lemma pw_ok_put: "length b \<le> 127 \<Longrightarrow> pw_ok (put 0 b zero_password)"
  by (simp add: pw_ok_def put_def zero_password_def nth_append)

lemma inv_session_logout: "daemon_inv_with J T st \<Longrightarrow> daemon_inv_with J T (opcd_session_logout E st)"
  using inv_ind_only [OF init_complete_only, of J T st E OPC_INIT_STATE_LOGGED_OUT]
  by (simp add: opcd_session_logout_def Let_def daemon_inv_with_def)

lemma inv_idle_logout: "daemon_inv_with J T st \<Longrightarrow> daemon_inv_with J T (idle_logout E st)"
  by (simp add: idle_logout_def inv_session_logout)

subsection \<open>Files\<close>

text \<open>File accesses change the files and the counter of accesses only.\<close>

definition fs_erase :: "opcd_state_t \<Rightarrow> opcd_state_t" where
  "fs_erase st = st\<lparr>fs := Map.empty, fs_runs := 0\<rparr>"

lemma fs_erase_ops [simp]:
  "fs_erase (snd (fs_write E st p d m)) = fs_erase st" "fs_erase (snd (fs_read E st p n)) = fs_erase st"
  "fs_erase (fs_rename E st a b) = fs_erase st" "fs_erase (fs_unlink E st p) = fs_erase st"
  by (simp_all add: fs_write_def fs_read_def fs_rename_def fs_unlink_def fs_erase_def split: prod.split)

lemma inv_fs: "fs_erase st' = fs_erase st \<Longrightarrow> daemon_inv_with J T st' = daemon_inv_with J T st"
proof -
  have "daemon_inv_with J T (fs_erase s) = daemon_inv_with J T s" for s by (simp add: fs_erase_def daemon_inv_with_def)
  then show "fs_erase st' = fs_erase st \<Longrightarrow> ?thesis" by metis
qed

lemma fs_erase_D:
  "fs_write E st p d m = (r, st') \<Longrightarrow> fs_erase st' = fs_erase st"
  "fs_read E st p n = (c, st') \<Longrightarrow> fs_erase st' = fs_erase st"
  using fs_erase_ops(1) [of E st p d m] fs_erase_ops(2) [of E st p n] by simp_all

lemma fs_erase_write_user [simp]: "fs_erase (iplist_write_user E st user) = fs_erase st"
  by (auto simp: iplist_write_user_def split: option.split prod.split dest: fs_erase_D)

lemma fs_erase_txn_clear [simp]: "fs_erase (radio_txn_clear E st) = fs_erase st"
  by (simp add: radio_txn_clear_def split: option.split)

lemma fs_erase_txn_arm: "radio_txn_arm E st req = (ok, st') \<Longrightarrow> fs_erase st' = fs_erase st"
  by (auto simp: radio_txn_arm_def split: option.splits prod.splits dest: fs_erase_D)

lemmas inv_write_user = inv_fs [OF fs_erase_write_user]
lemmas inv_txn_clear = inv_fs [OF fs_erase_txn_clear]
lemmas inv_txn_arm = inv_fs [OF fs_erase_txn_arm]


subsection \<open>The writer\<close>

lemma live_cong:
  assumes "\<And>k. k < 16 \<Longrightarrow> jb_state (sa_jobs sa ! k) \<in> {JOB_QUEUED, JOB_DONE} \<Longrightarrow>
      jb_state (sa_jobs sa' ! k) \<in> {JOB_QUEUED, JOB_DONE} \<and> jb_token (sa_jobs sa' ! k) = jb_token (sa_jobs sa ! k)"
    and "job_live sa t"
  shows "job_live sa' t"
  using assms unfolding job_live_def by metis

lemma live_set_job:
  assumes "sa_inv sa" "i < 16" "jb_state (sa_jobs sa ! i) \<notin> {JOB_QUEUED, JOB_DONE}" "job_live sa t"
  shows "job_live (set_job i f sa) t"
proof (rule live_cong [OF _ assms(4)])
  fix k
  assume "k < 16" "jb_state (sa_jobs sa ! k) \<in> {JOB_QUEUED, JOB_DONE}"
  then show "jb_state (sa_jobs (set_job i f sa) ! k) \<in> {JOB_QUEUED, JOB_DONE} \<and>
      jb_token (sa_jobs (set_job i f sa) ! k) = jb_token (sa_jobs sa ! k)"
    using assms by (simp add: sa_invD(1)) (metis insertCI)
qed

lemma reserve_live:
  assumes "sa_inv sa" "opc_store_async_reserve sa path len = (res, sa')" "job_live sa t"
  shows "job_live sa' t"
  using reserve_cases [OF assms(2)] assms sa_invD(1) [OF assms(1)] by (auto intro!: live_set_job)

lemma cancel_live: "sa_inv sa \<Longrightarrow> job_live sa t \<Longrightarrow> job_live (opc_store_async_cancel sa r) t"
  by (auto simp: opc_store_async_cancel_def intro!: live_set_job)

lemma live_queue [simp]: "job_live (sa\<lparr>sa_q := q, sa_q_count := n\<rparr>) t = job_live sa t"
  by (simp add: job_live_def)

lemma submit_live:
  assumes "sa_inv sa" "opc_store_async_submit_reserved sa r data len mode token = (res, sa')"
  shows "job_live sa t \<Longrightarrow> job_live sa' t" "res = Inr u \<Longrightarrow> job_live sa' token"
proof -
  have l: "length (sa_jobs sa) = 16" by (rule sa_invD(1) [OF assms(1)])
  show "job_live sa t \<Longrightarrow> job_live sa' t"
    using submit_reserved_cases [OF assms(2)] assms(1) by (auto intro!: live_set_job)
  show "job_live sa' token" if "res = Inr u"
  proof -
    have "nat r < 16" "jb_state (sa_jobs sa' ! nat r) = JOB_QUEUED" "jb_token (sa_jobs sa' ! nat r) = token"
      using submit_reserved_cases [OF assms(2)] that l by auto
    then show ?thesis unfolding job_live_def by blast
  qed
qed

text \<open>What the writer's operations keep for the daemon: the invariant, the join flag and the live jobs.\<close>

definition sa_keeps :: "opc_store_async \<Rightarrow> opc_store_async \<Rightarrow> bool" where
  "sa_keeps sa sa' \<longleftrightarrow> (sa_inv sa \<longrightarrow> sa_inv sa' \<and> sa_joined sa' = sa_joined sa \<and> (\<forall>t. job_live sa t \<longrightarrow> job_live sa' t))"

lemma sa_keeps_refl [simp, intro]: "sa_keeps sa sa"
  by (simp add: sa_keeps_def)

lemma sa_keeps_trans: "sa_keeps a b \<Longrightarrow> sa_keeps b c \<Longrightarrow> sa_keeps a c"
  by (simp add: sa_keeps_def)

lemma sa_keeps_ops:
  "opc_store_async_reserve sa path len = (res, sa') \<Longrightarrow> sa_keeps sa sa'"
  "sa_keeps sa (opc_store_async_cancel sa r)"
  "opc_store_async_submit_reserved sa r data len mode token = (res', sa') \<Longrightarrow> sa_keeps sa sa'"
  unfolding sa_keeps_def
  subgoal using reserve_inv(1) reserve_live reserve_cases [of sa path len res sa'] by fastforce
  subgoal using cancel_inv(1) cancel_live by (auto simp: opc_store_async_cancel_def)
  subgoal using submit_reserved_inv(1) submit_live(1) submit_reserved_cases [of sa r data len mode token res' sa'] by fastforce
  done

lemma sa_keeps_echo:
  assumes "r < 16"
  shows "sa_keeps sa (set_job r (\<lambda>j. j\<lparr>jb_echo_path := e\<rparr>) sa)"
proof (cases "sa_inv sa")
  case True
  then have "job_live sa t \<Longrightarrow> job_live (set_job r (\<lambda>j. j\<lparr>jb_echo_path := e\<rparr>) sa) t" for t
    using assms by (auto elim!: live_cong [rotated] simp: sa_invD(1) split: if_splits)
  with True assms show ?thesis by (simp add: sa_keeps_def sa_inv_set_job_same)
qed (simp add: sa_keeps_def)

text \<open>A submission that is cancelled when it fails.\<close>

lemma sa_keeps_submit_cancel:
  assumes "(case opc_store_async_submit_reserved sa r d n m t of
      (Inl e, x) \<Rightarrow> (Inl e, opc_store_async_cancel x r) | (Inr u, x) \<Rightarrow> (Inr (), x)) = (res, sa')"
  shows "sa_keeps sa sa'"
  using assms by (auto split: prod.splits sum.splits intro: sa_keeps_ops sa_keeps_trans [OF sa_keeps_ops(3) sa_keeps_ops(2)])

lemma sa_keeps_submit_echo:
  assumes "opc_store_async_submit_echo sa p e d n m t = (res, sa')"
  shows "sa_keeps sa sa'"
proof (cases "sa_inv sa \<and> (\<exists>r sa1. opc_store_async_reserve sa p n = (Inr r, sa1))")
  case True
  then obtain r sa1 where res: "opc_store_async_reserve sa p n = (Inr r, sa1)" and inv: "sa_inv sa" by blast
  have r: "r < 16" using reserve_cases [OF res] sa_invD(1) [OF inv] by auto
  consider "sa' = sa" | x where "(case opc_store_async_submit_reserved (set_job r (\<lambda>j. j\<lparr>jb_echo_path := x\<rparr>) sa1) (int r) d n m t of
      (Inl e, x) \<Rightarrow> (Inl e, opc_store_async_cancel x (int r)) | (Inr u, x) \<Rightarrow> (Inr (), x)) = (res, sa')"
    using assms res by (auto simp: opc_store_async_submit_echo_def Let_def split: option.splits if_splits)
  then show ?thesis
    by cases (auto intro: sa_keeps_trans [OF sa_keeps_trans [OF sa_keeps_ops(1) [OF res] sa_keeps_echo [OF r]]]
        dest: sa_keeps_submit_cancel)
next
  case False
  then show ?thesis
    using assms by (cases "sa_inv sa")
      (auto simp: opc_store_async_submit_echo_def sa_keeps_def [of sa sa'] split: option.splits if_splits prod.splits sum.splits
        dest: sa_keeps_ops(1) reserve_cases)
qed

lemma sa_keeps_submit:
  assumes "opc_store_async_submit sa p d n m t = (res, sa')"
  shows "sa_keeps sa sa'"
  using assms sa_keeps_submit_cancel
  by (fastforce simp: opc_store_async_submit_def split: if_splits prod.splits sum.splits
      intro: sa_keeps_ops sa_keeps_trans [OF sa_keeps_ops(1)])

lemma sa_keeps_take: "worker_take sa = Some sa' \<Longrightarrow> sa_keeps sa sa'"
  by (auto simp: sa_keeps_def dest: worker_take_inv(1)) (auto simp: worker_take_def job_live_def split: if_splits)

lemma sa_keeps_complete:
  assumes "worker_complete env sa F = (sa', F')"
  shows "sa_keeps sa sa'"
proof (cases "sa_inv sa")
  case True
  have "jb_state (sa_jobs sa' ! k) \<in> {JOB_QUEUED, JOB_DONE} \<and> jb_token (sa_jobs sa' ! k) = jb_token (sa_jobs sa ! k)"
    if "jb_state (sa_jobs sa ! k) \<in> {JOB_QUEUED, JOB_DONE}" for k
    using worker_complete_inv(7) [OF True assms, of k] worker_complete_job [OF True _ assms, of k] that
    by (cases "sa_running sa = Some k") (auto simp: job_key_def)
  then have "job_live sa t \<Longrightarrow> job_live sa' t" for t by (rule live_cong)
  then show ?thesis using worker_complete_inv(1,6) [OF True assms] by (simp add: sa_keeps_def)
qed (simp add: sa_keeps_def)

lemma drain_slot_live:
  assumes "sa_inv sa" "i < 16" "drain_slot cap i (out, lo, sa) = (out', lo', sa')" "job_live sa t"
  shows "job_live sa' t \<or> t \<in> dn_token ` set out'" "set out \<subseteq> set out'" "sa_joined sa' = sa_joined sa"
proof -
  have l: "length (sa_jobs sa) = 16" by (rule sa_invD(1) [OF assms(1)])
  obtain k where k: "k < 16" "jb_state (sa_jobs sa ! k) \<in> {JOB_QUEUED, JOB_DONE}" "jb_token (sa_jobs sa ! k) = t"
    using assms(4) by (auto simp: job_live_def)
  show "job_live sa' t \<or> t \<in> dn_token ` set out'"
    using assms(2,3) k l
    by (cases "k = i") (auto simp: drain_slot_def Let_def job_done_def job_live_def split: if_splits intro!: exI [of _ k])
  show "set out \<subseteq> set out'" "sa_joined sa' = sa_joined sa"
    using assms(3) by (auto simp: drain_slot_def Let_def split: if_splits)
qed

lemma drain_slot_joined: "drain_slot cap i (out, lo, sa) = (out', lo', sa') \<Longrightarrow> sa_joined sa' = sa_joined sa \<and> set out \<subseteq> set out'"
  by (auto simp: drain_slot_def Let_def split: if_splits)

lemma drain_fold_live:
  assumes "sa_inv sa" "list_all (\<lambda>i. i < 16) is" "fold (drain_slot cap) is (out, lo, sa) = (out', lo', sa')"
  shows "sa_joined sa' = sa_joined sa \<and> set out \<subseteq> set out' \<and> (\<forall>t. job_live sa t \<longrightarrow> job_live sa' t \<or> t \<in> dn_token ` set out')"
  using assms
proof (induction "is" arbitrary: out lo sa)
  case (Cons i "is")
  obtain o1 l1 sa1 where s: "drain_slot cap i (out, lo, sa) = (o1, l1, sa1)" by (cases "drain_slot cap i (out, lo, sa)")
  have i: "i < 16" and f: "fold (drain_slot cap) is (o1, l1, sa1) = (out', lo', sa')" using Cons.prems s by simp_all
  have ih: "sa_joined sa' = sa_joined sa1 \<and> set o1 \<subseteq> set out' \<and> (\<forall>t. job_live sa1 t \<longrightarrow> job_live sa' t \<or> t \<in> dn_token ` set out')"
    using Cons.IH [OF drain_slot_inv(1) [OF Cons.prems(1) i s] _ f] Cons.prems(2) by simp
  show ?case using ih drain_slot_joined [OF s] drain_slot_live(1) [OF Cons.prems(1) i s] by blast
qed auto

lemma drain_live:
  assumes "sa_inv sa" "opc_store_async_drain sa cap = (out, sa')"
  shows "sa_joined sa' = sa_joined sa" "job_live sa t \<Longrightarrow> job_live sa' t \<or> t \<in> dn_token ` set out"
proof -
  obtain o1 l1 sa1 where f: "fold (drain_slot cap) [0..<16] ([], False, sa\<lparr>sa_event := False\<rparr>) = (o1, l1, sa1)"
    by (cases "fold (drain_slot cap) [0..<16] ([], False, sa\<lparr>sa_event := False\<rparr>)")
  have e: "job_live (s\<lparr>sa_event := b\<rparr>) t = job_live s t" for s b t by (simp add: job_live_def)
  note d = drain_fold_live [OF _ _ f]
  show "sa_joined sa' = sa_joined sa" "job_live sa t \<Longrightarrow> job_live sa' t \<or> t \<in> dn_token ` set out"
    using d assms f by (auto simp: opc_store_async_drain_def e list_all_iff split: if_splits)
qed

subsection \<open>Persistence\<close>

lemma inv_with_store:
  assumes "daemon_inv_with J T st" "\<And>sa. store_async st = Some sa \<Longrightarrow> sa_keeps sa (f sa)"
  shows "daemon_inv_with J T (with_store st f)"
  using assms by (cases "store_async st")
    (auto simp: with_store_def daemon_inv_with_def store_ok_def acks_backed_def sa_keeps_def)

lemma inv_store:
  assumes "daemon_inv_with J T st" "store_async st = Some sa" "sa_keeps sa sa'"
  shows "daemon_inv_with J T (st\<lparr>store_async := Some sa'\<rparr>)"
  using assms by (auto simp: daemon_inv_with_def store_ok_def acks_backed_def sa_keeps_def)

lemma inv_mirror: "daemon_inv_with J T st \<Longrightarrow> daemon_inv_with J T (iplist_mirror_user E st)"
  unfolding iplist_mirror_user_def
  by (auto simp: inv_write_user split: option.splits prod.splits sum.splits
      intro: inv_store [OF _ _ sa_keeps_submit_echo] inv_store [OF _ _ sa_keeps_submit])

lemma free_slot_Some: "free_slot pas k = Some i \<Longrightarrow> k \<le> i \<and> i - k < length pas"
  by (induction pas k rule: free_slot.induct) (fastforce split: if_splits)+

lemma inv_persist_blob:
  assumes "daemon_inv_with J T st" "persist_blob E st p d m rs na rq ip port seq rv = (r, st')"
    "rq \<in> deferred_reqs"
  shows "daemon_inv_with J T st'"
proof (cases "store_async st")
  case None
  obtain rc oc s where w: "fs_write E st p d m = ((rc, oc), s)" by (metis surj_pair)
  then have "st' = s" using None assms(2) by (simp add: persist_blob_def)
  then show ?thesis using inv_fs [OF fs_erase_D(1) [OF w]] assms(1) by simp
next
  case (Some sa)
  have inv: "sa_inv sa" using assms(1) Some by (simp add: daemon_inv_with_def store_ok_def)
  show ?thesis
  proof (cases "pending_ack_alloc st")
    case None
    then show ?thesis
      using assms Some by (auto simp: persist_blob_def intro!: inv_with_store sa_keeps_ops)
  next
    case slot: (Some slot)
    have l: "slot < 16"
      using slot assms(1) by (auto simp: pending_ack_alloc_def daemon_inv_with_def acks_backed_def dest!: free_slot_Some)
    obtain res sa' where sub: "opc_store_async_submit_reserved sa rv (Some d) (length d) m (of_nat slot) = (res, sa')"
      by force
    note k = sa_keeps_ops(3) [OF sub]
    have live: "res = Inr () \<Longrightarrow> job_live sa' (of_nat slot)" using submit_live(2) [OF inv sub] by simp
    show ?thesis
    proof (cases res)
      case (Inl e)
      then show ?thesis
        using assms Some slot sub k by (auto simp: persist_blob_def intro!: inv_store intro: sa_keeps_trans sa_keeps_ops)
    next
      case (Inr u)
      then have st': "st' = st\<lparr>store_async := Some sa', pending_acks := (pending_acks st)[slot := \<lparr>pa_in_use = True,
          pa_no_ack = na, pa_resource = rs, pa_req_id = rq, pa_seq = seq, pa_radio_gen = 0, pa_client_ip = ip,
          pa_client_port = port\<rparr>]\<rparr>"
        using assms(2) Some slot sub by (simp add: persist_blob_def)
      have "daemon_inv_with J T (st\<lparr>store_async := Some sa'\<rparr>)" by (rule inv_store [OF assms(1) Some k])
      then show ?thesis
        using live Inr l assms(3) unfolding st' by (auto simp: daemon_inv_with_def acks_backed_def nth_list_update)
    qed
  qed
qed

lemma inv_persist_ip_list:
  "daemon_inv_with J T st \<Longrightarrow> persist_ip_list E st ip port seq rv na l = (r, st') \<Longrightarrow> daemon_inv_with J T st'"
  by (auto simp: persist_ip_list_def split: option.splits intro!: inv_with_store sa_keeps_ops elim: inv_persist_blob [OF _ _ deferred_reqs_mem(2)])

lemma inv_radio_fields [simp]:
  "daemon_inv_with J T (st\<lparr>radio := a\<rparr>) = daemon_inv_with J T st"
  "daemon_inv_with J T (st\<lparr>radio_committed := b\<rparr>) = daemon_inv_with J T st"
  "daemon_inv_with J T (st\<lparr>radio_applied_known := b\<rparr>) = daemon_inv_with J T st"
  "daemon_inv_with J T (st\<lparr>radio_recovery_state := c\<rparr>) = daemon_inv_with J T st"
  "daemon_inv_with J T (st\<lparr>radio_gen := g\<rparr>) = daemon_inv_with J T st"
  "daemon_inv_with J T (st\<lparr>radio_revert_pending := b\<rparr>) = daemon_inv_with J T st"
  "daemon_inv_with J T (st\<lparr>radio_revert_cfg := a\<rparr>) = daemon_inv_with J T st"
  "daemon_inv_with J T (st\<lparr>radio_revert_committed := b\<rparr>) = daemon_inv_with J T st"
  "daemon_inv_with J T (st\<lparr>radio_persist_baseline_valid := b\<rparr>) = daemon_inv_with J T st"
  "daemon_inv_with J T (st\<lparr>ip_change_pending := b\<rparr>) = daemon_inv_with J T st"
  "daemon_inv_with J T (st\<lparr>ip_change_list_no := n\<rparr>) = daemon_inv_with J T st"
  "daemon_inv_with J T (st\<lparr>ip_change_logout_deferred := b\<rparr>) = daemon_inv_with J T st"
  "daemon_inv_with J T (st\<lparr>should_reset := b\<rparr>) = daemon_inv_with J T st"
  "daemon_inv_with J T (st\<lparr>should_exit := b\<rparr>) = daemon_inv_with J T st"
  "daemon_inv_with J T (st\<lparr>reset_notice_sent := b\<rparr>) = daemon_inv_with J T st"
  "daemon_inv_with J T (st\<lparr>aborted := b\<rparr>) = daemon_inv_with J T st"
  "daemon_inv_with J T (st\<lparr>indication_enabled := b\<rparr>) = daemon_inv_with J T st"
  "daemon_inv_with J T (st\<lparr>ip_list_staging_active := b\<rparr>) = daemon_inv_with J T st"
  "daemon_inv_with J T (st\<lparr>password_unsynced := b\<rparr>) = daemon_inv_with J T st"
  "daemon_inv_with J T (st\<lparr>pending_ip_staging_active := b\<rparr>) = daemon_inv_with J T st"
  "daemon_inv_with J T (st\<lparr>pending_ip_staging_session_generation := g\<rparr>) = daemon_inv_with J T st"
  by (simp_all add: daemon_inv_with_def)

lemma inv_log [simp]: "daemon_inv_with J T (st\<lparr>log := log st @ [a]\<rparr>) \<longleftrightarrow> daemon_inv_with J T st \<and> action_ok a"
  by (auto simp: daemon_inv_with_def)

lemma action_ok_simps [simp]:
  "action_ok (Datagram ip port f)" "action_ok (ApplyRadio c)" "action_ok (PeerRoute a m)" "action_ok StartReboot"
  "action_ok (ApplyIp e i n) = armed_ok e n"
  by (simp_all add: action_ok_def)

lemma inv_radio_arm_revert [simp]: "daemon_inv_with J T (radio_arm_revert st b c v) = daemon_inv_with J T st"
  by (simp add: radio_arm_revert_def)

lemma inv_revert_drain: "daemon_inv_with J T st \<Longrightarrow> daemon_inv_with J T (opcd_radio_revert_drain E st)"
  by (auto simp: opcd_radio_revert_drain_def apply_radio_def)

lemma inv_arm:
  assumes "daemon_inv_with J T st"
  shows "daemon_inv_with J T (arm_ip_change_from_committed st)"
proof -
  let ?n = "ip_change_list_no st"
  have "armed_ok (il_slots (ip_list st) ! (unat ?n - 1)) ?n"
    if r: "slot_in_range ?n" and p: "il_present (ip_list st) ! (unat ?n - 1)"
  proof -
    have n: "1 \<le> unat ?n" "unat ?n \<le> 128" using r by (simp_all add: slot_in_range_def word_le_nat_alt)
    have "iplist_ok (ip_list st)" using assms by (simp add: daemon_inv_with_def)
    then have "entry_ok (unat ?n - 1 + 1) (il_slots (ip_list st) ! (unat ?n - 1))"
      using p n by (intro iplist_okD) simp_all
    then show ?thesis using r n by (simp add: armed_ok_def)
  qed
  then show ?thesis
    using assms by (auto simp: arm_ip_change_from_committed_def Let_def) (auto simp: daemon_inv_with_def)
qed

lemma inv_note_outcome: "daemon_inv_with J T st \<Longrightarrow> daemon_inv_with J T (password_note_outcome st c oc)"
  by (auto simp: password_note_outcome_def daemon_inv_with_def)

lemma note_outcome_pending [simp]: "pending_password (password_note_outcome st c oc) = pending_password st"
  by (simp add: password_note_outcome_def)

lemma inv_done_password: "daemon_inv_with J T st \<Longrightarrow> daemon_inv_with J T (done_password st oc)"
  using inv_note_outcome [of J T st "pending_password st" oc]
  by (auto simp: done_password_def Let_def daemon_inv_with_def)

lemma inv_done_ip_list:
  assumes "daemon_inv_with J T st"
  shows "daemon_inv_with J T (done_ip_list E st oc)"
proof -
  let ?p = "st\<lparr>ip_list := pending_ip_list st\<rparr>"
  define s1 where "s1 = (if oc = OPC_STORE_UNCHANGED then st
    else let st = iplist_mirror_user E ?p in
      if logged_in st \<and> session_generation st = pending_ip_staging_session_generation st
      then st\<lparr>ip_list_staging := pending_ip_staging st, ip_list_staging_active := pending_ip_staging_active st\<rparr>
      else st)"
  define s2 where "s2 = s1\<lparr>pending_ip_list := zero_ip_list, pending_ip_staging := zero_ip_list,
    pending_ip_staging_active := False, pending_ip_staging_session_generation := 0\<rparr>"
  have "daemon_inv_with J T ?p" using assms by (simp add: daemon_inv_with_def)
  then have "daemon_inv_with J T (iplist_mirror_user E ?p)" by (rule inv_mirror)
  then have "daemon_inv_with J T s1" using assms by (auto simp: s1_def Let_def) (simp add: daemon_inv_with_def)
  then have "daemon_inv_with J T s2" by (simp add: s2_def daemon_inv_with_def)
  moreover have "done_ip_list E st oc =
      (if ip_change_logout_deferred s2 then
         (if ip_change_pending (s2\<lparr>ip_change_logout_deferred := False\<rparr>)
             \<and> \<not> ip_change_commit_armed (s2\<lparr>ip_change_logout_deferred := False\<rparr>)
          then arm_ip_change_from_committed (s2\<lparr>ip_change_logout_deferred := False\<rparr>)
          else s2\<lparr>ip_change_logout_deferred := False\<rparr>)
       else s2)"
    by (simp only: done_ip_list_def s1_def s2_def Let_def)
  ultimately show ?thesis by (simp add: inv_arm)
qed

lemma inv_done_radio: "daemon_inv_with J T st \<Longrightarrow> daemon_inv_with J T (done_radio E st pa oc)"
  by (auto simp: done_radio_def Let_def inv_txn_clear intro!: inv_revert_drain)

lemma acks_backed_drop:
  assumes "acks_backed (insert t T) s pas" "\<And>i. i < 16 \<Longrightarrow> of_nat i = t \<Longrightarrow> \<not> pa_in_use (pas ! i)"
  shows "acks_backed T s pas"
  using assms by (auto simp: acks_backed_def)

lemma token_index: "i < 16 \<Longrightarrow> of_nat i = (t :: u64) \<longleftrightarrow> i = unat t"
  by (auto simp: unat_of_nat take_bit_nat_eq_self)

lemma inv_drop:
  assumes "daemon_inv_with J (insert t T) st" "\<And>i. i < 16 \<Longrightarrow> i = unat t \<Longrightarrow> \<not> pa_in_use (pending_acks st ! i)"
  shows "daemon_inv_with J T st"
  using assms acks_backed_drop [of t T "store_async st" "pending_acks st"]
  by (auto simp: daemon_inv_with_def token_index)

lemma on_done_skip:
  "16 \<le> unat (dn_token d) \<or> \<not> pa_in_use (pending_acks st ! unat (dn_token d)) \<Longrightarrow> on_done E d st = st"
  by (auto simp: on_done_def Let_def)

lemma on_done_eq:
  assumes "unat (dn_token d) < 16" "pa_in_use (pending_acks st ! unat (dn_token d))"
    and "s = done_reply (pending_acks st ! unat (dn_token d)) (done_ack d)
      (done_apply E (pending_acks st ! unat (dn_token d)) (dn_outcome d) st)"
  shows "on_done E d st = s\<lparr>pending_acks := (pending_acks s)[unat (dn_token d) :=
    (pending_acks s ! unat (dn_token d))\<lparr>pa_in_use := False\<rparr>]\<rparr>"
proof -
  have "unat (OPCD_STORE_TOKEN_MIRROR) \<ge> 16" by (simp add: OPCD_STORE_TOKEN_MIRROR_def)
  then have "dn_token d \<noteq> OPCD_STORE_TOKEN_MIRROR" using assms(1) by auto
  then show ?thesis using assms by (simp add: on_done_def Let_def)
qed

lemma inv_done_apply: "daemon_inv_with J T st \<Longrightarrow> daemon_inv_with J T (done_apply E pa oc st)"
  by (simp add: done_apply_def Let_def inv_done_password inv_done_ip_list inv_done_radio)

lemma inv_done_reply [simp]: "daemon_inv_with J T (done_reply pa a st) = daemon_inv_with J T st"
  by (simp add: done_reply_def Let_def)

lemma inv_on_done:
  assumes "daemon_inv_with J (insert (dn_token d) T) st"
  shows "daemon_inv_with J T (on_done E d st)"
proof (cases "16 \<le> unat (dn_token d) \<or> \<not> pa_in_use (pending_acks st ! unat (dn_token d))")
  case True
  then have "daemon_inv_with J T st" by (intro inv_drop [OF assms]) auto
  then show ?thesis by (simp add: on_done_skip [OF True])
next
  case False
  let ?i = "unat (dn_token d)" and ?T = "insert (dn_token d) T"
  define s where "s = done_reply (pending_acks st ! ?i) (done_ack d) (done_apply E (pending_acks st ! ?i) (dn_outcome d) st)"
  have e: "on_done E d st = s\<lparr>pending_acks := (pending_acks s)[?i := (pending_acks s ! ?i)\<lparr>pa_in_use := False\<rparr>]\<rparr>"
    using False by (intro on_done_eq s_def) simp_all
  have 3: "daemon_inv_with J ?T s" using assms by (simp add: s_def inv_done_apply)
  have l: "length (pending_acks s) = 16" using 3 by (simp add: daemon_inv_with_def acks_backed_def)
  have "daemon_inv_with J ?T (s\<lparr>pending_acks := (pending_acks s)[?i := (pending_acks s ! ?i)\<lparr>pa_in_use := False\<rparr>]\<rparr>)"
    using 3 l False by (auto simp: daemon_inv_with_def acks_backed_def nth_list_update split: if_splits)
  then show ?thesis unfolding e by (rule inv_drop) (simp add: l)
qed

lemma inv_on_dones:
  "daemon_inv_with J (dn_token ` set ds \<union> T) st \<Longrightarrow> daemon_inv_with J T (fold (on_done E) ds st)"
proof (induction ds arbitrary: st)
  case (Cons d ds)
  have "daemon_inv_with J (insert (dn_token d) (dn_token ` set ds \<union> T)) st" using Cons.prems by (simp add: Un_commute Un_left_commute)
  then have "daemon_inv_with J (dn_token ` set ds \<union> T) (on_done E d st)" by (rule inv_on_done)
  then show ?case using Cons.IH by simp
qed simp

lemma inv_drained:
  assumes "daemon_inv_with J {} st" "store_async st = Some sa" "opc_store_async_drain sa n = (ds, sa')"
  shows "daemon_inv_with J (dn_token ` set ds) (st\<lparr>store_async := Some sa'\<rparr>)"
proof -
  have inv: "sa_inv sa" "sa_joined sa = J" using assms by (simp_all add: daemon_inv_with_def store_ok_def)
  show ?thesis
    using assms(1,2) drain_inv(1) [OF inv(1) assms(3)] drain_live [OF inv(1) assms(3)] inv(2)
    by (auto simp: daemon_inv_with_def store_ok_def acks_backed_def)
qed

lemma inv_on_ready: "daemon_inv_with J {} st \<Longrightarrow> daemon_inv_with J {} (opcd_store_async_on_ready E st)"
  unfolding opcd_store_async_on_ready_def
  by (auto split: option.split prod.split dest: inv_drained intro: inv_on_dones [where T = "{}", simplified])

lemma inv_admit_once:
  "daemon_inv_with J T st \<Longrightarrow> admit_once st rs p n = (a, st') \<Longrightarrow> daemon_inv_with J T st'"
  by (auto simp: admit_once_def split: if_splits option.splits prod.splits sum.splits intro: inv_store [OF _ _ sa_keeps_ops(1)])

lemma inv_admit:
  assumes "daemon_inv st" "persist_admit E st rs p n = (a, st')"
  shows "daemon_inv st'"
proof (cases "store_async st = None")
  case False
  obtain a1 s1 where 1: "admit_once st rs p n = (a1, s1)" by force
  have i1: "daemon_inv s1" by (rule inv_admit_once [OF assms(1) 1])
  obtain a2 s2 where 2: "admit_once (opcd_store_async_on_ready E s1) rs p n = (a2, s2)" by force
  have "daemon_inv s2" by (rule inv_admit_once [OF inv_on_ready [OF i1] 2])
  with i1 show ?thesis using assms(2) 1 2 False by (auto simp: persist_admit_def split: option.splits)
qed (use assms in \<open>simp add: persist_admit_def\<close>)

end
