(* ===== verification/Handler_Inv.thy ===== *)
theory Handler_Inv
  imports Daemon_Inv
begin

text \<open>
  The contract between the dispatcher and the command handlers: every handler keeps the invariant of the daemon, and
  every handler but Login and GetBasicInformation does nothing for a peer that does not hold the session
  (GetBasicInformation answers everyone, and restarts the session's timer for its holder only). With it, the
  invariant holds in every reachable state of the process.
\<close>

subsection \<open>Handlers\<close>

text \<open>What the dispatcher relies on: a handler keeps the invariant; an owner's handler also does nothing for a
  peer that does not hold the session.\<close>

locale command_handler =
  fixes h :: opcd_handler_fn
  assumes keeps: "daemon_inv st \<Longrightarrow> daemon_inv (snd (h E st f ip port rcap seq))"

locale owner_handler = command_handler +
  assumes guarded: "\<not> session_owns st ip \<Longrightarrow> snd (h E st f ip port rcap seq) = st"
begin

lemma foreign_inert:
  "logged_in st \<Longrightarrow> holder_ip st \<noteq> ip \<Longrightarrow> snd (h E st f ip port rcap seq) = st"
  by (rule guarded) (simp add: session_owns_def)

lemma logged_out_inert: "\<not> logged_in st \<Longrightarrow> snd (h E st f ip port rcap seq) = st"
  by (rule guarded) (simp add: session_owns_def)

end

lemma snd_respond [simp]: "snd (respond pack r) = snd r"
  by (simp add: respond_def split: prod.split option.split)

lemma login_check_foreign: "\<not> session_owns st ip \<Longrightarrow> \<exists>err. check_login_required E st ip = Inl err"
  by (simp add: check_login_required_def)

lemma login_check_cases:
  "check_login_required E st ip = (if session_owns st ip then Inr (session_touch E st)
     else Inl (if logged_in st then OPC_ERR_LOGIN_CONDITION else OPC_ERR_LOGIN_VIOLATION))"
  by (simp add: check_login_required_def session_owns_def)

lemma inv_login_grant: "daemon_inv st \<Longrightarrow> daemon_inv (login_grant E st ip port)"
  unfolding login_grant_def Let_def
  by (rule inv_ind_only [OF init_complete_only], simp) (simp add: daemon_inv_with_def)

interpretation login: command_handler handle_login
  by unfold_locales (simp add: handle_login_def Let_def inv_login_grant)

interpretation logout: owner_handler handle_logout
  by unfold_locales
    (auto simp: handle_logout_def Let_def logout_arm_def session_owns_def intro!: inv_session_logout inv_arm)

interpretation basic_info: owner_handler handle_get_basic_info
  by unfold_locales (simp_all add: handle_get_basic_info_def Let_def)

interpretation device_info: owner_handler handle_get_device_info
  by unfold_locales (auto simp: handle_get_device_info_def Let_def login_check_cases)

lemma inv_password: "daemon_inv_with J T st \<Longrightarrow> pw_ok p \<Longrightarrow> daemon_inv_with J T (st\<lparr>password := p\<rparr>)"
  "daemon_inv_with J T st \<Longrightarrow> pw_ok p \<Longrightarrow> daemon_inv_with J T (st\<lparr>pending_password := p\<rparr>)"
  by (simp_all add: daemon_inv_with_def)

lemma inv_set_password_store:
  assumes "daemon_inv st" "length new \<le> 127"
  shows "daemon_inv (snd (set_password_store E st new ip port seq))"
proof -
  obtain a s1 where a: "persist_admit E st OPCD_PERSIST_PASSWORD (p_password (paths st)) (length new) = (a, s1)" by force
  have 1: "daemon_inv s1" by (rule inv_admit [OF assms(1) a])
  show ?thesis
  proof (cases a)
    case (Admitted rv)
    obtain r s2 where p: "persist_password E s1 new ip port seq rv = (r, s2)" by force
    have "daemon_inv s2" using p unfolding persist_password_def by (rule inv_persist_blob [OF 1 _ deferred_reqs_mem(1)])
    then show ?thesis
      using a Admitted p pw_ok_put [OF assms(2)]
      by (auto simp: set_password_store_def Let_def intro!: inv_password inv_note_outcome)
  qed (use 1 a in \<open>simp_all add: set_password_store_def\<close>)
qed

interpretation set_password: owner_handler handle_set_password
  by unfold_locales
    (auto simp: handle_set_password_def set_password_process_def login_check_cases Let_def split: option.split
      intro!: inv_set_password_store)

lemma slot_range_bounds: "slot_in_range n \<Longrightarrow> 1 \<le> unat n \<and> unat n \<le> 128"
  by (simp add: slot_in_range_def word_le_nat_alt)

lemma iplist_ok_put:
  assumes "iplist_ok l" "\<And>x. e = Some x \<Longrightarrow> entry_ok (slot + 1) x"
  shows "iplist_ok (slot_put l slot e)"
proof -
  have "entry_ok (i + 1) (il_slots (slot_put l slot e) ! i)" if "i < 128" "il_present (slot_put l slot e) ! i" for i
    using that assms by (cases e; cases "i = slot") (simp_all add: iplist_ok_def slot_put_def)
  then show ?thesis using assms(1) by (auto simp: iplist_ok_def slot_put_def split: option.split)
qed

lemma entry_terminated: "ipcfg_entry_error e t = 0 \<Longrightarrow> ipcfg_entry_error e True = 0"
proof (cases t)
  case False
  have c: "x \<noteq> 0 \<Longrightarrow> y \<noteq> 0 \<Longrightarrow> (if b then x else y) \<noteq> (0 :: u16)" for b x y by simp
  have "ipcfg_entry_error e False \<noteq> 0"
    unfolding ipcfg_entry_error_def Let_def simp_thms if_True by (intro c) simp_all
  moreover assume "ipcfg_entry_error e t = 0"
  ultimately show ?thesis using False by simp
qed simp

lemma entry_step_ok:
  assumes "iplist_ok (lt_candidate t)" "iplist_ok (lt_staging t)" "list_entry_step b e t = Inr t'"
  shows "iplist_ok (lt_candidate t') \<and> iplist_ok (lt_staging t')"
proof -
  have r: "slot_in_range (list_number e)" and v: "ip_address e \<noteq> 0 \<Longrightarrow> ipcfg_entry_error e b = 0"
    using assms(3) by (auto simp: list_entry_step_def Let_def split: if_splits)
  define put1 where "put1 l = slot_put l (unat (list_number e) - 1) (if ip_address e = 0 then None else Some e)" for l
  have p: "iplist_ok (put1 l)" if "iplist_ok l" for l
    using that slot_range_bounds [OF r] entry_terminated [OF v] unfolding put1_def
    by (intro iplist_ok_put) (auto simp: entry_ok_def split: if_splits)
  obtain l where l: "l \<in> {lt_candidate t, lt_staging t}"
    "t' \<in> {\<lparr>lt_candidate = put1 l, lt_staging = zero_ip_list, lt_active = False, lt_committed = True\<rparr>,
           t\<lparr>lt_staging := put1 l, lt_active := True\<rparr>}"
    using assms(3) unfolding list_entry_step_def Let_def put1_def [symmetric] by (simp split: if_splits) blast+
  then show ?thesis using p assms(1,2) by auto
qed

lemma entries_ok:
  "iplist_ok (lt_candidate t) \<Longrightarrow> iplist_ok (lt_staging t) \<Longrightarrow> list_entries m i es t = (err, t') \<Longrightarrow>
     iplist_ok (lt_candidate t') \<and> iplist_ok (lt_staging t')"
  by (induction m i es t rule: list_entries.induct) (auto split: sum.splits dest: entry_step_ok)

lemma inv_ip_lists:
  assumes "daemon_inv_with J T st" "iplist_ok a" "iplist_ok b"
  shows "daemon_inv_with J T (st\<lparr>ip_list_staging := a\<rparr>)"
    "daemon_inv_with J T (st\<lparr>ip_list := a, ip_list_staging := b\<rparr>)"
    "daemon_inv_with J T (st\<lparr>pending_ip_list := a, pending_ip_staging := b\<rparr>)"
  using assms by (simp_all add: daemon_inv_with_def)

lemma inv_set_ip_list_store:
  assumes "daemon_inv st" "iplist_ok (lt_candidate t)" "iplist_ok (lt_staging t)"
  shows "daemon_inv (snd (set_ip_list_store E st t err ip port seq rv))"
proof (cases "lt_committed t")
  case True
  obtain r s where p: "persist_ip_list E st ip port seq rv (err \<noteq> OPC_ERR_NONE) (lt_candidate t) = (r, s)" by force
  have i: "daemon_inv s" by (rule inv_persist_ip_list [OF assms(1) p])
  have "daemon_inv (iplist_mirror_user E (s\<lparr>ip_list := lt_candidate t, ip_list_staging := lt_staging t,
      ip_list_staging_active := lt_active t\<rparr>))"
    using i assms by (intro inv_mirror) (simp add: daemon_inv_with_def)
  moreover have "daemon_inv (s\<lparr>pending_ip_list := lt_candidate t, pending_ip_staging := lt_staging t,
      pending_ip_staging_active := lt_active t, pending_ip_staging_session_generation := g\<rparr>)" for g
    using i assms by (simp add: daemon_inv_with_def)
  ultimately show ?thesis using True p i by (auto simp: set_ip_list_store_def Let_def)
next
  case False
  have "daemon_inv (st\<lparr>ip_list_staging := lt_staging t, ip_list_staging_active := lt_active t\<rparr>)"
    using assms by (simp add: daemon_inv_with_def)
  then show ?thesis using False by (simp add: set_ip_list_store_def inv_with_store sa_keeps_ops)
qed

lemma inv_set_ip_list_process:
  assumes "daemon_inv st"
  shows "daemon_inv (snd (set_ip_list_process E st rq ip port seq))"
proof (cases "\<exists>req. rq = Inr req \<and> session_owns st ip
    \<and> \<not> is_request_retransmission (session_touch E st) OPC_REQ_SET_IP_CONFIG_LIST ip port")
  case True
  then obtain req where rq: "rq = Inr req" "session_owns st ip"
    "\<not> is_request_retransmission (session_touch E st) OPC_REQ_SET_IP_CONFIG_LIST ip port" by blast
  let ?s = "session_touch E st"
  obtain a s1 where a: "persist_admit E ?s OPCD_PERSIST_IP_LIST (p_ip_list (paths ?s)) OPC_IPLIST_TEXT_MAX = (a, s1)" by force
  have 1: "daemon_inv s1" using inv_admit [OF _ a] assms by simp
  then have l: "iplist_ok (ip_list s1)" "iplist_ok (ip_list_staging s1)" by (simp_all add: daemon_inv_with_def)
  obtain err t where e: "list_entries (essid_terminated_mask req) 0 (take (entry_count req) (entries req))
      \<lparr>lt_candidate = ip_list s1, lt_staging = ip_list_staging s1, lt_active = ip_list_staging_active s1,
       lt_committed = False\<rparr> = (err, t)" by force
  note k = entries_ok [OF _ _ e]
  show ?thesis
    using 1 l rq a e k by (cases a) (simp_all add: set_ip_list_process_def login_check_cases inv_set_ip_list_store)
next
  case False
  then show ?thesis
    using assms by (auto simp: set_ip_list_process_def login_check_cases split: sum.split)
qed

interpretation set_ip_config_list: owner_handler handle_set_ip_config_list
  by unfold_locales
    (simp_all add: handle_set_ip_config_list_def inv_set_ip_list_process, simp add: set_ip_list_process_def
      login_check_cases split: sum.split)

interpretation change_ip_address: owner_handler handle_change_ip_address
  by unfold_locales
    (auto simp: handle_change_ip_address_def login_check_cases Let_def split: option.split)

lemma bind_radio_gen_keeps:
  "length (bind_radio_gen g ip port pas) = length pas"
  "i < length pas \<Longrightarrow> pa_in_use (bind_radio_gen g ip port pas ! i) = pa_in_use (pas ! i)"
  "i < length pas \<Longrightarrow> pa_req_id (bind_radio_gen g ip port pas ! i) = pa_req_id (pas ! i)"
  by (induction pas arbitrary: i) (auto simp: nth_Cons split: nat.split)

lemma inv_radio_applied:
  assumes "daemon_inv st"
  shows "daemon_inv (snd (radio_applied E st req bv ip port seq rv))"
proof -
  define s1 where "s1 = st\<lparr>radio := req, radio_applied_known := True, radio_recovery_state := OPCD_RADIO_RECOVERY_HEALTHY,
    radio_gen := radio_gen st + 1, radio_committed := False\<rparr>"
  obtain r s2 where p: "persist_radio E s1 ip port seq rv = (r, s2)" by force
  have "daemon_inv s1" using assms by (simp add: s1_def)
  then have 2: "daemon_inv s2" using p unfolding persist_radio_def by (rule inv_persist_blob [OF _ _ deferred_reqs_mem(3)])
  then have "daemon_inv (s2\<lparr>pending_acks := bind_radio_gen g ip port (pending_acks s2)\<rparr>)" for g
    by (auto simp: daemon_inv_with_def acks_backed_def bind_radio_gen_keeps)
  then show ?thesis
    unfolding radio_applied_def s1_def [symmetric] Let_def p using 2 by (simp add: inv_txn_clear)
qed

lemma inv_radio_change:
  assumes "daemon_inv st"
  shows "daemon_inv (snd (radio_change E st req ip port seq))"
proof -
  obtain a s1 where a: "persist_admit E st OPCD_PERSIST_RADIO (p_radio (paths st)) (length (radio_bytes (radio st))) = (a, s1)"
    by force
  have 1: "daemon_inv s1" by (rule inv_admit [OF assms a])
  show ?thesis
  proof (cases a)
    case (Admitted rv)
    obtain ok s2 where t: "radio_txn_arm E s1 req = (ok, s2)" by force
    have 2: "daemon_inv s2" using inv_txn_arm [OF t] 1 by simp
    obtain rc s3 where ap: "apply_radio E s2 req = (rc, s3)" by force
    have 3: "daemon_inv s3" using 2 ap by (auto simp: apply_radio_def)
    have c: "daemon_inv s \<Longrightarrow> daemon_inv (with_store s (\<lambda>sa. opc_store_async_cancel sa rv))" for s
      by (rule inv_with_store) (simp_all add: sa_keeps_ops)
    show ?thesis
      using 2 3 a t ap Admitted by (simp add: radio_change_def Let_def c inv_radio_applied)
  qed (use 1 a in \<open>simp_all add: radio_change_def\<close>)
qed

interpretation set_radio_config: owner_handler handle_set_radio_config
  by unfold_locales
    (auto simp: handle_set_radio_config_def set_radio_process_def login_check_cases split: option.split
      intro!: inv_radio_change)

lemma inv_indication_configure:
  assumes "daemon_inv st"
  shows "daemon_inv (indication_configure E st req)"
proof -
  note i = inv_ind_only [OF init_complete_only] inv_ind_only [OF radio_up_only] inv_ind_only [OF coalesce_reset_only]
  show ?thesis
    unfolding indication_configure_def Let_def
    using assms by (auto intro!: i simp: daemon_inv_with_def [of _ _ "_\<lparr>indication_enabled := _, indication_recipient_ip := _,
        indication_recipient_port := _, indication_info_bits := _, indication_period_s := _,
        indication_tick_counter := _, radio_up_reported := _\<rparr>"] daemon_inv_with_def [of _ _ st])
qed

interpretation set_indication_config: owner_handler handle_set_indication_config
  by unfold_locales
    (auto simp: handle_set_indication_config_def login_check_cases Let_def split: option.split
      intro!: inv_indication_configure)

interpretation reset: owner_handler handle_reset
  by unfold_locales (auto simp: handle_reset_def login_check_cases)

subsection \<open>Dispatch\<close>

lemmas handler_keeps = login.keeps logout.keeps basic_info.keeps device_info.keeps set_password.keeps
  set_ip_config_list.keeps change_ip_address.keeps set_radio_config.keeps set_indication_config.keeps reset.keeps

lemmas handler_guarded = logout.guarded basic_info.guarded device_info.guarded set_password.guarded
  set_ip_config_list.guarded change_ip_address.guarded set_radio_config.guarded set_indication_config.guarded
  reset.guarded

lemma table_keeps:
  "map_of opcd_dispatch_table k = Some fn \<Longrightarrow> daemon_inv st \<Longrightarrow> daemon_inv (snd (fn E st f ip port rcap seq))"
  by (auto simp: opcd_dispatch_table_def handler_keeps split: if_splits)

lemma table_guarded:
  "map_of opcd_dispatch_table k = Some fn \<Longrightarrow> k \<noteq> OPC_REQ_LOGIN \<Longrightarrow> \<not> session_owns st ip \<Longrightarrow>
     snd (fn E st f ip port rcap seq) = st"
  by (auto simp: opcd_dispatch_table_def handler_guarded split: if_splits)

lemma inv_dispatch:
  assumes "daemon_inv st" "opcd_dispatch E st f ip port rcap = (rc, tx, st')"
  shows "daemon_inv st'"
  using assms inv_idle_logout [OF assms(1), of E] table_keeps
  by (auto simp: opcd_dispatch_def Let_def split: option.splits prod.splits if_splits dest!: arg_cong [of _ _ snd])

end
