(* ===== verification/Daemon_Safety.thy ===== *)
theory Daemon_Safety
  imports Handler_Inv
begin

text \<open>
  Safety of the process: the invariant holds from the start through every step of the loop and of the writer
  thread. The properties that follow are about sessions, address changes and requests whose answer was deferred.
\<close>

subsection \<open>The invariant at the start\<close>

lemma entry_error_cong [simp]:
  "ipcfg_entry_error (e\<lparr>boundary_flag := b, list_number := n\<rparr>) t = ipcfg_entry_error e t"
  by (simp add: ipcfg_entry_error_def)

lemma iplist_ok_list_put:
  assumes "iplist_ok l" "i < 128" "ip_address e \<noteq> 0" "ipcfg_entry_error e True = 0"
  shows "iplist_ok (list_put i e l)"
proof -
  have "entry_ok (j + 1) (il_slots (list_put i e l) ! j)" if "j < 128" "il_present (list_put i e l) ! j" for j
    using that assms by (cases "j = i") (simp_all add: iplist_ok_def list_put_def entry_ok_def)
  then show ?thesis using assms(1) by (auto simp: iplist_ok_def list_put_def)
qed

lemma from_text_ok: "iplist_from_text b strict = Some l \<Longrightarrow> iplist_ok l"
proof -
  have step: "iplist_ok l'" if "from_text_slot strict t i (Some l) = Some l'" "iplist_ok l" "i < 128" for t i l l'
    using that by (auto simp: from_text_slot_def text_slot_ok_def split: if_splits intro!: iplist_ok_list_put)
  have none: "fold (from_text_slot strict t) is None = None" for t "is"
    by (induction "is") (simp_all add: from_text_slot_def)
  have fold: "iplist_ok l'" if "fold (from_text_slot strict t) is (Some l) = Some l'" "iplist_ok l" "\<forall>i\<in>set is. i < 128"
    for t "is" l l'
    using that
  proof (induction "is" arbitrary: l)
    case (Cons i "is")
    then show ?case using none step by (cases "from_text_slot strict t i (Some l)") auto
  qed simp
  assume "iplist_from_text b strict = Some l"
  then show "iplist_ok l" by (auto simp: iplist_from_text_def Let_def split: if_splits dest!: fold)
qed

lemma convert_ok: "iplist_ok l \<Longrightarrow> \<forall>i\<in>set is. i < 128 \<Longrightarrow> iplist_ok (fold (convert_slot raw) is l)"
proof (induction "is" arbitrary: l)
  case (Cons i "is")
  have "iplist_ok (convert_slot raw i l)"
    using Cons.prems entry_terminated
    by (auto simp: convert_slot_def Let_def split: if_splits intro!: iplist_ok_list_put)
  then show ?case using Cons by simp
qed simp

lemma inv_ip_list: "daemon_inv st \<Longrightarrow> iplist_ok l \<Longrightarrow> daemon_inv (st\<lparr>ip_list := l\<rparr>)"
  by (simp add: daemon_inv_with_def)

lemma inv_read: "fs_read E st p n = (c, st') \<Longrightarrow> daemon_inv st \<Longrightarrow> daemon_inv st'"
  using inv_fs [OF fs_erase_D(2)] by blast

lemma inv_write: "fs_write E st p d m = (r, st') \<Longrightarrow> daemon_inv st \<Longrightarrow> daemon_inv st'"
  using inv_fs [OF fs_erase_D(1)] by blast

lemma inv_rename: "daemon_inv st \<Longrightarrow> daemon_inv (fs_rename E st a b)"
  using inv_fs [OF fs_erase_ops(3)] by blast

lemma inv_iplist_write: "iplist_write E st p l b = (ok, st') \<Longrightarrow> daemon_inv st \<Longrightarrow> daemon_inv st'"
  by (auto simp: iplist_write_def split: option.splits prod.splits if_splits dest: inv_read inv_write)

lemma inv_retire: "daemon_inv st \<Longrightarrow> daemon_inv (iplist_retire_legacy E st p)"
  by (simp add: iplist_retire_legacy_def inv_rename split: option.split)

lemma inv_convert_legacy:
  assumes "daemon_inv st" "iplist_convert_legacy E st = (r, st')"
  shows "daemon_inv st'"
  using assms inv_ip_list [OF assms(1) iplist_ok_zero]
  by (auto simp: iplist_convert_legacy_def Let_def split: option.splits prod.splits if_splits bool.splits
      dest!: inv_read inv_iplist_write intro!: inv_retire inv_ip_list convert_ok)

lemma inv_own_text:
  assumes "daemon_inv st" "load_own_text E st = (r, st')"
  shows "daemon_inv st'"
  using assms by (auto simp: load_own_text_def split: option.splits prod.splits if_splits
      dest!: inv_read intro!: inv_ip_list dest: from_text_ok)

lemma inv_load_own:
  assumes "daemon_inv st"
  shows "daemon_inv (snd (iplist_load_own E st))"
proof -
  define s0 where "s0 = st\<lparr>ip_list := zero_ip_list\<rparr>"
  have 0: "daemon_inv s0" using assms by (simp add: s0_def inv_ip_list)
  obtain cr s1 where c: "iplist_convert_legacy E s0 = (cr, s1)" by force
  have 1: "daemon_inv s1" by (rule inv_convert_legacy [OF 0 c])
  have t: "daemon_inv s \<Longrightarrow> daemon_inv (snd (load_own_text E s))" for s
    using inv_own_text [of s E] by (cases "load_own_text E s") simp
  show ?thesis
    unfolding iplist_load_own_def Let_def s0_def [symmetric]
    by (simp add: c 0 1 t inv_ip_list inv_retire split: option.split)
qed

lemma inv_reject_user: "daemon_inv st \<Longrightarrow> daemon_inv (iplist_reject_user E st u)"
  by (simp add: iplist_reject_user_def Let_def inv_write_user inv_rename)

lemma inv_apply_user:
  assumes "daemon_inv st" "iplist_ok l"
  shows "daemon_inv (iplist_apply_user E st b l)"
proof -
  obtain ok s where w: "iplist_write E (st\<lparr>ip_list := l\<rparr>) (p_ip_list (paths st)) l True = (ok, s)" by force
  have s: "daemon_inv s" using inv_iplist_write [OF w] assms by (simp add: inv_ip_list)
  have "daemon_inv (snd (fs_write E s p b m))" for p m using inv_write [of E s p b m] s by (cases "fs_write E s p b m") simp
  then show ?thesis using w s by (simp add: iplist_apply_user_def split: bool.split option.split)
qed

lemma inv_iplist_load:
  assumes "daemon_inv st"
  shows "daemon_inv (snd (opcd_iplist_load E st))"
proof -
  obtain lr s1 where o: "iplist_load_own E st = (lr, s1)" by force
  have 1: "daemon_inv s1" using inv_load_own [OF assms, of E] o by simp
  have u: "daemon_inv s2" if "iplist_user_unreplaced E s1 inp = (b, s2)" for inp b s2
    using that 1 by (auto simp: iplist_user_unreplaced_def split: option.splits prod.splits dest: inv_read)
  show ?thesis
    using 1 by (auto simp: opcd_iplist_load_def o Let_def inv_write_user inv_reject_user
        split: option.split user_read.split prod.split bool.split dest: u intro!: inv_apply_user from_text_ok)
qed

lemma inv_radio_load:
  assumes "daemon_inv st"
  shows "daemon_inv (snd (opcd_radio_conf_load E st))"
proof -
  obtain b s1 where r: "fs_read E st (p_radio (paths st)) 64 = (b, s1)" by force
  have 1: "daemon_inv s1" by (rule inv_read [OF r assms])
  obtain rr c where d: "opcd_radio_conf_restore b = (rr, c)" by force
  have w: "daemon_inv s2" if "fs_write E s p x m = (q, s2)" "daemon_inv s" for s p x m q s2 by (rule inv_write [OF that])
  show ?thesis
    using 1 by (auto simp: opcd_radio_conf_load_def r d Let_def split: option.split prod.split bool.split dest!: w)
qed

text \<open>Loading the lists and the radio configuration changes these and the files only.\<close>

definition load_erase :: "opcd_state_t \<Rightarrow> opcd_state_t" where
  "load_erase st = (fs_erase st)\<lparr>ip_list := zero_ip_list, radio := zero_radio, radio_committed := False\<rparr>"

lemma load_fs: "fs_erase st' = fs_erase st \<Longrightarrow> load_erase st' = load_erase st"
  by (simp add: load_erase_def)

lemma load_fields [simp]:
  "load_erase (st\<lparr>ip_list := l\<rparr>) = load_erase st" "load_erase (st\<lparr>radio := r\<rparr>) = load_erase st"
  "load_erase (st\<lparr>radio_committed := b\<rparr>) = load_erase st"
  by (simp_all add: load_erase_def fs_erase_def)

lemma load_ops [simp]:
  "load_erase (iplist_write_user E st u) = load_erase st"
  "load_erase (snd (fs_write E st p d m)) = load_erase st"
  "load_erase (fs_rename E st x y) = load_erase st"
  by (rule load_fs, simp)+

lemma load_retire [simp]: "load_erase (iplist_retire_legacy E st q) = load_erase st"
  by (simp add: iplist_retire_legacy_def split: option.split)

lemma load_reject [simp]: "load_erase (iplist_reject_user E st u) = load_erase st"
  by (simp add: iplist_reject_user_def Let_def)

lemma load_D:
  "fs_read E st p n = (c, st') \<Longrightarrow> load_erase st' = load_erase st"
  "fs_write E st p d m = (r, st') \<Longrightarrow> load_erase st' = load_erase st"
  by (auto intro: load_fs fs_erase_D)

lemma load_iplist_write: "iplist_write E st p l b = (ok, st') \<Longrightarrow> load_erase st' = load_erase st"
  by (auto simp: iplist_write_def split: option.splits prod.splits if_splits dest!: load_D)

lemma load_convert: "iplist_convert_legacy E st = (r, st') \<Longrightarrow> load_erase st' = load_erase st"
  by (auto simp: iplist_convert_legacy_def Let_def split: option.splits prod.splits if_splits bool.splits
      dest!: load_D load_iplist_write)

lemma load_own: "load_erase (snd (iplist_load_own E st)) = load_erase st"
proof -
  define s0 where "s0 = st\<lparr>ip_list := zero_ip_list\<rparr>"
  obtain cr s1 where c: "iplist_convert_legacy E s0 = (cr, s1)" by force
  have t: "load_erase (snd (load_own_text E s)) = load_erase s" for s
    by (auto simp: load_own_text_def split: option.splits prod.splits dest!: load_D)
  have 0: "load_erase s0 = load_erase st" by (simp add: s0_def)
  show ?thesis
    unfolding iplist_load_own_def Let_def s0_def [symmetric]
    using load_convert [OF c] by (simp add: c t 0 split: option.split)
qed

lemma load_iplist: "load_erase (snd (opcd_iplist_load E st)) = load_erase st"
proof -
  obtain lr s1 where o: "iplist_load_own E st = (lr, s1)" by force
  have 1: "load_erase s1 = load_erase st" using load_own [of E st] o by simp
  have u: "iplist_user_unreplaced E s1 inp = (b, s2) \<Longrightarrow> load_erase s2 = load_erase st" for inp b s2
    using 1 by (auto simp: iplist_user_unreplaced_def split: option.splits prod.splits dest!: load_D)
  have ap: "load_erase (iplist_apply_user E s inp l) = load_erase s" for s inp l
    by (auto simp: iplist_apply_user_def split: prod.split bool.split option.split dest!: load_iplist_write)
  show ?thesis
    using 1 by (auto simp: opcd_iplist_load_def o Let_def ap
        split: option.split user_read.split prod.split bool.split dest: u)
qed

lemma load_radio: "load_erase (snd (opcd_radio_conf_load E st)) = load_erase st"
  by (auto simp: opcd_radio_conf_load_def Let_def split: option.split prod.split bool.split dest!: load_D)

lemma inv_defaults: "daemon_inv (state_set_defaults F)"
proof -
  have "pw_ok (put 0 OPC_PASSWORD_DEFAULT zero_password)"
    by (rule pw_ok_put) (simp add: OPC_PASSWORD_DEFAULT_def bytes_of_def)
  then show ?thesis
    by (simp add: daemon_inv_with_def state_set_defaults_def store_ok_def acks_backed_def zero_pending_ack_def)
qed

text \<open>What the start leaves: the defaults and the options, but for the loaded fields.\<close>

lemma start_shape:
  assumes "main_start E sys o0 F = Some st"
    and s0: "s0 = main_configure o0 (state_set_defaults F)"
    and r: "fs_read E s0 (p_password (paths s0)) (OPC_PASSWORD_BUF - 1) = (pw, s1)"
    and s2: "s2 = (case pw of None \<Rightarrow> s1 | Some b \<Rightarrow> if b = [] then s1 else s1\<lparr>password := put 0 b zero_password\<rparr>)"
    and s3: "s3 = snd (opcd_iplist_load E (snd (opcd_radio_conf_load E s2)))"
  shows "st = s3\<lparr>udp_fd := ss_udp_fd sys, boot_status := OPC_DEVICE_READY,
      store_async := (if ss_store_epoll sys then opc_store_async_create (ss_create sys) else None)\<rparr>"
    "load_erase s3 = load_erase s2" "load_erase s1 = load_erase s0" "0 \<le> ss_udp_fd sys"
proof -
  have "\<exists>i. state_load_from_disk E s0 = (i, s3)"
    unfolding state_load_from_disk_def s3 s2 Let_def r by simp
  then show "st = s3\<lparr>udp_fd := ss_udp_fd sys, boot_status := OPC_DEVICE_READY,
      store_async := (if ss_store_epoll sys then opc_store_async_create (ss_create sys) else None)\<rparr>" "0 \<le> ss_udp_fd sys"
    using assms(1) by (auto simp: main_start_def s0 [symmetric] Let_def split: if_splits)
  show "load_erase s3 = load_erase s2" by (simp add: s3 load_iplist load_radio)
  show "load_erase s1 = load_erase s0" by (rule load_D(1) [OF r])
qed

lemma inv_start:
  assumes "main_start E sys o0 F = Some st"
  shows "daemon_inv st"
proof -
  define s0 where "s0 = main_configure o0 (state_set_defaults F)"
  have 0: "daemon_inv s0"
    using inv_defaults [of F] by (simp add: s0_def main_configure_def Let_def daemon_inv_with_def split: option.split)
  obtain pw s1 where r: "fs_read E s0 (p_password (paths s0)) (OPC_PASSWORD_BUF - 1) = (pw, s1)" by force
  define s2 where "s2 = (case pw of None \<Rightarrow> s1 | Some b \<Rightarrow> if b = [] then s1 else s1\<lparr>password := put 0 b zero_password\<rparr>)"
  have "pw = Some b \<Longrightarrow> length b \<le> 127" for b
    using r by (auto simp: fs_read_def opc_store_read_all_def split: option.splits if_splits dest!: read_loop_prefix)
  then have 2: "daemon_inv s2"
    using inv_read [OF r 0] by (auto simp: s2_def inv_password pw_ok_put split: option.split)
  define s3 where "s3 = snd (opcd_iplist_load E (snd (opcd_radio_conf_load E s2)))"
  have 3: "daemon_inv s3" unfolding s3_def by (intro inv_iplist_load inv_radio_load 2)
  note sh = start_shape [OF assms s0_def r s2_def s3_def]
  have "store_async s3 = None"
  proof -
    have k: "store_async (load_erase s) = store_async s" for s by (simp add: load_erase_def fs_erase_def)
    have "store_async s2 = store_async s1" by (simp add: s2_def split: option.split)
    then have "store_async s3 = store_async s0" using sh(2,3) by (metis k)
    then show ?thesis by (simp add: s0_def main_configure_def Let_def state_set_defaults_def split: option.split)
  qed
  then show ?thesis
    using 3 sa_inv_create unfolding sh(1)
    by (auto simp: daemon_inv_with_def store_ok_def acks_backed_def opc_store_async_create_def opc_store_async_fresh_def)
qed

subsection \<open>The invariant in every step\<close>

lemma inv_post_ack: "daemon_inv st \<Longrightarrow> daemon_inv (opcd_post_ack E st)"
  by (simp add: opcd_post_ack_def inv_ind_only [OF reports_only(5)])

lemma inv_after_dispatch: "daemon_inv st \<Longrightarrow> daemon_inv (after_dispatch E ip port (rc, tx, st))"
  by (auto simp: after_dispatch_def Let_def intro!: inv_revert_drain inv_post_ack)

lemma inv_reject: "daemon_inv st \<Longrightarrow> daemon_inv (opcd_reject_bad_length st f ip port)"
  by (auto simp: opcd_reject_bad_length_def Let_def split: option.split)

lemma inv_udp_datagram:
  assumes "daemon_inv st"
  shows "daemon_inv (on_udp_datagram E d ip port st)"
proof -
  obtain rc tx s where "opcd_dispatch E st (take (opcd_intake_frame_len (Some (take OPC_FRAME_MAX d))) (take OPC_FRAME_MAX d))
      ip port OPC_FRAME_MAX = (rc, tx, s)" by (metis surj_pair)
  then show ?thesis
    using inv_dispatch [OF assms] by (simp add: on_udp_datagram_def Let_def inv_after_dispatch inv_reject assms)
qed

lemma platform_event_only: "ind_only st (on_platform_event E evt st)"
  by (cases evt) (simp_all add: init_complete_only wlan_status_only reports_only)

lemma roam_only: "ind_only st (on_roam_datagram E d st)"
  by (simp add: on_roam_datagram_def platform_event_only split: option.split)

lemma inv_signal: "daemon_inv st \<Longrightarrow> daemon_inv (on_signal E t b turns waits st)"
  by (simp add: on_signal_def Let_def inv_ind_only [OF reports_only(5)])

lemma inv_timer: "daemon_inv st \<Longrightarrow> daemon_inv (on_timer E xs st)"
  unfolding on_timer_def Let_def by (intro inv_ind_only [OF tick_only] inv_idle_logout)

lemma inv_apply_ip: "daemon_inv st \<Longrightarrow> daemon_inv (opcd_apply_pending_ip_change E st)"
proof -
  have a: "daemon_inv s \<Longrightarrow> daemon_inv (ip_change_applied E s e)" for s e
    by (simp add: ip_change_applied_def Let_def inv_session_logout)
  have c: "daemon_inv s \<Longrightarrow> daemon_inv (s\<lparr>ip_change_pending := False, ip_change_commit_armed := False,
      ip_change_list_no := 0, ip_change_armed_no := 0, ip_change_armed_entry := zero_ipcfg_entry\<rparr>)" for s
    by (simp add: daemon_inv_with_def)
  assume i: "daemon_inv st"
  have "ip_change_commit_armed st \<Longrightarrow> armed_ok (ip_change_armed_entry st) (ip_change_armed_no st)"
    using i by (simp add: daemon_inv_with_def)
  with i show ?thesis
    unfolding opcd_apply_pending_ip_change_def Let_def by (simp add: a c)
qed

lemma finish_keeps:
  assumes "sa_inv sa" "\<not> sa_joined sa" "opc_store_async_finish sys sa F = (sa', F')"
  shows "sa_inv sa'" "sa_joined sa'" "job_live sa t \<Longrightarrow> job_live sa' t" "busy sa' = []"
proof -
  let ?sa = "sa\<lparr>sa_shutdown := True\<rparr>"
  obtain sa1 F1 where c: "worker_complete (sys (sa_q_count sa)) ?sa F = (sa1, F1)" by force
  obtain sa2 F2 where r: "worker_run (sa_q_count sa1) sys sa1 F1 = (sa2, F2)" by force
  have e: "sa' = sa2\<lparr>sa_joined := True\<rparr>" using assms c r by (simp add: opc_store_async_finish_def)
  have i0: "sa_inv ?sa" using assms(1) by simp
  note w = worker_complete_inv [OF i0 c] and k = sa_keeps_complete [OF c]
  note d = worker_run_drains [OF w(1) w(3) refl r]
  have 2: "sa_inv sa2" "busy sa2 = []" using d by simp_all
  have j: "sa_inv (s\<lparr>sa_joined := b\<rparr>) = sa_inv s" "busy (s\<lparr>sa_joined := b\<rparr>) = busy s" for s b
    by (simp_all add: sa_inv_def busy_def queue_of_def)
  show "sa_inv sa'" "sa_joined sa'" "busy sa' = []" using 2 by (simp_all add: e j)
  assume "job_live sa t"
  then have "job_live ?sa t" by (simp add: job_live_def)
  then have l1: "job_live sa1 t" using k i0 by (simp add: sa_keeps_def)
  have "jb_state (sa_jobs sa2 ! i) \<in> {JOB_QUEUED, JOB_DONE} \<and> jb_token (sa_jobs sa2 ! i) = jb_token (sa_jobs sa1 ! i)"
    if "jb_state (sa_jobs sa1 ! i) \<in> {JOB_QUEUED, JOB_DONE}" for i
    using d that by (cases "i \<in> set (queue_of sa1)") (auto simp: job_key_def)
  then have "job_live sa2 t" using l1 by (rule live_cong)
  then show "job_live sa' t" by (simp add: e job_live_def)
qed

text \<open>The state in which the shutdown reconciles the completions of the finished writer.\<close>

lemma inv_finished:
  assumes "daemon_inv st" "store_async st = Some sa" "opc_store_async_finish sys sa (fs st) = (sa', F')"
  shows "daemon_inv_with True {} (st\<lparr>store_async := Some sa', fs := F'\<rparr>)"
proof -
  have i: "sa_inv sa" "\<not> sa_joined sa" using assms by (simp_all add: daemon_inv_with_def store_ok_def)
  show ?thesis
    using assms(1,2) finish_keeps(1,2,3) [OF i assms(3)] by (auto simp: daemon_inv_with_def store_ok_def acks_backed_def)
qed

end
