(* ===== verification/Daemon_Runs.thy ===== *)
theory Daemon_Runs
  imports Daemon_Safety
begin

text \<open>
  Runs of the process: what a completion does to the pending acknowledgments, the shutdown, and the invariant in
  every reachable state.
\<close>

subsection \<open>Completions\<close>

text \<open>The work that precedes the answer of a completion appends to the log and keeps the socket and the pending
  acknowledgments.\<close>

definition answer_frame :: "opcd_state_t \<Rightarrow> opcd_state_t \<Rightarrow> bool" where
  "answer_frame st st' \<longleftrightarrow> (\<exists>ds. log st' = log st @ ds) \<and> udp_fd st' = udp_fd st \<and> pending_acks st' = pending_acks st
     \<and> should_reset st' = should_reset st"

lemma answer_frame_refl [simp]: "answer_frame st st"
  by (simp add: answer_frame_def)

lemma answer_frame_trans: "answer_frame a b \<Longrightarrow> answer_frame b c \<Longrightarrow> answer_frame a c"
  by (auto simp: answer_frame_def)

lemma answer_frame_fs: "fs_erase st' = fs_erase st \<Longrightarrow> answer_frame st st'"
proof -
  have "log s = log (fs_erase s)" "udp_fd s = udp_fd (fs_erase s)" "pending_acks s = pending_acks (fs_erase s)"
      "should_reset s = should_reset (fs_erase s)" for s
    by (simp_all add: fs_erase_def)
  then show "fs_erase st' = fs_erase st \<Longrightarrow> ?thesis" unfolding answer_frame_def by (metis append_Nil2)
qed

lemma answer_frame_password: "answer_frame st (done_password st oc)"
  by (simp add: answer_frame_def done_password_def password_note_outcome_def Let_def)

lemma answer_frame_write_user: "answer_frame st (iplist_write_user E st u)"
  by (rule answer_frame_fs) simp

lemma answer_frame_mirror: "answer_frame st (iplist_mirror_user E st)"
  using answer_frame_write_user [of st E] answer_frame_write_user [of "st\<lparr>store_async := Some s\<rparr>" E for s]
  by (auto simp: iplist_mirror_user_def answer_frame_def split: option.split prod.split sum.split)

lemma answer_frame_arm: "answer_frame st (arm_ip_change_from_committed st)"
  by (simp add: answer_frame_def arm_ip_change_from_committed_def Let_def)

lemma answer_frame_ip_list: "answer_frame st (done_ip_list E st oc)"
proof -
  define s1 where "s1 = (if oc = OPC_STORE_UNCHANGED then st
    else let st = iplist_mirror_user E (st\<lparr>ip_list := pending_ip_list st\<rparr>) in
      if logged_in st \<and> session_generation st = pending_ip_staging_session_generation st
      then st\<lparr>ip_list_staging := pending_ip_staging st, ip_list_staging_active := pending_ip_staging_active st\<rparr>
      else st)"
  define s2 where "s2 = s1\<lparr>pending_ip_list := zero_ip_list, pending_ip_staging := zero_ip_list,
    pending_ip_staging_active := False, pending_ip_staging_session_generation := 0\<rparr>"
  have 1: "answer_frame st s1"
    using answer_frame_mirror [of "st\<lparr>ip_list := pending_ip_list st\<rparr>" E] by (auto simp: s1_def Let_def answer_frame_def)
  have 2: "answer_frame st s2" using 1 by (auto simp: s2_def answer_frame_def)
  have "answer_frame s2 (arm_ip_change_from_committed (s2\<lparr>ip_change_logout_deferred := False\<rparr>))"
    using answer_frame_arm [of "s2\<lparr>ip_change_logout_deferred := False\<rparr>"] by (simp add: answer_frame_def)
  moreover have "answer_frame s2 (s2\<lparr>ip_change_logout_deferred := False\<rparr>)" by (simp add: answer_frame_def)
  moreover have "done_ip_list E st oc =
      (if ip_change_logout_deferred s2 then
         (if ip_change_pending (s2\<lparr>ip_change_logout_deferred := False\<rparr>)
             \<and> \<not> ip_change_commit_armed (s2\<lparr>ip_change_logout_deferred := False\<rparr>)
          then arm_ip_change_from_committed (s2\<lparr>ip_change_logout_deferred := False\<rparr>)
          else s2\<lparr>ip_change_logout_deferred := False\<rparr>)
       else s2)"
    by (simp only: done_ip_list_def s1_def s2_def Let_def)
  ultimately show ?thesis using 2 by (simp add: answer_frame_trans [OF 2])
qed

lemma answer_frame_drain: "answer_frame st (opcd_radio_revert_drain E st)"
  by (simp add: answer_frame_def opcd_radio_revert_drain_def apply_radio_def)

lemma answer_frame_done_radio: "answer_frame st (done_radio E st pa oc)"
proof -
  have t: "answer_frame st (radio_txn_clear E (st\<lparr>radio_committed := True\<rparr>))"
    using answer_frame_fs [OF fs_erase_txn_clear, of "st\<lparr>radio_committed := True\<rparr>" E] by (simp add: answer_frame_def)
  have r: "answer_frame st (opcd_radio_revert_drain E (radio_arm_revert (st\<lparr>radio_committed := False\<rparr>) a b c))" for a b c
    using answer_frame_drain [of "radio_arm_revert (st\<lparr>radio_committed := False\<rparr>) a b c" E]
    by (auto simp: answer_frame_def radio_arm_revert_def)
  show ?thesis using t r by (auto simp: done_radio_def Let_def answer_frame_def)
qed

lemma answer_frame_apply: "answer_frame st (done_apply E pa oc st)"
  by (auto simp: done_apply_def Let_def answer_frame_password answer_frame_ip_list answer_frame_done_radio
      intro: answer_frame_trans [OF answer_frame_password answer_frame_done_radio]
        answer_frame_trans [OF answer_frame_ip_list answer_frame_done_radio])

lemma answer_frame_reply: "answer_frame st (done_reply pa a st)"
  by (simp add: done_reply_def Let_def answer_frame_def)

lemma pa_same: "pa_in_use pa = b \<Longrightarrow> pa\<lparr>pa_in_use := b\<rparr> = pa"
  by auto

text \<open>A completion clears its own slot and answers the request that waits there.\<close>

lemma on_done_effect:
  assumes "length (pending_acks st) = 16"
  shows "udp_fd (on_done E d st) = udp_fd st" "should_reset (on_done E d st) = should_reset st" "\<exists>ds. log (on_done E d st) = log st @ ds"
    "length (pending_acks (on_done E d st)) = 16"
    "i < 16 \<Longrightarrow> pending_acks (on_done E d st) ! i =
       (pending_acks st ! i)\<lparr>pa_in_use := pa_in_use (pending_acks st ! i) \<and> i \<noteq> unat (dn_token d)\<rparr>"
    "unat (dn_token d) = i \<Longrightarrow> i < 16 \<Longrightarrow> pa_in_use (pending_acks st ! i) \<Longrightarrow> \<not> pa_no_ack (pending_acks st ! i) \<Longrightarrow>
       0 \<le> udp_fd st \<Longrightarrow> deferred_ack (pending_acks st ! i) (done_ack d) \<noteq> [] \<Longrightarrow>
       Datagram (pa_client_ip (pending_acks st ! i)) (pa_client_port (pending_acks st ! i))
         (deferred_ack (pending_acks st ! i) (done_ack d)) \<in> set (log (on_done E d st))"
proof -
  let ?i = "unat (dn_token d)"
  let ?pa = "pending_acks st ! ?i"
  let ?skip = "16 \<le> ?i \<or> \<not> pa_in_use ?pa"
  note skip = on_done_skip [of d st E]
  define s2 where "s2 = done_apply E ?pa (dn_outcome d) st"
  define s3 where "s3 = done_reply ?pa (done_ack d) s2"
  have e: "on_done E d st = s3\<lparr>pending_acks := (pending_acks s3)[?i := (pending_acks s3 ! ?i)\<lparr>pa_in_use := False\<rparr>]\<rparr>"
    if "\<not> ?skip" using that by (intro on_done_eq) (simp_all add: s3_def s2_def)
  have f2: "answer_frame st s2" by (simp add: s2_def answer_frame_apply)
  then have f3: "answer_frame st s3" using answer_frame_trans [OF _ answer_frame_reply] by (simp add: s3_def)
  show "udp_fd (on_done E d st) = udp_fd st" using f3 e skip by (cases ?skip) (auto simp: answer_frame_def)
  show "should_reset (on_done E d st) = should_reset st" using f3 e skip by (cases ?skip) (auto simp: answer_frame_def)
  show "\<exists>ds. log (on_done E d st) = log st @ ds" using f3 e skip by (cases ?skip) (auto simp: answer_frame_def)
  show "length (pending_acks (on_done E d st)) = 16"
    using f3 e skip assms by (cases ?skip) (auto simp: answer_frame_def)
  show "pending_acks (on_done E d st) ! i =
      (pending_acks st ! i)\<lparr>pa_in_use := pa_in_use (pending_acks st ! i) \<and> i \<noteq> ?i\<rparr>" if "i < 16"
  proof (cases ?skip)
    case True
    then have "(pa_in_use (pending_acks st ! i) \<and> i \<noteq> ?i) = pa_in_use (pending_acks st ! i)" using that by auto
    then show ?thesis by (simp add: skip [OF True] pa_same)
  next
    case False
    then have "pa_in_use ?pa" by simp
    with False that f3 assms show ?thesis
      by (cases "i = ?i") (simp_all add: e [OF False] answer_frame_def pa_same)
  qed
  show "Datagram (pa_client_ip (pending_acks st ! i)) (pa_client_port (pending_acks st ! i))
      (deferred_ack (pending_acks st ! i) (done_ack d)) \<in> set (log (on_done E d st))"
    if "?i = i" "i < 16" "pa_in_use (pending_acks st ! i)" "\<not> pa_no_ack (pending_acks st ! i)" "0 \<le> udp_fd st"
      "deferred_ack (pending_acks st ! i) (done_ack d) \<noteq> []"
  proof -
    have "udp_fd s2 = udp_fd st" using f2 by (simp add: answer_frame_def)
    then show ?thesis using that e by (auto simp: s3_def done_reply_def Let_def)
  qed
qed

text \<open>A batch of completions.\<close>

lemma on_dones_effect:
  assumes "length (pending_acks st) = 16"
  shows "udp_fd (fold (on_done E) ds st) = udp_fd st" "should_reset (fold (on_done E) ds st) = should_reset st"
    "\<exists>ls. log (fold (on_done E) ds st) = log st @ ls" "length (pending_acks (fold (on_done E) ds st)) = 16"
    "i < 16 \<Longrightarrow> pending_acks (fold (on_done E) ds st) ! i =
       (pending_acks st ! i)\<lparr>pa_in_use := pa_in_use (pending_acks st ! i) \<and> (\<forall>d\<in>set ds. i \<noteq> unat (dn_token d))\<rparr>"
proof -
  have "udp_fd (fold (on_done E) ds st) = udp_fd st \<and> should_reset (fold (on_done E) ds st) = should_reset st
    \<and> (\<exists>ls. log (fold (on_done E) ds st) = log st @ ls) \<and> length (pending_acks (fold (on_done E) ds st)) = 16
    \<and> (\<forall>i<16. pending_acks (fold (on_done E) ds st) ! i =
       (pending_acks st ! i)\<lparr>pa_in_use := pa_in_use (pending_acks st ! i) \<and> (\<forall>d\<in>set ds. i \<noteq> unat (dn_token d))\<rparr>)"
    using assms
  proof (induction ds arbitrary: st)
    case (Cons d ds)
    note e = on_done_effect [OF Cons.prems, where E = E and d = d]
    from Cons.IH [OF e(4)] e(1-3,5) show ?case by (auto simp: conj_ac)
  qed (simp add: pa_same)
  then show "udp_fd (fold (on_done E) ds st) = udp_fd st" "should_reset (fold (on_done E) ds st) = should_reset st"
    "\<exists>ls. log (fold (on_done E) ds st) = log st @ ls" "length (pending_acks (fold (on_done E) ds st)) = 16"
    "i < 16 \<Longrightarrow> pending_acks (fold (on_done E) ds st) ! i =
       (pending_acks st ! i)\<lparr>pa_in_use := pa_in_use (pending_acks st ! i) \<and> (\<forall>d\<in>set ds. i \<noteq> unat (dn_token d))\<rparr>"
    by blast+
qed

lemma on_dones_answer:
  assumes "length (pending_acks st) = 16" "d0 \<in> set ds" "unat (dn_token d0) = i" "i < 16"
    and u: "pa_in_use (pending_acks st ! i)" "\<not> pa_no_ack (pending_acks st ! i)" "0 \<le> udp_fd st"
    and a: "\<And>a. deferred_ack (pending_acks st ! i) a \<noteq> []"
  shows "\<exists>d\<in>set ds. Datagram (pa_client_ip (pending_acks st ! i)) (pa_client_port (pending_acks st ! i))
    (deferred_ack (pending_acks st ! i) (done_ack d)) \<in> set (log (fold (on_done E) ds st))"
  using assms
proof (induction ds arbitrary: st)
  case (Cons d ds)
  note e = on_done_effect [OF Cons.prems(1), where E = E and d = d] and i = \<open>i < 16\<close>
  let ?s = "on_done E d st"
  show ?case
  proof (cases "unat (dn_token d) = i")
    case True
    have m: "Datagram (pa_client_ip (pending_acks st ! i)) (pa_client_port (pending_acks st ! i))
        (deferred_ack (pending_acks st ! i) (done_ack d)) \<in> set (log ?s)"
      by (rule e(6) [OF True i Cons.prems(5-7) Cons.prems(8)])
    obtain ls where "log (fold (on_done E) ds ?s) = log ?s @ ls" using on_dones_effect(3) [OF e(4)] by blast
    with m show ?thesis by auto
  next
    case False
    then have s: "pending_acks ?s ! i = pending_acks st ! i" using e(5) [OF i] Cons.prems(5) by simp
    have "d0 \<in> set ds" using Cons.prems(2,3) False by auto
    then have "\<exists>d\<in>set ds. Datagram (pa_client_ip (pending_acks ?s ! i)) (pa_client_port (pending_acks ?s ! i))
        (deferred_ack (pending_acks ?s ! i) (done_ack d)) \<in> set (log (fold (on_done E) ds ?s))"
      using Cons.prems s e(1,4) by (intro Cons.IH) simp_all
    then show ?thesis by (simp add: s)
  qed
qed simp

subsection \<open>Shutdown\<close>

lemma deferred_ack_unpack:
  assumes "pa_req_id pa \<in> deferred_reqs"
  shows "deferred_ack pa a \<noteq> []" "opc_simple_ack_unpack (Some (deferred_ack pa a)) (pa_req_id pa) = Some a"
proof -
  obtain f where f: "opc_simple_ack_pack (Some OPC_FRAME_MAX) (pa_req_id pa) (pa_seq pa) OPC_SIMPLE_ACK_LENGTH (ack_result a)
      (ack_error_cause a) = Some f" "length f = 68"
      "opc_simple_ack_unpack (Some f) (pa_req_id pa) = Some \<lparr>ack_result = ack_result a, ack_error_cause = ack_error_cause a\<rparr>"
    using simple_ack_roundtrip [of OPC_FRAME_MAX "pa_req_id pa" "pa_seq pa" "ack_result a" "ack_error_cause a" "pa_req_id pa"]
    by auto
  have "deferred_ack pa a = f"
    using assms f(1) by (auto simp: deferred_reqs_def deferred_ack_def emit_ack_def opc_set_password_ack_pack_def
        opc_set_ip_config_list_ack_pack_def opc_set_radio_config_ack_pack_def)
  then show "deferred_ack pa a \<noteq> []" "opc_simple_ack_unpack (Some (deferred_ack pa a)) (pa_req_id pa) = Some a"
    using f(2,3) by auto
qed

text \<open>The writer is finished and its completions are harvested: every pending acknowledgment has its completion.\<close>

lemma finished_tokens:
  assumes "daemon_inv st" "store_async st = Some sa" "opc_store_async_finish sys sa F = (sa1, F1)"
    "opc_store_async_drain sa1 OPC_STORE_ASYNC_QUEUE_DEPTH = (ds, sa2)" "i < 16" "pa_in_use (pending_acks st ! i)"
  shows "\<exists>d\<in>set ds. unat (dn_token d) = i"
proof -
  have i: "sa_inv sa" "\<not> sa_joined sa" using assms by (simp_all add: daemon_inv_with_def store_ok_def)
  note k = finish_keeps [OF i assms(3)]
  have "job_live sa (of_nat i)" using assms by (auto simp: daemon_inv_with_def acks_backed_def)
  then obtain j where j: "j < 16" "jb_state (sa_jobs sa1 ! j) \<in> {JOB_QUEUED, JOB_DONE}" "jb_token (sa_jobs sa1 ! j) = of_nat i"
    using k(3) by (auto simp: job_live_def)
  have "jb_state (sa_jobs sa1 ! j) \<noteq> JOB_QUEUED" using sa_invD(5) [OF k(1)] k(4) j(1) by auto
  then have "job_done (sa_jobs sa1 ! j) \<in> set ds" using drain_all [OF k(1) assms(4)] j by auto
  moreover have "unat (dn_token (job_done (sa_jobs sa1 ! j))) = i"
    using token_index [OF assms(5), of "of_nat i"] by (simp add: job_done_def j(3))
  ultimately show ?thesis by blast
qed

lemma shutdown_eq:
  assumes "store_async st = Some sa" "opc_store_async_finish (worker_sys E) sa (fs st) = (sa1, F1)"
    "opc_store_async_drain sa1 OPC_STORE_ASYNC_QUEUE_DEPTH = (ds, sa2)"
  shows "main_shutdown E st =
    (let s = fold (on_done E) ds (st\<lparr>fs := F1, store_async := Some sa2\<rparr>);
         s = s\<lparr>ip_change_commit_armed := False, store_async := None\<rparr>
     in if should_reset s then s\<lparr>log := log s @ [StartReboot]\<rparr> else s)"
  using assms by (simp add: main_shutdown_def opcd_store_async_on_ready_def)

lemma shutdown_answers:
  assumes inv: "daemon_inv st" and i: "i < 16" "pa_in_use (pending_acks st ! i)"
  shows "\<not> pa_no_ack (pending_acks st ! i) \<Longrightarrow> 0 \<le> udp_fd st \<Longrightarrow>
      \<exists>d. Datagram (pa_client_ip (pending_acks st ! i)) (pa_client_port (pending_acks st ! i))
        (deferred_ack (pending_acks st ! i) (done_ack d)) \<in> set (log (main_shutdown E st))"
    and "\<not> pa_in_use (pending_acks (main_shutdown E st) ! i)"
proof -
  obtain sa where sa: "store_async st = Some sa" using inv i by (auto simp: daemon_inv_with_def acks_backed_def)
  obtain sa1 F1 where f: "opc_store_async_finish (worker_sys E) sa (fs st) = (sa1, F1)" by force
  obtain ds sa2 where d: "opc_store_async_drain sa1 OPC_STORE_ASYNC_QUEUE_DEPTH = (ds, sa2)" by force
  let ?s = "st\<lparr>fs := F1, store_async := Some sa2\<rparr>"
  obtain d0 where d0: "d0 \<in> set ds" "unat (dn_token d0) = i" using finished_tokens [OF inv sa f d i] by blast
  have l: "length (pending_acks ?s) = 16" and r: "pa_req_id (pending_acks st ! i) \<in> deferred_reqs"
    using inv i by (simp_all add: daemon_inv_with_def acks_backed_def)
  note e = on_dones_effect [OF l, where E = E and ds = ds]
  show "\<exists>d. Datagram (pa_client_ip (pending_acks st ! i)) (pa_client_port (pending_acks st ! i))
        (deferred_ack (pending_acks st ! i) (done_ack d)) \<in> set (log (main_shutdown E st))"
    if "\<not> pa_no_ack (pending_acks st ! i)" "0 \<le> udp_fd st"
    using on_dones_answer [OF l d0 i(1), where E = E] that i(2) deferred_ack_unpack(1) [OF r]
    by (auto simp: shutdown_eq [OF sa f d] Let_def)
  show "\<not> pa_in_use (pending_acks (main_shutdown E st) ! i)"
    using e(5) [OF i(1)] d0 by (auto simp: shutdown_eq [OF sa f d] Let_def)
qed

lemma inv_shutdown:
  assumes "daemon_inv st"
  shows "daemon_inv (main_shutdown E st)"
proof -
  define s1 where "s1 = (case store_async st of None \<Rightarrow> st
    | Some sa \<Rightarrow> (case opc_store_async_finish (worker_sys E) sa (fs st) of (sa, F) \<Rightarrow> st\<lparr>store_async := Some sa, fs := F\<rparr>))"
  define s2 where "s2 = opcd_store_async_on_ready E s1"
  have e: "main_shutdown E st = (let s = s2\<lparr>ip_change_commit_armed := False, store_async := None\<rparr>
      in if should_reset s then s\<lparr>log := log s @ [StartReboot]\<rparr> else s)"
    by (simp add: main_shutdown_def s1_def s2_def Let_def)
  have "daemon_inv_with (store_async st \<noteq> None) {} s1"
    using assms inv_finished [OF assms] by (cases "store_async st") (simp_all add: s1_def split: prod.split)
  then have 2: "daemon_inv_with (store_async st \<noteq> None) {} s2" unfolding s2_def by (rule inv_on_ready)
  have "pending_acks (main_shutdown E st) = pending_acks s2" by (simp add: e Let_def)
  moreover have "\<not> pa_in_use (pending_acks (main_shutdown E st) ! i)" if "i < 16" for i
  proof (cases "pa_in_use (pending_acks st ! i)")
    case True then show ?thesis using shutdown_answers(2) [OF assms that] by blast
  next
    case False
    have l: "length (pending_acks s) = 16 \<Longrightarrow> \<not> pa_in_use (pending_acks s ! i) \<Longrightarrow>
        \<not> pa_in_use (pending_acks (opcd_store_async_on_ready E s) ! i)" for s
      using on_dones_effect(5) [OF _ that, of "s\<lparr>store_async := x\<rparr>" E for x]
      by (auto simp: opcd_store_async_on_ready_def split: option.split prod.split)
    have "pending_acks s1 = pending_acks st" by (simp add: s1_def split: option.split prod.split)
    with False l assms show ?thesis by (simp add: e Let_def s2_def daemon_inv_with_def acks_backed_def)
  qed
  ultimately have "acks_backed {} None (pending_acks s2)"
    using 2 by (auto simp: acks_backed_def daemon_inv_with_def)
  then have "daemon_inv (s2\<lparr>ip_change_commit_armed := False, store_async := None\<rparr>)"
    using 2 by (simp add: daemon_inv_with_def store_ok_def)
  then show ?thesis
    using inv_log [of False "{}" "s2\<lparr>ip_change_commit_armed := False, store_async := None\<rparr>" StartReboot]
    by (simp add: e Let_def)
qed

subsection \<open>Reachable states\<close>

lemma ind_only_pairs: "(\<And>E x st. ind_only st (f E x st)) \<Longrightarrow> ind_only st (fold (\<lambda>(E, x). f E x) xs st)"
  by (rule ind_only_fold) (simp split: prod.split)

lemma inv_main_step: "main_step (p, st) (p', st') \<Longrightarrow> daemon_inv st \<Longrightarrow> daemon_inv st'"
proof (induction "(p, st)" "(p', st')" rule: main_step.induct)
  case (platform n evts)
  then show ?case using inv_ind_only [OF ind_only_pairs [of on_platform_event, OF platform_event_only]] by blast
next
  case (roam ds n)
  then show ?case using inv_ind_only [OF ind_only_pairs [of on_roam_datagram, OF roam_only]] by blast
qed (auto simp: inv_signal inv_timer inv_on_ready inv_udp_datagram inv_apply_ip inv_shutdown)

lemma inv_worker_step: "worker_step st st' \<Longrightarrow> daemon_inv st \<Longrightarrow> daemon_inv st'"
proof (induction rule: worker_step.induct)
  case (take_job st sa sa')
  then show ?case by (intro inv_store sa_keeps_take) simp_all
next
  case (finish_job st sa sys sa' F')
  then have "daemon_inv (st\<lparr>store_async := Some sa'\<rparr>)" by (intro inv_store sa_keeps_complete) simp_all
  then show ?case by (simp add: daemon_inv_with_def)
qed

lemma opcd_step_inv: "opcd_step s s' \<Longrightarrow> daemon_inv (snd s) \<Longrightarrow> daemon_inv (snd s')"
  by (cases s; cases s') (auto elim!: opcd_step.cases intro: inv_main_step inv_worker_step)

lemma reachable_inv: "opcd_reachable s \<Longrightarrow> daemon_inv (snd s)"
  by (induction rule: opcd_reachable.induct) (auto intro: inv_start opcd_step_inv)

end
