(* ===== verification/Session_Frame.thy ===== *)
theory Session_Frame
  imports Daemon_Runs
begin

text \<open>
  Who may open a session and who may commit a change of the address: every operation but the Login handler opens no
  session, every operation but the Logout handler commits no change of the address, and only the end of a turn of
  the loop applies one.
\<close>

subsection \<open>Operations that open no session and commit no change\<close>

definition ip_change_committed :: "opcd_state_t \<Rightarrow> bool" where
  "ip_change_committed st \<longleftrightarrow> ip_change_commit_armed st \<or> ip_change_logout_deferred st"

definition is_apply_ip :: "action \<Rightarrow> bool" where
  "is_apply_ip a \<longleftrightarrow> (case a of ApplyIp _ _ _ \<Rightarrow> True | _ \<Rightarrow> False)"

definition calm :: "opcd_state_t \<Rightarrow> opcd_state_t \<Rightarrow> bool" where
  "calm st st' \<longleftrightarrow> (logged_in st' \<longrightarrow> logged_in st \<and> holder_ip st' = holder_ip st)
     \<and> (ip_change_committed st' \<longrightarrow> ip_change_committed st)
     \<and> (\<exists>ds. log st' = log st @ ds \<and> list_all (\<lambda>a. \<not> is_apply_ip a) ds)"

lemma calm_refl [simp, intro]: "calm st st"
  by (simp add: calm_def)

lemma calm_trans: "calm a b \<Longrightarrow> calm b c \<Longrightarrow> calm a c"
  by (auto simp: calm_def)

lemma calm_keep:
  assumes "logged_in st' = logged_in st" "holder_ip st' = holder_ip st"
    "ip_change_commit_armed st' = ip_change_commit_armed st" "ip_change_logout_deferred st' = ip_change_logout_deferred st"
    "log st' = log st"
  shows "calm st st'"
  using assms by (simp add: calm_def ip_change_committed_def)

lemma calm_ind_only: "ind_only st st' \<Longrightarrow> calm st st'"
proof -
  assume a: "ind_only st st'"
  note k = ind_only_keeps [OF a]
  obtain ds where "log st' = log st @ ds" "list_all is_datagram ds" using a by (rule ind_only_log)
  moreover have "list_all (\<lambda>a. \<not> is_apply_ip a) ds" if "list_all is_datagram ds"
    using that by (auto simp: list_all_iff is_datagram_def is_apply_ip_def split: action.splits)
  moreover have "logged_in st' = logged_in st" by (rule k) (simp add: ind_erase_def)
  moreover have "holder_ip st' = holder_ip st" by (rule k) (simp add: ind_erase_def)
  moreover have "ip_change_committed st' = ip_change_committed st"
    by (rule k) (simp add: ind_erase_def ip_change_committed_def)
  ultimately show ?thesis by (auto simp: calm_def)
qed

lemma calm_fs: "fs_erase st' = fs_erase st \<Longrightarrow> calm st st'"
proof -
  have "calm s (fs_erase s)" "calm (fs_erase s) s" for s by (rule calm_keep, simp_all add: fs_erase_def)+
  then show "fs_erase st' = fs_erase st \<Longrightarrow> ?thesis" by (metis calm_trans)
qed

lemma calm_log: "\<not> is_apply_ip a \<Longrightarrow> calm st (st\<lparr>log := log st @ [a]\<rparr>)"
  by (simp add: calm_def ip_change_committed_def)

lemma not_apply_ip [simp]:
  "\<not> is_apply_ip (Datagram ip port f)" "\<not> is_apply_ip (ApplyRadio c)" "\<not> is_apply_ip (PeerRoute a m)"
  "\<not> is_apply_ip StartReboot"
  by (simp_all add: is_apply_ip_def)

lemma calm_fold: "(\<And>x s. calm s (f x s)) \<Longrightarrow> calm st (fold f xs st)"
  by (induction xs arbitrary: st) (auto intro: calm_trans)

text \<open>Fields that a calm step does not look at.\<close>

lemma calm_fields [simp]:
  "calm st (s\<lparr>radio := a\<rparr>) = calm st s" "calm st (s\<lparr>radio_committed := b\<rparr>) = calm st s"
  "calm st (s\<lparr>radio_applied_known := b\<rparr>) = calm st s" "calm st (s\<lparr>radio_recovery_state := c\<rparr>) = calm st s"
  "calm st (s\<lparr>radio_gen := g\<rparr>) = calm st s" "calm st (s\<lparr>radio_revert_pending := b\<rparr>) = calm st s"
  "calm st (s\<lparr>radio_revert_cfg := a\<rparr>) = calm st s" "calm st (s\<lparr>radio_revert_committed := b\<rparr>) = calm st s"
  "calm st (s\<lparr>radio_persist_baseline_valid := b\<rparr>) = calm st s" "calm st (s\<lparr>ip_change_pending := b\<rparr>) = calm st s"
  "calm st (s\<lparr>ip_change_list_no := n\<rparr>) = calm st s" "calm st (s\<lparr>should_reset := b\<rparr>) = calm st s"
  "calm st (s\<lparr>should_exit := b\<rparr>) = calm st s" "calm st (s\<lparr>reset_notice_sent := b\<rparr>) = calm st s"
  "calm st (s\<lparr>aborted := b\<rparr>) = calm st s" "calm st (s\<lparr>ip_list_staging_active := b\<rparr>) = calm st s"
  "calm st (s\<lparr>ip_list_staging := l\<rparr>) = calm st s" "calm st (s\<lparr>ip_list := l\<rparr>) = calm st s"
  "calm st (s\<lparr>password := p\<rparr>) = calm st s" "calm st (s\<lparr>pending_password := p\<rparr>) = calm st s"
  "calm st (s\<lparr>password_unsynced := b\<rparr>) = calm st s" "calm st (s\<lparr>password_unsynced_prev := p\<rparr>) = calm st s"
  "calm st (s\<lparr>pending_acks := pas\<rparr>) = calm st s" "calm st (s\<lparr>store_async := sa\<rparr>) = calm st s"
  "calm st (s\<lparr>pending_ip_list := l\<rparr>) = calm st s" "calm st (s\<lparr>pending_ip_staging := l\<rparr>) = calm st s"
  "calm st (s\<lparr>pending_ip_staging_active := b\<rparr>) = calm st s" "calm st (s\<lparr>fs := F\<rparr>) = calm st s"
  "calm st (s\<lparr>pending_ip_staging_session_generation := g\<rparr>) = calm st s"
  "calm st (s\<lparr>boot_status := bs\<rparr>) = calm st s" "calm st (s\<lparr>session_generation := g\<rparr>) = calm st s"
  "calm st (s\<lparr>indication_enabled := b\<rparr>) = calm st s" "calm st (s\<lparr>ip_change_armed_no := n\<rparr>) = calm st s"
  "calm st (s\<lparr>ip_change_armed_entry := e\<rparr>) = calm st s" "calm st (s\<lparr>idle_deadline := d\<rparr>) = calm st s"
  by (simp_all add: calm_def ip_change_committed_def)

lemma calm_touch [simp]: "calm st (session_touch E s) = calm st s"
  by (simp add: session_touch_def)

lemma calm_session_logout: "calm st (opcd_session_logout E st)"
proof -
  let ?s = "snd (opcd_ind_init_complete E st OPC_INIT_STATE_LOGGED_OUT)"
  have "calm st ?s" by (rule calm_ind_only [OF init_complete_only])
  then show ?thesis by (simp add: opcd_session_logout_def Let_def calm_def ip_change_committed_def)
qed

lemma calm_idle_logout: "calm st (idle_logout E st)"
  by (simp add: idle_logout_def calm_session_logout)

lemma calm_store [simp]: "calm st (with_store s f) = calm st s"
  by (simp add: with_store_def)

subsection \<open>Persistence\<close>

lemma calm_revert_drain: "calm st (opcd_radio_revert_drain E st)"
  using calm_log [of "ApplyRadio (radio_revert_cfg st)" st] by (simp add: opcd_radio_revert_drain_def apply_radio_def)

lemma calm_done_password: "calm st (done_password st oc)"
  by (simp add: done_password_def password_note_outcome_def Let_def)

lemma calm_write_user: "calm st s \<Longrightarrow> calm st (iplist_write_user E s u)"
  by (rule calm_trans [OF _ calm_fs [OF fs_erase_write_user]])

lemma calm_mirror: "calm st (iplist_mirror_user E st)"
  by (auto simp: iplist_mirror_user_def calm_write_user split: option.split prod.split sum.split)

lemma calm_done_ip_list: "calm st (done_ip_list E st oc)"
proof -
  define s1 where "s1 = (if oc = OPC_STORE_UNCHANGED then st
    else let st = iplist_mirror_user E (st\<lparr>ip_list := pending_ip_list st\<rparr>) in
      if logged_in st \<and> session_generation st = pending_ip_staging_session_generation st
      then st\<lparr>ip_list_staging := pending_ip_staging st, ip_list_staging_active := pending_ip_staging_active st\<rparr>
      else st)"
  define s2 where "s2 = s1\<lparr>pending_ip_list := zero_ip_list, pending_ip_staging := zero_ip_list,
    pending_ip_staging_active := False, pending_ip_staging_session_generation := 0\<rparr>"
  have "calm st (iplist_mirror_user E (st\<lparr>ip_list := pending_ip_list st\<rparr>))" by (rule calm_trans [OF _ calm_mirror]) simp
  then have "calm st s2" by (simp add: s2_def s1_def Let_def)
  moreover have "calm s2 (arm_ip_change_from_committed (s2\<lparr>ip_change_logout_deferred := False\<rparr>))"
      "calm s2 (s2\<lparr>ip_change_logout_deferred := False\<rparr>)" if "ip_change_logout_deferred s2"
    using that by (simp_all add: calm_def arm_ip_change_from_committed_def Let_def ip_change_committed_def)
  moreover have "done_ip_list E st oc =
      (if ip_change_logout_deferred s2 then
         (if ip_change_pending (s2\<lparr>ip_change_logout_deferred := False\<rparr>)
             \<and> \<not> ip_change_commit_armed (s2\<lparr>ip_change_logout_deferred := False\<rparr>)
          then arm_ip_change_from_committed (s2\<lparr>ip_change_logout_deferred := False\<rparr>)
          else s2\<lparr>ip_change_logout_deferred := False\<rparr>)
       else s2)"
    by (simp only: done_ip_list_def s1_def s2_def Let_def)
  ultimately show ?thesis by (auto intro: calm_trans)
qed

lemma calm_txn_clear: "calm st s \<Longrightarrow> calm st (radio_txn_clear E s)"
  by (rule calm_trans [OF _ calm_fs [OF fs_erase_txn_clear]])

lemma calm_arm_revert [simp]: "calm st (radio_arm_revert s a b c) = calm st s"
  by (simp add: radio_arm_revert_def)

lemma calm_done_radio: "calm st (done_radio E st pa oc)"
proof -
  have "calm st (opcd_radio_revert_drain E (radio_arm_revert (st\<lparr>radio_committed := False\<rparr>) a b c))" for a b c
    by (rule calm_trans [OF _ calm_revert_drain]) simp
  then show ?thesis by (simp add: done_radio_def Let_def calm_txn_clear)
qed

lemma calm_done_apply: "calm st (done_apply E pa oc st)"
  by (auto simp: done_apply_def Let_def calm_done_password calm_done_ip_list calm_done_radio
      intro: calm_trans [OF calm_done_password calm_done_radio] calm_trans [OF calm_done_ip_list calm_done_radio])

lemma calm_done_reply: "calm st s \<Longrightarrow> calm st (done_reply pa a s)"
  by (simp add: done_reply_def Let_def calm_trans [OF _ calm_log])

lemma calm_on_done: "calm st (on_done E d st)"
proof (cases "16 \<le> unat (dn_token d) \<or> \<not> pa_in_use (pending_acks st ! unat (dn_token d))")
  case False
  then show ?thesis by (subst on_done_eq [OF _ _ refl]) (simp_all add: calm_done_reply calm_done_apply)
qed (simp add: on_done_skip)

lemma calm_on_ready: "calm st (opcd_store_async_on_ready E st)"
  by (auto simp: opcd_store_async_on_ready_def split: option.split prod.split
      intro!: calm_trans [OF _ calm_fold [where f = "on_done E", OF calm_on_done]])

lemma calm_admit_once: "admit_once st rs p n = (a, st') \<Longrightarrow> calm st st'"
  by (auto simp: admit_once_def split: if_splits option.splits prod.splits sum.splits)

lemma calm_admit:
  assumes "persist_admit E st rs p n = (a, st')"
  shows "calm st st'"
proof -
  obtain a1 s1 where 1: "admit_once st rs p n = (a1, s1)" by force
  obtain a2 s2 where 2: "admit_once (opcd_store_async_on_ready E s1) rs p n = (a2, s2)" by force
  have c1: "calm st s1" by (rule calm_admit_once [OF 1])
  have "calm st s2" by (rule calm_trans [OF calm_trans [OF c1 calm_on_ready] calm_admit_once [OF 2]])
  with c1 show ?thesis using assms 1 2 by (auto simp: persist_admit_def split: option.splits if_splits)
qed

lemma calm_blob:
  assumes "persist_blob E st p d m rs na rq ip port seq rv = (r, st')"
  shows "calm st st'"
  using assms by (auto simp: persist_blob_def Let_def split: option.splits prod.splits sum.splits
      intro: calm_fs fs_erase_D)

lemma calm_persist_ip_list: "persist_ip_list E st ip port seq rv na l = (r, st') \<Longrightarrow> calm st st'"
  by (auto simp: persist_ip_list_def split: option.splits dest: calm_blob)

subsection \<open>Handlers\<close>

text \<open>A handler that opens no session and commits no change of the address.\<close>

locale calm_handler =
  fixes h :: opcd_handler_fn
  assumes calm: "calm st (snd (h E st f ip port rcap seq))"
begin

lemma opens_no_session: "session_owns (snd (h E st f ip port rcap seq)) a \<Longrightarrow> session_owns st a"
  using calm [of st E f ip port rcap seq] by (auto simp: calm_def session_owns_def)

end

interpretation basic_info_calm: calm_handler handle_get_basic_info
  by unfold_locales (simp add: handle_get_basic_info_def Let_def)

interpretation device_info_calm: calm_handler handle_get_device_info
  by unfold_locales (auto simp: handle_get_device_info_def Let_def login_check_cases)

lemma calm_set_password_store: "calm st (snd (set_password_store E st new ip port seq))"
proof -
  obtain a s1 where a: "persist_admit E st OPCD_PERSIST_PASSWORD (p_password (paths st)) (length new) = (a, s1)" by force
  have 1: "calm st s1" by (rule calm_admit [OF a])
  have 2: "calm st s2" if "persist_password E s1 new ip port seq rv = (r, s2)" for rv r s2
    using that calm_blob calm_trans [OF 1] unfolding persist_password_def by blast
  show ?thesis
    using a 1 by (cases a) (auto simp: set_password_store_def Let_def password_note_outcome_def dest: 2 split: prod.split)
qed

interpretation set_password_calm: calm_handler handle_set_password
  by unfold_locales
    (auto simp: handle_set_password_def set_password_process_def login_check_cases Let_def
      split: option.split intro: calm_trans [OF _ calm_set_password_store])

lemma calm_set_ip_list_store: "calm st (snd (set_ip_list_store E st t err ip port seq rv))"
proof (cases "lt_committed t")
  case True
  obtain r s where p: "persist_ip_list E st ip port seq rv (err \<noteq> OPC_ERR_NONE) (lt_candidate t) = (r, s)" by force
  have "calm st s" by (rule calm_persist_ip_list [OF p])
  then show ?thesis
    using True p by (auto simp: set_ip_list_store_def Let_def intro!: calm_trans [OF _ calm_mirror])
qed (simp add: set_ip_list_store_def)

lemma calm_set_ip_list_process: "calm st (snd (set_ip_list_process E st rq ip port seq))"
proof -
  have "calm st s1" if "persist_admit E (session_touch E st) rs p n = (a, s1)" for rs p n a s1
    by (rule calm_trans [OF _ calm_admit [OF that]]) simp
  then show ?thesis
    by (auto simp: set_ip_list_process_def login_check_cases
        split: sum.split prod.split admission.split intro: calm_trans [OF _ calm_set_ip_list_store])
qed

interpretation set_ip_config_list_calm: calm_handler handle_set_ip_config_list
  by unfold_locales (simp add: handle_set_ip_config_list_def calm_set_ip_list_process)

interpretation change_ip_address_calm: calm_handler handle_change_ip_address
  by unfold_locales (auto simp: handle_change_ip_address_def login_check_cases Let_def split: option.split)

lemma calm_radio_applied: "calm st (snd (radio_applied E st req bv ip port seq rv))"
proof -
  define s1 where "s1 = st\<lparr>radio := req, radio_applied_known := True, radio_recovery_state := OPCD_RADIO_RECOVERY_HEALTHY,
    radio_gen := radio_gen st + 1, radio_committed := False\<rparr>"
  obtain r s2 where p: "persist_radio E s1 ip port seq rv = (r, s2)" by force
  have "calm st s1" by (simp add: s1_def)
  then have "calm st s2" using calm_trans calm_blob p unfolding persist_radio_def by blast
  then show ?thesis unfolding radio_applied_def s1_def [symmetric] Let_def p by (simp add: calm_txn_clear)
qed

lemma calm_radio_change: "calm st (snd (radio_change E st req ip port seq))"
proof -
  obtain a s1 where a: "persist_admit E st OPCD_PERSIST_RADIO (p_radio (paths st)) (length (radio_bytes (radio st))) = (a, s1)"
    by force
  have 1: "calm st s1" by (rule calm_admit [OF a])
  obtain ok s2 where t: "radio_txn_arm E s1 req = (ok, s2)" by force
  have 2: "calm st s2" by (rule calm_trans [OF 1 calm_fs [OF fs_erase_txn_arm [OF t]]])
  obtain rc s3 where ap: "apply_radio E s2 req = (rc, s3)" by force
  have 3: "calm st s3" using calm_trans [OF 2 calm_log [of "ApplyRadio req"]] ap by (auto simp: apply_radio_def)
  have "calm st (snd (radio_applied E s3 req bv ip port seq rv))" for bv rv by (rule calm_trans [OF 3 calm_radio_applied])
  then show ?thesis using 1 2 3 a t ap by (cases a) (simp_all add: radio_change_def Let_def)
qed

interpretation set_radio_config_calm: calm_handler handle_set_radio_config
  by unfold_locales
    (auto simp: handle_set_radio_config_def set_radio_process_def login_check_cases split: option.split
      intro: calm_trans [OF _ calm_radio_change])

lemma calm_indication_configure: "calm st (indication_configure E st req)"
proof -
  let ?s = "st\<lparr>indication_enabled := (si_info_bits req \<noteq> 0), indication_recipient_ip := si_recipient_ip req,
    indication_recipient_port := si_recipient_port req, indication_info_bits := si_info_bits req,
    indication_period_s := si_period_seconds req, indication_tick_counter := 0, radio_up_reported := False\<rparr>"
  have "calm st ?s" by (rule calm_keep) simp_all
  then have c: "calm st (session_touch E (opcd_ind_coalesce_reset ?s))"
    using calm_trans [OF _ calm_ind_only [OF coalesce_reset_only]] by simp
  have i: "calm st s \<Longrightarrow> calm st (snd (opcd_ind_init_complete E s k))" for s k
    by (rule calm_trans [OF _ calm_ind_only [OF init_complete_only]])
  have r: "calm st s \<Longrightarrow> calm st (opcd_ind_radio_up E s)" for s
    by (rule calm_trans [OF _ calm_ind_only [OF radio_up_only]])
  show ?thesis using c unfolding indication_configure_def Let_def by (simp add: i r)
qed

interpretation set_indication_config_calm: calm_handler handle_set_indication_config
  by unfold_locales
    (auto simp: handle_set_indication_config_def login_check_cases Let_def
      split: option.split intro: calm_trans [OF _ calm_indication_configure])

interpretation reset_calm: calm_handler handle_reset
  by unfold_locales (auto simp: handle_reset_def login_check_cases)

lemmas handler_calm = basic_info_calm.calm device_info_calm.calm set_password_calm.calm set_ip_config_list_calm.calm
  change_ip_address_calm.calm set_radio_config_calm.calm set_indication_config_calm.calm reset_calm.calm

lemma table_calm:
  "map_of opcd_dispatch_table k = Some fn \<Longrightarrow> k \<noteq> OPC_REQ_LOGIN \<Longrightarrow> k \<noteq> OPC_REQ_LOGOUT \<Longrightarrow>
     calm st (snd (fn E st f ip port rcap seq))"
  by (auto simp: opcd_dispatch_table_def handler_calm split: if_splits)

end
