(* ===== verification/Daemon_Scenario.thy ===== *)
theory Daemon_Scenario
  imports Session_Frame Platform_Stub
begin

text \<open>
  What single requests of the session's holder do to the daemon, from the datagram to the state after the answer, and
  the state after a start on empty files. The properties about runs and their witnesses rest on these steps.
\<close>

text \<open>The frame that the dispatcher gets from a received datagram.\<close>

definition received_frame :: "u8 list \<Rightarrow> u8 list" where
  "received_frame d = (let rx = take OPC_FRAME_MAX d in take (opcd_intake_frame_len (Some rx)) rx)"

lemma parse_received:
  assumes "opc_frame_parse (Some f) = Some (h, b)"
  shows "opcd_intake_frame_len (Some (take OPC_FRAME_MAX f)) = length f" "received_frame f = f" "length f \<ge> 8"
    "length f \<le> OPC_FRAME_MAX"
proof -
  have l: "8 \<le> length f" "length f \<le> OPC_FRAME_MAX" "length f = 8 \<or> 64 \<le> length f"
    and h: "opc_fixed_header_unpack (Some f) = Some h" "unat (length_field h) = length f - 8"
    using assms by (auto simp: opc_frame_parse_def split: if_splits option.splits)
  have t: "take OPC_FRAME_MAX f = f" using l(2) by simp
  show i: "opcd_intake_frame_len (Some (take OPC_FRAME_MAX f)) = length f"
    unfolding t using l h by (auto simp: opcd_intake_frame_len_def Let_def)
  show "received_frame f = f" unfolding received_frame_def Let_def i unfolding t by simp
  show "length f \<ge> 8" "length f \<le> OPC_FRAME_MAX" by (rule l)+
qed

lemma udp_request:
  assumes "opc_frame_parse (Some f) = Some (h, b)" "command_type h = OPC_CMD_REQUEST"
    "map_of opcd_dispatch_table (req_indication_id h) = Some fn"
  shows "on_udp_datagram E f ip port st =
    after_dispatch E ip port (0, fn E (idle_logout E st) f ip port OPC_FRAME_MAX (sequence_number h))"
proof -
  note r = parse_received [OF assms(1)]
  have "take OPC_FRAME_MAX f = f" using r(4) by simp
  then show ?thesis
    using assms r by (auto simp: on_udp_datagram_def Let_def opcd_dispatch_def split: prod.split)
qed

text \<open>A daemon that no reset and no revert of the radio waits in.\<close>

definition settled :: "opcd_state_t \<Rightarrow> bool" where
  "settled st \<longleftrightarrow> \<not> aborted st \<and> \<not> should_reset st \<and> \<not> radio_revert_pending st"

lemma settled_after:
  assumes "settled st"
  shows "after_dispatch E ip port (0, tx, st) = (if tx \<noteq> [] then st\<lparr>log := log st @ [Datagram ip port tx]\<rparr> else st)"
  using assms by (auto simp: settled_def after_dispatch_def opcd_post_ack_def opcd_radio_revert_drain_def Let_def)

lemma ind_erase_log [simp]: "ind_erase (st\<lparr>log := l\<rparr>) = ind_erase st"
  by (simp add: ind_erase_def)

lemma ind_erase_settled: "ind_erase st' = ind_erase st \<Longrightarrow> settled st' = settled st"
proof -
  have "settled (ind_erase s) = settled s" for s by (simp add: settled_def ind_erase_def)
  then show "ind_erase st' = ind_erase st \<Longrightarrow> ?thesis" by metis
qed

text \<open>The state of the session alone decides the idle logout.\<close>

lemma idle_logout_active: "logged_in st \<Longrightarrow> mono_now_s E < idle_deadline st \<Longrightarrow> idle_logout E st = st"
  by (simp add: idle_logout_def)

lemma idle_logout_out: "\<not> logged_in st \<Longrightarrow> idle_logout E st = st"
  by (simp add: idle_logout_def)

subsection \<open>Requests\<close>

definition login_frame :: "u16 \<Rightarrow> u8 list \<Rightarrow> u8 list" where
  "login_frame seq pw = emit_ack (opc_login_req_pack (Some OPC_FRAME_MAX) seq
     (Some \<lparr>lr_password = pw, lr_password_terminated = True\<rparr>))"

definition logout_frame :: "u16 \<Rightarrow> u8 list" where
  "logout_frame seq = emit_ack (opc_logout_req_pack (Some OPC_FRAME_MAX) seq)"

definition change_ip_frame :: "u16 \<Rightarrow> u16 \<Rightarrow> u8 list" where
  "change_ip_frame seq n = emit_ack (opc_change_ip_address_req_pack (Some OPC_FRAME_MAX) seq (Some \<lparr>ci_list_number = n\<rparr>))"

text \<open>A request that the daemon hands to a handler.\<close>

definition request :: "u8 list \<Rightarrow> u16 \<Rightarrow> u16 \<Rightarrow> bool" where
  "request f i seq \<longleftrightarrow> (\<exists>h b. opc_frame_parse (Some f) = Some (h, b) \<and> command_type h = OPC_CMD_REQUEST
     \<and> req_indication_id h = i \<and> sequence_number h = seq)"

lemma login_frame:
  "request (login_frame seq pw) OPC_REQ_LOGIN seq"
  "opc_login_req_unpack (Some (login_frame seq pw)) =
     Some \<lparr>lr_password = copy_with_null_pad 128 (Some pw), lr_password_terminated = True\<rparr>"
  using login_req.packed [of seq "\<lparr>lr_password = pw, lr_password_terminated = True\<rparr>"]
    login_req.unpack_pack [where a = "\<lparr>lr_password = pw, lr_password_terminated = True\<rparr>" and ob = "Some OPC_FRAME_MAX" and s = seq]
  by (auto simp: request_def login_frame_def emit_ack_def)

lemma change_ip_frame:
  "request (change_ip_frame seq n) OPC_REQ_CHANGE_IP_ADDRESS seq"
  "opc_change_ip_address_req_unpack (Some (change_ip_frame seq n)) = Some \<lparr>ci_list_number = n\<rparr>"
  using change_ip_address_req.packed [of seq "\<lparr>ci_list_number = n\<rparr>"]
    change_ip_address_req.unpack_pack [where a = "\<lparr>ci_list_number = n\<rparr>" and ob = "Some OPC_FRAME_MAX" and s = seq]
  by (auto simp: request_def change_ip_frame_def emit_ack_def)

lemma logout_frame:
  "request (logout_frame seq) OPC_REQ_LOGOUT seq" "opc_logout_req_unpack (Some (logout_frame seq)) = Some ()"
proof -
  obtain f where f: "opc_logout_req_pack (Some OPC_FRAME_MAX) seq = Some f" "opc_frame_parse (Some f) =
      Some (\<lparr>protocol_version = OPC_PROTOCOL_VERSION, command_type = OPC_CMD_REQUEST, req_indication_id = OPC_REQ_LOGOUT,
        sequence_number = seq, length_field = 0\<rparr>, None)" "length f = 8"
    using empty_req_packed [of OPC_REQ_LOGOUT seq] by (auto simp: opc_logout_req_pack_def)
  show "request (logout_frame seq) OPC_REQ_LOGOUT seq" using f by (simp add: request_def logout_frame_def emit_ack_def)
  show "opc_logout_req_unpack (Some (logout_frame seq)) = Some ()"
    using f by (simp add: logout_frame_def emit_ack_def opc_logout_req_unpack_def empty_req_unpack_def)
qed

lemma handled:
  assumes "request f i seq" "map_of opcd_dispatch_table i = Some fn"
  shows "on_udp_datagram E f ip port st =
    after_dispatch E ip port (0, fn E (idle_logout E st) f ip port OPC_FRAME_MAX seq)"
  using assms udp_request unfolding request_def by blast

subsection \<open>Login, ChangeIpAddress and Logout\<close>

text \<open>The state a Login leaves, up to the fields of the indication engine.\<close>

definition logged_in_as :: "env \<Rightarrow> u32 \<Rightarrow> u16 \<Rightarrow> opcd_state_t \<Rightarrow> opcd_state_t" where
  "logged_in_as E ip port st = session_touch E (st\<lparr>session_generation := session_generation st + 1, logged_in := True,
     holder_ip := ip, holder_port := port, boot_status := OPC_DEVICE_LOGGED_IN, ip_change_pending := False,
     ip_change_list_no := 0, ip_change_commit_armed := False\<rparr>)"

lemma ind_erase_eq: "ind_only st st' \<Longrightarrow> ind_erase st' = ind_erase st"
  by (simp add: ind_only_def)

lemma settled_logged_in_as: "settled st \<Longrightarrow> settled (logged_in_as E ip port st)"
  by (simp add: settled_def logged_in_as_def session_touch_def)

lemma settled_reply:
  assumes "settled st"
  shows "ind_erase (after_dispatch E ip port (0, tx, st)) = ind_erase st"
    "log (after_dispatch E ip port (0, tx, st)) = log st @ (if tx \<noteq> [] then [Datagram ip port tx] else [])"
  using settled_after [OF assms, of E ip port tx] by simp_all

lemma login_step:
  assumes s: "settled st" "\<not> logged_in st" "\<not> ip_change_committed st"
    and r: "request f OPC_REQ_LOGIN seq" "opc_login_req_unpack (Some f) = Some rq"
    and ok: "login_error st (Some rq) ip = OPC_ERR_NONE"
  shows "ind_erase (on_udp_datagram E f ip port st) = ind_erase (logged_in_as E ip port st)"
proof -
  have g: "ind_only (logged_in_as E ip port st) (login_grant E st ip port)"
    using s init_complete_only [of "logged_in_as E ip port st" E OPC_INIT_STATE_LOGGED_IN]
    by (simp add: ip_change_committed_def login_grant_def logged_in_as_def Let_def)
  then have e: "ind_erase (login_grant E st ip port) = ind_erase (logged_in_as E ip port st)" by (rule ind_erase_eq)
  then have "settled (login_grant E st ip port)"
    using ind_erase_settled settled_logged_in_as [OF s(1)] by blast
  moreover have "map_of opcd_dispatch_table OPC_REQ_LOGIN = Some handle_login" by (simp add: opcd_dispatch_table_def)
  ultimately show ?thesis
    using handled [OF r(1), of handle_login E ip port st] e r(2) ok s(2)
    by (simp add: handle_login_def idle_logout_out settled_reply)
qed

lemma change_step:
  assumes s: "settled st" "session_owns st ip" "mono_now_s E < idle_deadline st"
    and r: "request f OPC_REQ_CHANGE_IP_ADDRESS seq" "opc_change_ip_address_req_unpack (Some f) = Some rq"
    and ok: "change_ip_error E st (ci_list_number rq) = OPC_ERR_NONE"
  shows "ind_erase (on_udp_datagram E f ip port st) =
    ind_erase (session_touch E (st\<lparr>ip_change_pending := True, ip_change_list_no := ci_list_number rq\<rparr>))"
proof -
  let ?s = "session_touch E (st\<lparr>ip_change_pending := True, ip_change_list_no := ci_list_number rq\<rparr>)"
  have k: "change_ip_error E (session_touch E st) n = change_ip_error E st n" for n
    by (simp add: change_ip_error_def session_touch_def ipcfg_clashes_other_iface_def mgmt_ip_iface_idx_def)
  have "settled ?s" using s(1) by (simp add: settled_def session_touch_def)
  moreover have "map_of opcd_dispatch_table OPC_REQ_CHANGE_IP_ADDRESS = Some handle_change_ip_address"
    by (simp add: opcd_dispatch_table_def)
  moreover have "snd (handle_change_ip_address E st f ip port c sq) = ?s" for c sq
    using r(2) ok s(2) by (simp add: handle_change_ip_address_def login_check_cases Let_def k) (simp add: session_touch_def)
  moreover have "idle_logout E st = st" using s by (simp add: idle_logout_def)
  ultimately show ?thesis
    using handled [OF r(1), of handle_change_ip_address E ip port st] settled_reply(1) by (metis prod.collapse)
qed

lemma logout_step:
  assumes s: "settled st" "session_owns st ip" "mono_now_s E < idle_deadline st" "ip_change_pending st" "\<not> ip_change_committed st"
    and p: "slot_in_range (ip_change_list_no st)" "il_present (ip_list st) ! (unat (ip_change_list_no st) - 1)"
      "\<not> persist_resource_busy st OPCD_PERSIST_IP_LIST"
    and r: "request f OPC_REQ_LOGOUT seq" "opc_logout_req_unpack (Some f) = Some ()"
  shows "ind_erase (on_udp_datagram E f ip port st) = ind_erase (st\<lparr>
      ip_change_armed_entry := il_slots (ip_list st) ! (unat (ip_change_list_no st) - 1),
      ip_change_armed_no := ip_change_list_no st, ip_change_commit_armed := True,
      session_generation := session_generation st + 1, logged_in := False, boot_status := OPC_DEVICE_READY,
      ip_list_staging_active := False, ip_list_staging := zero_ip_list\<rparr>)"
proof -
  let ?a = "st\<lparr>ip_change_armed_entry := il_slots (ip_list st) ! (unat (ip_change_list_no st) - 1),
      ip_change_armed_no := ip_change_list_no st, ip_change_commit_armed := True\<rparr>"
  let ?b = "snd (opcd_ind_init_complete E ?a OPC_INIT_STATE_LOGGED_OUT)"
  have b: "ind_erase ?b = ind_erase ?a" by (rule ind_erase_eq [OF init_complete_only])
  define upd where "upd s = s\<lparr>session_generation := session_generation s + 1, logged_in := False,
      boot_status := OPC_DEVICE_READY, ip_list_staging_active := False, ip_list_staging := zero_ip_list\<rparr>" for s :: opcd_state_t
  have u: "ind_erase (upd s) = upd (ind_erase s)" for s by (simp add: upd_def ind_erase_def)
  have "logout_arm st = ?a"
    using s p by (simp add: ip_change_committed_def logout_arm_def arm_ip_change_from_committed_def Let_def)
  then have h: "snd (handle_logout E st f ip port c sq) = upd ?b" for c sq
    using r(2) s(2) by (simp add: handle_logout_def session_owns_def opcd_session_logout_def upd_def Let_def)
  have e: "ind_erase (upd ?b) = ind_erase (upd ?a)" by (simp only: u b)
  have "settled (upd ?a)" using s(1) by (simp add: settled_def upd_def)
  then have "settled (upd ?b)" using ind_erase_settled [OF e] by simp
  moreover have "map_of opcd_dispatch_table OPC_REQ_LOGOUT = Some handle_logout" by (simp add: opcd_dispatch_table_def)
  moreover have "idle_logout E st = st" using s by (simp add: idle_logout_def)
  ultimately have "ind_erase (on_udp_datagram E f ip port st) = ind_erase (upd ?b)"
    using handled [OF r(1), of handle_logout E ip port st] settled_reply(1) h by (metis prod.collapse)
  also have "\<dots> = ind_erase (upd ?a)" by (rule e)
  finally show ?thesis by (simp add: upd_def)
qed

subsection \<open>SetIpConfigList without the writer thread\<close>

lemma write_ok:
  assumes "\<And>k. store_calls E k = sys_ok" "length p < 900"
  shows "\<exists>s. fs_write E st p d m = ((0, OPC_STORE_DURABLE), s) \<and> fs_erase s = fs_erase st"
proof -
  have t: "length (tmp_path 1 p) < 1024" using assms(2) by (simp add: tmp_path_def bytes_of_def dec.simps)
  have "write_loop [] q x = (True, if x = [] then [] else [Append q x])" for q x by (simp add: write_loop.simps)
  then show ?thesis
    using t by (simp add: fs_write_def assms(1) opc_store_write_atomic_ex_def sys_ok_def Let_def fs_erase_def)
qed

lemma ind_fs_erase: "fs_erase s = fs_erase t \<Longrightarrow> fs_erase (ind_erase s) = fs_erase (ind_erase t)"
proof -
  have "fs_erase (ind_erase x) = ind_erase (fs_erase x)" for x by (simp add: fs_erase_def ind_erase_def)
  then show "fs_erase s = fs_erase t \<Longrightarrow> ?thesis" by simp
qed

lemma upload_step:
  assumes s: "settled st" "session_owns st ip" "mono_now_s E < idle_deadline st" "store_async st = None"
      "\<not> is_request_retransmission st OPC_REQ_SET_IP_CONFIG_LIST ip port"
    and E: "\<And>k. store_calls E k = sys_ok" "length (p_ip_list (paths st)) < 900"
    and r: "request f OPC_REQ_SET_IP_CONFIG_LIST seq" "opc_set_ip_config_list_req_unpack (Some f) = Inr rq"
      "take (entry_count rq) (entries rq) = [e]" "bit (essid_terminated_mask rq) 0"
    and e: "boundary_flag e = OPC_LIST_BOUNDARY_START_END" "slot_in_range (list_number e)" "ip_address e \<noteq> 0"
      "ipcfg_entry_error e True = 0"
    and l: "l = slot_put (ip_list st) (unat (list_number e) - 1) (Some e)" "iplist_text_ok l"
  shows "fs_erase (ind_erase (on_udp_datagram E f ip port st)) = fs_erase (ind_erase
    (session_touch E (st\<lparr>ip_list := l, ip_list_staging := zero_ip_list, ip_list_staging_active := False\<rparr>)))"
proof -
  let ?s = "session_touch E st"
  obtain tx where tx: "opc_iplist_text_format l OPC_IPLIST_TEXT_MAX = Some tx"
    using format_fold_fits [OF l(2), of "[0..<128]" "[]" OPC_IPLIST_TEXT_MAX] by (auto simp: opc_iplist_text_format_def)
  obtain s1 where w: "fs_write E ?s (p_ip_list (paths st)) tx 420 = ((0, OPC_STORE_DURABLE), s1)" "fs_erase s1 = fs_erase ?s"
    using write_ok [OF E] by blast
  define t where "t = \<lparr>lt_candidate = l, lt_staging = zero_ip_list, lt_active = False, lt_committed = True\<rparr>"
  have le: "list_entries (essid_terminated_mask rq) 0 [e] \<lparr>lt_candidate = ip_list st, lt_staging = ip_list_staging st,
      lt_active = ip_list_staging_active st, lt_committed = False\<rparr> = (OPC_ERR_NONE, t)"
    using e r(4) by (simp add: list_entry_step_def Let_def t_def l(1))
  define s2 where "s2 = s1\<lparr>ip_list := l, ip_list_staging := zero_ip_list, ip_list_staging_active := False\<rparr>"
  have f: "paths ?s = paths st" "store_async ?s = None" "ip_list ?s = ip_list st" "ip_list_staging ?s = ip_list_staging st"
      "ip_list_staging_active ?s = ip_list_staging_active st" "session_touch E ?s = ?s"
      "is_request_retransmission ?s OPC_REQ_SET_IP_CONFIG_LIST ip port = is_request_retransmission st OPC_REQ_SET_IP_CONFIG_LIST ip port"
    using s(4) by (simp_all add: session_touch_def is_request_retransmission_def pending_slot_for_def)
  have st: "set_ip_list_store E ?s t OPC_ERR_NONE ip port seq (- 1) = (Some OPC_ERR_NONE, iplist_mirror_user E s2)" for seq
    using tx w(1) f by (simp add: set_ip_list_store_def persist_ip_list_def persist_blob_def t_def s2_def Let_def)
  have h: "snd (handle_set_ip_config_list E st f ip port c sq) = iplist_mirror_user E s2" for c sq
    using r(2,3) s(2,5) f le st
    by (simp add: handle_set_ip_config_list_def set_ip_list_process_def login_check_cases persist_admit_def
        del: list_entries.simps)
  define u where "u s = s\<lparr>ip_list := l, ip_list_staging := zero_ip_list, ip_list_staging_active := False\<rparr>" for s :: opcd_state_t
  have u: "fs_erase (u x) = u (fs_erase x)" "session_touch E (u x) = u (session_touch E x)" for x
    by (simp_all add: u_def fs_erase_def session_touch_def)
  have fk: "store_async (fs_erase x) = store_async x" "settled (fs_erase x) = settled x" for x
    by (simp_all add: fs_erase_def settled_def)
  have "store_async s1 = None" using w(2) f(2) fk(1) by metis
  then have m: "fs_erase (iplist_mirror_user E s2) = fs_erase s2"
    by (simp add: iplist_mirror_user_def s2_def split: option.split)
  have "fs_erase s2 = fs_erase (u ?s)" using w(2) by (simp add: s2_def u_def [symmetric] u(1))
  with m have e2: "fs_erase (iplist_mirror_user E s2) = fs_erase (session_touch E (u st))" by (simp add: u(2))
  have "settled (session_touch E (u st))" using s(1) by (simp add: settled_def session_touch_def u_def)
  then have "settled (iplist_mirror_user E s2)" using e2 fk(2) by metis
  moreover have "map_of opcd_dispatch_table OPC_REQ_SET_IP_CONFIG_LIST = Some handle_set_ip_config_list"
    by (simp add: opcd_dispatch_table_def)
  moreover have "idle_logout E st = st" using s by (simp add: idle_logout_def)
  ultimately have "ind_erase (on_udp_datagram E f ip port st) = ind_erase (iplist_mirror_user E s2)"
    using handled [OF r(1), of handle_set_ip_config_list E ip port st] settled_reply(1) h by (metis prod.collapse)
  then show ?thesis using ind_fs_erase [OF e2] by (simp add: u_def)
qed

subsection \<open>A change of the address from Login to Logout\<close>

text \<open>The state without the engine's fields, the log and the files.\<close>

definition core :: "opcd_state_t \<Rightarrow> opcd_state_t" where
  "core st = fs_erase (ind_erase st)"

lemma core_eq: "core s = core t \<Longrightarrow> (\<And>x. P (core x) = P x) \<Longrightarrow> P s = P t"
  by metis

lemma core_ind: "ind_erase s = ind_erase t \<Longrightarrow> core s = core t"
  by (simp add: core_def)

text \<open>The peer holds the session until \<open>dl\<close>, and what the requests below rely on is as it was in \<open>st\<close>.\<close>

definition holding :: "u32 \<Rightarrow> int \<Rightarrow> opcd_state_t \<Rightarrow> opcd_state_t \<Rightarrow> bool" where
  "holding ip dl st s \<longleftrightarrow> settled s \<and> session_owns s ip \<and> idle_deadline s = dl \<and> \<not> ip_change_committed s
     \<and> store_async s = store_async st \<and> paths s = paths st \<and> conf s = conf st \<and> pending_acks s = pending_acks st
     \<and> reset_notice_sent s = reset_notice_sent st"

lemma holding_core: "core s = core t \<Longrightarrow> holding ip dl st s = holding ip dl st t"
  by (rule core_eq) (simp_all add: holding_def settled_def session_owns_def ip_change_committed_def core_def
      fs_erase_def ind_erase_def)

lemma lists_core:
  assumes "core s = core t"
  shows "ip_list s = ip_list t" "ip_list_staging_active s = ip_list_staging_active t" "ip_change_pending s = ip_change_pending t"
    "ip_change_list_no s = ip_change_list_no t"
  by (rule core_eq [OF assms], simp add: core_def fs_erase_def ind_erase_def)+

lemma armed_core:
  assumes "core s = core t"
  shows "ip_change_commit_armed s = ip_change_commit_armed t" "ip_change_armed_entry s = ip_change_armed_entry t"
    "ip_change_armed_no s = ip_change_armed_no t" "conf s = conf t" "logged_in s = logged_in t"
    "ip_change_logout_deferred s = ip_change_logout_deferred t" "aborted s = aborted t"
  by (rule core_eq [OF assms], simp add: core_def fs_erase_def ind_erase_def)+

abbreviation idle_of :: "opcd_state_t \<Rightarrow> int" where
  "idle_of st \<equiv> uint (login_idle_s (conf st))"

lemma login_holding:
  assumes "settled st" "\<not> logged_in st" "\<not> ip_change_committed st" "boot_status st \<noteq> OPC_DEVICE_BOOTING"
    and pw: "pw = cstr (password st)" "pw \<noteq> []" "list_all opc_charset pw" "length pw < 128"
  shows "holding ip (mono_now_s E + idle_of st) st (on_udp_datagram E (login_frame seq pw) ip port st)"
    "ip_list (on_udp_datagram E (login_frame seq pw) ip port st) = ip_list st"
    "ip_list_staging_active (on_udp_datagram E (login_frame seq pw) ip port st) = ip_list_staging_active st"
proof -
  have "cstr pw = pw" using pw(1) by simp
  then have c: "cstr (copy_with_null_pad 128 (Some pw)) = pw"
    using cstr_copy_with_null_pad [of 128 pw] pw(4) by simp
  have ok: "login_error st (Some \<lparr>lr_password = copy_with_null_pad 128 (Some pw), lr_password_terminated = True\<rparr>) ip
      = OPC_ERR_NONE"
    using assms by (simp add: login_error_def valid_opc_charset_def c strncmp_eq_def)
  have e: "core (on_udp_datagram E (login_frame seq pw) ip port st) = core (logged_in_as E ip port st)"
    by (rule core_ind [OF login_step [OF assms(1-3) login_frame ok]])
  show "holding ip (mono_now_s E + idle_of st) st (on_udp_datagram E (login_frame seq pw) ip port st)"
    using assms(1,3) by (simp add: holding_core [OF e]) (simp add: holding_def settled_def session_owns_def
        ip_change_committed_def logged_in_as_def session_touch_def)
  show "ip_list (on_udp_datagram E (login_frame seq pw) ip port st) = ip_list st"
    "ip_list_staging_active (on_udp_datagram E (login_frame seq pw) ip port st) = ip_list_staging_active st"
    by (simp_all add: lists_core [OF e]) (simp_all add: logged_in_as_def session_touch_def)
qed

definition list_frame :: "u16 \<Rightarrow> opc_ipcfg_entry_t \<Rightarrow> u8 list" where
  "list_frame seq e = emit_ack (opc_set_ip_config_list_req_pack (Some OPC_FRAME_MAX) seq
     (Some \<lparr>entry_count = 1, entries = [e], essid_terminated_mask = 1\<rparr>))"

lemma upload_holding:
  assumes h: "holding ip dl st s" "mono_now_s E < dl" "store_async st = None" "\<forall>pa\<in>set (pending_acks st). \<not> pa_in_use pa"
    and E: "\<And>k. store_calls E k = sys_ok" "length (p_ip_list (paths st)) < 900"
    and e: "boundary_flag e = OPC_LIST_BOUNDARY_START_END" "slot_in_range (list_number e)" "ip_address e \<noteq> 0"
      "ipcfg_entry_error e True = 0" "padded 32 (essid e)"
    and l: "l = slot_put (ip_list s) (unat (list_number e) - 1) (Some e)" "iplist_text_ok l"
  shows "holding ip (mono_now_s E + idle_of st) st (on_udp_datagram E (list_frame seq e) ip port s)"
    "ip_list (on_udp_datagram E (list_frame seq e) ip port s) = l"
    "\<not> ip_list_staging_active (on_udp_datagram E (list_frame seq e) ip port s)"
proof -
  let ?r = "\<lparr>entry_count = 1, entries = [e], essid_terminated_mask = 1\<rparr>"
  have "\<And>i. i < entry_count ?r \<Longrightarrow> padded 32 (essid (entries ?r ! i))" using e(5) by simp
  then obtain f rq where f: "opc_set_ip_config_list_req_pack (Some OPC_FRAME_MAX) seq (Some ?r) = Some f"
      "request f OPC_REQ_SET_IP_CONFIG_LIST seq" "opc_set_ip_config_list_req_unpack (Some f) = Inr rq"
      "take (entry_count rq) (entries rq) = [e]" "bit (essid_terminated_mask rq) 0"
    using ip_config_list_packed [of ?r OPC_FRAME_MAX seq] by (auto simp: request_def)
  have lf: "list_frame seq e = f" using f(1) by (simp add: list_frame_def emit_ack_def)
  have "\<not> is_request_retransmission s OPC_REQ_SET_IP_CONFIG_LIST ip port"
    using h(1,4) by (auto simp: holding_def is_request_retransmission_def pending_slot_for_def pending_match_def find_None_iff)
  then have c: "core (on_udp_datagram E f ip port s) =
      core (session_touch E (s\<lparr>ip_list := l, ip_list_staging := zero_ip_list, ip_list_staging_active := False\<rparr>))"
    using h E e l f unfolding core_def by (intro upload_step) (auto simp: holding_def)
  show "holding ip (mono_now_s E + idle_of st) st (on_udp_datagram E (list_frame seq e) ip port s)"
    unfolding lf using h(1) by (simp add: holding_core [OF c]) (simp add: holding_def settled_def session_owns_def
        ip_change_committed_def session_touch_def)
  show "ip_list (on_udp_datagram E (list_frame seq e) ip port s) = l"
    "\<not> ip_list_staging_active (on_udp_datagram E (list_frame seq e) ip port s)"
    unfolding lf by (simp_all add: lists_core [OF c]) (simp_all add: session_touch_def)
qed

lemma clash_conf: "conf s = conf t \<Longrightarrow> ipcfg_clashes_other_iface E s e = ipcfg_clashes_other_iface E t e"
  by (simp add: ipcfg_clashes_other_iface_def mgmt_ip_iface_idx_def)

lemma change_holding:
  assumes h: "holding ip dl st s" "mono_now_s E < dl" "\<not> ip_list_staging_active s"
    and n: "slot_in_range n" "il_present (ip_list s) ! (unat n - 1)"
      "\<not> ipcfg_clashes_other_iface E st (il_slots (ip_list s) ! (unat n - 1))"
  shows "holding ip (mono_now_s E + idle_of st) st (on_udp_datagram E (change_ip_frame seq n) ip port s)"
    "ip_list (on_udp_datagram E (change_ip_frame seq n) ip port s) = ip_list s"
    "ip_change_pending (on_udp_datagram E (change_ip_frame seq n) ip port s)"
    "ip_change_list_no (on_udp_datagram E (change_ip_frame seq n) ip port s) = n"
proof -
  have "change_ip_error E s n = OPC_ERR_NONE"
    using h n clash_conf [of s st E] by (simp add: change_ip_error_def holding_def ip_change_committed_def)
  then have c: "core (on_udp_datagram E (change_ip_frame seq n) ip port s) =
      core (session_touch E (s\<lparr>ip_change_pending := True, ip_change_list_no := n\<rparr>))"
    using h core_ind [OF change_step [OF _ _ _ change_ip_frame, of s ip E n seq port]] by (simp add: holding_def)
  show "holding ip (mono_now_s E + idle_of st) st (on_udp_datagram E (change_ip_frame seq n) ip port s)"
    using h(1) by (simp add: holding_core [OF c]) (simp add: holding_def settled_def session_owns_def
        ip_change_committed_def session_touch_def)
  show "ip_list (on_udp_datagram E (change_ip_frame seq n) ip port s) = ip_list s"
    "ip_change_pending (on_udp_datagram E (change_ip_frame seq n) ip port s)"
    "ip_change_list_no (on_udp_datagram E (change_ip_frame seq n) ip port s) = n"
    by (simp_all add: lists_core [OF c]) (simp_all add: session_touch_def)
qed

lemma logout_arms:
  assumes h: "holding ip dl st s" "mono_now_s E < dl" "\<forall>pa\<in>set (pending_acks st). \<not> pa_in_use pa"
    and n: "ip_change_pending s" "ip_change_list_no s = n" "slot_in_range n" "il_present (ip_list s) ! (unat n - 1)"
    and s': "s' = on_udp_datagram E (logout_frame seq) ip port s"
  shows "ip_change_commit_armed s'" "ip_change_armed_entry s' = il_slots (ip_list s) ! (unat n - 1)"
    "ip_change_armed_no s' = n" "conf s' = conf st" "\<not> logged_in s'" "ip_list s' = ip_list s"
    "\<not> ip_change_logout_deferred s'" "\<not> aborted s'"
proof -
  have "\<not> persist_resource_busy s OPCD_PERSIST_IP_LIST"
    using h(1,3) by (auto simp: holding_def persist_resource_busy_def list_ex_iff)
  then have c: "core s' = core (s\<lparr>ip_change_armed_entry := il_slots (ip_list s) ! (unat n - 1),
      ip_change_armed_no := n, ip_change_commit_armed := True,
      session_generation := session_generation s + 1, logged_in := False, boot_status := OPC_DEVICE_READY,
      ip_list_staging_active := False, ip_list_staging := zero_ip_list\<rparr>)"
    using h n core_ind [OF logout_step [OF _ _ _ _ _ _ _ _ logout_frame, of s ip E seq port]]
    by (simp add: s' holding_def)
  show "ip_change_commit_armed s'" "ip_change_armed_entry s' = il_slots (ip_list s) ! (unat n - 1)"
    "ip_change_armed_no s' = n" "conf s' = conf st" "\<not> logged_in s'" "ip_list s' = ip_list s"
    "\<not> ip_change_logout_deferred s'" "\<not> aborted s'"
    using h(1) by (simp_all add: armed_core [OF c] lists_core [OF c]) (simp_all add: holding_def ip_change_committed_def settled_def)
qed

subsection \<open>A start on empty files\<close>

definition stub_start :: start_sys where
  "stub_start = \<lparr>ss_udp_fd = 3, ss_init = 0, ss_fds = True, ss_create = \<lparr>cs_calloc = True, cs_eventfd = True,
     cs_nonblock = True, cs_mutex = True, cs_cond = True, cs_thread = True\<rparr>, ss_store_epoll = False\<rparr>"

definition stub_opts :: opcd_opts where
  "stub_opts = \<lparr>port_override = 0, idle_override = 0, conf_path = None\<rparr>"

lemma stub_configured:
  fixes s0 defines "s0 \<equiv> main_configure stub_opts (state_set_defaults Map.empty)"
  shows "conf s0 = conf (state_set_defaults Map.empty)" "fs s0 = Map.empty" "paths s0 = paths (state_set_defaults Map.empty)"
    "password s0 = put 0 OPC_PASSWORD_DEFAULT zero_password" "settled s0" "\<not> logged_in s0" "\<not> ip_change_committed s0"
    "pending_acks s0 = replicate OPCD_PENDING_ACK_MAX zero_pending_ack" "\<not> ip_list_staging_active s0"
    "\<not> should_exit s0" "\<not> reset_notice_sent s0"
  by (simp_all add: s0_def main_configure_def stub_opts_def Let_def state_set_defaults_def settled_def
      ip_change_committed_def opcd_conf_port_parse_def opcd_freq_source_parse_def opcd_ip_iface_parse_def
      opcd_topology_parse_def opcd_roam_notify_port_parse_def conf_override_def slurp_def)

lemma no_file: "fs st = Map.empty \<Longrightarrow> fs_read E st p n = (None, st\<lparr>fs_runs := fs_runs st + 1\<rparr>)"
  by (simp add: fs_read_def opc_store_read_all_def)

lemma stub_started:
  "\<exists>st. main_start (stub_env 0) stub_start stub_opts Map.empty = Some st \<and> settled st \<and> \<not> logged_in st
     \<and> \<not> ip_change_committed st \<and> boot_status st = OPC_DEVICE_READY \<and> ip_list st = zero_ip_list
     \<and> password st = put 0 OPC_PASSWORD_DEFAULT zero_password \<and> store_async st = None
     \<and> pending_acks st = replicate OPCD_PENDING_ACK_MAX zero_pending_ack \<and> \<not> ip_list_staging_active st
     \<and> paths st = paths (state_set_defaults Map.empty) \<and> conf st = conf (state_set_defaults Map.empty)
     \<and> \<not> should_exit st \<and> \<not> reset_notice_sent st"
proof -
  let ?E = "stub_env 0"
  define s0 where "s0 = main_configure stub_opts (state_set_defaults Map.empty)"
  note c = stub_configured [folded s0_def]
  define s1 where "s1 = s0\<lparr>fs_runs := fs_runs s0 + 1\<rparr>"
  have r: "fs_read ?E s0 (p_password (paths s0)) (OPC_PASSWORD_BUF - 1) = (None, s1)"
    unfolding s1_def by (rule no_file) (rule c)
  have n: "fs s1 = Map.empty" by (simp add: s1_def c)
  define s2 where "s2 = snd (opcd_radio_conf_load ?E s1)"
  have f2: "fs s2 = Map.empty" "paths s2 = paths s0"
    using n by (simp_all add: s2_def opcd_radio_conf_load_def no_file opcd_radio_conf_restore_def opcd_radio_conf_decode_def s1_def)
  define s3 where "s3 = snd (opcd_iplist_load ?E s2)"
  have "main_start ?E stub_start stub_opts Map.empty \<noteq> None"
    by (simp add: main_start_def stub_start_def stub_env_def g_stub_ops_def Let_def split: prod.split)
  then obtain st where m: "main_start ?E stub_start stub_opts Map.empty = Some st" by blast
  have sh: "st = s3\<lparr>udp_fd := 3, boot_status := OPC_DEVICE_READY, store_async := None\<rparr>" "load_erase s3 = load_erase s0"
    using start_shape [OF m s0_def r _ s3_def [unfolded s2_def]] by (simp_all add: stub_start_def)
  have lo: "iplist_load_own ?E s2 = (OPCD_IPLIST_LOAD_NONE, s2\<lparr>ip_list := zero_ip_list, fs_runs := fs_runs s2 + 1\<rparr>)"
    using f2 c(3) by (simp add: iplist_load_own_def iplist_convert_legacy_def no_file stub_env_def state_set_defaults_def)
  let ?u = "iplist_write_user ?E (s2\<lparr>ip_list := zero_ip_list, fs_runs := fs_runs s2 + 1\<rparr>) (bytes_of ''/home/admin/iplist.txt'')"
  have s3: "s3 = ?u"
    unfolding s3_def opcd_iplist_load_def lo
    using f2 c(3) by (simp add: iplist_read_user_def stub_env_def state_set_defaults_def)
  have "ip_list (fs_erase x) = ip_list x" for x by (simp add: fs_erase_def)
  then have l: "ip_list s3 = ip_list (s2\<lparr>ip_list := zero_ip_list, fs_runs := fs_runs s2 + 1\<rparr>)"
    unfolding s3 by (metis fs_erase_write_user)
  have k: "P s3 = P s0" if "\<And>x. P (load_erase x) = P x" for P :: "opcd_state_t \<Rightarrow> 'a" using that sh(2) by metis
  have "settled s3" "\<not> logged_in s3" "\<not> ip_change_committed s3"
    using k [of settled] k [of logged_in] k [of ip_change_committed] c
    by (simp_all add: load_erase_def fs_erase_def settled_def ip_change_committed_def)
  moreover have "password s3 = password s0" "pending_acks s3 = pending_acks s0" "paths s3 = paths s0" "conf s3 = conf s0"
      "ip_list_staging_active s3 = ip_list_staging_active s0" "should_exit s3 = should_exit s0"
      "reset_notice_sent s3 = reset_notice_sent s0"
    by (rule k, simp add: load_erase_def fs_erase_def)+
  ultimately show ?thesis
    using c l by (intro exI [of _ st] conjI m) (simp_all add: sh(1) settled_def ip_change_committed_def)
qed

subsection \<open>An example run\<close>

definition ex_entry :: opc_ipcfg_entry_t where
  "ex_entry = \<lparr>boundary_flag = OPC_LIST_BOUNDARY_START_END, list_number = 1, ip_address = 0xC0A80102,
     subnet_mask = 0xFFFFFF00, default_gateway = 0xC0A80101, ntp_server = 0, essid = 65 # replicate 31 0\<rparr>"

lemma zeros_update: "(replicate n 0)[i := 0] = replicate n (0 :: u8)"
  by (cases "i < n") (simp_all add: list_eq_iff_nth_eq nth_list_update)

lemma ex_entry_ok:
  "boundary_flag ex_entry = OPC_LIST_BOUNDARY_START_END" "slot_in_range (list_number ex_entry)" "ip_address ex_entry \<noteq> 0"
  "ipcfg_entry_error ex_entry True = 0" "padded 32 (essid ex_entry)" "slot_text_ok ex_entry" "list_number ex_entry = 1"
  by (simp_all add: ex_entry_def slot_in_range_def ipcfg_entry_error_def valid_ipcfg_addr_def valid_unicast_ipv4_def
      valid_netmask_def valid_opc_charset_def opc_charset_def padded_def copy_with_null_pad_eq slot_text_ok_def
      essid_chars_def zeros_update cstr_zeros Let_def)

abbreviation ex_login :: "opcd_state_t \<Rightarrow> opcd_state_t" where
  "ex_login \<equiv> on_udp_datagram (stub_env 0) (login_frame 1 OPC_PASSWORD_DEFAULT) 0xC0A80001 5000"

abbreviation ex_upload :: "opcd_state_t \<Rightarrow> opcd_state_t" where
  "ex_upload \<equiv> on_udp_datagram (stub_env 0) (list_frame 2 ex_entry) 0xC0A80001 5000"

abbreviation ex_change :: "opcd_state_t \<Rightarrow> opcd_state_t" where
  "ex_change \<equiv> on_udp_datagram (stub_env 0) (change_ip_frame 3 1) 0xC0A80001 5000"

abbreviation ex_logout :: "opcd_state_t \<Rightarrow> opcd_state_t" where
  "ex_logout \<equiv> on_udp_datagram (stub_env 0) (logout_frame 4) 0xC0A80001 5000"

lemma ex_password: "list_all opc_charset OPC_PASSWORD_DEFAULT" "length OPC_PASSWORD_DEFAULT = 10" "OPC_PASSWORD_DEFAULT \<noteq> []"
  "cstr (put 0 OPC_PASSWORD_DEFAULT zero_password) = OPC_PASSWORD_DEFAULT"
  by (simp_all add: OPC_PASSWORD_DEFAULT_def bytes_of_def opc_charset_def put_def zero_password_def)

lemma ex_list_ok: "iplist_text_ok (slot_put zero_ip_list (unat (list_number ex_entry) - 1) (Some ex_entry))"
  using ex_entry_ok(6) by (auto simp: iplist_text_ok_def slot_put_def zero_ip_list_def ex_entry_ok(7) nth_list_update
      split: if_splits)

lemma ex_run:
  "\<exists>st. opcd_reachable (Draining 0 16, st) \<and> \<not> logged_in st \<and> session_owns (ex_login st) 0xC0A80001
     \<and> opcd_step (Draining 0 16, st) (Draining 0 15, ex_login st)
     \<and> opcd_reachable (Draining 0 13, ex_change (ex_upload (ex_login st)))
     \<and> session_owns (ex_change (ex_upload (ex_login st))) 0xC0A80001
     \<and> \<not> ip_change_committed (ex_change (ex_upload (ex_login st)))
     \<and> opcd_step (Draining 0 13, ex_change (ex_upload (ex_login st))) (Serving 0, ex_logout (ex_change (ex_upload (ex_login st))))
     \<and> ip_change_commit_armed (ex_logout (ex_change (ex_upload (ex_login st))))
     \<and> ip_change_armed_entry (ex_logout (ex_change (ex_upload (ex_login st)))) = ex_entry
     \<and> ip_change_armed_no (ex_logout (ex_change (ex_upload (ex_login st)))) = 1
     \<and> \<not> aborted (ex_logout (ex_change (ex_upload (ex_login st))))"
proof -
  let ?E = "stub_env 0" and ?ip = "0xC0A80001 :: u32" and ?port = "5000 :: u16"
  obtain st where m: "main_start ?E stub_start stub_opts Map.empty = Some st" and s: "settled st" "\<not> logged_in st"
      "\<not> ip_change_committed st" "boot_status st = OPC_DEVICE_READY" "ip_list st = zero_ip_list"
      "password st = put 0 OPC_PASSWORD_DEFAULT zero_password" "store_async st = None"
      "pending_acks st = replicate OPCD_PENDING_ACK_MAX zero_pending_ack" "\<not> ip_list_staging_active st"
      "paths st = paths (state_set_defaults Map.empty)" "conf st = conf (state_set_defaults Map.empty)"
      "\<not> should_exit st"
    using stub_started by blast
  have idle: "idle_of st = 300" by (simp add: s state_set_defaults_def)
  have pa: "\<forall>pa\<in>set (pending_acks st). \<not> pa_in_use pa" by (simp add: s zero_pending_ack_def)
  have p: "length (p_ip_list (paths st)) < 900" by (simp add: s state_set_defaults_def opc_path_def bytes_of_def)
  have now: "mono_now_s ?E = 0" and sys: "\<And>k. store_calls ?E k = sys_ok" by (simp_all add: stub_env_def)
  define s1 s2 s3 s4 where "s1 = ex_login st" "s2 = ex_upload s1" "s3 = ex_change s2" "s4 = ex_logout s3"
  note d = s1_s2_s3_s4_def
  have 1: "holding ?ip 300 st s1" "ip_list s1 = zero_ip_list"
    using login_holding [where st = st and pw = OPC_PASSWORD_DEFAULT and ip = ?ip and E = ?E and seq = 1 and port = ?port] s(1-10) ex_password by (simp_all add: d(1) now idle)
  define l where "l = slot_put (ip_list s1) (unat (list_number ex_entry) - 1) (Some ex_entry)"
  have lok: "iplist_text_ok l" using ex_list_ok by (simp add: l_def 1)
  have 2: "holding ?ip 300 st s2" "ip_list s2 = l" "\<not> ip_list_staging_active s2"
    using upload_holding [OF 1(1) _ s(7) pa sys p ex_entry_ok(1-5) l_def lok, where seq = 2 and port = ?port] by (simp_all add: d(2) now idle)
  have sl: "il_present l ! 0" "il_slots l ! 0 = ex_entry"
    by (simp_all add: l_def slot_put_def 1(2) zero_ip_list_def ex_entry_ok(7))
  have nc: "\<not> ipcfg_clashes_other_iface ?E st ex_entry"
    by (simp add: ipcfg_clashes_other_iface_def mgmt_ip_iface_idx_def s state_set_defaults_def opcd_ip_iface_idx_def stub_env_def
        g_stub_ops_def stub_get_dev_ipv4_def stub_zero_def ex_entry_def)
  have r1: "slot_in_range 1" using ex_entry_ok(2,7) by simp
  have 3: "holding ?ip 300 st s3" "ip_list s3 = l" "ip_change_pending s3" "ip_change_list_no s3 = 1"
    using change_holding [OF 2(1) _ 2(3) r1, where E = ?E and seq = 3 and port = ?port] sl nc 2(2) by (simp_all add: d(3) now idle)
  have 4: "ip_change_commit_armed s4" "ip_change_armed_entry s4 = ex_entry" "ip_change_armed_no s4 = 1" "\<not> aborted s4"
    using logout_arms [OF 3(1) _ pa 3(3,4) r1 _ d(4)] sl 3(2) by (simp_all add: now)
  have a: "\<not> aborted st" "\<not> aborted s1" "\<not> aborted s2" "\<not> aborted s3"
      "\<not> ip_change_commit_armed s1" "\<not> ip_change_commit_armed s2" "\<not> ip_change_commit_armed s3"
    using s(1) 1(1) 2(1) 3(1) by (simp_all add: holding_def settled_def ip_change_committed_def)
  have f: "opcd_step (Draining 0 (Suc b), x) (Draining 0 b, on_udp_datagram ?E f ?ip ?port x)"
    if "\<not> aborted x" "\<not> ip_change_commit_armed (on_udp_datagram ?E f ?ip ?port x)" for b x f
    using main_step.udp_frame [OF that(1) refl, where n = 0 and b = b and E = ?E and d = f and cip = ?ip and cport = ?port] that(2) by (auto intro: opcd_step.main_thread)
  have st: "\<not> should_exit st" "\<not> should_reset st" using s by (simp_all add: settled_def)
  have "opcd_reachable (Waiting, st)" by (rule opcd_reachable.start [OF m])
  then have "opcd_reachable (Serving 1, st)"
    using a st main_step.wait [of st 1] by (auto intro: opcd_reachable.step opcd_step.main_thread)
  then have r0: "opcd_reachable (Draining 0 16, st)"
    using main_step.udp [OF a(1), of 0] by (auto intro: opcd_reachable.step opcd_step.main_thread)
  have q1: "opcd_step (Draining 0 16, st) (Draining 0 15, s1)" using f [of st _ 15] a by (simp add: d(1))
  have q2: "opcd_step (Draining 0 15, s1) (Draining 0 14, s2)" using f [of s1 _ 14] a by (simp add: d(2))
  have q3: "opcd_step (Draining 0 14, s2) (Draining 0 13, s3)" using f [of s2 _ 13] a by (simp add: d(3))
  have q4: "opcd_step (Draining 0 13, s3) (Serving 0, s4)"
    using main_step.udp_frame [OF a(4) d(4), where n = 0 and b = 12] 4(1) by (auto intro: opcd_step.main_thread)
  have "opcd_reachable (Draining 0 13, s3)"
    by (rule opcd_reachable.step [OF opcd_reachable.step [OF opcd_reachable.step [OF r0 q1] q2] q3])
  then show ?thesis
    using r0 q1 q4 s(2) 1(1) 3(1) 4 by (intro exI [of _ st]) (simp add: d [symmetric] holding_def)
qed

end
