(* ===== verification/Daemon_Claims.thy ===== *)
theory Daemon_Claims
  imports Daemon_Scenario
begin

text \<open>
  The properties of the running daemon, over the steps of the process and its reachable states.
\<close>

subsection \<open>Frames and steps\<close>

lemma login_error_none:
  "login_error st rq ip = OPC_ERR_NONE \<longleftrightarrow> (\<exists>r. rq = Some r \<and> boot_status st \<noteq> OPC_DEVICE_BOOTING
     \<and> (logged_in st \<longrightarrow> holder_ip st = ip) \<and> lr_password_terminated r \<and> valid_opc_charset (lr_password r)
     \<and> cstr (password st) \<noteq> [] \<and> strncmp_eq 127 (lr_password r) (password st))"
  by (auto simp: login_error_def split: option.split)

lemma dispatch_effect:
  assumes "opcd_dispatch E st f ip port rcap = (rc, tx, st')"
  shows "calm st st'
    \<or> (\<exists>r. opc_login_req_unpack (Some f) = Some r \<and> login_error (idle_logout E st) (Some r) ip = OPC_ERR_NONE
         \<and> st' = login_grant E (idle_logout E st) ip port)
    \<or> (opc_logout_req_unpack (Some f) = Some () \<and> session_owns (idle_logout E st) ip
         \<and> st' = opcd_session_logout E (logout_arm (idle_logout E st)))"
proof -
  let ?s = "idle_logout E st"
  have c: "calm st ?s" by (rule calm_idle_logout)
  consider "st' \<in> {st, ?s}" | k fn seq where "map_of opcd_dispatch_table k = Some fn" "st' = snd (fn E ?s f ip port rcap seq)"
    using assms by (auto simp: opcd_dispatch_def Let_def split: option.splits prod.splits if_splits dest!: arg_cong [of _ _ snd])
  then show ?thesis
  proof cases
    case 1
    then show ?thesis using c by auto
  next
    case (2 k fn seq)
    show ?thesis
    proof (cases "k \<in> {OPC_REQ_LOGIN, OPC_REQ_LOGOUT}")
      case False
      then show ?thesis using calm_trans [OF c table_calm [OF 2(1)]] 2(2) by simp
    next
      case True
      then have "fn \<in> {handle_login, handle_logout}" using 2(1) by (auto simp: opcd_dispatch_table_def)
      then show ?thesis
      proof (elim insertE emptyE)
        assume "fn = handle_login"
        moreover have "login_error ?s None ip \<noteq> OPC_ERR_NONE" by (simp add: login_error_def)
        ultimately show ?thesis using 2(2) c
          by (cases "opc_login_req_unpack (Some f)") (auto simp: handle_login_def Let_def)
      next
        assume "fn = handle_logout"
        then show ?thesis using 2(2) c by (auto simp: handle_logout_def Let_def split: if_splits)
      qed
    qed
  qed
qed

lemma calm_after_dispatch: "calm st (after_dispatch E ip port (rc, tx, st))"
proof -
  have l: "calm st (if tx \<noteq> [] then st\<lparr>log := log st @ [Datagram ip port tx]\<rparr> else st)" by (simp add: calm_log)
  have p: "calm s (opcd_post_ack E s)" for s
    by (auto simp: opcd_post_ack_def intro!: calm_trans [OF _ calm_ind_only [OF reports_only(5)]])
  show ?thesis
    using l calm_trans [OF calm_trans [OF l p] calm_revert_drain] by (auto simp: after_dispatch_def Let_def calm_revert_drain)
qed

lemma udp_effect:
  assumes "st' = on_udp_datagram E d ip port st"
  shows "calm st st'
    \<or> (\<exists>r. opc_login_req_unpack (Some (received_frame d)) = Some r
         \<and> login_error (idle_logout E st) (Some r) ip = OPC_ERR_NONE \<and> calm (login_grant E (idle_logout E st) ip port) st')
    \<or> (opc_logout_req_unpack (Some (received_frame d)) = Some () \<and> session_owns (idle_logout E st) ip
         \<and> calm (opcd_session_logout E (logout_arm (idle_logout E st))) st')"
proof (cases "opcd_intake_frame_len (Some (take OPC_FRAME_MAX d)) = 0")
  case True
  then have "st' = opcd_reject_bad_length st (Some (take OPC_FRAME_MAX d)) ip port"
    using assms by (simp add: on_udp_datagram_def)
  then have "calm st st'" by (auto simp: opcd_reject_bad_length_def Let_def calm_log split: option.split)
  then show ?thesis ..
next
  case False
  obtain rc tx s where d: "opcd_dispatch E st (received_frame d) ip port OPC_FRAME_MAX = (rc, tx, s)" by (metis surj_pair)
  have "st' = after_dispatch E ip port (rc, tx, s)"
    using assms False d by (simp add: on_udp_datagram_def received_frame_def)
  then have "calm s st'" by (simp add: calm_after_dispatch)
  then show ?thesis using dispatch_effect [OF d] calm_trans by blast
qed

lemma calm_pairs: "(\<And>E x st. ind_only st (f E x st)) \<Longrightarrow> calm st (fold (\<lambda>(E, x). f E x) xs st)"
  by (rule calm_ind_only [OF ind_only_pairs])

lemma calm_signal: "calm st (on_signal E t b turns waits st)"
  by (auto simp: on_signal_def Let_def intro: calm_ind_only [OF reports_only(5)])

lemma calm_timer: "calm st (on_timer E xs st)"
  unfolding on_timer_def Let_def by (rule calm_trans [OF calm_idle_logout calm_ind_only [OF tick_only]])

lemma calm_shutdown: "calm st (main_shutdown E st)"
proof -
  define s1 where "s1 = (case store_async st of None \<Rightarrow> st
    | Some sa \<Rightarrow> (case opc_store_async_finish (worker_sys E) sa (fs st) of (sa, F) \<Rightarrow> st\<lparr>store_async := Some sa, fs := F\<rparr>))"
  define s2 where "s2 = (opcd_store_async_on_ready E s1)\<lparr>ip_change_commit_armed := False, store_async := None\<rparr>"
  have e: "main_shutdown E st = (if should_reset s2 then s2\<lparr>log := log s2 @ [StartReboot]\<rparr> else s2)"
    by (simp add: main_shutdown_def s1_def s2_def Let_def)
  have "calm st s1" by (simp add: s1_def split: option.split prod.split)
  then have "calm st (opcd_store_async_on_ready E s1)" by (rule calm_trans [OF _ calm_on_ready])
  moreover have "calm s (s\<lparr>ip_change_commit_armed := False, store_async := None\<rparr>)" for s
    by (simp add: calm_def ip_change_committed_def)
  ultimately have 2: "calm st s2" unfolding s2_def by (blast intro: calm_trans)
  then show ?thesis using calm_trans [OF 2 calm_log] by (simp add: e)
qed

text \<open>Every step is calm, applies an armed change of the address, or handles a datagram.\<close>

lemma step_effect:
  assumes "opcd_step (p, st) (p', st')"
  shows "calm st st'
    \<or> (\<exists>E. p = Serving 0 \<and> ip_change_commit_armed st \<and> st' = opcd_apply_pending_ip_change E st)
    \<or> (\<exists>E d ip port. st' = on_udp_datagram E d ip port st)"
  using assms
proof (cases rule: opcd_step.cases)
  case worker_thread
  then show ?thesis by (auto elim!: worker_step.cases)
next
  case main_thread
  then show ?thesis
  proof (cases rule: main_step.cases)
    case (platform n evts)
    then show ?thesis using calm_pairs [of on_platform_event, OF platform_event_only] by simp
  next
    case (roam ds n)
    then show ?thesis using calm_pairs [of on_roam_datagram, OF roam_only] by simp
  next
    case (turn_end E)
    then show ?thesis by (cases "ip_change_commit_armed st") (auto simp: opcd_apply_pending_ip_change_def)
  qed (auto simp: calm_signal calm_timer calm_on_ready calm_shutdown)
qed

subsection \<open>Sessions and the address\<close>

lemma committed_login_grant: "ip_change_committed (login_grant E st ip port) \<longrightarrow> ip_change_committed st"
proof -
  have k: "ip_change_committed s' = ip_change_committed s" if "ind_only s s'" for s s'
    by (rule ind_only_keeps [OF that]) (simp add: ind_erase_def ip_change_committed_def)
  show ?thesis
    unfolding login_grant_def Let_def by (subst k [OF init_complete_only]) (simp add: ip_change_committed_def session_touch_def)
qed

lemma owns_login_grant: "session_owns (login_grant E st ip port) a \<longleftrightarrow> a = ip"
proof -
  have k: "session_owns s' a = session_owns s a" if "ind_only s s'" for s s'
    by (rule ind_only_keeps [OF that]) (simp add: ind_erase_def session_owns_def)
  show ?thesis
    unfolding login_grant_def Let_def by (subst k [OF init_complete_only]) (auto simp: session_owns_def session_touch_def)
qed

lemma idle_logout_keeps:
  "password (idle_logout E st) = password st" "ip_change_pending (idle_logout E st) = ip_change_pending st"
proof -
  have k: "f (opcd_session_logout E st) = f st"
    if "\<And>s. f (ind_erase s) = f s" "\<And>s g b. f (s\<lparr>session_generation := g, logged_in := False, boot_status := b,
      ip_list_staging_active := False, ip_list_staging := zero_ip_list\<rparr>) = f s" for f :: "opcd_state_t \<Rightarrow> 'a"
    unfolding opcd_session_logout_def Let_def that(2) by (rule ind_only_keeps [of _ _ f, OF init_complete_only that(1)])
  show "password (idle_logout E st) = password st" "ip_change_pending (idle_logout E st) = ip_change_pending st"
    by (auto simp: idle_logout_def ind_erase_def intro!: k)
qed

lemma calm_owns: "calm st st' \<Longrightarrow> session_owns st' a \<Longrightarrow> session_owns st a"
  by (auto simp: calm_def session_owns_def)

lemma owns_logged_out: "\<not> session_owns (opcd_session_logout E st) a"
  by (simp add: opcd_session_logout_def session_owns_def Let_def)

lemma calm_applied: "calm s (ip_change_applied E s e)"
proof -
  have "calm s (if logged_in (s\<lparr>indication_enabled := False\<rparr>) then opcd_session_logout E (s\<lparr>indication_enabled := False\<rparr>)
      else s\<lparr>indication_enabled := False\<rparr>)"
    using calm_trans [OF _ calm_session_logout, of s "s\<lparr>indication_enabled := False\<rparr>" E] by simp
  then show ?thesis unfolding ip_change_applied_def Let_def using calm_trans [OF _ calm_log] by simp
qed

lemma apply_ip_effect:
  "\<not> session_owns (opcd_apply_pending_ip_change E st) a \<or> session_owns st a"
  "ip_change_committed (opcd_apply_pending_ip_change E st) \<longrightarrow> ip_change_committed st"
proof -
  have s: "\<not> session_owns (ip_change_applied E (st\<lparr>log := l\<rparr>) e) a \<or> session_owns st a"
      "ip_change_committed (ip_change_applied E (st\<lparr>log := l\<rparr>) e) \<longrightarrow> ip_change_committed st" for l e
    using calm_applied [of "st\<lparr>log := l\<rparr>" E e] by (auto simp: calm_def session_owns_def ip_change_committed_def)
  show "\<not> session_owns (opcd_apply_pending_ip_change E st) a \<or> session_owns st a"
    "ip_change_committed (opcd_apply_pending_ip_change E st) \<longrightarrow> ip_change_committed st"
    using s unfolding opcd_apply_pending_ip_change_def Let_def
    by (auto simp: session_owns_def ip_change_committed_def)
qed

text \<open>C2: A peer comes to hold the session only in a step that handles a datagram of that very peer whose frame is a
  well-formed Login request with a NUL-terminated password that equals the stored, non-empty one; a Login never
  takes the session from another peer whose session has not expired.\<close>

theorem session_only_by_login:
  assumes "opcd_step (p, st) (p', st')" "session_owns st' a" "\<not> session_owns st a"
  shows "\<exists>E d port r. st' = on_udp_datagram E d a port st
    \<and> opc_login_req_unpack (Some (received_frame d)) = Some r \<and> lr_password_terminated r
    \<and> take 127 (cstr (lr_password r)) = take 127 (cstr (password st)) \<and> cstr (password st) \<noteq> []
    \<and> (logged_in st \<longrightarrow> idle_deadline st \<le> mono_now_s E)"
proof -
  consider "calm st st'" | E where "st' = opcd_apply_pending_ip_change E st"
    | E d ip port where "st' = on_udp_datagram E d ip port st" using step_effect [OF assms(1)] by blast
  then show ?thesis
  proof cases
    case 1
    then show ?thesis using calm_owns assms(2,3) by blast
  next
    case (2 E)
    then show ?thesis using apply_ip_effect(1) [of E st a] assms(2,3) by blast
  next
    case (3 E d ip port)
    have l: "\<not> calm st st'" "\<not> calm (opcd_session_logout E (logout_arm (idle_logout E st))) st'"
      using calm_owns assms(2,3) owns_logged_out by blast+
    then obtain r where r: "opc_login_req_unpack (Some (received_frame d)) = Some r"
        "login_error (idle_logout E st) (Some r) ip = OPC_ERR_NONE" "calm (login_grant E (idle_logout E st) ip port) st'"
      using udp_effect [OF 3] by blast
    have a: "a = ip" using calm_owns [OF r(3) assms(2)] owns_login_grant by blast
    note e = r(2) [unfolded login_error_none]
    have "idle_deadline st \<le> mono_now_s E" if "logged_in st"
    proof (rule ccontr)
      assume "\<not> ?thesis"
      then have "idle_logout E st = st" by (simp add: idle_logout_def)
      then show False using e that assms(3) a by (auto simp: session_owns_def)
    qed
    then show ?thesis using 3 r(1) e a
      by (intro exI [of _ E] exI [of _ d] exI [of _ port] exI [of _ r]) (auto simp: strncmp_eq_def idle_logout_keeps)
  qed
qed

theorem session_only_by_login_witness:
  "\<exists>(st :: opcd_state_t) st' d r. opcd_step (Draining 0 16, st) (Draining 0 15, st')
     \<and> \<not> session_owns st 0xC0A80001 \<and> session_owns st' 0xC0A80001
     \<and> opc_login_req_unpack (Some (received_frame d)) = Some r
     \<and> take 127 (cstr (lr_password r)) = take 127 (cstr (password st))"
proof -
  obtain st where st: "\<not> logged_in st" "session_owns (ex_login st) 0xC0A80001"
      "opcd_step (Draining 0 16, st) (Draining 0 15, ex_login st)" using ex_run by blast
  then have "\<not> session_owns st 0xC0A80001" by (simp add: session_owns_def)
  with session_only_by_login [OF st(3,2) this] st show ?thesis by blast
qed



subsection \<open>Reachable states\<close>

text \<open>C1: In every reachable state of the process, whatever the peers, the platform, the file system and the writer
  thread did, the arrays have their sizes, the stored passwords are NUL-terminated, every populated slot of the four
  IP lists and an armed change hold a valid address configuration under their own number, the writer's queue is
  consistent, and every pending acknowledgment belongs to a live job of the writer.\<close>

theorem reachable_wellformed:
  assumes "opcd_reachable (p, st)"
  shows "daemon_inv st"
  using reachable_inv [OF assms] by simp

theorem reachable_wellformed_witness:
  "\<exists>st. opcd_reachable (Draining 0 13, st) \<and> daemon_inv st \<and> session_owns st 0xC0A80001"
proof -
  obtain st where "opcd_reachable (Draining 0 13, st)" "session_owns st 0xC0A80001" using ex_run by blast
  then show ?thesis using reachable_wellformed by blast
qed

lemma entry_error_zero:
  assumes "ipcfg_entry_error e True = 0"
  shows "valid_ipcfg_addr (ip_address e)" "valid_netmask (subnet_mask e)" "valid_opc_charset (essid e)"
    "default_gateway e = 0 \<or> valid_ipcfg_addr (default_gateway e) \<and> default_gateway e \<noteq> ip_address e"
  using assms by (auto simp: ipcfg_entry_error_def Let_def split: if_splits)

text \<open>C5: Every address configuration that the daemon has handed to the platform, in any reachable state, came
  from a slot between 1 and 128 and passed the validation: a unicast address outside loopback, a contiguous mask, a
  gateway that is absent or another valid address, and an ESSID of the permitted characters.\<close>

theorem applied_addresses_valid:
  assumes "opcd_reachable (p, st)" "ApplyIp e iface n \<in> set (log st)"
  shows "1 \<le> unat n \<and> unat n \<le> 128 \<and> list_number e = n \<and> valid_ipcfg_addr (ip_address e)
    \<and> valid_netmask (subnet_mask e) \<and> valid_opc_charset (essid e)
    \<and> (default_gateway e = 0 \<or> valid_ipcfg_addr (default_gateway e) \<and> default_gateway e \<noteq> ip_address e)"
proof -
  have "list_all action_ok (log st)" using reachable_inv [OF assms(1)] by (simp add: daemon_inv_with_def)
  then have a: "armed_ok e n" using assms(2) by (auto simp: list_all_iff action_ok_def)
  then have b: "1 \<le> unat n \<and> unat n \<le> 128" using slot_range_bounds by (simp add: armed_ok_def)
  then show ?thesis using a entry_error_zero [of e] by (auto simp: armed_ok_def entry_ok_def)
qed

lemma apply_ip_log:
  assumes "ip_change_commit_armed st"
  shows "\<exists>ds. log (opcd_apply_pending_ip_change E st) =
      log st @ ApplyIp (ip_change_armed_entry st) (mgmt_ip_iface_idx st) (ip_change_armed_no st) # ds
    \<and> list_all (\<lambda>a. \<not> is_apply_ip a) ds"
    "\<not> ip_change_commit_armed (opcd_apply_pending_ip_change E st)"
proof -
  define s where "s = st\<lparr>log := log st @ [ApplyIp (ip_change_armed_entry st) (mgmt_ip_iface_idx st) (ip_change_armed_no st)]\<rparr>"
  have l: "\<exists>ds. log (ip_change_applied E s e) = log s @ ds \<and> list_all (\<lambda>a. \<not> is_apply_ip a) ds" for e
    using calm_applied [of s E e] by (simp add: calm_def)
  show "\<exists>ds. log (opcd_apply_pending_ip_change E st) =
      log st @ ApplyIp (ip_change_armed_entry st) (mgmt_ip_iface_idx st) (ip_change_armed_no st) # ds
    \<and> list_all (\<lambda>a. \<not> is_apply_ip a) ds"
    using assms l unfolding opcd_apply_pending_ip_change_def Let_def s_def by auto
  show "\<not> ip_change_commit_armed (opcd_apply_pending_ip_change E st)"
    using assms by (simp add: opcd_apply_pending_ip_change_def Let_def)
qed

text \<open>The log grows without a new address.\<close>

definition keeps_address :: "opcd_state_t \<Rightarrow> opcd_state_t \<Rightarrow> bool" where
  "keeps_address st st' \<longleftrightarrow> (\<exists>ds. log st' = log st @ ds \<and> list_all (\<lambda>a. \<not> is_apply_ip a) ds)"

lemma keeps_address_trans: "keeps_address a b \<Longrightarrow> keeps_address b c \<Longrightarrow> keeps_address a c"
  by (auto simp: keeps_address_def)

lemma calm_address: "calm st st' \<Longrightarrow> keeps_address st st'"
  by (simp add: calm_def keeps_address_def)

lemma login_address: "keeps_address st (login_grant E st ip port)"
proof -
  have k: "keeps_address st (snd (opcd_ind_init_complete E s k))" if "log s = log st" for s k
    using calm_address [OF calm_ind_only [OF init_complete_only], of s E k] that by (simp add: keeps_address_def)
  show ?thesis unfolding login_grant_def Let_def by (rule k) (simp add: session_touch_def)
qed

lemma logout_address: "keeps_address st (opcd_session_logout E (logout_arm st))"
proof -
  have "log (logout_arm st) = log st" by (simp add: logout_arm_def arm_ip_change_from_committed_def Let_def)
  then show ?thesis using calm_address [OF calm_session_logout, of "logout_arm st" E] by (simp add: keeps_address_def)
qed

lemma udp_address: "keeps_address st (on_udp_datagram E d ip port st)"
  using udp_effect [of "on_udp_datagram E d ip port st" E d ip port st]
    calm_address keeps_address_trans [OF calm_address [OF calm_idle_logout]] login_address logout_address
    keeps_address_trans by blast

text \<open>C4: The platform gets a new address only at the end of a turn of the loop, after every datagram of that turn
  was answered, only when a change is armed, and then exactly once, with the armed entry and number; the change is
  disarmed in the same step.\<close>

theorem address_applied_once_armed:
  assumes "opcd_step (p, st) (p', st')" "\<exists>a\<in>set (drop (length (log st)) (log st')). is_apply_ip a"
  shows "p = Serving 0 \<and> ip_change_commit_armed st \<and> \<not> ip_change_commit_armed st'
    \<and> filter is_apply_ip (drop (length (log st)) (log st')) =
        [ApplyIp (ip_change_armed_entry st) (mgmt_ip_iface_idx st) (ip_change_armed_no st)]"
proof -
  have n: "\<not> keeps_address st st'" using assms(2) by (auto simp: keeps_address_def list_all_iff)
  then obtain E where e: "p = Serving 0" "ip_change_commit_armed st" "st' = opcd_apply_pending_ip_change E st"
    using step_effect [OF assms(1)] calm_address udp_address n by blast
  have f: "filter is_apply_ip ds = []" if "list_all (\<lambda>a. \<not> is_apply_ip a) ds" for ds
    using that by (induction ds) simp_all
  show ?thesis using e apply_ip_log [OF e(2), of E] f by (auto simp: is_apply_ip_def)
qed

lemma ex_applied:
  "\<exists>st st' :: opcd_state_t. opcd_step (Serving 0, st) (Waiting, st') \<and> opcd_reachable (Waiting, st')
     \<and> log st' = log st @ drop (length (log st)) (log st')
     \<and> ApplyIp ex_entry (mgmt_ip_iface_idx st) 1 \<in> set (drop (length (log st)) (log st'))"
proof -
  obtain s where r: "opcd_reachable (Draining 0 13, s)" "opcd_step (Draining 0 13, s) (Serving 0, ex_logout s)"
    and a: "ip_change_commit_armed (ex_logout s)" "ip_change_armed_entry (ex_logout s) = ex_entry"
      "ip_change_armed_no (ex_logout s) = 1" "\<not> aborted (ex_logout s)" using ex_run by blast
  let ?s = "ex_logout s" and ?t = "opcd_apply_pending_ip_change (stub_env 0) (ex_logout s)"
  have q: "opcd_step (Serving 0, ?s) (Waiting, ?t)" by (rule opcd_step.main_thread [OF main_step.turn_end [OF a(4)]])
  have "opcd_reachable (Waiting, ?t)" by (rule opcd_reachable.step [OF opcd_reachable.step [OF r] q])
  then show ?thesis using q apply_ip_log(1) [OF a(1), of "stub_env 0"] a(2,3) by (intro exI conjI) auto
qed

theorem address_applied_once_armed_witness:
  "\<exists>(st :: opcd_state_t) st'. opcd_step (Serving 0, st) (Waiting, st') \<and> ip_change_commit_armed st
     \<and> length (filter is_apply_ip (drop (length (log st)) (log st'))) = 1"
proof -
  obtain st st' :: opcd_state_t where s: "opcd_step (Serving 0, st) (Waiting, st')"
      "ApplyIp ex_entry (mgmt_ip_iface_idx st) 1 \<in> set (drop (length (log st)) (log st'))" using ex_applied by blast
  have "is_apply_ip (ApplyIp ex_entry (mgmt_ip_iface_idx st) 1)" by (simp add: is_apply_ip_def)
  then show ?thesis using address_applied_once_armed [OF s(1)] s by fastforce
qed

theorem applied_addresses_valid_witness:
  "\<exists>st e i. opcd_reachable (Waiting, st) \<and> ApplyIp e i 1 \<in> set (log st) \<and> valid_ipcfg_addr (ip_address e)"
proof -
  obtain st st' :: opcd_state_t where s: "opcd_reachable (Waiting, st')"
      "ApplyIp ex_entry (mgmt_ip_iface_idx st) 1 \<in> set (drop (length (log st)) (log st'))" using ex_applied by blast
  then have "ApplyIp ex_entry (mgmt_ip_iface_idx st) 1 \<in> set (log st')" by (meson in_set_dropD)
  with applied_addresses_valid [OF s(1) this] s(1) show ?thesis by blast
qed

end
