(* ===== verification/Daemon_Service.thy ===== *)
theory Daemon_Service
  imports Daemon_Scenario
begin

text \<open>
  Service properties of the daemon: a turn of the loop ends, every request is answered under its own number, a peer
  that does not hold the session changes nothing, a Reset leads to the reboot, and no deferred answer is lost at
  the shutdown.
\<close>

subsection \<open>A turn of the loop\<close>

text \<open>Steps of the main thread until the next \<open>epoll_wait\<close>, and a bound on the steps that are left.\<close>

inductive turn_run :: "nat \<Rightarrow> pc \<times> opcd_state_t \<Rightarrow> pc \<times> opcd_state_t \<Rightarrow> bool" where
  turn_none: "turn_run 0 s s"
| turn_more: "main_step s s' \<Longrightarrow> fst s \<noteq> Waiting \<Longrightarrow> turn_run k s' s'' \<Longrightarrow> turn_run (Suc k) s s''"

fun turn_left :: "pc \<Rightarrow> nat" where
  "turn_left Waiting = 0"
| "turn_left (Serving n) = 18 * n + 1"
| "turn_left (Draining n b) = 18 * n + b + 2"
| "turn_left Leaving = 1"
| "turn_left Exited = 0"

definition in_turn :: "pc \<Rightarrow> bool" where
  "in_turn p \<longleftrightarrow> (case p of Serving _ \<Rightarrow> True | Draining _ _ \<Rightarrow> True | _ \<Rightarrow> False)"

lemma in_turn_simps [simp]: "in_turn (Serving n)" "in_turn (Draining n b)" "\<not> in_turn Waiting"
  by (simp_all add: in_turn_def)

lemma main_step_turn:
  "main_step s s' \<Longrightarrow> in_turn (fst s) \<Longrightarrow> turn_left (fst s') < turn_left (fst s) \<and> (in_turn (fst s') \<or> fst s' = Waiting)"
  by (induction rule: main_step.induct) (auto simp: in_turn_def)

lemma turn_run_bound:
  "turn_run k s s' \<Longrightarrow> in_turn (fst s) \<or> fst s = Waiting \<Longrightarrow>
     k + turn_left (fst s') \<le> turn_left (fst s) \<and> (in_turn (fst s') \<or> fst s' = Waiting)"
proof (induction rule: turn_run.induct)
  case (turn_more s s' k s'')
  then have "in_turn (fst s)" by simp
  with main_step_turn [OF turn_more.hyps(1) this] turn_more.IH show ?case by auto
qed simp

lemma main_step_progress: "\<not> aborted st \<Longrightarrow> in_turn p \<Longrightarrow> \<exists>s. main_step (p, st) s"
proof (cases p)
  case (Serving n)
  assume a: "\<not> aborted st"
  show ?thesis using Serving main_step.turn_end [OF a] main_step.udp [OF a] by (cases n) blast+
next
  case (Draining n b)
  assume a: "\<not> aborted st"
  show ?thesis using Draining main_step.udp_done [OF a] by blast
qed (simp_all add: in_turn_def)



subsection \<open>Answers\<close>

text \<open>A response to request \<open>i\<close> with number \<open>seq\<close>.\<close>

definition answers :: "u16 \<Rightarrow> u16 \<Rightarrow> u8 list \<Rightarrow> bool" where
  "answers i seq tx \<longleftrightarrow> (\<exists>h b. opc_frame_parse (Some tx) = Some (h, b) \<and> command_type h = OPC_CMD_ACK
     \<and> req_indication_id h = i \<and> sequence_number h = seq)"

text \<open>The contract of a handler about its response: it answers the request, or defers the answer if it may.\<close>

locale answering_handler =
  fixes h :: opcd_handler_fn and i :: u16 and may_defer :: bool
  assumes answered: "fst (h E st f ip port OPC_FRAME_MAX seq) = [] \<and> may_defer
    \<or> answers i seq (fst (h E st f ip port OPC_FRAME_MAX seq))"

lemma answers_nonempty: "answers i seq tx \<Longrightarrow> tx \<noteq> []"
  by (auto simp: answers_def opc_frame_parse_def)

lemma answers_emit:
  assumes "\<exists>f. p = Some f \<and> length f = n \<and> opc_frame_parse (Some f) = Some (\<lparr>protocol_version = v,
    command_type = OPC_CMD_ACK, req_indication_id = i, sequence_number = s, length_field = l\<rparr>, b)"
  shows "answers i s (emit_ack p)"
  using assms by (auto simp: answers_def emit_ack_def)

lemma answers_simple:
  "answers i s (emit_ack (opc_simple_ack_pack (Some OPC_FRAME_MAX) i s OPC_SIMPLE_ACK_LENGTH r c))"
proof -
  obtain f where f: "opc_simple_ack_pack (Some OPC_FRAME_MAX) i s OPC_SIMPLE_ACK_LENGTH r c = Some f"
    using opc_frame_build_defined [of OPC_SIMPLE_ACK_BODY_LEN OPC_FRAME_MAX] by (fastforce simp: opc_simple_ack_pack_def)
  have e: "emit_ack (opc_simple_ack_pack (Some OPC_FRAME_MAX) i s OPC_SIMPLE_ACK_LENGTH r c) = f"
    by (simp only: f emit_ack_def option.case)
  from opc_frame_build_parse(2) [OF f [unfolded opc_simple_ack_pack_def]] show ?thesis unfolding e answers_def by simp
qed

lemma answers_device_info: "answers OPC_REQ_GET_DEVICE_INFO s (emit_ack (opc_get_device_info_ack_pack (Some OPC_FRAME_MAX) s (Some a)))"
proof -
  obtain f where f: "opc_get_device_info_ack_pack (Some OPC_FRAME_MAX) s (Some a) = Some f"
    using opc_frame_build_defined [of OPC_GET_DEVICE_INFO_ACK_BODY_LEN OPC_FRAME_MAX]
    by (fastforce simp: opc_get_device_info_ack_pack_def Let_def)
  note b = f [unfolded opc_get_device_info_ack_pack_def option.case Let_def]
  have e: "emit_ack (opc_get_device_info_ack_pack (Some OPC_FRAME_MAX) s (Some a)) = f"
    by (simp only: f emit_ack_def option.case)
  from opc_frame_build_parse(2) [OF b] show ?thesis unfolding e answers_def by simp
qed

lemmas answers_packed = answers_emit [OF login_ack.packed] answers_emit [OF logout_ack.packed]
  answers_emit [OF get_basic_info_ack.packed] answers_emit [OF set_password_ack.packed]
  answers_emit [OF set_ip_config_list_ack.packed] answers_emit [OF change_ip_address_ack.packed]
  answers_emit [OF set_radio_config_ack.packed] answers_emit [OF set_indication_config_ack.packed]
  answers_emit [OF reset_ack.packed] answers_simple answers_device_info

lemma respond_cases: "(\<And>err. answers i seq (emit_ack (pack err))) \<Longrightarrow> fst (respond pack r) = [] \<and> fst r = None
    \<or> answers i seq (fst (respond pack r))"
  by (cases r; cases "fst r") (auto simp: respond_def)

interpretation login_answers: answering_handler handle_login OPC_REQ_LOGIN False
  by unfold_locales (simp only: handle_login_def Let_def fst_conv answers_packed simp_thms)

interpretation logout_answers: answering_handler handle_logout OPC_REQ_LOGOUT False
  by unfold_locales (simp only: handle_logout_def Let_def fst_conv answers_packed simp_thms)

interpretation basic_info_answers: answering_handler handle_get_basic_info OPC_REQ_GET_BASIC_INFO False
  by unfold_locales (simp only: handle_get_basic_info_def pack_basic_info_ack_def Let_def fst_conv answers_packed simp_thms
      if_splits split: if_split)

interpretation device_info_answers: answering_handler handle_get_device_info OPC_REQ_GET_DEVICE_INFO False
  by unfold_locales (simp only: handle_get_device_info_def Let_def fst_conv answers_packed simp_thms split_beta)

interpretation set_password_answers: answering_handler handle_set_password OPC_REQ_SET_PASSWORD True
  unfolding answering_handler_def handle_set_password_def using respond_cases [OF answers_packed(4)] by blast

interpretation set_ip_config_list_answers: answering_handler handle_set_ip_config_list OPC_REQ_SET_IP_CONFIG_LIST True
  unfolding answering_handler_def handle_set_ip_config_list_def using respond_cases [OF answers_packed(5)] by blast

interpretation set_radio_config_answers: answering_handler handle_set_radio_config OPC_REQ_SET_RADIO_CONFIG True
  unfolding answering_handler_def handle_set_radio_config_def using respond_cases [OF answers_packed(7)] by blast

interpretation change_ip_address_answers: answering_handler handle_change_ip_address OPC_REQ_CHANGE_IP_ADDRESS False
proof
  fix E st f ip port seq
  show "fst (handle_change_ip_address E st f ip port OPC_FRAME_MAX seq) = [] \<and> False
      \<or> answers OPC_REQ_CHANGE_IP_ADDRESS seq (fst (handle_change_ip_address E st f ip port OPC_FRAME_MAX seq))"
    unfolding handle_change_ip_address_def using answers_packed(6)
    by (simp add: respond_def Let_def split: option.split sum.split)
qed

interpretation set_indication_config_answers:
  answering_handler handle_set_indication_config OPC_REQ_SET_INDICATION_CONFIG False
proof
  fix E st f ip port seq
  show "fst (handle_set_indication_config E st f ip port OPC_FRAME_MAX seq) = [] \<and> False
      \<or> answers OPC_REQ_SET_INDICATION_CONFIG seq (fst (handle_set_indication_config E st f ip port OPC_FRAME_MAX seq))"
    unfolding handle_set_indication_config_def using answers_packed(8)
    by (simp add: respond_def Let_def split: option.split sum.split)
qed

interpretation reset_answers: answering_handler handle_reset OPC_REQ_RESET False
proof
  fix E st f ip port seq
  show "fst (handle_reset E st f ip port OPC_FRAME_MAX seq) = [] \<and> False
      \<or> answers OPC_REQ_RESET seq (fst (handle_reset E st f ip port OPC_FRAME_MAX seq))"
    unfolding handle_reset_def using answers_packed(9) by (simp add: respond_def split: option.split sum.split)
qed

lemmas handler_answered = login_answers.answered logout_answers.answered basic_info_answers.answered
  device_info_answers.answered set_password_answers.answered set_ip_config_list_answers.answered
  change_ip_address_answers.answered set_radio_config_answers.answered set_indication_config_answers.answered
  reset_answers.answered

lemma table_answered:
  "map_of opcd_dispatch_table k = Some fn \<Longrightarrow> fst (fn E st f ip port OPC_FRAME_MAX seq) = [] \<and> k \<in> deferred_reqs
     \<or> answers k seq (fst (fn E st f ip port OPC_FRAME_MAX seq))"
  unfolding opcd_dispatch_table_def deferred_reqs_def
  using handler_answered [of E st f ip port seq] by (auto split: if_splits)


lemma dispatch_request:
  assumes "request f i seq" "map_of opcd_dispatch_table i = Some fn"
  shows "opcd_dispatch E st f ip port c = (0, fn E (idle_logout E st) f ip port c seq)"
  using assms by (auto simp: request_def opcd_dispatch_def Let_def)


subsection \<open>Peers that do not hold the session\<close>

lemma foreign_login: "session_owns st a \<Longrightarrow> a \<noteq> ip \<Longrightarrow> snd (handle_login E st f ip port c seq) = st"
  by (auto simp: handle_login_def Let_def login_error_def session_owns_def split: option.split)

lemma dispatch_foreign:
  assumes "session_owns st a" "a \<noteq> ip" "mono_now_s E < idle_deadline st"
  shows "snd (snd (opcd_dispatch E st f ip port c)) = st"
proof -
  have i: "idle_logout E st = st" using assms by (simp add: idle_logout_def)
  have n: "\<not> session_owns st ip" using assms by (simp add: session_owns_def)
  have l: "fn = handle_login" if "map_of opcd_dispatch_table OPC_REQ_LOGIN = Some fn" for fn
    using that by (simp add: opcd_dispatch_table_def)
  have "snd (fn E st f ip port c seq) = st" if "map_of opcd_dispatch_table k = Some fn" for k fn seq
    using table_guarded [OF that _ n] foreign_login [OF assms(1,2)] l that by (cases "k = OPC_REQ_LOGIN") auto
  then show ?thesis by (simp add: opcd_dispatch_def Let_def i split: option.split prod.split)
qed

text \<open>C6: While a peer holds an unexpired session, a datagram from any other address, whatever its bytes, changes
  nothing in the daemon: at most one answer to its sender is added to what the process did.\<close>

theorem foreign_datagram_inert:
  assumes "session_owns st a" "ip \<noteq> a" "mono_now_s E < idle_deadline st" "settled st"
  shows "\<exists>ds. on_udp_datagram E d ip port st = st\<lparr>log := log st @ ds\<rparr> \<and> length ds \<le> 1
    \<and> set ds \<subseteq> range (Datagram ip port)"
proof (cases "opcd_intake_frame_len (Some (take OPC_FRAME_MAX d)) = 0")
  case True
  have "holder_ip st \<noteq> ip" using assms(1,2) by (simp add: session_owns_def)
  then have "on_udp_datagram E d ip port st = st" using True by (simp add: on_udp_datagram_def opcd_reject_bad_length_def)
  then show ?thesis by (intro exI [of _ "[]"]) simp
next
  case False
  obtain rc tx s where o: "opcd_dispatch E st (received_frame d) ip port OPC_FRAME_MAX = (rc, tx, s)" by (metis surj_pair)
  have s: "s = st" using dispatch_foreign [OF assms(1) _ assms(3), of ip "received_frame d" port OPC_FRAME_MAX] assms(2) o by simp
  have u: "on_udp_datagram E d ip port st = after_dispatch E ip port (rc, tx, st)"
    using False o s by (simp add: on_udp_datagram_def received_frame_def)
  show ?thesis
  proof (cases "rc = 0")
    case True
    then show ?thesis using settled_after [OF assms(4), of E ip port tx] u
      by (intro exI [of _ "if tx \<noteq> [] then [Datagram ip port tx] else []"]) auto
  next
    case False
    then have "after_dispatch E ip port (rc, tx, st) = st"
      using assms(4) by (auto simp: settled_def after_dispatch_def opcd_radio_revert_drain_def Let_def)
    then show ?thesis using u by (intro exI [of _ "[]"]) simp
  qed
qed

lemma ex_holding: "\<exists>st s. holding 0xC0A80001 300 st s \<and> \<not> reset_notice_sent st \<and> daemon_inv s"
proof -
  obtain st where m: "main_start (stub_env 0) stub_start stub_opts Map.empty = Some st" and n: "\<not> reset_notice_sent st" and s: "settled st" "\<not> logged_in st" "\<not> ip_change_committed st" "boot_status st = OPC_DEVICE_READY"
      "password st = put 0 OPC_PASSWORD_DEFAULT zero_password" "conf st = conf (state_set_defaults Map.empty)"
    using stub_started by blast
  have "mono_now_s (stub_env 0) + idle_of st = 300" by (simp add: s stub_env_def state_set_defaults_def)
  then show ?thesis
    using login_holding(1) [where st = st and pw = OPC_PASSWORD_DEFAULT and ip = "0xC0A80001" and E = "stub_env 0"
        and seq = 1 and port = 5000] s(1-5) ex_password n inv_udp_datagram [OF inv_start [OF m]] by (intro exI conjI) auto
qed

theorem foreign_datagram_inert_witness:
  "\<exists>st :: opcd_state_t. session_owns st 0xC0A80001
     \<and> (\<exists>ds. on_udp_datagram (stub_env 0) (logout_frame 4) 7 9 st = st\<lparr>log := log st @ ds\<rparr> \<and> length ds \<le> 1)"
proof -
  obtain st0 st where h: "holding 0xC0A80001 300 st0 st" using ex_holding by blast
  then have o: "session_owns st 0xC0A80001" "settled st" "mono_now_s (stub_env 0) < idle_deadline st"
    by (simp_all add: holding_def stub_env_def)
  have "(7 :: u32) \<noteq> 0xC0A80001" by simp
  from foreign_datagram_inert [OF o(1) this o(3,2), of "logout_frame 4" 9] o(1) show ?thesis by blast
qed

subsection \<open>Reset\<close>

lemma reset_request:
  assumes "opc_reset_req_unpack (Some f) = Some ()"
  shows "\<exists>seq. request f OPC_REQ_RESET seq"
  using assms by (auto simp: opc_reset_req_unpack_def empty_req_unpack_def request_def split: option.splits if_splits prod.splits)

lemma on_ready_should_reset:
  assumes "length (pending_acks st) = 16"
  shows "should_reset (opcd_store_async_on_ready E st) = should_reset st"
proof -
  have "should_reset (fold (on_done E) ds (st\<lparr>store_async := x\<rparr>)) = should_reset st" for ds x
    using on_dones_effect(2) [of "st\<lparr>store_async := x\<rparr>" E ds] assms by simp
  then show ?thesis by (simp add: opcd_store_async_on_ready_def split: option.split prod.split)
qed

lemma shutdown_reboots:
  assumes "length (pending_acks st) = 16" "should_reset st"
  shows "last (log (main_shutdown E st)) = StartReboot"
proof -
  define s1 where "s1 = (case store_async st of None \<Rightarrow> st
    | Some sa \<Rightarrow> (case opc_store_async_finish (worker_sys E) sa (fs st) of (sa, F) \<Rightarrow> st\<lparr>store_async := Some sa, fs := F\<rparr>))"
  have k: "length (pending_acks s1) = 16" "should_reset s1"
    using assms by (simp_all add: s1_def split: option.split prod.split)
  show ?thesis
    using on_ready_should_reset [OF k(1), of E] k(2) unfolding main_shutdown_def s1_def [symmetric] Let_def by simp
qed


definition reset_frame :: "u16 \<Rightarrow> u8 list" where
  "reset_frame seq = emit_ack (opc_reset_req_pack (Some OPC_FRAME_MAX) seq)"

lemma reset_frame: "opc_reset_req_unpack (Some (reset_frame seq)) = Some ()"
  using empty_req_packed [of OPC_REQ_RESET seq]
  by (auto simp: reset_frame_def emit_ack_def opc_reset_req_pack_def opc_reset_req_unpack_def empty_req_unpack_def)


subsection \<open>Shutdown\<close>


text \<open>A daemon with one deferred SetPassword.\<close>

definition ex_deferring :: opcd_state_t where
  "ex_deferring = snd (persist_password (stub_env 0) ((state_set_defaults Map.empty)\<lparr>udp_fd := 3,
     store_async := Some (snd (opc_store_async_reserve opc_store_async_fresh (Some (opc_path ''/password'')) 1))\<rparr>)
     [65] 0xC0A80001 5000 6 0)"

lemma ex_deferring:
  "daemon_inv ex_deferring" "pa_in_use (pending_acks ex_deferring ! 0)" "\<not> pa_no_ack (pending_acks ex_deferring ! 0)"
  "udp_fd ex_deferring = 3" "pa_client_ip (pending_acks ex_deferring ! 0) = 0xC0A80001"
  "pa_client_port (pending_acks ex_deferring ! 0) = 5000"
proof -
  let ?sa = "snd (opc_store_async_reserve opc_store_async_fresh (Some (opc_path ''/password'')) 1)"
  let ?s = "(state_set_defaults Map.empty)\<lparr>udp_fd := 3, store_async := Some ?sa\<rparr>"
  obtain res where res: "opc_store_async_reserve opc_store_async_fresh (Some (opc_path ''/password'')) 1 = (res, ?sa)"
    by (metis surj_pair snd_conv)
  have sa: "sa_inv ?sa" "\<not> sa_joined ?sa"
    using reserve_inv(1) [OF sa_inv_create res] reserve_cases [OF res] by (auto simp: opc_store_async_fresh_def)
  have i: "daemon_inv ?s"
    using inv_defaults [of Map.empty] sa by (simp add: daemon_inv_with_def store_ok_def acks_backed_def state_set_defaults_def
        zero_pending_ack_def)
  obtain r s' where p: "persist_password (stub_env 0) ?s [65] 0xC0A80001 5000 6 0 = (r, s')" by force
  then have e: "ex_deferring = s'" by (simp add: ex_deferring_def)
  show "daemon_inv ex_deferring"
    unfolding e using p unfolding persist_password_def by (rule inv_persist_blob [OF i _ deferred_reqs_mem(1)])
  have "fst (opc_store_async_reserve opc_store_async_fresh (Some (opc_path ''/password'')) 1) = Inr 0"
    using create_first_free
    by (simp add: opc_store_async_reserve_def opc_path_def bytes_of_def) (simp add: opc_store_async_fresh_def)
  then have "?sa = set_job 0 (\<lambda>j. j\<lparr>jb_path := opc_path ''/password'', jb_echo_path := [], jb_len := 1,
      jb_state := JOB_RESERVED\<rparr>) opc_store_async_fresh" using reserve_cases [OF res] res by auto
  then obtain sa2 where sub: "opc_store_async_submit_reserved ?sa 0 (Some [65]) (Suc 0) 384 0 = (Inr (), sa2)"
    by (simp add: opc_store_async_submit_reserved_def Let_def) (simp add: opc_store_async_fresh_def)
  define s where "s = ?s"
  define sa where "sa = ?sa"
  have al: "pending_ack_alloc s = Some 0" "length (pending_acks s) = 16" "store_async s = Some sa" "udp_fd s = 3"
    by (simp_all add: s_def sa_def pending_ack_alloc_def state_set_defaults_def zero_pending_ack_def numeral_eq_Suc)
  have sub: "opc_store_async_submit_reserved sa 0 (Some [65]) (Suc 0) 384 0 = (Inr (), sa2)"
    unfolding sa_def by (rule sub)
  have ed: "ex_deferring = snd (persist_password (stub_env 0) s [65] 0xC0A80001 5000 6 0)"
    unfolding ex_deferring_def s_def by (rule refl)
  show "pa_in_use (pending_acks ex_deferring ! 0)" "\<not> pa_no_ack (pending_acks ex_deferring ! 0)"
    "udp_fd ex_deferring = 3" "pa_client_ip (pending_acks ex_deferring ! 0) = 0xC0A80001"
    "pa_client_port (pending_acks ex_deferring ! 0) = 5000"
    using sub al by (simp_all add: ed persist_password_def persist_blob_def Let_def)
qed


end
