(* ===== verification/Essid_Marker.thy ===== *)
theory Essid_Marker
  imports Iplist_Text
begin

text \<open>
  The restore marker of the ChangeIpAddress ESSID (\<open>opcd/essid_marker.h\<close>, \<open>opcd/essid_marker.c\<close>): the marker file, the
  \<open>ssid=\<close> line of the wpa_supplicant configuration, and the operations arm, commit, disarm, settle and restore. A
  return code is an integer, a negative one minus an \<open>errno\<close>. The results of the system calls are the record
  \<open>marker_env\<close>; an operation returns its code and the file-system operations it performed, in order, so that a power
  cut keeps a prefix of them. A pointer into a text is an offset.
\<close>

definition ENOENT :: int where [simp]: "ENOENT = 2"
definition ENOMEM :: int where [simp]: "ENOMEM = 12"
definition EEXIST :: int where [simp]: "EEXIST = 17"
definition EINVAL :: int where [simp]: "EINVAL = 22"
definition EFBIG :: int where [simp]: "EFBIG = 27"
definition ENAMETOOLONG :: int where [simp]: "ENAMETOOLONG = 36"

definition FILE_MAX_BYTES :: nat where [simp]: "FILE_MAX_BYTES = 64 * 1024"
definition TOKEN_MAX :: nat where [simp]: "TOKEN_MAX = 256"
definition PATH_MAX :: nat where [simp]: "PATH_MAX = 4096"

text \<open>Each call of \<open>write_atomic\<close>: the error of each step (0 is success) and the results of the writes.\<close>

record write_calls =
  wc_open :: int
  wc_writes :: "io_res list"
  wc_write_errno :: int
  wc_fsync :: int
  wc_close :: int
  wc_rename :: int
  wc_opendir :: bool

record marker_env =
  me_read :: "path \<Rightarrow> int"
  me_write :: "path \<Rightarrow> write_calls"
  me_unlink :: "path \<Rightarrow> int"
  me_mode :: "path \<Rightarrow> u32 option"
  me_malloc :: bool

definition marker_slurp :: "marker_env \<Rightarrow> files \<Rightarrow> path \<Rightarrow> int + u8 list" where
  "marker_slurp M F p =
     (if me_read M p \<noteq> 0 then Inl (me_read M p)
      else case F p of
             None \<Rightarrow> Inl ENOENT
           | Some c \<Rightarrow> if length c \<ge> FILE_MAX_BYTES then Inl EFBIG else Inr (cstr c))"

definition marker_tmp :: "path \<Rightarrow> path" where
  "marker_tmp p = p @ bytes_of ''.tmp''"

definition write_atomic :: "marker_env \<Rightarrow> path \<Rightarrow> u8 list \<Rightarrow> u32 \<Rightarrow> int \<times> fs_op list" where
  "write_atomic M p d mode =
     (let w = me_write M p; tmp = marker_tmp p in
      if length tmp \<ge> PATH_MAX then (- ENAMETOOLONG, [])
      else if wc_open w \<noteq> 0 then (- wc_open w, [])
      else case write_loop (wc_writes w) tmp d of
             (ok, ws) \<Rightarrow>
               let ops = Create tmp mode # ws in
               if \<not> ok then (- wc_write_errno w, ops @ [Unlink tmp])
               else if wc_fsync w \<noteq> 0 then (- wc_fsync w, ops @ [Unlink tmp])
               else if wc_close w \<noteq> 0 then (- wc_close w, ops @ [FsyncFile tmp, Unlink tmp])
               else if wc_rename w \<noteq> 0 then (- wc_rename w, ops @ [FsyncFile tmp, Unlink tmp])
               else (0, ops @ [FsyncFile tmp, Rename tmp p]
                          @ (if 47 \<in> set p \<and> wc_opendir w then [FsyncDir (parent_dir p)] else [])))"

subsection \<open>The \<open>ssid=\<close> lines of a configuration\<close>

definition is_blank :: "u8 \<Rightarrow> bool" where
  "is_blank c \<longleftrightarrow> c = 32 \<or> c = 9"

definition is_trailing :: "u8 \<Rightarrow> bool" where
  "is_trailing c \<longleftrightarrow> c = 13 \<or> c = 32 \<or> c = 9"

definition trim_right :: "u8 list \<Rightarrow> u8 list" where
  "trim_right v = rev (dropWhile is_trailing (rev v))"

text \<open>The value span of one line that starts at offset \<open>off\<close>.\<close>

definition ssid_span :: "nat \<Rightarrow> u8 list \<Rightarrow> (nat \<times> nat) list" where
  "ssid_span off line =
     (let p = length (takeWhile is_blank line) in
      if take 5 (drop p line) = bytes_of ''ssid=''
      then [(off + p + 5, off + p + 5 + length (trim_right (drop (p + 5) line)))] else [])"

function ssid_spans :: "nat \<Rightarrow> u8 list \<Rightarrow> (nat \<times> nat) list" where
  "ssid_spans off s =
     (if s = [] then []
      else let line = takeWhile (\<lambda>c. c \<noteq> 10) s in
        ssid_span off line @ ssid_spans (off + length line + 1) (drop (length line + 1) s))"
  by pat_completeness auto
termination
  by (relation "measure (\<lambda>(_, s). length s)") auto

definition find_ssid :: "u8 list \<Rightarrow> nat \<times> (nat \<times> nat) ptr" where
  "find_ssid conf =
     (let l = ssid_spans 0 conf in (length l, case l of [] \<Rightarrow> None | a # _ \<Rightarrow> Some a))"

subsection \<open>The marker file\<close>

record marker_t =
  mk_essid :: "u8 list"
  mk_applied :: "u8 list"
  mk_target_hex :: "u8 list"
  mk_slot :: u32
  mk_time :: int

function line_value :: "u8 list \<Rightarrow> u8 list \<Rightarrow> nat \<Rightarrow> int + u8 list" where
  "line_value body key cap =
     (if body = [] then Inl (- ENOENT)
      else let line = takeWhile (\<lambda>c. c \<noteq> 10) body; eol = (10 \<in> set body) in
        if take (length key) body = key then
          (if \<not> eol then Inl (- EINVAL)
           else let n = length line - length key in
             if n = 0 \<or> n \<ge> cap then Inl (- EINVAL) else Inr (drop (length key) line))
        else if \<not> eol then Inl (- ENOENT)
        else line_value (drop (length line + 1) body) key cap)"
  by pat_completeness auto
termination
  by (relation "measure (\<lambda>(b, _, _). length b)") auto

declare ssid_spans.simps [simp del] line_value.simps [simp del]

definition value_or_empty :: "int + u8 list \<Rightarrow> u8 list" where
  "value_or_empty r = (case r of Inr v \<Rightarrow> v | Inl _ \<Rightarrow> [])"

definition marker_parse :: "u8 list \<Rightarrow> int + marker_t" where
  "marker_parse body =
     (let essid = line_value body (bytes_of ''essid='') TOKEN_MAX;
          applied = line_value body (bytes_of ''applied='') TOKEN_MAX;
          target = line_value body (bytes_of ''target='') TOKEN_MAX in
      if take 6 body \<noteq> bytes_of ''essid='' then Inl (- EINVAL)
      else case essid of
        Inl _ \<Rightarrow> Inl (- EINVAL)
      | Inr e \<Rightarrow>
          if applied = Inl (- EINVAL) then Inl (- EINVAL)
          else if target = Inl (- EINVAL) then Inl (- EINVAL)
          else Inr \<lparr>mk_essid = e, mk_applied = value_or_empty applied, mk_target_hex = value_or_empty target,
                 mk_slot = (case line_value body (bytes_of ''slot='') 32 of
                              Inl _ \<Rightarrow> 0
                            | Inr num \<Rightarrow> (case strtoul num of None \<Rightarrow> 0 | Some (v, _) \<Rightarrow> ucast v)),
                 mk_time = (case line_value body (bytes_of ''time='') 32 of
                              Inl _ \<Rightarrow> 0
                            | Inr num \<Rightarrow> (case strtol num of None \<Rightarrow> 0 | Some (v, _) \<Rightarrow> v))\<rparr>)"

text \<open>\<open>%lld\<close>, and the text \<open>marker_write\<close> prints.\<close>

definition dec_int :: "int \<Rightarrow> u8 list" where
  "dec_int v = (if v < 0 then 45 # dec (nat (- v)) else dec (nat v))"

definition opt_line :: "string \<Rightarrow> u8 list \<Rightarrow> u8 list" where
  "opt_line key v = (if v = [] then [] else bytes_of key @ v @ [10])"

definition marker_body :: "marker_t \<Rightarrow> u8 list" where
  "marker_body m =
     bytes_of ''essid='' @ mk_essid m @ [10] @ bytes_of ''slot='' @ dec (unat (mk_slot m)) @ [10]
     @ bytes_of ''time='' @ dec_int (mk_time m) @ [10]
     @ opt_line ''target='' (mk_target_hex m) @ opt_line ''applied='' (mk_applied m)"

definition marker_write :: "marker_env \<Rightarrow> path \<Rightarrow> marker_t \<Rightarrow> int \<times> fs_op list" where
  "marker_write M p m =
     (let body = marker_body m in
      if length body \<ge> 3 * TOKEN_MAX + 96 then (- ENAMETOOLONG, []) else write_atomic M p body 384)"

text \<open>The single \<open>ssid=\<close> value of the configuration.\<close>

definition conf_token :: "marker_env \<Rightarrow> files \<Rightarrow> path \<Rightarrow> nat \<Rightarrow> int + u8 list" where
  "conf_token M F conf_path cap =
     (case marker_slurp M F conf_path of
        Inl e \<Rightarrow> Inl (- e)
      | Inr conf \<Rightarrow>
          (case find_ssid conf of
             (n, Some (vs, ve)) \<Rightarrow>
               if n \<noteq> 1 \<or> ve - vs = 0 \<or> ve - vs \<ge> cap then Inl (- EINVAL)
               else Inr (take (ve - vs) (drop vs conf))
           | (n, None) \<Rightarrow> Inl (- EINVAL)))"

definition marker_unlink :: "marker_env \<Rightarrow> path \<Rightarrow> int \<times> fs_op list" where
  "marker_unlink M p =
     (if me_unlink M p = 0 then (0, [Unlink p])
      else if me_unlink M p = ENOENT then (0, []) else (- me_unlink M p, []))"

subsection \<open>Tokens and SSIDs\<close>

definition hexval :: "u8 \<Rightarrow> nat option" where
  "hexval c =
     (if 48 \<le> c \<and> c \<le> 57 then Some (unat c - 48)
      else if 97 \<le> c \<and> c \<le> 102 then Some (unat c - 97 + 10)
      else if 65 \<le> c \<and> c \<le> 70 then Some (unat c - 65 + 10)
      else None)"

definition hex_byte :: "u8 list \<Rightarrow> nat \<Rightarrow> nat option" where
  "hex_byte h i =
     Option.bind (hexval (h ! (2 * i))) (\<lambda>hi. Option.bind (hexval (h ! (2 * i + 1))) (\<lambda>lo. Some (hi * 16 + lo)))"

definition is_quoted :: "u8 list \<Rightarrow> bool" where
  "is_quoted tok \<longleftrightarrow> length tok \<ge> 2 \<and> tok ! 0 = 34 \<and> tok ! (length tok - 1) = 34"

definition token_is_ssid :: "u8 list \<Rightarrow> u8 list \<Rightarrow> bool" where
  "token_is_ssid tok target_hex =
     (let tn = length tok; hl = length target_hex in
      if hl = 0 \<or> odd hl then False
      else if is_quoted tok then
        tn - 2 = hl div 2 \<and> list_all (\<lambda>i. hex_byte target_hex i = Some (unat (tok ! (1 + i)))) [0 ..< hl div 2]
      else tn = hl \<and> list_all (\<lambda>i. hexval (tok ! i) \<noteq> None \<and> hexval (tok ! i) = hexval (target_hex ! i)) [0 ..< hl])"

definition opc_wpa_conf_ssid :: "marker_env \<Rightarrow> files \<Rightarrow> path \<Rightarrow> outbuf \<Rightarrow> int \<times> u8 list" where
  "opc_wpa_conf_ssid M F conf_path out =
     (case out of
        None \<Rightarrow> (- EINVAL, [])
      | Some cap \<Rightarrow>
          if cap = 0 then (- EINVAL, [])
          else case marker_slurp M F conf_path of
            Inl e \<Rightarrow> (- e, [])
          | Inr conf \<Rightarrow>
              (let v = (case find_ssid conf of (_, Some (vs, ve)) \<Rightarrow> take (ve - vs) (drop vs conf) | _ \<Rightarrow> []);
                   tn = length v in
               if is_quoted v then (0, if tn - 2 < cap then take (tn - 2) (drop 1 v) else [])
               else if tn > 0 \<and> even tn \<and> tn div 2 < cap then
                 (let bs = map (hex_byte v) [0 ..< tn div 2] in
                  (0, if list_all (\<lambda>b. b \<noteq> None \<and> b \<noteq> Some 0) bs then map (\<lambda>b. of_nat (the b)) bs else []))
               else (0, [])))"

definition hex2 :: "u8 \<Rightarrow> u8 list" where
  "hex2 c = (let d = (\<lambda>n. if n < 10 then of_nat (48 + n) else of_nat (87 + n)) in
     [d (unat c div 16), d (unat c mod 16)])"

subsection \<open>Operations\<close>

definition load_marker :: "marker_env \<Rightarrow> files \<Rightarrow> path \<Rightarrow> int + marker_t" where
  "load_marker M F p = (case marker_slurp M F p of Inl e \<Rightarrow> Inl (- e) | Inr body \<Rightarrow> marker_parse body)"

text \<open>The test by which arm and restore recognise a value that this chain of changes wrote.\<close>

definition chain_owns :: "marker_t \<Rightarrow> u8 list \<Rightarrow> bool" where
  "chain_owns m cur \<longleftrightarrow>
     (mk_applied m \<noteq> [] \<and> mk_applied m = cur) \<or> (mk_target_hex m \<noteq> [] \<and> token_is_ssid cur (mk_target_hex m))"

definition opc_essid_marker_arm ::
  "marker_env \<Rightarrow> files \<Rightarrow> path \<Rightarrow> path \<Rightarrow> u32 \<Rightarrow> int \<Rightarrow> u8 list ptr \<Rightarrow> int \<times> fs_op list" where
  "opc_essid_marker_arm M F marker_path conf_path slot_no now requested_ssid =
     (case conf_token M F conf_path TOKEN_MAX of
        Inl rc \<Rightarrow> (rc, [])
      | Inr cur \<Rightarrow>
          (let m = (case load_marker M F marker_path of
                      Inr old \<Rightarrow> if chain_owns old cur then (mk_essid old, cur) else (cur, [])
                    | Inl _ \<Rightarrow> (cur, []));
               req = (case requested_ssid of None \<Rightarrow> [] | Some r \<Rightarrow> r) in
           if 2 * length req \<ge> TOKEN_MAX then (- ENAMETOOLONG, [])
           else marker_write M marker_path
                  \<lparr>mk_essid = fst m, mk_applied = snd m, mk_target_hex = concat (map hex2 req),
                   mk_slot = slot_no, mk_time = now\<rparr>))"

definition opc_essid_marker_commit :: "marker_env \<Rightarrow> files \<Rightarrow> path \<Rightarrow> path \<Rightarrow> int \<times> fs_op list" where
  "opc_essid_marker_commit M F marker_path conf_path =
     (case load_marker M F marker_path of
        Inl rc \<Rightarrow> (rc, [])
      | Inr m \<Rightarrow>
          (case conf_token M F conf_path TOKEN_MAX of
             Inl rc \<Rightarrow> (rc, [])
           | Inr cur \<Rightarrow> marker_write M marker_path (m\<lparr>mk_applied := cur\<rparr>)))"

definition opc_essid_marker_disarm :: "marker_env \<Rightarrow> files \<Rightarrow> path \<Rightarrow> int \<times> fs_op list" where
  "opc_essid_marker_disarm M F marker_path =
     (case load_marker M F marker_path of
        Inl rc \<Rightarrow> if rc = - ENOENT then (0, []) else (rc, [])
      | Inr m \<Rightarrow> if mk_applied m \<noteq> [] then (0, []) else marker_unlink M marker_path)"

definition or_code :: "int \<Rightarrow> int \<times> fs_op list \<Rightarrow> int \<times> fs_op list" where
  "or_code v r = (case r of (rc, ops) \<Rightarrow> (if rc \<noteq> 0 then rc else v, ops))"

definition opc_essid_marker_settle :: "marker_env \<Rightarrow> files \<Rightarrow> path \<Rightarrow> path \<Rightarrow> int \<times> fs_op list" where
  "opc_essid_marker_settle M F marker_path conf_path =
     (case load_marker M F marker_path of
        Inl rc \<Rightarrow> if rc = - ENOENT then (0, []) else (rc, [])
      | Inr m \<Rightarrow>
          (case conf_token M F conf_path TOKEN_MAX of
             Inl rc \<Rightarrow> (rc, [])
           | Inr cur \<Rightarrow>
               if cur = (if mk_applied m \<noteq> [] then mk_applied m else mk_essid m) then
                 (if mk_applied m = [] then marker_unlink M marker_path
                  else marker_write M marker_path (m\<lparr>mk_target_hex := []\<rparr>))
               else if mk_target_hex m \<noteq> [] \<and> token_is_ssid cur (mk_target_hex m) then
                 or_code 1 (marker_write M marker_path (m\<lparr>mk_applied := cur\<rparr>))
               else if mk_applied m = [] then or_code 2 (marker_unlink M marker_path)
               else or_code 2 (marker_write M marker_path (m\<lparr>mk_target_hex := []\<rparr>))))"

definition opc_essid_marker_restore :: "marker_env \<Rightarrow> files \<Rightarrow> path \<Rightarrow> path \<Rightarrow> int \<times> fs_op list" where
  "opc_essid_marker_restore M F marker_path conf_path =
     (case load_marker M F marker_path of
        Inl rc \<Rightarrow> if rc = - ENOENT then (0, []) else (rc, [])
      | Inr m \<Rightarrow>
          (case marker_slurp M F conf_path of
             Inl e \<Rightarrow> (- e, [])
           | Inr conf \<Rightarrow>
               (case find_ssid conf of
                  (n, Some (vs, ve)) \<Rightarrow>
                    if n \<noteq> 1 \<or> ve - vs \<ge> TOKEN_MAX then (- EINVAL, [])
                    else let cur = take (ve - vs) (drop vs conf) in
                      if cur = mk_essid m then marker_unlink M marker_path
                      else if \<not> chain_owns m cur then or_code 2 (marker_unlink M marker_path)
                      else if \<not> me_malloc M then (- ENOMEM, [])
                      else let out = take vs conf @ mk_essid m @ drop ve conf;
                               mode = (case me_mode M conf_path of None \<Rightarrow> 384 | Some st \<Rightarrow> st AND 0xFFF) in
                        (case write_atomic M conf_path out mode of
                           (rc, ops) \<Rightarrow>
                             if rc \<noteq> 0 then (rc, ops)
                             else case or_code 1 (marker_unlink M marker_path) of (rc, us) \<Rightarrow> (rc, ops @ us))
                | (n, None) \<Rightarrow> (- EINVAL, []))))"

subsection \<open>Replacing the value of the \<open>ssid=\<close> line\<close>

definition token_ok :: "u8 list \<Rightarrow> bool" where
  "token_ok v \<longleftrightarrow> v \<noteq> [] \<and> length v < TOKEN_MAX \<and> 0 \<notin> set v \<and> 10 \<notin> set v \<and> \<not> is_trailing (last v)"

lemma trim_right_append:
  "list_all is_trailing z \<Longrightarrow> v = [] \<or> \<not> is_trailing (last v) \<Longrightarrow> trim_right (v @ z) = v"
  by (cases v rule: rev_cases) (auto simp: trim_right_def list_all_iff dropWhile_append)

lemma trim_right_split: "\<exists>z. v = trim_right v @ z \<and> list_all is_trailing z"
  by (rule exI [of _ "rev (takeWhile is_trailing (rev v))"])
    (auto simp: trim_right_def list_all_iff rev_append [symmetric] dest: set_takeWhileD)

lemma trim_right_last: "trim_right v \<noteq> [] \<Longrightarrow> \<not> is_trailing (last (trim_right v))"
  unfolding trim_right_def by (simp add: last_rev hd_dropWhile)

lemma ssid_not_blank: "\<not> is_blank (hd (bytes_of ''ssid='' @ v))" "bytes_of ''ssid='' \<noteq> []" "length (bytes_of ''ssid='') = 5"
  by (simp_all add: bytes_of_def is_blank_def)

lemma span_build:
  assumes "list_all is_blank w" "list_all is_trailing z" "v = [] \<or> \<not> is_trailing (last v)"
  shows "ssid_span off (w @ bytes_of ''ssid='' @ v @ z) = [(off + length w + 5, off + length w + 5 + length v)]"
proof -
  have "takeWhile is_blank (w @ bytes_of ''ssid='' @ v @ z) = w"
    using assms(1) by (auto simp: list_all_iff bytes_of_def is_blank_def takeWhile_append)
  then show ?thesis
    using trim_right_append [OF assms(2,3)] by (simp add: ssid_span_def ssid_not_blank Let_def)
qed

lemma span_cases:
  assumes "ssid_span off line \<noteq> []"
  obtains w v z where "line = w @ bytes_of ''ssid='' @ v @ z" "list_all is_blank w" "list_all is_trailing z"
    "v = [] \<or> \<not> is_trailing (last v)"
    "ssid_span off line = [(off + length w + 5, off + length w + 5 + length v)]"
proof -
  let ?w = "takeWhile is_blank line"
  from assms have k: "take 5 (drop (length ?w) line) = bytes_of ''ssid=''"
    by (simp add: ssid_span_def Let_def split: if_splits)
  obtain z where z: "drop (length ?w + 5) line = trim_right (drop (length ?w + 5) line) @ z" "list_all is_trailing z"
    using trim_right_split by blast
  have "line = ?w @ take 5 (drop (length ?w) line) @ drop 5 (drop (length ?w) line)"
    by (metis append_take_drop_id takeWhile_eq_take)
  then have l: "line = ?w @ bytes_of ''ssid='' @ trim_right (drop (length ?w + 5) line) @ z"
    using k z(1) by (simp add: add.commute)
  have w: "list_all is_blank ?w" by (auto simp: list_all_iff dest: set_takeWhileD)
  show ?thesis
    by (rule that [OF l w z(2)]) (use trim_right_last k in \<open>auto simp: ssid_span_def Let_def\<close>)
qed

lemma ssid_spans_Nil [simp]: "ssid_spans off [] = []" "ssid_span off [] = []"
  by (simp_all add: ssid_spans.simps ssid_span_def bytes_of_def)

lemma ssid_spans_line:
  "10 \<notin> set line \<Longrightarrow> ssid_spans off (line @ 10 # s) = ssid_span off line @ ssid_spans (off + length line + 1) s"
  by (subst ssid_spans.simps) (simp add: takeWhile_append Let_def)

lemma ssid_spans_last: "10 \<notin> set line \<Longrightarrow> ssid_spans off line = ssid_span off line"
proof -
  assume "10 \<notin> set line"
  then have l: "takeWhile (\<lambda>c. c \<noteq> 10) line = line" by (auto simp: takeWhile_eq_all_conv)
  show ?thesis by (subst ssid_spans.simps) (simp add: Let_def l)
qed

lemma ssid_spans_shift:
  "ssid_spans (d + off) s = map (\<lambda>(a, b). (d + a, d + b)) (ssid_spans off s)"
proof (induction off s rule: ssid_spans.induct)
  case (1 off s)
  show ?case
  proof (cases "s = []")
    case False
    let ?l = "takeWhile (\<lambda>c. c \<noteq> 10) s"
    have "ssid_span (d + off) ?l = map (\<lambda>(a, b). (d + a, d + b)) (ssid_span off ?l)"
      by (simp add: ssid_span_def Let_def)
    with 1 [OF False refl] False show ?thesis
      by (subst (1 2) ssid_spans.simps) (simp add: Let_def add.assoc)
  qed simp
qed

lemma line_split:
  obtains "10 \<notin> set s" | line r where "s = line @ 10 # r" "10 \<notin> set line"
  by (metis split_list_first)

lemma ssid_spans_ge: "(a, b) \<in> set (ssid_spans off s) \<Longrightarrow> off \<le> a"
  using ssid_spans_shift [of off 0 s] by auto

text \<open>Another value without line break or trailing blank in the place of the only one is the only value.\<close>

lemma ssid_spans_replace:
  assumes "ssid_spans off (h @ a @ t) = [(off + length h, off + length h + length a)]" "token_ok b"
  shows "ssid_spans off (h @ b @ t) = [(off + length h, off + length h + length b)]"
  using assms(1)
proof (induction "length h" arbitrary: h off rule: less_induct)
  case less
  let ?s = "h @ a @ t"
  have b: "10 \<notin> set b" "b = [] \<or> \<not> is_trailing (last b)" using assms(2) by (auto simp: token_ok_def)
  have here: "\<exists>w z. h = w @ bytes_of ''ssid='' \<and> t = z @ r \<and> list_all is_blank w \<and> list_all is_trailing z"
    if "?s = line @ r" "ssid_span off line = [(off + length h, off + length h + length a)]" for line r
  proof -
    from that(2) have "ssid_span off line \<noteq> []" by simp
    then obtain w v z where l: "line = w @ bytes_of ''ssid='' @ v @ z" "list_all is_blank w" "list_all is_trailing z"
        "ssid_span off line = [(off + length w + 5, off + length w + 5 + length v)]"
      by (rule span_cases)
    with that(2) have n: "length h = length (w @ bytes_of ''ssid='')" "length a = length v"
      by (auto simp: ssid_not_blank)
    from that(1) l(1) have "h @ a @ t = (w @ bytes_of ''ssid='') @ v @ z @ r" by simp
    with n(1) have "h = w @ bytes_of ''ssid=''" "a @ t = v @ z @ r"
      using append_eq_append_conv [of h "w @ bytes_of ''ssid=''" "a @ t" "v @ z @ r"] by blast+
    with n(2) l show ?thesis using append_eq_append_conv [of a v t "z @ r"] by blast
  qed
  show ?case
  proof (cases rule: line_split [of ?s])
    case 1
    with less.prems have "ssid_span off ?s = [(off + length h, off + length h + length a)]"
      by (simp add: ssid_spans_last)
    with here [of ?s "[]"] obtain w where w: "h = w @ bytes_of ''ssid=''" "list_all is_blank w" "list_all is_trailing t"
      by auto
    have "10 \<notin> set (h @ b @ t)" using 1 b by simp
    then have "ssid_spans off (h @ b @ t) = ssid_span off (h @ b @ t)" by (rule ssid_spans_last)
    with span_build [OF w(2,3) b(2)] w(1) show ?thesis by (simp add: ssid_not_blank)
  next
    case (2 line r)
    with less.prems have s: "ssid_span off line @ ssid_spans (off + length line + 1) r
        = [(off + length h, off + length h + length a)]"
      by (simp add: ssid_spans_line)
    show ?thesis
    proof (cases "ssid_span off line = []")
      case True
      with s have r: "ssid_spans (off + length line + 1) r = [(off + length h, off + length h + length a)]" by simp
      then have "off + length line + 1 \<le> off + length h" using ssid_spans_ge [of _ _ "off + length line + 1" r] by auto
      then have "take (length line + 1) ?s = take (length line + 1) h" by simp
      moreover have "take (length line + 1) ?s = line @ [10]" using 2(1) by simp
      ultimately obtain h' where h: "h = line @ 10 # h'"
        by (metis append.assoc append_Cons append_Nil append_take_drop_id)
      with 2(1) have "r = h' @ a @ t" by simp
      with r h have "ssid_spans (off + length line + 1) (h' @ a @ t)
          = [((off + length line + 1) + length h', (off + length line + 1) + length h' + length a)]"
        by simp
      from less.hyps [OF _ this] h have "ssid_spans (off + length line + 1) (h' @ b @ t)
          = [(off + length h, off + length h + length b)]" by simp
      with True h 2(2) ssid_spans_line [OF 2(2), of off "h' @ b @ t"] show ?thesis by simp
    next
      case False
      with s have l: "ssid_span off line = [(off + length h, off + length h + length a)]"
          "ssid_spans (off + length line + 1) r = []"
        by (auto simp: append_eq_Cons_conv)
      from here [of line "10 # r"] 2(1) l(1) obtain w z where w: "h = w @ bytes_of ''ssid=''" "t = z @ 10 # r"
          "list_all is_blank w" "list_all is_trailing z"
        by auto
      have none: "ssid_spans n r = []" for n
        using ssid_spans_shift [of n 0 r] ssid_spans_shift [of "off + length line + 1" 0 r] l(2) by simp
      have "10 \<notin> set (h @ b @ z)"
        using w(1,3,4) b by (auto simp: list_all_iff is_blank_def is_trailing_def bytes_of_def)
      then have "ssid_spans off ((h @ b @ z) @ 10 # r) = ssid_span off (h @ b @ z)"
        using ssid_spans_line [of "h @ b @ z" off r] none by simp
      with span_build [OF w(3,4) b(2)] w show ?thesis by (simp add: ssid_not_blank)
    qed
  qed
qed

subsection \<open>The marker file reads back\<close>

definition marker_ok :: "marker_t \<Rightarrow> bool" where
  "marker_ok m \<longleftrightarrow> token_ok (mk_essid m) \<and> (mk_applied m = [] \<or> token_ok (mk_applied m))
     \<and> (mk_target_hex m = [] \<or> token_ok (mk_target_hex m)) \<and> - LONG_MAX - 1 \<le> mk_time m \<and> mk_time m \<le> LONG_MAX"

lemma line_value_Nil [simp]: "line_value [] key cap = Inl (-2)"
  by (simp add: line_value.simps)

lemma line_value_hit:
  assumes "10 \<notin> set key" "10 \<notin> set v" "v \<noteq> []" "length v < cap"
  shows "line_value (key @ v @ 10 # r) key cap = Inr v"
proof -
  have "takeWhile (\<lambda>c. c \<noteq> 10) (key @ v @ 10 # r) = key @ v"
    using assms(1,2) by (auto simp: takeWhile_append)
  with assms show ?thesis by (subst line_value.simps) (simp add: Let_def)
qed

lemma line_value_skip:
  assumes "10 \<notin> set line" "take (length key) (line @ 10 # r) \<noteq> key"
  shows "line_value (line @ 10 # r) key cap = line_value r key cap"
proof -
  have "takeWhile (\<lambda>c. c \<noteq> 10) (line @ 10 # r) = line"
    using assms(1) by (auto simp: takeWhile_append)
  with assms show ?thesis by (subst line_value.simps) (simp add: Let_def)
qed

lemma scan_decimal_dec: "scan_decimal (dec n) = Some (False, n, [])" "scan_decimal (45 # dec n) = Some (True, n, [])"
proof -
  obtain c s where d: "dec n = c # s" using dec_not_empty [of n] by (cases "dec n") auto
  have dg: "list_all is_digit (c # s)" using dec_digits [of n] d by simp
  then have c: "is_digit c" by simp
  have tw: "takeWhile is_digit (c # s) = c # s" using dg by (simp only: takeWhile_eq_all_conv list_all_iff)
  have ns: "\<not> is_space c" "c \<noteq> 45" "c \<noteq> 43" using c by (auto simp: is_digit_def is_space_def word_le_nat_alt)
  have v: "digits_val (c # s) = n" using digits_val_dec [of n] d by simp
  show "scan_decimal (dec n) = Some (False, n, [])"
    using ns tw v unfolding d scan_decimal_def skip_ws_def by (simp add: Let_def)
  show "scan_decimal (45 # dec n) = Some (True, n, [])"
    using ns tw v unfolding d scan_decimal_def skip_ws_def by (simp add: Let_def is_space_def)
qed

lemma strtoul_dec: "n \<le> ULONG_MAX \<Longrightarrow> strtoul (dec n) = Some (of_nat n, [])"
  by (simp add: strtoul_def scan_decimal_dec)

lemma strtol_dec_int: "- LONG_MAX - 1 \<le> v \<Longrightarrow> v \<le> LONG_MAX \<Longrightarrow> strtol (dec_int v) = Some (v, [])"
  by (auto simp: strtol_def dec_int_def scan_decimal_dec)

lemma dec_int_clean: "10 \<notin> set (dec_int v)" "0 \<notin> set (dec_int v)" "dec_int v \<noteq> []"
  by (auto simp: dec_int_def dec_clean dec_not_empty)

lemma length_dec_int: "- LONG_MAX - 1 \<le> v \<Longrightarrow> v \<le> LONG_MAX \<Longrightarrow> length (dec_int v) \<le> 20"
proof -
  assume v: "- LONG_MAX - 1 \<le> v" "v \<le> LONG_MAX"
  then have "nat v < 10 ^ Suc 18" "nat (- v) < 10 ^ Suc 18" by (simp_all add: LONG_MAX_def nat_less_iff)
  from this [THEN length_dec_le] show ?thesis by (auto simp: dec_int_def)
qed

lemma length_dec_u32: "length (dec (unat (w :: u32))) \<le> 10"
  using length_dec_le [of "unat w" 9] unsigned_less [of w, where 'a = nat] by simp

lemma line_value_opt:
  assumes "v = [] \<or> token_ok v" "10 \<notin> set (bytes_of k)"
  shows "line_value (opt_line k v @ r) (bytes_of k) 256 = (if v = [] then line_value r (bytes_of k) 256 else Inr v)"
  using assms by (auto simp: opt_line_def token_ok_def intro: line_value_hit)

lemma line_value_opt_skip:
  assumes "v = [] \<or> token_ok v" "10 \<notin> set (bytes_of k)"
    and "\<And>s. take (length key) (bytes_of k @ s) \<noteq> key"
  shows "line_value (opt_line k v @ r) key cap = line_value r key cap"
proof (cases "v = []")
  case False
  have "take (length key) ((bytes_of k @ v) @ 10 # r) \<noteq> key" unfolding append_assoc by (rule assms(3))
  with line_value_skip [of "bytes_of k @ v" key r cap] False assms(1,2) show ?thesis
    by (auto simp: opt_line_def token_ok_def)
qed (simp add: opt_line_def)

lemma line_value_body:
  assumes "marker_ok m"
  shows "line_value (marker_body m) (bytes_of ''essid='') 256 = Inr (mk_essid m)"
    and "line_value (marker_body m) (bytes_of ''slot='') 32 = Inr (dec (unat (mk_slot m)))"
    and "line_value (marker_body m) (bytes_of ''time='') 32 = Inr (dec_int (mk_time m))"
    and "line_value (marker_body m) (bytes_of ''target='') 256
      = (if mk_target_hex m = [] then Inl (-2) else Inr (mk_target_hex m))"
    and "line_value (marker_body m) (bytes_of ''applied='') 256
      = (if mk_applied m = [] then Inl (-2) else Inr (mk_applied m))"
proof -
  let ?e = "bytes_of ''essid=''" let ?s = "bytes_of ''slot=''" let ?t = "bytes_of ''time=''"
  let ?tail = "opt_line ''target='' (mk_target_hex m) @ opt_line ''applied='' (mk_applied m)"
  have e: "10 \<notin> set (mk_essid m)" "mk_essid m \<noteq> []" "length (mk_essid m) < 256"
    using assms by (auto simp: marker_ok_def token_ok_def)
  have b: "marker_body m = ?e @ mk_essid m @ 10 # ?s @ dec (unat (mk_slot m)) @ 10 # ?t @ dec_int (mk_time m) @ 10 # ?tail"
    by (simp add: marker_body_def)
  have tm: "length (dec_int (mk_time m)) < 32"
    using length_dec_int [of "mk_time m"] assms by (auto simp: marker_ok_def)
  have sl: "length (dec (unat (mk_slot m))) < 32" using length_dec_u32 [of "mk_slot m"] by simp
  have skip1: "line_value (marker_body m) key cap = line_value (?s @ dec (unat (mk_slot m)) @ 10 # ?t @ dec_int (mk_time m) @ 10 # ?tail) key cap"
    if "hd key \<noteq> 101" "key \<noteq> []" for key cap
    unfolding b using line_value_skip [of "?e @ mk_essid m" key _ cap] e(1) that
    by (cases key) (auto simp: bytes_of_def)
  have skip2: "line_value (?s @ dec (unat (mk_slot m)) @ 10 # ?t @ dec_int (mk_time m) @ 10 # ?tail) key cap
      = line_value (?t @ dec_int (mk_time m) @ 10 # ?tail) key cap" if "hd key \<noteq> 115" "key \<noteq> []" for key cap
    using line_value_skip [of "?s @ dec (unat (mk_slot m))" key _ cap] dec_clean that
    by (cases key) (auto simp: bytes_of_def)
  have skip3: "line_value (?t @ dec_int (mk_time m) @ 10 # ?tail) key cap = line_value ?tail key cap"
    if "take 2 key \<noteq> [116, 105]" "length key \<ge> 2" for key cap
    using line_value_skip [of "?t @ dec_int (mk_time m)" key _ cap] dec_int_clean that
    by (cases key; cases "tl key") (auto simp: bytes_of_def)
  note ok = assms [unfolded marker_ok_def]
  show "line_value (marker_body m) ?e 256 = Inr (mk_essid m)"
    unfolding b using e by (intro line_value_hit) (auto simp: bytes_of_def)
  show "line_value (marker_body m) ?s 32 = Inr (dec (unat (mk_slot m)))"
    using skip1 [of ?s 32] line_value_hit [of ?s "dec (unat (mk_slot m))" 32] sl dec_clean dec_not_empty
    by (simp add: bytes_of_def)
  show "line_value (marker_body m) ?t 32 = Inr (dec_int (mk_time m))"
    using skip1 [of ?t 32] skip2 [of ?t 32] line_value_hit [of ?t "dec_int (mk_time m)" 32] tm dec_int_clean
    by (simp add: bytes_of_def)
  have tail: "line_value (marker_body m) key cap = line_value ?tail key cap"
    if "hd key \<noteq> 101" "hd key \<noteq> 115" "take 2 key \<noteq> [116, 105]" "length key \<ge> 2" for key cap
    using skip1 [of key cap] skip2 [of key cap] skip3 [of key cap] that by (cases key) simp_all
  show "line_value (marker_body m) (bytes_of ''target='') 256
      = (if mk_target_hex m = [] then Inl (-2) else Inr (mk_target_hex m))"
    using tail [of "bytes_of ''target=''" 256] ok
      line_value_opt [of "mk_target_hex m" "''target=''" "opt_line ''applied='' (mk_applied m)"]
      line_value_opt_skip [of "mk_applied m" "''applied=''" "bytes_of ''target=''" "[]" 256]
    by (simp add: bytes_of_def)
  show "line_value (marker_body m) (bytes_of ''applied='') 256
      = (if mk_applied m = [] then Inl (-2) else Inr (mk_applied m))"
    using tail [of "bytes_of ''applied=''" 256] ok
      line_value_opt_skip [of "mk_target_hex m" "''target=''" "bytes_of ''applied=''" "opt_line ''applied='' (mk_applied m)" 256]
      line_value_opt [of "mk_applied m" "''applied=''" "[]"]
    by (simp add: bytes_of_def)
qed

lemma marker_parse_body: "marker_ok m \<Longrightarrow> marker_parse (marker_body m) = Inr m"
proof -
  assume ok: "marker_ok m"
  have n: "unat (mk_slot m) \<le> ULONG_MAX"
    using unsigned_less [of "mk_slot m", where 'a = nat] by (simp add: ULONG_MAX_def)
  have s: "ucast (of_nat (unat (mk_slot m)) :: u64) = mk_slot m" by (simp add: bit_eq_iff bit_simps)
  have t: "strtol (dec_int (mk_time m)) = Some (mk_time m, [])"
    using ok by (intro strtol_dec_int) (auto simp: marker_ok_def)
  have h: "take 6 (marker_body m) = bytes_of ''essid=''" by (simp add: marker_body_def bytes_of_def)
  show ?thesis
    using line_value_body [OF ok] h t strtoul_dec [OF n] s
    by (simp add: marker_parse_def Let_def value_or_empty_def)
qed

lemma token_ok_clean: "token_ok v \<Longrightarrow> 0 \<notin> set v" "token_ok v \<Longrightarrow> length v < 256"
  by (auto simp: token_ok_def)

lemma marker_body_clean: "marker_ok m \<Longrightarrow> 0 \<notin> set (marker_body m)"
  by (auto simp: marker_body_def marker_ok_def opt_line_def dec_clean dec_int_clean token_ok_clean bytes_of_def)

lemma length_marker_body:
  assumes "marker_ok m"
  shows "length (marker_body m) < 864"
proof -
  have o: "length (opt_line k v) \<le> length k + 256" if "v = [] \<or> token_ok v" for k v
    using that by (auto simp: opt_line_def bytes_of_def token_ok_def)
  show ?thesis
    using assms o [of "mk_target_hex m" "''target=''"] o [of "mk_applied m" "''applied=''"] length_dec_u32 [of "mk_slot m"]
      length_dec_int [of "mk_time m"]
    by (auto simp: marker_body_def marker_ok_def token_ok_def bytes_of_def)
qed

subsection \<open>Effect of the file operations\<close>

lemma marker_tmp_neq [simp]: "marker_tmp p \<noteq> p" "p \<noteq> marker_tmp p"
  by (simp_all add: marker_tmp_def bytes_of_def)

lemma write_atomic_shape:
  assumes run: "write_atomic M p d mode = (rc, ops)" and "wc_write_errno (me_write M p) \<noteq> 0"
  shows "rc \<noteq> 0 \<and> list_all (tmp_op (marker_tmp p)) ops
    \<or> (\<exists>ws fin. rc = 0 \<and> ops = Create (marker_tmp p) mode # ws @ [FsyncFile (marker_tmp p), Rename (marker_tmp p) p] @ fin
        \<and> write_loop (wc_writes (me_write M p)) (marker_tmp p) d = (True, ws)
        \<and> (fin = [] \<or> fin = [FsyncDir (parent_dir p)]))"
proof -
  obtain ok ws where w: "write_loop (wc_writes (me_write M p)) (marker_tmp p) d = (ok, ws)" by fastforce
  note t = write_loop_tmp_ops [OF w]
  show ?thesis
  proof (cases ok)
    case True
    with run w t show ?thesis by (auto simp: write_atomic_def Let_def split: if_splits)
  next
    case False
    with run w t assms(2) show ?thesis by (auto simp: write_atomic_def Let_def split: if_splits)
  qed
qed

text \<open>Whatever part of the write is performed, the other files are as before and the target holds the old or the
  complete new content; a write that reports success has replaced it.\<close>

lemma write_atomic_run:
  assumes run: "write_atomic M p d mode = (rc, ops)" and e: "wc_write_errno (me_write M p) \<noteq> 0"
  shows "q \<noteq> marker_tmp p \<Longrightarrow> rc = 0 \<Longrightarrow> fs_run ops F q = (F(p \<mapsto> d)) q"
    and "(\<forall>q. q \<noteq> marker_tmp p \<longrightarrow> fs_run (take k ops) F q = F q)
      \<or> (\<forall>q. q \<noteq> marker_tmp p \<longrightarrow> fs_run (take k ops) F q = (F(p \<mapsto> d)) q)"
proof -
  let ?t = "marker_tmp p"
  consider (un) "rc \<noteq> 0" "list_all (tmp_op ?t) ops"
    | (re) ws fin where "ops = (Create ?t mode # ws @ [FsyncFile ?t]) @ (Rename ?t p # fin)"
        "write_loop (wc_writes (me_write M p)) ?t d = (True, ws)" "fin = [] \<or> fin = [FsyncDir (parent_dir p)]" "rc = 0"
    using write_atomic_shape [OF run e] by fastforce
  note cs = this
  have full: "\<forall>q. q \<noteq> ?t \<longrightarrow> fs_run ((Create ?t mode # ws @ [FsyncFile ?t]) @ Rename ?t p # fin) F q = (F(p \<mapsto> d)) q"
    if w: "write_loop (wc_writes (me_write M p)) ?t d = (True, ws)" and f: "fin = [] \<or> fin = [FsyncDir (parent_dir p)]"
    for ws fin
  proof -
    let ?F = "fs_run ws (F(?t \<mapsto> []))"
    have c: "?F ?t = Some d" using write_loop_content [OF w, of "F(?t \<mapsto> [])" "[]"] by simp
    have o: "?F q = F q" if "q \<noteq> ?t" for q
      using write_loop_prefix [OF w that, of "length ws" "F(?t \<mapsto> [])"] that by simp
    show ?thesis using f c o by auto
  qed
  show "q \<noteq> ?t \<Longrightarrow> rc = 0 \<Longrightarrow> fs_run ops F q = (F(p \<mapsto> d)) q"
    using cs full by cases auto
  show "(\<forall>q. q \<noteq> ?t \<longrightarrow> fs_run (take k ops) F q = F q) \<or> (\<forall>q. q \<noteq> ?t \<longrightarrow> fs_run (take k ops) F q = (F(p \<mapsto> d)) q)"
    using cs
  proof cases
    case un
    then show ?thesis using tmp_ops_prefix by blast
  next
    case (re ws fin)
    define a where "a = Create ?t mode # ws @ [FsyncFile ?t]"
    have ops: "ops = a @ Rename ?t p # fin" using re(1) by (simp add: a_def)
    have ta: "list_all (tmp_op ?t) a" using write_loop_tmp_ops [OF re(2)] by (simp add: a_def)
    show ?thesis
    proof (cases "k \<le> length a")
      case True
      then have "take k ops = take k a" using ops by simp
      then show ?thesis using tmp_ops_prefix [OF ta] by metis
    next
      case False
      then obtain j where "k - length a = Suc j" by (cases "k - length a") auto
      then have "take k ops = a @ Rename ?t p # take j fin" using ops False by simp
      moreover have "take j fin = [] \<or> take j fin = [FsyncDir (parent_dir p)]" using re(3) by (cases j) auto
      ultimately show ?thesis using full [OF re(2), folded a_def] by metis
    qed
  qed
qed

lemma marker_unlink_run:
  shows "q \<noteq> p \<Longrightarrow> fs_run (take k (snd (marker_unlink M p))) F q = F q"
    and "fs_run (take k (snd (marker_unlink M p))) F p = F p \<or> fs_run (take k (snd (marker_unlink M p))) F p = None"
  by (cases k; auto simp: marker_unlink_def)+

end
