(* ===== verification/Essid_Chain.thy ===== *)
theory Essid_Chain
  imports Essid_Marker
begin

text \<open>
  Chains of ChangeIpAddress ESSID changes. The states that the marker and the configuration can go through are an
  inductive relation: marker operations whose system calls may fail and that a power cut may interrupt, and the
  package's helper (\<open>opc_wlan_apply.sh\<close>, not in the repository), which is a parameter. The invariant \<open>chain_inv\<close>
  is kept by every step, and from every state that has it the restore at boot brings the original value back.
\<close>

type_synonym ssid_helper = "files \<Rightarrow> u8 list \<Rightarrow> int \<times> files"

text \<open>What the daemon relies on: the helper edits at most the value of the only \<open>ssid=\<close> line, and only to a
  rendering of the requested SSID.\<close>

definition helper_ok :: "path \<Rightarrow> ssid_helper \<Rightarrow> bool" where
  "helper_ok cp helper \<longleftrightarrow>
     (\<forall>F req rc F'. helper F req = (rc, F') \<longrightarrow>
        (\<forall>p. p \<noteq> cp \<longrightarrow> F' p = F p)
        \<and> (F' cp = F cp
           \<or> (\<exists>h a t b. F cp = Some (h @ a @ t) \<and> ssid_spans 0 (h @ a @ t) = [(length h, length h + length a)]
                \<and> F' cp = Some (h @ b @ t) \<and> token_ok b \<and> token_is_ssid b (concat (map hex2 req)))))"

text \<open>The files can be read, and a write that fails has an error number.\<close>

definition calls_ok :: "marker_env \<Rightarrow> bool" where
  "calls_ok M \<longleftrightarrow> (\<forall>p. me_read M p = 0 \<and> wc_write_errno (me_write M p) \<noteq> 0)"

definition env_ok :: marker_env where
  "env_ok = \<lparr>me_read = (\<lambda>_. 0),
     me_write = (\<lambda>_. \<lparr>wc_open = 0, wc_writes = [], wc_write_errno = 5, wc_fsync = 0, wc_close = 0, wc_rename = 0, wc_opendir = True\<rparr>),
     me_unlink = (\<lambda>_. 0), me_mode = (\<lambda>_. Some 420), me_malloc = True\<rparr>"

inductive essid_reach :: "ssid_helper \<Rightarrow> path \<Rightarrow> path \<Rightarrow> files \<Rightarrow> files \<Rightarrow> bool"
  for helper mp cp F0 where
  start: "essid_reach helper mp cp F0 F0"
| arm: "essid_reach helper mp cp F0 F \<Longrightarrow> calls_ok M \<Longrightarrow> - LONG_MAX - 1 \<le> now \<Longrightarrow> now \<le> LONG_MAX \<Longrightarrow>
    essid_reach helper mp cp F0 (fs_run (take k (snd (opc_essid_marker_arm M F mp cp slot now (Some req)))) F)"
| install: "essid_reach helper mp cp F0 F \<Longrightarrow> calls_ok M \<Longrightarrow> - LONG_MAX - 1 \<le> now \<Longrightarrow> now \<le> LONG_MAX \<Longrightarrow>
    opc_essid_marker_arm M F mp cp slot now (Some req) = (0, ops) \<Longrightarrow>
    essid_reach helper mp cp F0 (snd (helper (fs_run ops F) req))"
| commit: "essid_reach helper mp cp F0 F \<Longrightarrow> calls_ok M \<Longrightarrow>
    essid_reach helper mp cp F0 (fs_run (take k (snd (opc_essid_marker_commit M F mp cp))) F)"
| settle: "essid_reach helper mp cp F0 F \<Longrightarrow> calls_ok M \<Longrightarrow>
    essid_reach helper mp cp F0 (fs_run (take k (snd (opc_essid_marker_settle M F mp cp))) F)"
| restore: "essid_reach helper mp cp F0 F \<Longrightarrow> calls_ok M \<Longrightarrow>
    essid_reach helper mp cp F0 (fs_run (take k (snd (opc_essid_marker_restore M F mp cp))) F)"

text \<open>The configuration around the value, and the invariant.\<close>

definition conf_base :: "u8 list \<Rightarrow> u8 list \<Rightarrow> u8 list \<Rightarrow> bool" where
  "conf_base h orig t \<longleftrightarrow> 0 \<notin> set h \<and> 0 \<notin> set t \<and> token_ok orig \<and> length h + length t + TOKEN_MAX \<le> FILE_MAX_BYTES
     \<and> ssid_spans 0 (h @ orig @ t) = [(length h, length h + length orig)]"

definition marker_keeps :: "u8 list \<Rightarrow> u8 list \<Rightarrow> marker_t \<Rightarrow> bool" where
  "marker_keeps orig cur m \<longleftrightarrow> marker_ok m \<and> mk_essid m = orig \<and> (chain_owns m cur \<or> cur = orig)"

definition chain_at :: "path \<Rightarrow> path \<Rightarrow> u8 list \<Rightarrow> u8 list \<Rightarrow> u8 list \<Rightarrow> files \<Rightarrow> u8 list \<Rightarrow> bool" where
  "chain_at mp cp h orig t F cur \<longleftrightarrow> F cp = Some (h @ cur @ t) \<and> token_ok cur
     \<and> (F mp = None \<and> cur = orig \<or> (\<exists>m. F mp = Some (marker_body m) \<and> marker_keeps orig cur m))"

definition chain_inv :: "path \<Rightarrow> path \<Rightarrow> u8 list \<Rightarrow> u8 list \<Rightarrow> u8 list \<Rightarrow> files \<Rightarrow> bool" where
  "chain_inv mp cp h orig t F \<longleftrightarrow> (\<exists>cur. chain_at mp cp h orig t F cur)"

definition paths_apart :: "path \<Rightarrow> path \<Rightarrow> bool" where
  "paths_apart mp cp \<longleftrightarrow> distinct [mp, cp, marker_tmp mp, marker_tmp cp] \<and> length cp < 4000"

text \<open>An example: a helper that writes the quoted request, and a configuration.\<close>

definition quoting_helper :: "path \<Rightarrow> ssid_helper" where
  "quoting_helper cp F req =
     (case F cp of
        None \<Rightarrow> (2, F)
      | Some conf \<Rightarrow>
          (case ssid_spans 0 conf of
             [(a, b)] \<Rightarrow>
               if req \<noteq> [] \<and> token_ok (34 # req @ [34]) \<and> a \<le> b \<and> b \<le> length conf
               then (0, F(cp \<mapsto> take a conf @ (34 # req @ [34]) @ drop b conf)) else (2, F)
           | _ \<Rightarrow> (2, F)))"

definition ex_marker :: path where "ex_marker = bytes_of ''/m''"
definition ex_conf :: path where "ex_conf = bytes_of ''/c''"
definition ex_files :: files where
  "ex_files = [ex_conf \<mapsto> bytes_of ''network={'' @ [10, 9] @ bytes_of ''ssid='' @ [34, 97, 34] @ [10] @ bytes_of ''}'']"

subsection \<open>Reading the files of a chain\<close>

lemma find_ssid_base:
  assumes "conf_base h orig t" "token_ok cur"
  shows "find_ssid (h @ cur @ t) = (1, Some (length h, length h + length cur))"
  using ssid_spans_replace [of 0 h orig t cur] assms by (simp add: find_ssid_def conf_base_def)

lemma slurp_base:
  assumes "conf_base h orig t" "token_ok cur" "calls_ok M" "F cp = Some (h @ cur @ t)"
  shows "marker_slurp M F cp = Inr (h @ cur @ t)"
  using assms by (auto simp: marker_slurp_def conf_base_def token_ok_def calls_ok_def cstr_id)

lemma conf_token_base:
  assumes "conf_base h orig t" "token_ok cur" "calls_ok M" "F cp = Some (h @ cur @ t)"
  shows "conf_token M F cp 256 = Inr cur"
  using slurp_base [OF assms(1-3), where F = F and cp = cp] assms(4) find_ssid_base [OF assms(1,2)] assms(2) by (simp add: conf_token_def token_ok_def)

lemma load_marker_body:
  assumes "calls_ok M" "F mp = Some (marker_body m)" "marker_ok m"
  shows "load_marker M F mp = Inr m"
  using assms length_marker_body [OF assms(3)] marker_body_clean [OF assms(3)] marker_parse_body [OF assms(3)]
  by (simp add: load_marker_def marker_slurp_def calls_ok_def cstr_id)

lemma load_marker_none: "calls_ok M \<Longrightarrow> F mp = None \<Longrightarrow> load_marker M F mp = Inl (-2)"
  by (simp add: load_marker_def marker_slurp_def calls_ok_def)

definition hex_digit :: "nat \<Rightarrow> u8" where
  "hex_digit n = (if n < 10 then of_nat (48 + n) else of_nat (87 + n))"

lemma hex_digit_facts:
  assumes "n < 16"
  shows "hexval (hex_digit n) = Some n" "hex_digit n \<noteq> 0" "hex_digit n \<noteq> 10" "\<not> is_trailing (hex_digit n)"
proof -
  have "list_all (\<lambda>n. hexval (hex_digit n) = Some n \<and> hex_digit n \<noteq> 0 \<and> hex_digit n \<noteq> 10
      \<and> \<not> is_trailing (hex_digit n)) [0 ..< 16]"
    by code_simp
  with assms show "hexval (hex_digit n) = Some n" "hex_digit n \<noteq> 0" "hex_digit n \<noteq> 10" "\<not> is_trailing (hex_digit n)"
    by (auto simp: list_all_iff)
qed

lemma hex2_digits: "hex2 c = [hex_digit (unat c div 16), hex_digit (unat c mod 16)]" "unat c div 16 < 16"
  using unsigned_less [of c, where 'a = nat] by (simp_all add: hex2_def hex_digit_def Let_def)

lemma hex2_chars: "x \<in> set (hex2 c) \<Longrightarrow> x \<noteq> 0 \<and> x \<noteq> 10 \<and> \<not> is_trailing x"
  using hex_digit_facts [OF hex2_digits(2) [of c]] hex_digit_facts [of "unat c mod 16"] by (auto simp: hex2_digits(1))

lemma length_hex: "length (concat (map hex2 req)) = 2 * length req"
  by (induction req) (simp_all add: hex2_digits(1))

lemma token_ok_hex: "2 * length req < 256 \<Longrightarrow> concat (map hex2 req) = [] \<or> token_ok (concat (map hex2 req))"
  unfolding token_ok_def using hex2_chars last_in_set [of "concat (map hex2 req)"]
  by (auto simp: length_hex simp del: concat_eq_Nil_conv)

text \<open>The quoted rendering of a request is one of its SSID.\<close>

lemma hex_byte_concat:
  "i < length req \<Longrightarrow> hex_byte (concat (map hex2 req)) i = Some (unat (req ! i))"
proof (induction req arbitrary: i)
  case (Cons c req)
  show ?case
  proof (cases i)
    case 0
    then show ?thesis
      using hex_digit_facts(1) [OF hex2_digits(2) [of c]] hex_digit_facts(1) [of "unat c mod 16"]
      by (simp add: hex_byte_def hex2_digits(1))
  next
    case (Suc j)
    with Cons show ?thesis by (simp add: hex_byte_def hex2_digits(1))
  qed
qed simp

lemma quoted_is_ssid: "req \<noteq> [] \<Longrightarrow> token_is_ssid (34 # req @ [34]) (concat (map hex2 req))"
  using hex_byte_concat [of _ req]
  by (simp add: token_is_ssid_def length_hex Let_def is_quoted_def list_all_iff nth_append)

lemma helper_okD:
  assumes "helper_ok cp helper" "helper F req = (rc, F')"
  shows "p \<noteq> cp \<Longrightarrow> F' p = F p"
    and "F' cp = F cp
      \<or> (\<exists>h a t b. F cp = Some (h @ a @ t) \<and> ssid_spans 0 (h @ a @ t) = [(length h, length h + length a)]
           \<and> F' cp = Some (h @ b @ t) \<and> token_ok b \<and> token_is_ssid b (concat (map hex2 req)))"
  using assms unfolding helper_ok_def by blast+

subsection \<open>The invariant\<close>

lemma chain_at_same:
  "chain_at mp cp h orig t F cur \<Longrightarrow> G mp = F mp \<Longrightarrow> G cp = F cp \<Longrightarrow> chain_at mp cp h orig t G cur"
  by (simp add: chain_at_def)

lemma chain_at_write:
  assumes "chain_at mp cp h orig t F cur" "paths_apart mp cp" "calls_ok M" "marker_keeps orig cur m"
  shows "chain_at mp cp h orig t (fs_run (take k (snd (marker_write M mp m))) F) cur"
    and "fst (marker_write M mp m) = 0 \<Longrightarrow> fs_run (snd (marker_write M mp m)) F mp = Some (marker_body m)
      \<and> fs_run (snd (marker_write M mp m)) F cp = F cp"
proof -
  have w: "marker_write M mp m = write_atomic M mp (marker_body m) 384"
    using length_marker_body [of m] assms(4) by (simp add: marker_write_def Let_def marker_keeps_def)
  obtain rc ops where r: "write_atomic M mp (marker_body m) 384 = (rc, ops)" by fastforce
  have e: "wc_write_errno (me_write M mp) \<noteq> 0" using assms(3) by (simp add: calls_ok_def)
  have p: "mp \<noteq> marker_tmp mp" "cp \<noteq> marker_tmp mp" "mp \<noteq> cp" using assms(2) by (auto simp: paths_apart_def)
  from write_atomic_run(2) [OF r e, of k F] show "chain_at mp cp h orig t (fs_run (take k (snd (marker_write M mp m))) F) cur"
    using assms(1,4) p unfolding w r by (auto simp: chain_at_def)
  show "fs_run (snd (marker_write M mp m)) F mp = Some (marker_body m) \<and> fs_run (snd (marker_write M mp m)) F cp = F cp"
    if "fst (marker_write M mp m) = 0"
    using that write_atomic_run(1) [OF r e, of mp F] write_atomic_run(1) [OF r e, of cp F] p unfolding w r by simp
qed

lemma chain_at_unlink:
  assumes "chain_at mp cp h orig t F orig" "mp \<noteq> cp"
  shows "chain_at mp cp h orig t (fs_run (take k (snd (marker_unlink M mp))) F) orig"
  using assms marker_unlink_run(1) [where M = M and p = mp and q = cp and F = F and k = k]
    marker_unlink_run(2) [where M = M and p = mp and F = F and k = k]
  by (auto simp: chain_at_def)

lemma snd_or_code [simp]: "snd (or_code v r) = snd r"
  by (simp add: or_code_def split: prod.splits)

text \<open>The marker that arm writes.\<close>

lemma arm_writes:
  assumes "conf_base h orig t" "chain_at mp cp h orig t F cur" "calls_ok M" "- LONG_MAX - 1 \<le> now" "now \<le> LONG_MAX"
    "2 * length req < 256"
  obtains m where "opc_essid_marker_arm M F mp cp slot now (Some req) = marker_write M mp m" "marker_keeps orig cur m"
    "mk_target_hex m = concat (map hex2 req)"
proof -
  let ?h = "concat (map hex2 req)"
  from assms(2) have c: "F cp = Some (h @ cur @ t)" "token_ok cur" by (simp_all add: chain_at_def)
  note tok = conf_token_base [OF assms(1) c(2) assms(3), where F = F and cp = cp] c(1)
  define e where "e = (case load_marker M F mp of Inr old \<Rightarrow> if chain_owns old cur then (mk_essid old, cur) else (cur, [])
    | Inl _ \<Rightarrow> (cur, []))"
  let ?m = "\<lparr>mk_essid = fst e, mk_applied = snd e, mk_target_hex = ?h, mk_slot = slot, mk_time = now\<rparr>"
  have o: "token_ok orig" using assms(1) by (simp add: conf_base_def)
  have "e = (orig, cur) \<or> (e = (cur, []) \<and> cur = orig)"
  proof (cases "F mp")
    case None
    with assms(2,3) show ?thesis by (auto simp: e_def load_marker_none chain_at_def)
  next
    case (Some b)
    with assms(2) obtain m where m: "F mp = Some (marker_body m)" "marker_keeps orig cur m" by (auto simp: chain_at_def)
    then have "load_marker M F mp = Inr m" using assms(3) by (intro load_marker_body) (auto simp: marker_keeps_def)
    with m(2) show ?thesis by (auto simp: e_def marker_keeps_def)
  qed
  then have "marker_keeps orig cur ?m"
    using c(2) o token_ok_hex [OF assms(6)] assms(4,5)
    by (auto simp: marker_keeps_def marker_ok_def chain_owns_def token_ok_def)
  moreover have "opc_essid_marker_arm M F mp cp slot now (Some req) = marker_write M mp ?m"
    using tok assms(6) by (simp add: opc_essid_marker_arm_def e_def Let_def)
  ultimately show ?thesis using that by simp
qed

lemma arm_refused:
  assumes "conf_base h orig t" "chain_at mp cp h orig t F cur" "calls_ok M" "\<not> 2 * length req < 256"
  shows "opc_essid_marker_arm M F mp cp slot now (Some req) = (-36, [])"
  using assms conf_token_base [OF assms(1) _ assms(3), where F = F and cp = cp]
  by (auto simp: opc_essid_marker_arm_def chain_at_def Let_def)

lemma chain_arm:
  assumes "conf_base h orig t" "chain_inv mp cp h orig t F" "paths_apart mp cp" "calls_ok M"
    "- LONG_MAX - 1 \<le> now" "now \<le> LONG_MAX"
  shows "chain_inv mp cp h orig t (fs_run (take k (snd (opc_essid_marker_arm M F mp cp slot now (Some req)))) F)"
proof -
  from assms(2) obtain cur where c: "chain_at mp cp h orig t F cur" by (auto simp: chain_inv_def)
  show ?thesis
  proof (cases "2 * length req < 256")
    case True
    from arm_writes [OF assms(1) c assms(4,5,6) True, of slot] obtain m where
        "opc_essid_marker_arm M F mp cp slot now (Some req) = marker_write M mp m" "marker_keeps orig cur m" by blast
    with chain_at_write(1) [OF c assms(3,4)] show ?thesis by (auto simp: chain_inv_def)
  next
    case False
    with arm_refused [OF assms(1) c assms(4)] assms(2) show ?thesis by simp
  qed
qed

lemma inv_install:
  assumes "conf_base h orig t" "chain_inv mp cp h orig t F" "paths_apart mp cp" "calls_ok M"
    "- LONG_MAX - 1 \<le> now" "now \<le> LONG_MAX" "helper_ok cp helper"
    and arm: "opc_essid_marker_arm M F mp cp slot now (Some req) = (0, ops)"
  shows "chain_inv mp cp h orig t (snd (helper (fs_run ops F) req))"
proof -
  from assms(2) obtain cur where c: "chain_at mp cp h orig t F cur" by (auto simp: chain_inv_def)
  have "2 * length req < 256" using arm arm_refused [OF assms(1) c assms(4)] by fastforce
  from arm_writes [OF assms(1) c assms(4,5,6) this, of slot] arm obtain m where
    m: "marker_write M mp m = (0, ops)" "marker_keeps orig cur m" "mk_target_hex m = concat (map hex2 req)" by metis
  let ?F = "fs_run ops F"
  obtain rc F' where h: "helper ?F req = (rc, F')" by fastforce
  have f: "?F mp = Some (marker_body m)" "?F cp = Some (h @ cur @ t)" "token_ok cur"
    using chain_at_write(2) [OF c assms(3,4) m(2)] m(1) c by (simp_all add: chain_at_def)
  have F': "F' mp = Some (marker_body m)"
    using helper_okD(1) [OF assms(7) h, of mp] assms(3) f(1) by (simp add: paths_apart_def)
  from helper_okD(2) [OF assms(7) h] consider "F' cp = ?F cp"
    | h' a t' b where "?F cp = Some (h' @ a @ t')" "ssid_spans 0 (h' @ a @ t') = [(length h', length h' + length a)]"
        "F' cp = Some (h' @ b @ t')" "token_ok b" "token_is_ssid b (concat (map hex2 req))"
    by meson
  then show ?thesis
  proof cases
    case 1
    with f F' m(2) h show ?thesis by (auto simp: chain_inv_def chain_at_def)
  next
    case 2
    have s: "ssid_spans 0 (h @ cur @ t) = [(length h, length h + length cur)]"
      using ssid_spans_replace [of 0 h orig t cur] assms(1) f(3) by (simp add: conf_base_def)
    have eq: "h' @ a @ t' = h @ cur @ t" using trans [OF 2(1) [symmetric] f(2)] by (rule option.inject [THEN iffD1])
    have "[(length h', length h' + length a)] = [(length h, length h + length cur)]"
      using 2(2) s unfolding eq by (rule subst)
    then have n: "length h' = length h" "length a = length cur" by simp_all
    with eq have "h' = h" "t' = t"
      using append_eq_append_conv [of h' h "a @ t'" "cur @ t"] append_eq_append_conv [of a cur t' t] by blast+
    moreover have "marker_keeps orig b m"
      using m(2,3) 2(5) by (auto simp: marker_keeps_def chain_owns_def token_is_ssid_def)
    ultimately show ?thesis using F' 2(3,4) h by (auto simp: chain_inv_def chain_at_def)
  qed
qed

lemma chain_marker:
  assumes "chain_at mp cp h orig t F cur" "calls_ok M"
  obtains "load_marker M F mp = Inl (-2)" "cur = orig"
  | m where "load_marker M F mp = Inr m" "marker_keeps orig cur m" "F mp = Some (marker_body m)"
proof (cases "F mp")
  case None
  with assms that(1) show ?thesis by (auto simp: chain_at_def load_marker_none)
next
  case (Some b)
  with assms obtain m where m: "F mp = Some (marker_body m)" "marker_keeps orig cur m" by (auto simp: chain_at_def)
  then have "load_marker M F mp = Inr m" using assms(2) by (intro load_marker_body) (auto simp: marker_keeps_def)
  with m that(2) show ?thesis by blast
qed

lemma inv_commit:
  assumes "conf_base h orig t" "chain_inv mp cp h orig t F" "paths_apart mp cp" "calls_ok M"
  shows "chain_inv mp cp h orig t (fs_run (take k (snd (opc_essid_marker_commit M F mp cp))) F)"
proof -
  from assms(2) obtain cur where c: "chain_at mp cp h orig t F cur" by (auto simp: chain_inv_def)
  then have tok: "conf_token M F cp 256 = Inr cur" "token_ok cur"
    using conf_token_base [OF assms(1) _ assms(4), where F = F and cp = cp] by (simp_all add: chain_at_def)
  from c assms(4) show ?thesis
  proof (cases rule: chain_marker)
    case 1
    with assms(2) show ?thesis by (simp add: opc_essid_marker_commit_def)
  next
    case (2 m)
    then have "marker_keeps orig cur (m\<lparr>mk_applied := cur\<rparr>)"
      using tok(2) by (auto simp: marker_keeps_def marker_ok_def chain_owns_def token_ok_def)
    from chain_at_write(1) [OF c assms(3,4) this] 2(1) tok(1) show ?thesis
      by (auto simp: opc_essid_marker_commit_def chain_inv_def)
  qed
qed

lemma inv_settle:
  assumes "conf_base h orig t" "chain_inv mp cp h orig t F" "paths_apart mp cp" "calls_ok M"
  shows "chain_inv mp cp h orig t (fs_run (take k (snd (opc_essid_marker_settle M F mp cp))) F)"
proof -
  from assms(2) obtain cur where c: "chain_at mp cp h orig t F cur" by (auto simp: chain_inv_def)
  then have tok: "conf_token M F cp 256 = Inr cur" "token_ok cur"
    using conf_token_base [OF assms(1) _ assms(4), where F = F and cp = cp] by (simp_all add: chain_at_def)
  have apart: "mp \<noteq> cp" using assms(3) by (simp add: paths_apart_def)
  from c assms(4) show ?thesis
  proof (cases rule: chain_marker)
    case 1
    with assms(2) show ?thesis by (simp add: opc_essid_marker_settle_def)
  next
    case (2 m)
    note w = chain_at_write(1) [OF c assms(3,4)]
    let ?S = "snd (opc_essid_marker_settle M F mp cp)" and ?drop = "m\<lparr>mk_target_hex := []\<rparr>" and ?com = "m\<lparr>mk_applied := cur\<rparr>"
    have keeps: "marker_keeps orig cur ?com" "mk_applied m = cur \<or> cur = orig \<Longrightarrow> marker_keeps orig cur ?drop"
      using 2(2) tok(2) by (auto simp: marker_keeps_def marker_ok_def chain_owns_def token_ok_def)
    let ?match = "mk_target_hex m \<noteq> [] \<and> token_is_ssid cur (mk_target_hex m)"
    have own: "?match \<or> mk_applied m = cur \<and> cur \<noteq> [] \<or> cur = orig" "mk_essid m = orig"
      using 2(2) by (auto simp: marker_keeps_def chain_owns_def)
    have "?S = (if cur = (if mk_applied m \<noteq> [] then mk_applied m else orig) then
          (if mk_applied m = [] then snd (marker_unlink M mp) else snd (marker_write M mp ?drop))
        else if ?match then snd (marker_write M mp ?com)
        else if mk_applied m = [] then snd (marker_unlink M mp) else snd (marker_write M mp ?drop))"
      using 2(1) tok(1) own(2) by (simp add: opc_essid_marker_settle_def)
    then consider (unlink) "?S = snd (marker_unlink M mp)" "cur = orig"
      | (drop) "?S = snd (marker_write M mp ?drop)" "marker_keeps orig cur ?drop"
      | (com) "?S = snd (marker_write M mp ?com)" "marker_keeps orig cur ?com"
      using own(1) keeps by (cases "mk_applied m = []"; cases "?match"; cases "cur = mk_applied m"; cases "cur = orig") (simp_all split: if_splits)
    then show ?thesis
    proof cases
      case unlink
      with chain_at_unlink [OF _ apart, of h orig t F k M] c show ?thesis by (auto simp: chain_inv_def)
    next
      case drop
      with w [OF drop(2)] show ?thesis by (auto simp: chain_inv_def)
    next
      case com
      with w [OF com(2)] show ?thesis by (auto simp: chain_inv_def)
    qed
  qed
qed

text \<open>What restore does in a state of a chain.\<close>

lemma restore_eq:
  assumes "conf_base h orig t" "chain_at mp cp h orig t F cur" "calls_ok M" "load_marker M F mp = Inr m" "marker_keeps orig cur m"
  obtains mode where "opc_essid_marker_restore M F mp cp =
    (if cur = orig then marker_unlink M mp
     else if \<not> me_malloc M then (-12, [])
     else case write_atomic M cp (h @ orig @ t) mode of
       (rc, ops) \<Rightarrow> if rc \<noteq> 0 then (rc, ops) else case or_code 1 (marker_unlink M mp) of (rc, us) \<Rightarrow> (rc, ops @ us))"
proof -
  have c: "F cp = Some (h @ cur @ t)" "token_ok cur" using assms(2) by (simp_all add: chain_at_def)
  have own: "mk_essid m = orig" "cur \<noteq> orig \<Longrightarrow> chain_owns m cur" using assms(5) by (auto simp: marker_keeps_def)
  show ?thesis
    by (rule that [of "case me_mode M cp of None \<Rightarrow> 384 | Some st \<Rightarrow> st AND 0xFFF"]) (use assms(4) slurp_base [OF assms(1) c(2) assms(3), where F = F and cp = cp] c
        find_ssid_base [OF assms(1) c(2)] own in
        \<open>simp add: opc_essid_marker_restore_def token_ok_def Let_def\<close>)
qed

lemma inv_restore:
  assumes "conf_base h orig t" "chain_inv mp cp h orig t F" "paths_apart mp cp" "calls_ok M"
  shows "chain_inv mp cp h orig t (fs_run (take k (snd (opc_essid_marker_restore M F mp cp))) F)"
proof -
  from assms(2) obtain cur where c: "chain_at mp cp h orig t F cur" by (auto simp: chain_inv_def)
  have p: "mp \<noteq> cp" "mp \<noteq> marker_tmp cp" using assms(3) by (auto simp: paths_apart_def)
  from c assms(4) show ?thesis
  proof (cases rule: chain_marker)
    case 1
    with assms(2) show ?thesis by (simp add: opc_essid_marker_restore_def)
  next
    case (2 m)
    obtain mode where r: "opc_essid_marker_restore M F mp cp =
        (if cur = orig then marker_unlink M mp
         else if \<not> me_malloc M then (-12, [])
         else case write_atomic M cp (h @ orig @ t) mode of
           (rc, ops) \<Rightarrow> if rc \<noteq> 0 then (rc, ops) else case or_code 1 (marker_unlink M mp) of (rc, us) \<Rightarrow> (rc, ops @ us))"
      using restore_eq [OF assms(1) c assms(4) 2(1,2)] by blast
    obtain rc ops where w: "write_atomic M cp (h @ orig @ t) mode = (rc, ops)" by fastforce
    have e: "wc_write_errno (me_write M cp) \<noteq> 0" using assms(4) by (simp add: calls_ok_def)
    have original: "chain_at mp cp h orig t G orig" if "G cp = Some (h @ orig @ t)" "G mp = F mp" for G
      using that 2 assms(1) by (auto simp: chain_at_def marker_keeps_def conf_base_def)
    consider (unlink) "snd (opc_essid_marker_restore M F mp cp) = snd (marker_unlink M mp)" "cur = orig"
      | (none) "snd (opc_essid_marker_restore M F mp cp) = []"
      | (wr) "snd (opc_essid_marker_restore M F mp cp) = ops"
      | (both) "snd (opc_essid_marker_restore M F mp cp) = ops @ snd (marker_unlink M mp)" "rc = 0"
      unfolding r w by (cases "cur = orig"; cases "me_malloc M"; cases "rc = 0") (simp_all add: or_code_def split: prod.splits)
    then show ?thesis
    proof cases
      case unlink
      with chain_at_unlink [OF _ p(1), of h orig t F k M] c show ?thesis by (auto simp: chain_inv_def)
    next
      case none
      with assms(2) show ?thesis by simp
    next
      case wr
      have "chain_at mp cp h orig t (fs_run (take k ops) F) cur \<or> chain_at mp cp h orig t (fs_run (take k ops) F) orig"
        using write_atomic_run(2) [OF w e, of k F] chain_at_same [OF c] original p by fastforce
      with wr show ?thesis by (auto simp: chain_inv_def)
    next
      case both
      show ?thesis
      proof (cases "k \<le> length ops")
        case True
        have "chain_at mp cp h orig t (fs_run (take k ops) F) cur \<or> chain_at mp cp h orig t (fs_run (take k ops) F) orig"
          using write_atomic_run(2) [OF w e, of k F] chain_at_same [OF c] original p by fastforce
        with both True show ?thesis by (auto simp: chain_inv_def)
      next
        case False
        have "chain_at mp cp h orig t (fs_run ops F) orig"
          using write_atomic_run(1) [OF w e _ both(2), where F = F] p by (intro original) auto
        from chain_at_unlink [OF this p(1), of "k - length ops" M] both False show ?thesis
          by (auto simp: chain_inv_def)
      qed
    qed
  qed
qed

lemma reach_inv:
  assumes "essid_reach helper mp cp F0 F" "conf_base h orig t" "chain_inv mp cp h orig t F0" "paths_apart mp cp" "helper_ok cp helper"
  shows "chain_inv mp cp h orig t F"
  using assms(1)
proof induction
  case start
  show ?case by (rule assms(3))
next
  case (arm F M now k slot req)
  then show ?case by (intro chain_arm [OF assms(2) _ assms(4)])
next
  case (install F M now slot req ops)
  show ?case by (rule inv_install [OF assms(2) install.IH assms(4) install.hyps(2-4) assms(5) install.hyps(5)])
next
  case (commit F M k)
  then show ?case by (intro inv_commit [OF assms(2) _ assms(4)])
next
  case (settle F M k)
  then show ?case by (intro inv_settle [OF assms(2) _ assms(4)])
next
  case (restore F M k)
  then show ?case by (intro inv_restore [OF assms(2) _ assms(4)])
qed

lemma env_ok_calls [simp]: "calls_ok env_ok"
  by (simp add: calls_ok_def env_ok_def)

lemma write_atomic_env_ok: "length cp < 4000 \<Longrightarrow> fst (write_atomic env_ok cp d mode) = 0"
  by (simp add: write_atomic_def env_ok_def Let_def write_loop.simps marker_tmp_def bytes_of_def)

lemma restore_result:
  assumes "conf_base h orig t" "chain_inv mp cp h orig t F" "paths_apart mp cp"
  shows "fst (opc_essid_marker_restore env_ok F mp cp) \<in> {0, 1}
    \<and> fs_run (snd (opc_essid_marker_restore env_ok F mp cp)) F cp = Some (h @ orig @ t)
    \<and> fs_run (snd (opc_essid_marker_restore env_ok F mp cp)) F mp = None"
proof -
  from assms(2) obtain cur where c: "chain_at mp cp h orig t F cur" by (auto simp: chain_inv_def)
  have p: "mp \<noteq> cp" "mp \<noteq> marker_tmp cp" "length cp < 4000" using assms(3) by (auto simp: paths_apart_def)
  have u: "marker_unlink env_ok mp = (0, [Unlink mp])" by (simp add: marker_unlink_def env_ok_def)
  from c env_ok_calls show ?thesis
  proof (cases rule: chain_marker)
    case 1
    with c show ?thesis
      by (auto simp: opc_essid_marker_restore_def chain_at_def load_marker_body [OF env_ok_calls] marker_keeps_def)
  next
    case (2 m)
    obtain mode where r: "opc_essid_marker_restore env_ok F mp cp =
        (if cur = orig then marker_unlink env_ok mp
         else if \<not> me_malloc env_ok then (-12, [])
         else case write_atomic env_ok cp (h @ orig @ t) mode of
           (rc, ops) \<Rightarrow> if rc \<noteq> 0 then (rc, ops) else case or_code 1 (marker_unlink env_ok mp) of (rc, us) \<Rightarrow> (rc, ops @ us))"
      using restore_eq [OF assms(1) c env_ok_calls 2(1,2)] by blast
    obtain rc ops where w: "write_atomic env_ok cp (h @ orig @ t) mode = (rc, ops)" by fastforce
    have rc: "rc = 0" using write_atomic_env_ok [OF p(3), of "h @ orig @ t" mode] w by simp
    have e: "wc_write_errno (me_write env_ok cp) \<noteq> 0" "me_malloc env_ok" by (simp_all add: env_ok_def)
    have "fs_run ops F cp = Some (h @ orig @ t)" using write_atomic_run(1) [OF w e(1) _ rc, of cp F] by simp
    with c p rc show ?thesis unfolding r w u by (auto simp: e or_code_def chain_at_def)
  qed
qed

subsection \<open>The example\<close>

lemma quoting_helper_ok: "helper_ok cp (quoting_helper cp)"
proof -
  have "F' p = F p" if "quoting_helper cp F req = (rc, F')" "p \<noteq> cp" for F F' req rc p
    using that by (auto simp: quoting_helper_def split: option.splits list.splits prod.splits if_splits)
  moreover have "F' cp = F cp
      \<or> (\<exists>h a t b. F cp = Some (h @ a @ t) \<and> ssid_spans 0 (h @ a @ t) = [(length h, length h + length a)]
           \<and> F' cp = Some (h @ b @ t) \<and> token_ok b \<and> token_is_ssid b (concat (map hex2 req)))"
    if q: "quoting_helper cp F req = (rc, F')" for F F' req rc
  proof (cases "F' = F")
    case False
    with q obtain conf a b where c: "F cp = Some conf" "ssid_spans 0 conf = [(a, b)]" "req \<noteq> []" "token_ok (34 # req @ [34])"
        "a \<le> b" "b \<le> length conf" "F' cp = Some (take a conf @ (34 # req @ [34]) @ drop b conf)"
      by (auto simp: quoting_helper_def split: option.splits list.splits prod.splits if_splits)
    have "conf = take a conf @ take (b - a) (drop a conf) @ drop b conf"
      using c(5) by (metis append_take_drop_id drop_drop le_add_diff_inverse2)
    with c quoted_is_ssid [OF c(3)] show ?thesis
      by (intro disjI2 exI [of _ "take a conf"] exI [of _ "take (b - a) (drop a conf)"] exI [of _ "drop b conf"]
          exI [of _ "34 # req @ [34]"]) auto
  qed simp
  ultimately show ?thesis unfolding helper_ok_def by blast
qed

abbreviation ex_head :: "u8 list" where "ex_head \<equiv> bytes_of ''network={'' @ [10, 9] @ bytes_of ''ssid=''"
abbreviation ex_tail :: "u8 list" where "ex_tail \<equiv> [10] @ bytes_of ''}''"

lemma ex_base:
  "paths_apart ex_marker ex_conf" "conf_base ex_head [34, 97, 34] ex_tail"
  "ex_files ex_conf = Some (ex_head @ [34, 97, 34] @ ex_tail)" "ex_files ex_marker = None"
proof -
  show "paths_apart ex_marker ex_conf"
    by (simp add: paths_apart_def marker_tmp_def ex_marker_def ex_conf_def bytes_of_def)
  have "ssid_spans 0 (ex_head @ [34, 97, 34] @ ex_tail) = [(16, 19)]" by code_simp
  then show "conf_base ex_head [34, 97, 34] ex_tail"
    by (simp add: conf_base_def bytes_of_def token_ok_def is_trailing_def)
  show "ex_files ex_conf = Some (ex_head @ [34, 97, 34] @ ex_tail)" "ex_files ex_marker = None"
    by (simp_all add: ex_files_def ex_conf_def ex_marker_def bytes_of_def)
qed

text \<open>A request for the SSID \<open>b\<close>, applied and not yet committed.\<close>

lemma ex_reach:
  obtains F where "essid_reach (quoting_helper ex_conf) ex_marker ex_conf ex_files F"
    "F ex_conf = Some (ex_head @ [34, 98, 34] @ ex_tail)"
proof -
  note b = ex_base
  have at: "chain_at ex_marker ex_conf ex_head [34, 97, 34] ex_tail ex_files [34, 97, 34]"
    using b by (simp add: chain_at_def conf_base_def)
  obtain m where m: "opc_essid_marker_arm env_ok ex_files ex_marker ex_conf 1 0 (Some [98]) = marker_write env_ok ex_marker m"
      "marker_keeps [34, 97, 34] [34, 97, 34] m"
    by (rule arm_writes [OF b(2) at env_ok_calls, of 0 "[98]" 1]) (auto simp: LONG_MAX_def)
  have l: "fst (marker_write env_ok ex_marker m) = 0"
    using length_marker_body [of m] m(2) write_atomic_env_ok [of ex_marker]
    by (simp add: marker_write_def Let_def marker_keeps_def ex_marker_def bytes_of_def)
  obtain ops where ops: "marker_write env_ok ex_marker m = (0, ops)" using l by (metis prod.collapse)
  have r: "essid_reach (quoting_helper ex_conf) ex_marker ex_conf ex_files (snd (quoting_helper ex_conf (fs_run ops ex_files) [98]))"
    by (rule essid_reach.install [OF essid_reach.start env_ok_calls, where now = 0 and slot = 1]) (simp_all add: LONG_MAX_def m(1) ops)
  have "fs_run ops ex_files ex_conf = Some (ex_head @ [34, 97, 34] @ ex_tail)"
    using chain_at_write(2) [OF at b(1) env_ok_calls m(2)] ops b(3) by simp
  moreover have "ssid_spans 0 (ex_head @ [34, 97, 34] @ ex_tail) = [(16, 19)]" by code_simp
  ultimately have "snd (quoting_helper ex_conf (fs_run ops ex_files) [98]) ex_conf = Some (ex_head @ [34, 98, 34] @ ex_tail)"
    by (simp add: quoting_helper_def token_ok_def is_trailing_def bytes_of_def)
  with r that show ?thesis by blast
qed

lemma ex_conf_differs: "ex_files ex_conf \<noteq> Some (ex_head @ [34, 98, 34] @ ex_tail)"
  by (simp add: ex_base(3))

subsection \<open>Properties\<close>

text \<open>C12: The ESSID that ChangeIpAddress sets is volatile. Start from a configuration with one \<open>ssid=\<close> value and no
  marker. After any sequence of arms, helper runs after a successful arm, commits, settles and restores, each with system
  calls that may fail when they write and each cut short by a power failure at any point, a restore whose system
  calls succeed reports 0 or 1, puts the configuration back byte for byte and removes the marker.\<close>

theorem essid_restored_at_boot:
  assumes "helper_ok cp helper" "paths_apart mp cp" "conf_base h orig t"
    and "F0 cp = Some (h @ orig @ t)" "F0 mp = None" "essid_reach helper mp cp F0 F"
  shows "fst (opc_essid_marker_restore env_ok F mp cp) \<in> {0, 1}
    \<and> fs_run (snd (opc_essid_marker_restore env_ok F mp cp)) F cp = F0 cp
    \<and> fs_run (snd (opc_essid_marker_restore env_ok F mp cp)) F mp = None"
proof -
  have "chain_inv mp cp h orig t F0"
    using assms(3-5) by (auto simp: chain_inv_def chain_at_def conf_base_def)
  from restore_result [OF assms(3) reach_inv [OF assms(6,3) this assms(2,1)] assms(2)] show ?thesis
    by (simp add: assms(4))
qed

theorem essid_restored_at_boot_witness:
  "\<exists>F. essid_reach (quoting_helper ex_conf) ex_marker ex_conf ex_files F \<and> F ex_conf \<noteq> ex_files ex_conf
    \<and> fs_run (snd (opc_essid_marker_restore env_ok F ex_marker ex_conf)) F ex_conf = ex_files ex_conf"
proof -
  obtain F where F: "essid_reach (quoting_helper ex_conf) ex_marker ex_conf ex_files F"
      "F ex_conf = Some (ex_head @ [34, 98, 34] @ ex_tail)"
    by (rule ex_reach)
  with essid_restored_at_boot [OF quoting_helper_ok ex_base F(1)] ex_conf_differs show ?thesis
    by (intro exI [of _ F]) metis
qed

text \<open>C13: The restore at boot never edits another writer's value. If it, or the part of it before a power cut, changes
  the configuration, then a marker could be read, the value in the configuration is the one the marker recorded as applied
  or a rendering of the SSID it recorded as requested, and the new content is the old one with the recorded
  original in the place of that value.\<close>

theorem restore_edits_only_own_value:
  assumes "calls_ok M" "mp \<noteq> cp"
    and changed: "fs_run (take k (snd (opc_essid_marker_restore M F mp cp))) F cp \<noteq> F cp"
  shows "\<exists>m conf vs ve. load_marker M F mp = Inr m \<and> marker_slurp M F cp = Inr conf
    \<and> find_ssid conf = (1, Some (vs, ve)) \<and> chain_owns m (take (ve - vs) (drop vs conf))
    \<and> fs_run (take k (snd (opc_essid_marker_restore M F mp cp))) F cp = Some (take vs conf @ mk_essid m @ drop ve conf)"
proof -
  note unl = marker_unlink_run(1) [of cp mp, OF assms(2) [symmetric]]
  obtain m where m: "load_marker M F mp = Inr m"
    using changed by (cases "load_marker M F mp") (auto simp: opc_essid_marker_restore_def split: if_splits)
  obtain conf where c: "marker_slurp M F cp = Inr conf"
    using changed m by (cases "marker_slurp M F cp") (auto simp: opc_essid_marker_restore_def)
  obtain vs ve where s: "find_ssid conf = (1, Some (vs, ve))" "ve - vs < 256"
    using changed m c by (auto simp: opc_essid_marker_restore_def split: prod.splits option.splits if_splits)
  let ?cur = "take (ve - vs) (drop vs conf)" and ?new = "take vs conf @ mk_essid m @ drop ve conf"
  have own: "?cur \<noteq> mk_essid m" "chain_owns m ?cur" "me_malloc M"
    using changed m c s unl by (auto simp: opc_essid_marker_restore_def Let_def split: if_splits)
  define mode where "mode = (case me_mode M cp of None \<Rightarrow> 384 | Some st \<Rightarrow> st AND 0xFFF)"
  obtain rc ops where w: "write_atomic M cp ?new mode = (rc, ops)" by fastforce
  have e: "wc_write_errno (me_write M cp) \<noteq> 0" using assms(1) by (simp add: calls_ok_def)
  have r: "snd (opc_essid_marker_restore M F mp cp) = (if rc \<noteq> 0 then ops else ops @ snd (marker_unlink M mp))"
    using m c s own w by (simp add: opc_essid_marker_restore_def Let_def mode_def or_code_def split: prod.splits)
  have "fs_run (take k (snd (opc_essid_marker_restore M F mp cp))) F cp = fs_run (take k ops) F cp"
    using unl unfolding r by simp
  moreover have "fs_run (take k ops) F cp \<in> {F cp, Some ?new}" using write_atomic_run(2) [OF w e, of k F] by auto
  ultimately show ?thesis using changed m c s own by auto
qed

theorem restore_edits_only_own_value_witness:
  "\<exists>F m. load_marker env_ok F ex_marker = Inr m \<and> chain_owns m [34, 98, 34]
    \<and> fs_run (snd (opc_essid_marker_restore env_ok F ex_marker ex_conf)) F ex_conf \<noteq> F ex_conf"
proof -
  obtain F where F: "essid_reach (quoting_helper ex_conf) ex_marker ex_conf ex_files F"
      "F ex_conf = Some (ex_head @ [34, 98, 34] @ ex_tail)"
    by (rule ex_reach)
  have inv: "chain_inv ex_marker ex_conf ex_head [34, 97, 34] ex_tail F"
    by (rule reach_inv [OF F(1) ex_base(2) _ ex_base(1) quoting_helper_ok])
      (use ex_base in \<open>auto simp: chain_inv_def chain_at_def conf_base_def\<close>)
  let ?r = "snd (opc_essid_marker_restore env_ok F ex_marker ex_conf)"
  have ch: "fs_run (take (length ?r) ?r) F ex_conf \<noteq> F ex_conf"
    using restore_result [OF ex_base(2) inv ex_base(1)] F(2) by auto
  have "ex_marker \<noteq> ex_conf" using ex_base(1) by (simp add: paths_apart_def)
  from restore_edits_only_own_value [OF env_ok_calls this ch] obtain m conf vs ve where
    m: "load_marker env_ok F ex_marker = Inr m" "marker_slurp env_ok F ex_conf = Inr conf"
      "find_ssid conf = (1, Some (vs, ve))" "chain_owns m (take (ve - vs) (drop vs conf))"
    by blast
  have "conf = ex_head @ [34, 98, 34] @ ex_tail"
    using slurp_base [OF ex_base(2) _ env_ok_calls, of "[34, 98, 34]"] m(2) F(2)
    by (auto simp: token_ok_def is_trailing_def)
  moreover have "find_ssid (ex_head @ [34, 98, 34] @ ex_tail) = (1, Some (16, 19))" by code_simp
  ultimately have "take (ve - vs) (drop vs conf) = [34, 98, 34]" using m(3) by (simp add: bytes_of_def)
  with m ch show ?thesis by auto
qed

end
