(* ===== verification/Nxp_Events.thy ===== *)
theory Nxp_Events
  imports Radio_Events Indications
begin

text \<open>
  Events of the NXP platform (\<open>opcd/platform_nxp.c\<close>): the netlink socket and the resolution of the nl80211 family, the
  query of an interface, the caches of the last channel and of the last disconnect frame, the translation of a netlink
  event into platform events, the table that keeps the latest event per kind and interface, and the drain loop. The
  file-static variables are the record \<open>nl_state\<close>; the results of the system calls on one netlink socket are
  \<open>nl_calls\<close>. Logging is left out.
\<close>

definition NL_GENL_ID_CTRL :: u16 where [simp]: "NL_GENL_ID_CTRL = 16"
definition NL_MSG_ERROR :: u16 where [simp]: "NL_MSG_ERROR = 2"
definition NL_CTRL_CMD_GETFAMILY :: u8 where [simp]: "NL_CTRL_CMD_GETFAMILY = 3"
definition NL_CTRL_ATTR_FAMILY_NAME :: u16 where [simp]: "NL_CTRL_ATTR_FAMILY_NAME = 2"
definition NL_RECV_BUF :: nat where [simp]: "NL_RECV_BUF = 8192"
definition NL_COALESCE_MAX :: nat where [simp]: "NL_COALESCE_MAX = 8"
definition NL_NLMSGHDR_LEN :: nat where [simp]: "NL_NLMSGHDR_LEN = 16"
definition NXP_WLAN_COUNT_MAX :: int where [simp]: "NXP_WLAN_COUNT_MAX = 2"

record nl_calls =
  nc_socket :: bool
  nc_bind :: bool
  nc_timeout :: bool
  nc_sent :: "nat option"
  nc_reply :: "u8 list option"
  nc_join :: bool
  nc_nonblock :: bool

record nl_state =
  g_nl_open :: bool
  g_nl80211_family_id :: u16
  g_ap_disc_msgid :: "u16 list"
  g_ap_disc_mac :: "u8 list list"
  g_last_ch :: "u16 list"

definition nl_zero :: nl_state where
  "nl_zero = \<lparr>g_nl_open = False, g_nl80211_family_id = 0,
     g_ap_disc_msgid = [OPC_AP_MSG_DEAUTHENTICATION, OPC_AP_MSG_DEAUTHENTICATION],
     g_ap_disc_mac = [replicate 6 0, replicate 6 0], g_last_ch = [OPC_WLAN_CH_UNSET, OPC_WLAN_CH_UNSET]\<rparr>"

subsection \<open>The event socket\<close>

definition nl_build_getfamily :: "nat \<Rightarrow> u8 list option" where
  "nl_build_getfamily cap =
     (let name = bytes_of ''nl80211'' @ [0]; nla_len = 4 + length name;
          total = NL_HDRS + NLA_ALIGN nla_len in
      if cap < total then None
      else Some (put 24 name (put 22 (wr_u16 NL_CTRL_ATTR_FAMILY_NAME) (put 20 (wr_u16 (of_nat nla_len))
                 (put 16 [NL_CTRL_CMD_GETFAMILY, 1] (put 6 (wr_u16 NLM_F_REQUEST) (put 4 (wr_u16 NL_GENL_ID_CTRL)
                 (put 0 (wr_u32 (of_nat total)) (replicate total 0)))))))))"

text \<open>The reply to a request of the given length: the whole request was sent and the reply has the two headers and is no
  error message.\<close>

definition nl_exchange :: "nl_calls \<Rightarrow> nat \<Rightarrow> u8 list option" where
  "nl_exchange c reqlen =
     (if nc_sent c \<noteq> Some reqlen then None
      else case nc_reply c of
             None \<Rightarrow> None
           | Some r \<Rightarrow>
               let r = take NL_RECV_BUF r in
               if length r < NL_HDRS \<or> rd_u16 (drop 4 r) = NL_MSG_ERROR then None else Some r)"

definition nl_resolve_family :: "nl_calls \<Rightarrow> (u16 \<times> u16) option" where
  "nl_resolve_family c =
     (case nl_build_getfamily 64 of
        None \<Rightarrow> None
      | Some req \<Rightarrow> Option.bind (nl_exchange c (length req)) (\<lambda>r. nl80211_parse_ctrl_family (Some r)))"

definition nl_event_socket_open :: "nl_calls \<Rightarrow> nl_state \<Rightarrow> int \<times> nl_state" where
  "nl_event_socket_open c s =
     (if \<not> nc_socket c then (-1, s)
      else if \<not> nc_bind c then (-1, s)
      else if \<not> nc_timeout c then (-1, s)
      else case nl_resolve_family c of
             None \<Rightarrow> (-1, s)
           | Some (fam, grp) \<Rightarrow>
               if \<not> nc_join c then (-1, s)
               else if \<not> nc_nonblock c then (-1, s)
               else (0, s\<lparr>g_nl80211_family_id := fam, g_nl_open := True\<rparr>))"

definition nl_teardown :: "nl_state \<Rightarrow> nl_state" where
  "nl_teardown s = (if g_nl_open s then s\<lparr>g_nl_open := False\<rparr> else s)"

definition nxp_query_iface :: "nl_state \<Rightarrow> nl_calls \<Rightarrow> u32 \<Rightarrow> opcd_nl_evt_t option" where
  "nxp_query_iface s c ifindex =
     (if g_nl80211_family_id s = 0 \<or> sint ifindex \<le> 0 then None
      else if \<not> nc_socket c \<or> \<not> nc_bind c \<or> \<not> nc_timeout c then None
      else case nl80211_build_get_interface 64 (g_nl80211_family_id s) ifindex of
             None \<Rightarrow> None
           | Some req \<Rightarrow>
               (case nl_exchange c (length req) of
                  None \<Rightarrow> None
                | Some reply \<Rightarrow>
                    (case nl80211_parse_evt (Some reply) (uint (g_nl80211_family_id s)) (Some zero_nl_evt) of
                       (True, Some nev) \<Rightarrow> if ev_kind nev = OPCD_NL_INTERFACE then Some nev else None
                     | _ \<Rightarrow> None)))"

definition nxp_get_iface_freq :: "nl_state \<Rightarrow> nl_calls \<Rightarrow> u32 \<Rightarrow> (u32 \<times> u16) option" where
  "nxp_get_iface_freq s c ifindex =
     (case nxp_query_iface s c ifindex of
        None \<Rightarrow> None
      | Some nev \<Rightarrow> if ev_freq_mhz nev \<noteq> 0 then Some (ev_freq_mhz nev, ev_channel nev) else None)"

subsection \<open>Caches\<close>

definition nl_note_ch :: "int \<Rightarrow> u16 \<Rightarrow> nl_state \<Rightarrow> nl_state" where
  "nl_note_ch idx ch_field s =
     (if idx < 0 \<or> idx \<ge> NXP_WLAN_COUNT_MAX then s
      else s\<lparr>g_last_ch := (g_last_ch s)[nat idx := (if ch_field \<noteq> 0 then ch_field else OPC_WLAN_CH_UNSET)]\<rparr>)"

definition nl_seed_ch_cache_idx :: "(u32 \<Rightarrow> nl_calls) \<Rightarrow> int \<Rightarrow> u32 \<Rightarrow> nl_state \<Rightarrow> nl_state" where
  "nl_seed_ch_cache_idx q idx ifindex s =
     (if idx < 0 \<or> idx \<ge> NXP_WLAN_COUNT_MAX \<or> ifindex = 0 then s
      else case nxp_get_iface_freq s (q ifindex) ifindex of
             None \<Rightarrow> s
           | Some (freq, ch) \<Rightarrow> nl_note_ch idx (opc_chan_field freq ch) s)"

definition nl_seed_ch_cache :: "(u32 \<Rightarrow> nl_calls) \<Rightarrow> (string \<Rightarrow> u32) \<Rightarrow> nl_state \<Rightarrow> nl_state" where
  "nl_seed_ch_cache q lookup s =
     nl_seed_ch_cache_idx q 1 (lookup ''mlan1'') (nl_seed_ch_cache_idx q 0 (lookup ''mlan0'') s)"

definition nl_clear_ap_disc_hint :: "int \<Rightarrow> nl_state \<Rightarrow> nl_state" where
  "nl_clear_ap_disc_hint idx s =
     (if idx < 0 \<or> idx \<ge> NXP_WLAN_COUNT_MAX then s
      else s\<lparr>g_ap_disc_msgid := (g_ap_disc_msgid s)[nat idx := OPC_AP_MSG_DEAUTHENTICATION],
             g_ap_disc_mac := (g_ap_disc_mac s)[nat idx := replicate 6 0]\<rparr>)"

definition nl_ifindex_to_idx :: "(u32 \<Rightarrow> string option) \<Rightarrow> u32 \<Rightarrow> int" where
  "nl_ifindex_to_idx if_name ifindex =
     (if sint ifindex \<le> 0 then -1
      else case if_name ifindex of
             None \<Rightarrow> -1
           | Some n \<Rightarrow> if n = ''mlan0'' then 0 else if n = ''mlan1'' then 1 else -1)"

subsection \<open>The table of pending events\<close>

fun evt_kind :: "opcd_platform_evt_t \<Rightarrow> nat" where
  "evt_kind OPCD_PEVT_NONE = 0"
| "evt_kind (OPCD_PEVT_INIT_COMPLETE _) = 1"
| "evt_kind (OPCD_PEVT_WLAN_STATUS _ _ _) = 2"
| "evt_kind (OPCD_PEVT_ROAMING _ _ _ _ _) = 3"
| "evt_kind (OPCD_PEVT_AP_DISCONNECT _ _ _ _) = 4"
| "evt_kind (OPCD_PEVT_FAULT_DETECT _ _) = 5"
| "evt_kind (OPCD_PEVT_RESET_NOTICE _) = 6"

fun coalesce_idx :: "opcd_platform_evt_t \<Rightarrow> u8" where
  "coalesce_idx (OPCD_PEVT_WLAN_STATUS idx _ _) = idx"
| "coalesce_idx (OPCD_PEVT_ROAMING idx _ _ _ _) = idx"
| "coalesce_idx (OPCD_PEVT_AP_DISCONNECT idx _ _ _) = idx"
| "coalesce_idx _ = 0"

fun coalesce_replace :: "opcd_platform_evt_t \<Rightarrow> opcd_platform_evt_t list \<Rightarrow> opcd_platform_evt_t list option" where
  "coalesce_replace evt [] = None"
| "coalesce_replace evt (e # tab) =
     (if evt_kind e = evt_kind evt \<and> coalesce_idx e = coalesce_idx evt then Some (evt # tab)
      else map_option ((#) e) (coalesce_replace evt tab))"

definition nl_coalesce_put :: "opcd_platform_evt_t \<Rightarrow> opcd_platform_evt_t list \<Rightarrow> opcd_platform_evt_t list" where
  "nl_coalesce_put evt tab =
     (case coalesce_replace evt tab of
        Some tab' \<Rightarrow> tab'
      | None \<Rightarrow> if length tab < NL_COALESCE_MAX then tab @ [evt] else tab)"

subsection \<open>Translation of an event\<close>

text \<open>Signal levels are taken from the link readback when it has them, else the no-value marker -128.\<close>

definition roam_signal :: "bool \<Rightarrow> u8 \<Rightarrow> u8" where
  "roam_signal valid v = (if valid then v else -128)"

definition disc_mac :: "opcd_nl_evt_t \<Rightarrow> int \<Rightarrow> nl_state \<Rightarrow> u8 list" where
  "disc_mac nev idx s =
     (if ev_mac_present nev \<and> ev_mac nev ! 0 AND 1 = 0 \<and> ev_mac nev \<noteq> replicate 6 0 then ev_mac nev
      else if idx \<ge> 0 \<and> idx < NXP_WLAN_COUNT_MAX then g_ap_disc_mac s ! nat idx else replicate 6 0)"

definition nl_latch_hint :: "u16 \<Rightarrow> opcd_nl_evt_t \<Rightarrow> int \<Rightarrow> nl_state \<Rightarrow> nl_state" where
  "nl_latch_hint msg nev idx s =
     (if idx \<ge> 0 \<and> idx < NXP_WLAN_COUNT_MAX
      then s\<lparr>g_ap_disc_msgid := (g_ap_disc_msgid s)[nat idx := msg],
             g_ap_disc_mac := (g_ap_disc_mac s)[nat idx := ev_ap_frame_mac nev]\<rparr>
      else s)"

definition nl_stage_evt ::
  "nl_calls \<Rightarrow> (int \<Rightarrow> 'a opcd_platform_link_t_scheme option) \<Rightarrow> opcd_nl_evt_t \<Rightarrow> int
    \<Rightarrow> opcd_platform_evt_t list \<times> nl_state \<Rightarrow> opcd_platform_evt_t list \<times> nl_state" where
  "nl_stage_evt q link nev idx ts =
     (case ts of (tab, s) \<Rightarrow>
        (case ev_kind nev of
           OPCD_NL_CONNECT \<Rightarrow>
             if ev_status_code nev \<noteq> 0 then (tab, s)
             else let s = nl_clear_ap_disc_hint idx s;
                      k = (if ev_channel nev = 0
                           then case nxp_get_iface_freq s q (ev_ifindex nev) of None \<Rightarrow> (0, 0) | Some fc \<Rightarrow> fc
                           else (0, 0));
                      ch = opc_assoc_chan_field (ev_freq_mhz nev) (ev_channel nev) (fst k \<noteq> 0) (fst k) (snd k);
                      pe = OPCD_PEVT_WLAN_STATUS (word_of_int idx) OPCD_WLAN_STATUS_ASSOCIATED ch
               in (nl_coalesce_put pe tab, nl_note_ch idx ch s)
         | OPCD_NL_DISCONNECT \<Rightarrow>
             let msg = (if idx \<ge> 0 \<and> idx < NXP_WLAN_COUNT_MAX then g_ap_disc_msgid s ! nat idx
                        else OPC_AP_MSG_DEAUTHENTICATION);
                 tab = (if ev_by_ap nev
                        then nl_coalesce_put (OPCD_PEVT_AP_DISCONNECT (word_of_int idx) msg (ev_reason_code nev)
                               (disc_mac nev idx s)) tab
                        else tab);
                 s = nl_clear_ap_disc_hint idx s;
                 ch = (if idx \<ge> 0 \<and> idx < NXP_WLAN_COUNT_MAX then g_last_ch s ! nat idx else OPC_WLAN_CH_UNSET)
             in (nl_coalesce_put (OPCD_PEVT_WLAN_STATUS (word_of_int idx) OPCD_WLAN_STATUS_UP ch) tab, s)
         | OPCD_NL_ROAM \<Rightarrow>
             let s = nl_clear_ap_disc_hint idx s;
                 sg = (case link idx of
                         None \<Rightarrow> (-128, -128)
                       | Some l \<Rightarrow> (roam_signal (lk_snr_valid l) (lk_snr l), roam_signal (lk_rssi_valid l) (lk_rssi l)));
                 ch = opc_notify_chan_field (ev_freq_mhz nev) (ev_channel nev);
                 pe = OPCD_PEVT_ROAMING (word_of_int idx) (fst sg) (snd sg) (ev_mac nev) ch
             in (nl_coalesce_put pe tab, nl_note_ch idx ch s)
         | OPCD_NL_CH_SWITCH \<Rightarrow>
             let ch = opc_notify_chan_field (ev_freq_mhz nev) (ev_channel nev);
                 pe = OPCD_PEVT_WLAN_STATUS (word_of_int idx) OPCD_WLAN_STATUS_CHANNEL_CHANGE ch
             in (nl_coalesce_put pe tab, nl_note_ch idx ch s)
         | OPCD_NL_DEAUTH \<Rightarrow> (tab, nl_latch_hint OPC_AP_MSG_DEAUTHENTICATION nev idx s)
         | OPCD_NL_DISASSOC \<Rightarrow> (tab, nl_latch_hint OPC_AP_MSG_DISASSOCIATION nev idx s)
         | _ \<Rightarrow> (tab, s)))"

subsection \<open>The drain loop\<close>

text \<open>The messages of one datagram, as the walk over the aligned lengths finds them.\<close>

function nl_messages :: "u8 list \<Rightarrow> u8 list list" where
  "nl_messages d =
     (if length d < NL_NLMSGHDR_LEN then []
      else let msglen = unat (rd_u32 d) in
        if msglen < NL_NLMSGHDR_LEN \<or> msglen > length d then []
        else take msglen d # nl_messages (drop (NLA_ALIGN msglen) d))"
  by pat_completeness auto
termination
  by (relation "measure length") (auto simp: NLA_ALIGN_def)

declare nl_messages.simps [simp del]

datatype recv_res = RecvAgain | RecvEintr | RecvNobufs | RecvErr | RecvData "u8 list"

text \<open>What the loop needs from outside: the names of the interfaces, the query socket of the \<open>n\<close>-th event and the link
  readback.\<close>

record 'a drain_env =
  de_if_name :: "u32 \<Rightarrow> string option"
  de_query :: "opcd_nl_evt_t \<Rightarrow> nl_calls"
  de_link :: "int \<Rightarrow> 'a opcd_platform_link_t_scheme option"

definition nl_message :: "'a drain_env \<Rightarrow> u8 list \<Rightarrow> opcd_platform_evt_t list \<times> nl_state \<Rightarrow> opcd_platform_evt_t list \<times> nl_state" where
  "nl_message D m ts =
     (case nl80211_parse_evt (Some m) (uint (g_nl80211_family_id (snd ts))) (Some zero_nl_evt) of
        (True, Some nev) \<Rightarrow>
          let idx = nl_ifindex_to_idx (de_if_name D) (ev_ifindex nev) in
          if idx \<ge> 0 then nl_stage_evt (de_query D nev) (de_link D) nev idx ts else ts
      | _ \<Rightarrow> ts)"

fun drain_loop :: "'a drain_env \<Rightarrow> recv_res list \<Rightarrow> opcd_platform_evt_t list \<times> nl_state \<Rightarrow> opcd_platform_evt_t list \<times> nl_state" where
  "drain_loop D [] ts = ts"
| "drain_loop D (RecvAgain # rs) ts = ts"
| "drain_loop D (RecvEintr # rs) ts = drain_loop D rs ts"
| "drain_loop D (RecvNobufs # rs) ts = drain_loop D rs ts"
| "drain_loop D (RecvErr # rs) ts = ts"
| "drain_loop D (RecvData d # rs) ts =
     (if d = [] then ts else drain_loop D rs (fold (nl_message D) (nl_messages (take NL_RECV_BUF d)) ts))"

fun deliver :: "(opcd_platform_evt_t \<Rightarrow> 's \<Rightarrow> int \<times> 's) \<Rightarrow> opcd_platform_evt_t list \<Rightarrow> 's \<Rightarrow> int \<times> 's" where
  "deliver cb [] ctx = (0, ctx)"
| "deliver cb (e # es) ctx =
     (case cb e ctx of (rc, ctx) \<Rightarrow> if rc > 0 then (rc, ctx) else deliver cb es ctx)"

definition nxp_drain_events ::
  "'a drain_env \<Rightarrow> recv_res list \<Rightarrow> (opcd_platform_evt_t \<Rightarrow> 's \<Rightarrow> int \<times> 's) \<Rightarrow> nl_state \<Rightarrow> 's \<Rightarrow> int \<times> 's \<times> nl_state" where
  "nxp_drain_events D rs cb s ctx =
     (if \<not> g_nl_open s then (0, ctx, s)
      else case drain_loop D rs ([], s) of
             (tab, s') \<Rightarrow> (case deliver cb tab ctx of (rc, ctx') \<Rightarrow> (rc, ctx', s')))"

subsection \<open>Specification of the drain\<close>

text \<open>The platform events of a drain before they are coalesced.\<close>

definition stage_trace :: "nl_calls \<Rightarrow> (int \<Rightarrow> 'a opcd_platform_link_t_scheme option) \<Rightarrow> opcd_nl_evt_t \<Rightarrow> int \<Rightarrow> nl_state
    \<Rightarrow> opcd_platform_evt_t list \<times> nl_state" where
  "stage_trace q link nev idx s = nl_stage_evt q link nev idx ([], s)"

definition message_trace :: "'a drain_env \<Rightarrow> u8 list \<Rightarrow> opcd_platform_evt_t list \<times> nl_state \<Rightarrow> opcd_platform_evt_t list \<times> nl_state" where
  "message_trace D m es = (case nl_message D m ([], snd es) of (new, s) \<Rightarrow> (fst es @ new, s))"

fun drain_trace :: "'a drain_env \<Rightarrow> recv_res list \<Rightarrow> opcd_platform_evt_t list \<times> nl_state \<Rightarrow> opcd_platform_evt_t list \<times> nl_state" where
  "drain_trace D (RecvEintr # rs) es = drain_trace D rs es"
| "drain_trace D (RecvNobufs # rs) es = drain_trace D rs es"
| "drain_trace D (RecvData d # rs) es =
     (if d = [] then es else drain_trace D rs (fold (message_trace D) (nl_messages (take NL_RECV_BUF d)) es))"
| "drain_trace D _ es = es"

abbreviation evt_key :: "opcd_platform_evt_t \<Rightarrow> nat \<times> u8" where
  "evt_key e \<equiv> (evt_kind e, coalesce_idx e)"

abbreviation latest :: "nat \<times> u8 \<Rightarrow> opcd_platform_evt_t list \<Rightarrow> opcd_platform_evt_t option" where
  "latest k es \<equiv> find (\<lambda>e. evt_key e = k) (rev es)"

definition drain_keys :: "(nat \<times> u8) list" where
  "drain_keys = [(2, 0), (2, 1), (3, 0), (3, 1), (4, 0), (4, 1)]"

text \<open>A table that holds the latest event of each kind and interface of a trace.\<close>

definition coalesced :: "opcd_platform_evt_t list \<Rightarrow> opcd_platform_evt_t list \<Rightarrow> bool" where
  "coalesced tab es \<longleftrightarrow> distinct (map evt_key tab) \<and> set (map evt_key tab) \<subseteq> set drain_keys
     \<and> (\<forall>k. find (\<lambda>e. evt_key e = k) tab = latest k es)"

text \<open>An example: surroundings with one interface, and a disconnect message of the kernel.\<close>

definition ex_calls :: nl_calls where
  "ex_calls = \<lparr>nc_socket = False, nc_bind = False, nc_timeout = False, nc_sent = None, nc_reply = None, nc_join = False,
     nc_nonblock = False\<rparr>"

definition ex_drain :: "unit drain_env" where
  "ex_drain = \<lparr>de_if_name = (\<lambda>i. if i = 3 then Some ''mlan0'' else None), de_query = (\<lambda>_. ex_calls), de_link = (\<lambda>_. None)\<rparr>"

definition ex_disconnect :: "u8 list" where
  "ex_disconnect = wr_u32 28 @ wr_u16 27 @ replicate 10 0 @ [48, 0, 0, 0, 8, 0, 3, 0, 3, 0, 0, 0]"

subsection \<open>The table keeps the latest event\<close>

lemma coalesce_replace_None: "coalesce_replace evt tab = None \<longleftrightarrow> evt_key evt \<notin> set (map evt_key tab)"
  by (induction tab) auto

lemma coalesce_replace_Some:
  assumes "coalesce_replace evt tab = Some tab'"
  shows "map evt_key tab' = map evt_key tab"
    and "distinct (map evt_key tab) \<Longrightarrow>
      find (\<lambda>e. evt_key e = k) tab' = (if k = evt_key evt then Some evt else find (\<lambda>e. evt_key e = k) tab)"
  using assms by (induction tab arbitrary: tab') (auto split: if_splits)

lemma find_append: "find P (xs @ ys) = (case find P xs of None \<Rightarrow> find P ys | r \<Rightarrow> r)"
  by (induction xs) auto

lemma coalesced_length: "coalesced tab es \<Longrightarrow> length tab \<le> 6"
proof -
  assume c: "coalesced tab es"
  then have "card (set (map evt_key tab)) = length tab" by (metis coalesced_def distinct_card length_map)
  moreover have "card (set (map evt_key tab)) \<le> card (set drain_keys)"
    using c by (intro card_mono) (auto simp: coalesced_def)
  ultimately show ?thesis by (simp add: drain_keys_def)
qed

lemma coalesced_put:
  assumes "coalesced tab es" "evt_key e \<in> set drain_keys"
  shows "coalesced (nl_coalesce_put e tab) (es @ [e])"
proof (cases "coalesce_replace e tab")
  case None
  then have new: "evt_key e \<notin> set (map evt_key tab)" by (simp add: coalesce_replace_None)
  then have none: "find (\<lambda>x. evt_key x = evt_key e) tab = None" by (auto simp: find_None_iff image_iff)
  have "length tab < 8" using coalesced_length [OF assms(1)] by simp
  with None have p: "nl_coalesce_put e tab = tab @ [e]" by (simp add: nl_coalesce_put_def)
  show ?thesis unfolding p coalesced_def
    using assms new none by (auto simp: coalesced_def find_append split: option.splits)
next
  case (Some tab')
  then have p: "nl_coalesce_put e tab = tab'" by (simp add: nl_coalesce_put_def)
  show ?thesis unfolding p coalesced_def
    using assms coalesce_replace_Some [OF Some] by (auto simp: coalesced_def)
qed

lemma coalesced_fold:
  "coalesced tab es \<Longrightarrow> set (map evt_key new) \<subseteq> set drain_keys \<Longrightarrow> coalesced (fold nl_coalesce_put new tab) (es @ new)"
proof (induction new arbitrary: tab es)
  case (Cons e new)
  from Cons.prems have "coalesced (nl_coalesce_put e tab) (es @ [e])" by (intro coalesced_put) auto
  from Cons.IH [OF this] Cons.prems show ?case by simp
qed simp

lemma coalesced_Nil: "coalesced [] []"
  by (simp add: coalesced_def)

text \<open>A staged event puts the events of its trace, which depend on the caches only.\<close>

lemma put_two: "evt_key a \<noteq> evt_key b \<Longrightarrow> nl_coalesce_put b [a] = [a, b]"
  by (simp add: nl_coalesce_put_def)

lemma put_one: "nl_coalesce_put a [] = [a]"
  by (simp add: nl_coalesce_put_def)

lemma stage_evt_trace:
  "nl_stage_evt q link nev idx (tab, s) = (fold nl_coalesce_put (fst (stage_trace q link nev idx s)) tab, snd (stage_trace q link nev idx s))"
  by (cases "ev_kind nev") (simp_all add: nl_stage_evt_def stage_trace_def Let_def put_one put_two)

lemma stage_trace_keys:
  "idx = 0 \<or> idx = 1 \<Longrightarrow> set (map evt_key (fst (stage_trace q link nev idx s))) \<subseteq> set drain_keys"
  by (cases "ev_kind nev") (auto simp: nl_stage_evt_def stage_trace_def Let_def put_one put_two drain_keys_def)

lemma ifindex_to_idx_range: "nl_ifindex_to_idx f i \<ge> 0 \<Longrightarrow> nl_ifindex_to_idx f i = 0 \<or> nl_ifindex_to_idx f i = 1"
  by (auto simp: nl_ifindex_to_idx_def split: option.splits if_splits)

lemma message_coalesced:
  assumes "coalesced tab es"
  shows "coalesced (fst (nl_message D m (tab, s))) (fst (message_trace D m (es, s)))
    \<and> snd (nl_message D m (tab, s)) = snd (message_trace D m (es, s))"
proof -
  obtain ok r where p: "nl80211_parse_evt (Some m) (uint (g_nl80211_family_id s)) (Some zero_nl_evt) = (ok, r)" by fastforce
  show ?thesis
  proof (cases "ok \<and> r \<noteq> None")
    case True
    then obtain nev where r: "ok" "r = Some nev" by auto
    let ?i = "nl_ifindex_to_idx (de_if_name D) (ev_ifindex nev)"
    let ?t = "stage_trace (de_query D nev) (de_link D) nev ?i s"
    have m: "nl_message D m (tab, s) = (if ?i \<ge> 0 then (fold nl_coalesce_put (fst ?t) tab, snd ?t) else (tab, s))" for tab
      by (simp add: nl_message_def p r Let_def stage_evt_trace)
    have t: "message_trace D m (es, s) = (if ?i \<ge> 0 then (es @ fst ?t, snd ?t) else (es, s))"
      using r p by (simp add: message_trace_def nl_message_def Let_def stage_trace_def split: prod.split)
    show ?thesis
      unfolding m t using assms coalesced_fold [OF assms stage_trace_keys [OF ifindex_to_idx_range, where link = "de_link D"]] by simp
  next
    case False
    then have "nl_message D m (tab, s) = (tab, s)" "nl_message D m ([], s) = ([], s)" for tab
      by (auto simp: nl_message_def p split: bool.splits option.splits)
    with assms show ?thesis by (simp add: message_trace_def)
  qed
qed

lemma messages_coalesced:
  "coalesced tab es \<Longrightarrow>
    coalesced (fst (fold (nl_message D) ms (tab, s))) (fst (fold (message_trace D) ms (es, s)))
    \<and> snd (fold (nl_message D) ms (tab, s)) = snd (fold (message_trace D) ms (es, s))"
proof (induction ms arbitrary: tab es s)
  case (Cons m ms)
  obtain tab' s' where n: "nl_message D m (tab, s) = (tab', s')" by fastforce
  obtain es' s'' where t: "message_trace D m (es, s) = (es', s'')" by fastforce
  from message_coalesced [OF Cons.prems, of D m s] n t have "coalesced tab' es'" "s'' = s'" by simp_all
  with Cons.IH [of tab' es' s'] n t show ?case by simp
qed simp

lemma drain_loop_coalesced:
  "coalesced tab es \<Longrightarrow>
    coalesced (fst (drain_loop D rs (tab, s))) (fst (drain_trace D rs (es, s)))
    \<and> snd (drain_loop D rs (tab, s)) = snd (drain_trace D rs (es, s))"
proof (induction rs arbitrary: tab es s)
  case (Cons r rs)
  show ?case
  proof (cases r)
    case (RecvData d)
    let ?ms = "nl_messages (take NL_RECV_BUF d)"
    obtain tab' s' where n: "fold (nl_message D) ?ms (tab, s) = (tab', s')" by fastforce
    obtain es' s'' where t: "fold (message_trace D) ?ms (es, s) = (es', s'')" by fastforce
    from messages_coalesced [OF Cons.prems, of D ?ms s] n t have "coalesced tab' es'" "s'' = s'" by simp_all
    with Cons.IH [of tab' es' s'] n t Cons.prems RecvData show ?thesis by simp
  qed (use Cons in simp_all)
qed simp

lemma deliver_collect: "deliver (\<lambda>e xs. (0, xs @ [e])) tab ctx = (0, ctx @ tab)"
  by (induction tab arbitrary: ctx) simp_all

subsection \<open>The disconnect hint\<close>

text \<open>The events of one interface that set or clear the hint, and the value the last of them leaves.\<close>

definition hint_event :: "opcd_nl_evt_t \<Rightarrow> bool" where
  "hint_event nev \<longleftrightarrow> ev_kind nev \<in> {OPCD_NL_DEAUTH, OPCD_NL_DISASSOC, OPCD_NL_ROAM, OPCD_NL_DISCONNECT}
     \<or> (ev_kind nev = OPCD_NL_CONNECT \<and> ev_status_code nev = 0)"

definition hint_after :: "int \<Rightarrow> (int \<times> opcd_nl_evt_t) list \<Rightarrow> u16 \<times> u8 list" where
  "hint_after idx es =
     (case find (\<lambda>(i, nev). i = idx \<and> hint_event nev) (rev es) of
        None \<Rightarrow> (OPC_AP_MSG_DEAUTHENTICATION, replicate 6 0)
      | Some (i, nev) \<Rightarrow>
          if ev_kind nev = OPCD_NL_DISASSOC then (OPC_AP_MSG_DISASSOCIATION, ev_ap_frame_mac nev)
          else if ev_kind nev = OPCD_NL_DEAUTH then (OPC_AP_MSG_DEAUTHENTICATION, ev_ap_frame_mac nev)
          else (OPC_AP_MSG_DEAUTHENTICATION, replicate 6 0))"

definition stage_all :: "nl_calls \<Rightarrow> (int \<Rightarrow> 'a opcd_platform_link_t_scheme option) \<Rightarrow> (int \<times> opcd_nl_evt_t) list
    \<Rightarrow> opcd_platform_evt_t list \<times> nl_state \<Rightarrow> opcd_platform_evt_t list \<times> nl_state" where
  "stage_all q link es ts = fold (\<lambda>(i, nev). nl_stage_evt q link nev i) es ts"

lemma hint_step:
  assumes "idx = 0 \<or> idx = 1" "i = 0 \<or> i = 1" "length (g_ap_disc_msgid s) = 2" "length (g_ap_disc_mac s) = 2"
    and s': "s' = snd (nl_stage_evt q link nev i (tab, s))"
  shows "length (g_ap_disc_msgid s') = 2" "length (g_ap_disc_mac s') = 2"
    and "(g_ap_disc_msgid s' ! nat idx, g_ap_disc_mac s' ! nat idx)
      = (if i = idx \<and> hint_event nev then hint_after idx [(i, nev)] else (g_ap_disc_msgid s ! nat idx, g_ap_disc_mac s ! nat idx))"
  unfolding s' using assms(1-4)
  by (cases "ev_kind nev"; auto simp: nl_stage_evt_def nl_clear_ap_disc_hint_def nl_note_ch_def nl_latch_hint_def
      hint_event_def hint_after_def Let_def)+

lemma hint_after_snoc:
  "hint_after idx (es @ [(i, nev)]) = (if i = idx \<and> hint_event nev then hint_after idx [(i, nev)] else hint_after idx es)"
  by (simp add: hint_after_def)

lemma hint_all:
  assumes "idx = 0 \<or> idx = 1" "list_all (\<lambda>(i, nev). i = 0 \<or> i = 1) es"
  shows "length (g_ap_disc_msgid (snd (stage_all q link es (tab, nl_zero)))) = 2
    \<and> length (g_ap_disc_mac (snd (stage_all q link es (tab, nl_zero)))) = 2
    \<and> (g_ap_disc_msgid (snd (stage_all q link es (tab, nl_zero))) ! nat idx,
       g_ap_disc_mac (snd (stage_all q link es (tab, nl_zero))) ! nat idx) = hint_after idx es"
  using assms(2)
proof (induction es rule: rev_induct)
  case Nil
  show ?case using assms(1) by (auto simp: stage_all_def nl_zero_def hint_after_def)
next
  case (snoc e es)
  obtain i nev where e: "e = (i, nev)" by (cases e)
  obtain tab' s where s: "stage_all q link es (tab, nl_zero) = (tab', s)" by fastforce
  have st: "stage_all q link (es @ [(i, nev)]) (tab, nl_zero) = nl_stage_evt q link nev i (tab', s)"
    using s by (simp add: stage_all_def)
  from snoc s have IH: "length (g_ap_disc_msgid s) = 2" "length (g_ap_disc_mac s) = 2"
      "(g_ap_disc_msgid s ! nat idx, g_ap_disc_mac s ! nat idx) = hint_after idx es"
    by simp_all
  have i: "i = 0 \<or> i = 1" using snoc.prems e by simp
  from hint_step [OF assms(1) i IH(1,2) refl, of q link nev tab'] IH(3) show ?case
    unfolding e st hint_after_snoc by simp
qed

subsection \<open>Properties\<close>

text \<open>C16: One drain of the netlink socket hands over at most six events, one per kind and interface, and each is the
  latest of its kind and interface among all events that the received datagrams contain: coalescing loses no state,
  and the branch that drops an event because the table is full is never taken. The caches are those of the run without
  coalescing.\<close>

theorem drain_delivers_latest:
  assumes "nxp_drain_events D rs (\<lambda>e xs. (0, xs @ [e])) s [] = (rc, evs, s')" "g_nl_open s"
  shows "rc = 0 \<and> length evs \<le> 6 \<and> distinct (map evt_key evs)
    \<and> (\<forall>k. find (\<lambda>e. evt_key e = k) evs = latest k (fst (drain_trace D rs ([], s))))
    \<and> s' = snd (drain_trace D rs ([], s))"
proof -
  obtain tab s2 where d: "drain_loop D rs ([], s) = (tab, s2)" by fastforce
  with assms have r: "rc = 0" "evs = tab" "s' = s2" by (simp_all add: nxp_drain_events_def deliver_collect)
  from drain_loop_coalesced [OF coalesced_Nil, of D rs s] d have c: "coalesced tab (fst (drain_trace D rs ([], s)))"
      "s2 = snd (drain_trace D rs ([], s))"
    by simp_all
  from coalesced_length [OF c(1)] c r show ?thesis by (simp add: coalesced_def)
qed

theorem drain_delivers_latest_witness:
  "\<exists>evs s'. nxp_drain_events ex_drain [RecvData (ex_disconnect @ ex_disconnect)] (\<lambda>e xs. (0, xs @ [e]))
      (nl_zero\<lparr>g_nl_open := True, g_nl80211_family_id := 27\<rparr>) [] = (0, evs, s')
    \<and> evs = [OPCD_PEVT_WLAN_STATUS 0 OPCD_WLAN_STATUS_UP OPC_WLAN_CH_UNSET] \<and> distinct (map evt_key evs)"
proof -
  let ?s = "nl_zero\<lparr>g_nl_open := True, g_nl80211_family_id := 27\<rparr>"
  let ?r = "nxp_drain_events ex_drain [RecvData (ex_disconnect @ ex_disconnect)] (\<lambda>e xs. (0, xs @ [e])) ?s []"
  obtain rc evs s' where r: "?r = (rc, evs, s')" by (cases ?r) auto
  have "fst (snd ?r) = [OPCD_PEVT_WLAN_STATUS 0 OPCD_WLAN_STATUS_UP OPC_WLAN_CH_UNSET]" by code_simp
  with drain_delivers_latest [OF r] r show ?thesis by simp
qed

text \<open>C17: A disconnection by the access point is reported with the message ID and the sender of the deauthentication or
  disassociation frame that preceded it on the same interface, and of no other: after any sequence of events on the
  two interfaces, the report carries what the last event of that interface that sets or clears the hint left
  (Deauthentication and the zero address when that was an association, a roam or an earlier disconnection), unless the
  event itself has a usable address, which is then reported.\<close>

theorem disconnect_reports_last_frame:
  assumes "idx = 0 \<or> idx = 1" "list_all (\<lambda>(i, nev). i = 0 \<or> i = 1) es"
    and "ev_kind nev = OPCD_NL_DISCONNECT" "ev_by_ap nev"
  shows "OPCD_PEVT_AP_DISCONNECT (word_of_int idx) (fst (hint_after idx es)) (ev_reason_code nev)
      (if ev_mac_present nev \<and> ev_mac nev ! 0 AND 1 = 0 \<and> ev_mac nev \<noteq> replicate 6 0 then ev_mac nev else snd (hint_after idx es))
    \<in> set (fst (nl_stage_evt q link nev idx ([], snd (stage_all q link es (tab, nl_zero)))))"
proof -
  let ?s = "snd (stage_all q link es (tab, nl_zero))"
  have h: "fst (hint_after idx es) = g_ap_disc_msgid ?s ! nat idx" "snd (hint_after idx es) = g_ap_disc_mac ?s ! nat idx"
    using hint_all [OF assms(1,2), of q link tab] by (metis fst_conv snd_conv)+
  have i: "idx \<ge> 0 \<and> idx < 2" using assms(1) by auto
  show ?thesis unfolding h using assms(3,4) i by (simp add: nl_stage_evt_def Let_def put_one put_two disc_mac_def)
qed

theorem disconnect_reports_last_frame_witness:
  "OPCD_PEVT_AP_DISCONNECT 0 OPC_AP_MSG_DISASSOCIATION 8 [2, 0, 0, 0, 0, 1]
    \<in> set (fst (nl_stage_evt ex_calls (de_link ex_drain)
        (zero_nl_evt\<lparr>ev_kind := OPCD_NL_DISCONNECT, ev_by_ap := True, ev_reason_code := 8\<rparr>) 0
        ([], snd (stage_all ex_calls (de_link ex_drain)
           [(0, zero_nl_evt\<lparr>ev_kind := OPCD_NL_DISASSOC, ev_ap_frame_mac := [2, 0, 0, 0, 0, 1]\<rparr>),
            (1, zero_nl_evt\<lparr>ev_kind := OPCD_NL_DEAUTH\<rparr>)] ([], nl_zero)))))"
  using disconnect_reports_last_frame [where idx = 0 and es = "[(0, zero_nl_evt\<lparr>ev_kind := OPCD_NL_DISASSOC,
        ev_ap_frame_mac := [2, 0, 0, 0, 0, 1]\<rparr>), (1, zero_nl_evt\<lparr>ev_kind := OPCD_NL_DEAUTH\<rparr>)]"
      and nev = "zero_nl_evt\<lparr>ev_kind := OPCD_NL_DISCONNECT, ev_by_ap := True, ev_reason_code := 8\<rparr>"
      and q = ex_calls and link = "de_link ex_drain" and tab = "[]"]
  by (simp add: zero_nl_evt_def hint_after_def hint_event_def)

end
