(* ===== verification/Nxp_Readers.thy ===== *)
theory Nxp_Readers
  imports Handler_Cmds Route_Lookup Essid_Marker Nxp_Events
begin

text \<open>
  The NXP platform's readers (\<open>opcd/platform_nxp.c\<close>): the identity of the device and of its radios and the live link,
  taken from the JSON files of the logger, the configured SSID, the NTP server, and the firmware version with its
  cache and retries. A function that returns an error code and fills an output is an option. \<open>files\<close> are the files
  as the process can read them.
\<close>

definition ETH0_LINK_JSON :: path where "ETH0_LINK_JSON = bytes_of ''/var/log/cantops/json/eth0/link.json''"
definition MLAN0_LINK_JSON :: path where "MLAN0_LINK_JSON = bytes_of ''/var/log/cantops/json/mlan0/link.json''"
definition MLAN1_LINK_JSON :: path where "MLAN1_LINK_JSON = bytes_of ''/var/log/cantops/json/mlan1/link.json''"
definition OPC_PATH_ESSID_MARKER :: path where
  "OPC_PATH_ESSID_MARKER = bytes_of ''/usr/local/opc/etc/changeip_essid.restore''"
definition OPC_PATH_WPA_CONF_MLAN0 :: path where
  "OPC_PATH_WPA_CONF_MLAN0 = bytes_of ''/etc/wpa_supplicant/wpa_supplicant-mlan0.conf''"
definition OPC_PATH_WPA_CONF_MLAN1 :: path where
  "OPC_PATH_WPA_CONF_MLAN1 = bytes_of ''/etc/wpa_supplicant/wpa_supplicant-mlan1.conf''"
definition TIMESYNCD_CONF :: path where "TIMESYNCD_CONF = bytes_of ''/etc/systemd/timesyncd.conf''"
definition OPC_NTP_DROPIN :: path where "OPC_NTP_DROPIN = bytes_of ''/run/systemd/timesyncd.conf.d/opc-ntp.conf''"

subsection \<open>Values of the logger\<close>

text \<open>\<open>sscanf(s, "%d", &v)\<close> with a 32-bit \<open>int\<close>.\<close>

definition scan_int :: "u8 list \<Rightarrow> int option" where
  "scan_int s = map_option (\<lambda>(v, _). sint (word_of_int v :: u32)) (strtol s)"

definition parse_signed_dbm :: "u8 list \<Rightarrow> int option" where
  "parse_signed_dbm s = map_option clamp_int8 (scan_int s)"

definition parse_width_to_bw :: "u8 list \<Rightarrow> u8 option" where
  "parse_width_to_bw s =
     (case scan_int s of
        None \<Rightarrow> None
      | Some mhz \<Rightarrow>
          if mhz = 20 then Some OPC_BANDWIDTH_20
          else if mhz = 40 then Some OPC_BANDWIDTH_40
          else if mhz = 80 then Some OPC_BANDWIDTH_80
          else if mhz = 160 then Some OPC_BANDWIDTH_160
          else if mhz = 320 then Some OPC_BANDWIDTH_320
          else None)"

definition parse_bitrate_to_mode :: "u8 list \<Rightarrow> u8 option" where
  "parse_bitrate_to_mode s =
     (if strstr (bytes_of '' HE-'') s \<noteq> None then Some OPC_WLAN_MODE_11AX
      else if strstr (bytes_of '' VHT-'') s \<noteq> None then Some OPC_WLAN_MODE_11AC
      else if strstr (bytes_of '' MCS '') s \<noteq> None then Some OPC_WLAN_MODE_11N
      else None)"

text \<open>\<open>%x:%x:%x:%x:%x:%x\<close> without field widths.\<close>

fun scan_hexes :: "nat \<Rightarrow> u8 list \<Rightarrow> u32 list option" where
  "scan_hexes 0 s = Some []"
| "scan_hexes (Suc n) s =
     (case scan_num 16 (length s) s of
        None \<Rightarrow> None
      | Some (neg, m, r) \<Rightarrow>
          let v = (if m > ULONG_MAX then -1 else if neg then - of_nat m else of_nat m) in
          if n = 0 then Some [v]
          else (case scan_char 58 r of None \<Rightarrow> None | Some r \<Rightarrow> map_option ((#) v) (scan_hexes n r)))"

text \<open>Whether the address could be parsed, and the six bytes after the call: the octets before one that does not fit are
  already stored.\<close>

definition parse_mac_str :: "u8 list \<Rightarrow> u8 list \<Rightarrow> bool \<times> u8 list" where
  "parse_mac_str s mac =
     (case scan_hexes 6 s of
        None \<Rightarrow> (False, mac)
      | Some v \<Rightarrow> (list_all (\<lambda>x. x \<le> 0xFF) v, put 0 (map ucast (takeWhile (\<lambda>x. x \<le> 0xFF) v)) mac))"

definition json_section_string :: "u8 list \<Rightarrow> string \<Rightarrow> string \<Rightarrow> nat \<Rightarrow> u8 list option" where
  "json_section_string json sec key cap =
     (case opc_json_string_section (Some json) (Some (bytes_of sec)) (Some (bytes_of key)) (Some cap) of
        Inl _ \<Rightarrow> None | Inr v \<Rightarrow> Some v)"

definition json_section_int :: "u8 list \<Rightarrow> string \<Rightarrow> string \<Rightarrow> int option" where
  "json_section_int json sec key =
     (case opc_json_integer_section (Some json) (Some (bytes_of sec)) (Some (bytes_of key)) of
        Inl _ \<Rightarrow> None | Inr v \<Rightarrow> Some v)"

subsection \<open>Identity\<close>

definition nxp_get_eth_mac :: "files \<Rightarrow> u8 list \<Rightarrow> bool \<times> u8 list" where
  "nxp_get_eth_mac F mac =
     (case opc_json_slurp_file F ETH0_LINK_JSON of
        None \<Rightarrow> (False, replicate 6 0)
      | Some json \<Rightarrow>
          (case opc_json_string (Some json) (Some (bytes_of ''mac_address'')) (Some 32) of
             Inl _ \<Rightarrow> (False, replicate 6 0)
           | Inr buf \<Rightarrow> parse_mac_str buf mac))"

definition nxp_json_ipv4 :: "u8 list \<Rightarrow> string \<Rightarrow> u32 option" where
  "nxp_json_ipv4 json key =
     (case opc_json_string (Some json) (Some (bytes_of key)) (Some 32) of Inl _ \<Rightarrow> None | Inr buf \<Rightarrow> inet_pton buf)"

definition nxp_get_dev_ipv4 :: "files \<Rightarrow> int \<Rightarrow> (u32 \<times> u32 \<times> u32) option" where
  "nxp_get_dev_ipv4 F iface =
     map_option (\<lambda>json. let f = (\<lambda>key. case nxp_json_ipv4 json key of None \<Rightarrow> 0 | Some a \<Rightarrow> a) in
         (f ''ip_address'', f ''netmask'', f ''gateway''))
       (opc_json_slurp_file F (if iface = 1 then MLAN0_LINK_JSON else ETH0_LINK_JSON))"

text \<open>\<open>/proc/net/route\<close> as one \<open>fread\<close> of at most 65535 bytes gives it; \<open>None\<close> when it cannot be opened or read.\<close>

definition nxp_lookup_direct_route :: "u8 list option \<Rightarrow> u32 \<Rightarrow> u32 option" where
  "nxp_lookup_direct_route route dst =
     (case route of
        None \<Rightarrow> None
      | Some c \<Rightarrow> opcd_route_direct_lookup (Some (cstr (take 65535 c))) dst)"

text \<open>The \<open>errno\<close> of \<open>access(MLAN1_LINK_JSON)\<close>, 0 for success.\<close>

definition nxp_get_wlan_count :: "int \<Rightarrow> int" where
  "nxp_get_wlan_count access_errno =
     (if access_errno = 0 then 2 else if access_errno = ENOENT then 1 else - access_errno)"

definition nxp_get_wlan_mac :: "files \<Rightarrow> int \<Rightarrow> int \<Rightarrow> u8 list \<Rightarrow> bool \<times> u8 list" where
  "nxp_get_wlan_mac F access_errno idx mac =
     (if idx < 0 \<or> idx \<ge> nxp_get_wlan_count access_errno then (False, mac)
      else case opc_json_slurp_file F (if idx = 0 then MLAN0_LINK_JSON else MLAN1_LINK_JSON) of
        None \<Rightarrow> (False, replicate 6 0)
      | Some json \<Rightarrow>
          (case json_section_string json ''info'' ''address'' 32 of
             None \<Rightarrow> (False, replicate 6 0)
           | Some buf \<Rightarrow> parse_mac_str buf mac))"

definition nxp_get_essid :: "marker_env \<Rightarrow> files \<Rightarrow> int \<Rightarrow> int \<Rightarrow> nat \<Rightarrow> u8 list option" where
  "nxp_get_essid M F access_errno idx cap =
     (if idx < 0 \<or> idx \<ge> nxp_get_wlan_count access_errno then None
      else if cap = 0 then None
      else Some (snd (opc_wpa_conf_ssid M F
             (if idx = 0 then OPC_PATH_WPA_CONF_MLAN0 else OPC_PATH_WPA_CONF_MLAN1) (Some cap))))"

definition nxp_copy_string :: "nat \<Rightarrow> u8 list \<Rightarrow> u8 list option" where
  "nxp_copy_string cap src = (if cap = 0 then None else Some (take (cap - 1) (cstr src)))"

subsection \<open>Firmware version\<close>

definition FW_CACHE_LEN :: nat where [simp]: "FW_CACHE_LEN = OPC_VERSION_FIELD_LEN"
definition FW_RETRY_INTERVAL_S :: u32 where [simp]: "FW_RETRY_INTERVAL_S = 60"
definition FW_RETRY_MAX :: nat where [simp]: "FW_RETRY_MAX = 5"

datatype wait_status = Exited int | Signaled int

datatype fw_read = FwData "u8 list" | FwEof | FwAgain | FwErr
datatype fw_wait = FwRunning | FwReaped wait_status | FwWaitErr

record fw_turn =
  ft_past :: bool
  ft_read :: fw_read
  ft_wait :: fw_wait

definition fw_wait_step :: "fw_turn \<Rightarrow> wait_status option \<Rightarrow> wait_status option" where
  "fw_wait_step t st =
     (case st of
        Some _ \<Rightarrow> st
      | None \<Rightarrow> (case ft_wait t of FwRunning \<Rightarrow> None | FwReaped s \<Rightarrow> Some s | FwWaitErr \<Rightarrow> Some (Exited 0)))"

fun fw_read_data :: "fw_read \<Rightarrow> u8 list" where
  "fw_read_data (FwData d) = d"
| "fw_read_data _ = []"

text \<open>The polling loop on the pipe and the child: the bytes read so far, end of the pipe, the reaped status. After the
  listed turns the deadline passes. The result says whether the child was killed.\<close>

fun fw_loop :: "fw_turn list \<Rightarrow> u8 list \<Rightarrow> bool \<Rightarrow> wait_status option \<Rightarrow> bool \<times> u8 list \<times> wait_status option" where
  "fw_loop [] buf eof st = (\<not> (eof \<and> st \<noteq> None), buf, st)"
| "fw_loop (t # ts) buf eof st =
     (if eof \<and> st \<noteq> None then (False, buf, st)
      else if ft_past t then (True, buf, st)
      else let more = (\<not> eof \<and> length buf + 1 < FW_CACHE_LEN); d = fw_read_data (ft_read t) in
        if more \<and> d \<noteq> [] then fw_loop ts (buf @ take (FW_CACHE_LEN - 1 - length buf) d) eof st
        else let eof = (eof \<or> (more \<and> ft_read t \<noteq> FwAgain) \<or> length buf + 1 \<ge> FW_CACHE_LEN)
          in fw_loop ts buf eof (fw_wait_step t st))"

record fw_calls =
  fc_pipe :: bool
  fc_fork :: bool
  fc_turns :: "fw_turn list"

definition fw_trim :: "u8 list \<Rightarrow> u8 list" where
  "fw_trim buf = rev (dropWhile (\<lambda>c. c = 10 \<or> c = 13 \<or> c = 32 \<or> c = 9) (rev buf))"

definition nxp_query_fw_version :: "fw_calls \<Rightarrow> nat \<Rightarrow> u8 list option" where
  "nxp_query_fw_version c cap =
     (if \<not> fc_pipe c \<or> \<not> fc_fork c then None
      else case fw_loop (fc_turns c) [] False None of
             (killed, buf, st) \<Rightarrow>
               if killed then None
               else if st \<noteq> Some (Exited 0) then None
               else if buf = [] then None
               else let v = fw_trim buf in if v = [] then None else Some (take (cap - 1) v))"

record fw_state =
  g_fw_cache :: "u8 list"
  g_fw_retries_left :: nat
  g_fw_retry_wait_s :: u32

text \<open>A query that fails leaves the cache empty.\<close>

definition fw_cache_query :: "fw_calls \<Rightarrow> fw_state \<Rightarrow> fw_state" where
  "fw_cache_query c s = s\<lparr>g_fw_cache := (case nxp_query_fw_version c FW_CACHE_LEN of None \<Rightarrow> [] | Some v \<Rightarrow> v)\<rparr>"

definition nxp_fw_version_init :: "fw_calls \<Rightarrow> fw_state \<Rightarrow> fw_state" where
  "nxp_fw_version_init c s = fw_cache_query c (s\<lparr>g_fw_retries_left := FW_RETRY_MAX, g_fw_retry_wait_s := 0, g_fw_cache := []\<rparr>)"

text \<open>The timer hook: the new state and whether it ran the query.\<close>

definition nxp_refresh_firmware_version :: "fw_calls \<Rightarrow> u32 \<Rightarrow> fw_state \<Rightarrow> bool \<times> fw_state" where
  "nxp_refresh_firmware_version c elapsed_s s =
     (if cstr (g_fw_cache s) \<noteq> [] \<or> g_fw_retries_left s = 0 then (False, s)
      else let w = (if elapsed_s \<ge> FW_RETRY_INTERVAL_S - g_fw_retry_wait_s s then FW_RETRY_INTERVAL_S
                    else g_fw_retry_wait_s s + elapsed_s) in
        if w < FW_RETRY_INTERVAL_S then (False, s\<lparr>g_fw_retry_wait_s := w\<rparr>)
        else (True, fw_cache_query c (s\<lparr>g_fw_retry_wait_s := 0, g_fw_retries_left := g_fw_retries_left s - 1\<rparr>)))"

definition nxp_get_firmware_version :: "fw_state \<Rightarrow> nat \<Rightarrow> u8 list option" where
  "nxp_get_firmware_version s cap = nxp_copy_string cap (g_fw_cache s)"

subsection \<open>NTP server\<close>

text \<open>The lines as \<open>strtok_r(body, "\n", ...)\<close> gives them: no empty ones.\<close>

function tok_lines :: "u8 list \<Rightarrow> u8 list list" where
  "tok_lines s =
     (let s = dropWhile (\<lambda>c. c = 10) s in
      if s = [] then [] else let l = takeWhile (\<lambda>c. c \<noteq> 10) s in l # tok_lines (drop (length l) s))"
  by pat_completeness auto
termination
proof (relation "measure length")
  fix s q l :: "u8 list"
  assume a: "q = dropWhile (\<lambda>c. c = 10) s" "q \<noteq> []" "l = takeWhile (\<lambda>c. c \<noteq> 10) q"
  then have "hd q \<noteq> 10" using hd_dropWhile [of "\<lambda>c. c = 10" s] by auto
  then have "l \<noteq> []" using a(2,3) by (cases q) auto
  moreover have "length q \<le> length s" using a(1) length_dropWhile_le by blast
  ultimately show "(drop (length l) q, s) \<in> measure length" using a(2) by (cases q; cases l) auto
qed simp

declare tok_lines.simps [simp del]

fun first_ntp :: "u8 list list \<Rightarrow> u32 option" where
  "first_ntp [] = None"
| "first_ntp (l # ls) = (case opc_ntp_parse_line (Some l) of Some a \<Rightarrow> Some a | None \<Rightarrow> first_ntp ls)"

definition ntp_from_file :: "files \<Rightarrow> path \<Rightarrow> u32 option" where
  "ntp_from_file F p = Option.bind (opc_json_slurp_file F p) (\<lambda>body. first_ntp (tok_lines body))"

definition nxp_get_ntp_server :: "files \<Rightarrow> u32 option" where
  "nxp_get_ntp_server F =
     (case ntp_from_file F OPC_NTP_DROPIN of Some a \<Rightarrow> Some a | None \<Rightarrow> ntp_from_file F TIMESYNCD_CONF)"

subsection \<open>Link readback\<close>

record nxp_link = opcd_platform_link_t +
  lk_bandwidth :: u8
  lk_bandwidth_valid :: bool
  lk_mode :: u8

definition zero_nxp_link :: nxp_link where
  "zero_nxp_link = \<lparr>lk_freq_mhz = 0, lk_channel = 0, lk_bssid = replicate 6 0, lk_snr = 0, lk_rssi = 0,
     lk_snr_valid = False, lk_rssi_valid = False, lk_associated = False, lk_bandwidth = 0, lk_bandwidth_valid = False, lk_mode = 0\<rparr>"

definition with_mode :: "u8 list \<Rightarrow> string \<Rightarrow> nxp_link \<Rightarrow> nxp_link" where
  "with_mode json key out =
     (case Option.bind (json_section_string json ''link'' key 64) parse_bitrate_to_mode of
        None \<Rightarrow> out | Some m \<Rightarrow> out\<lparr>lk_mode := m\<rparr>)"

definition nxp_get_link :: "files \<Rightarrow> int \<Rightarrow> int \<Rightarrow> nxp_link option" where
  "nxp_get_link F access_errno idx =
     (if idx < 0 \<or> idx \<ge> nxp_get_wlan_count access_errno then None
      else case opc_json_slurp_file F (if idx = 0 then MLAN0_LINK_JSON else MLAN1_LINK_JSON) of
        None \<Rightarrow> None
      | Some json \<Rightarrow>
          let out = zero_nxp_link;
              out = (case json_section_int json ''info'' ''freq'' of
                       Some v \<Rightarrow> if v > 0 \<and> v \<le> 65535 then out\<lparr>lk_freq_mhz := word_of_int v\<rparr> else out | None \<Rightarrow> out);
              out = (case json_section_int json ''info'' ''channel'' of
                       Some v \<Rightarrow> if v \<ge> 0 \<and> v \<le> 65535 then out\<lparr>lk_channel := word_of_int v\<rparr> else out | None \<Rightarrow> out);
              out = (case json_section_string json ''link'' ''address'' 64 of
                       Some buf \<Rightarrow>
                         (case parse_mac_str buf (lk_bssid out) of
                            (ok, mac) \<Rightarrow> if ok then out\<lparr>lk_bssid := mac, lk_associated := True\<rparr> else out\<lparr>lk_bssid := mac\<rparr>)
                     | None \<Rightarrow> out);
              out = (if lk_associated out
                     then case Option.bind (json_section_string json ''info'' ''width'' 64) parse_width_to_bw of
                            Some bw \<Rightarrow> out\<lparr>lk_bandwidth := bw, lk_bandwidth_valid := True\<rparr> | None \<Rightarrow> out
                     else out);
              out = (if lk_associated out then with_mode json ''tx_bitrate'' out else out);
              out = (if lk_associated out \<and> lk_mode out = 0 then with_mode json ''rx_bitrate'' out else out);
              out = (case Option.bind (json_section_string json ''link'' ''signal_avg'' 64) parse_signed_dbm of
                       Some v \<Rightarrow> out\<lparr>lk_rssi := word_of_int v, lk_rssi_valid := True\<rparr> | None \<Rightarrow> out);
              out = (if lk_associated out \<and> lk_rssi_valid out
                     then case json_section_int json ''channel_info'' ''noise'' of
                            Some v \<Rightarrow>
                              if v \<ge> -128 \<and> v < 0
                              then out\<lparr>lk_snr := word_of_int (clamp_int8 (sint (lk_rssi out) - v)), lk_snr_valid := True\<rparr>
                              else out
                          | None \<Rightarrow> out
                     else out)
          in Some out)"

subsection \<open>Start\<close>

text \<open>The calls on the event socket, the queries of the interfaces, the index lookup and the first firmware query.\<close>

definition nxp_init ::
  "nl_calls \<Rightarrow> (u32 \<Rightarrow> nl_calls) \<Rightarrow> (string \<Rightarrow> u32) \<Rightarrow> fw_calls \<Rightarrow> nl_state \<times> fw_state \<Rightarrow> int \<times> nl_state \<times> fw_state" where
  "nxp_init c q lookup fc st =
     (case st of (s, fw) \<Rightarrow>
        (0, nl_seed_ch_cache q lookup (snd (nl_event_socket_open c s)), nxp_fw_version_init fc fw))"

end
