(* ===== verification/Nxp_Apply.thy ===== *)
theory Nxp_Apply
  imports Nxp_Readers Platform_Stub
begin

text \<open>
  What the NXP platform changes (\<open>opcd/platform_nxp.c\<close>): the bounded run of a helper process, the radio configuration, the
  address change with gateway, NTP server and ESSID, the refresh of the peer routes and the reboot. The external
  programs are a parameter: for each argument vector the results of the calls that run it (\<open>run_calls\<close>) and its effect
  on the files. \<open>host\<close> holds the files and the programs that were started, in order. \<open>g_nxp_ops\<close> is the table of
  functions.
\<close>

definition EACCES :: int where [simp]: "EACCES = 13"
definition ESRCH :: int where [simp]: "ESRCH = 3"
definition EPROTO :: int where [simp]: "EPROTO = 71"
definition EOPNOTSUPP :: int where [simp]: "EOPNOTSUPP = 95"
definition EADDRNOTAVAIL :: int where [simp]: "EADDRNOTAVAIL = 99"
definition ETIMEDOUT :: int where [simp]: "ETIMEDOUT = 110"
definition OPC_RESET_UNCONFIRMED :: int where [simp]: "OPC_RESET_UNCONFIRMED = -130"
definition OPC_WLAN_APPLY_TIMEOUT_MS :: int where [simp]: "OPC_WLAN_APPLY_TIMEOUT_MS = 900"
definition IP_CHANGE_TIMEOUT_MS :: int where [simp]: "IP_CHANGE_TIMEOUT_MS = 900"
definition OPC_RESET_SCRIPT_TIMEOUT_MS :: int where [simp]: "OPC_RESET_SCRIPT_TIMEOUT_MS = 20000"

subsection \<open>Bounded run of a process\<close>

datatype child_poll = ChildRunning | ChildEintr | ChildErr int | ChildExit wait_status
datatype run_signal = TermGroup | KillGroup | KillChild

record run_turn =
  rt_wait :: child_poll
  rt_group_gone :: bool
  rt_elapsed_ms :: int

record run_calls =
  rn_fork :: int
  rn_setpgid :: int
  rn_turns :: "run_turn list"

fun poll_exit :: "child_poll \<Rightarrow> wait_status option" where
  "poll_exit (ChildExit st) = Some st"
| "poll_exit _ = None"

fun poll_err :: "child_poll \<Rightarrow> int option" where
  "poll_err (ChildErr e) = Some e"
| "poll_err _ = None"

definition run_result :: "wait_status \<Rightarrow> int" where
  "run_result st = (if st = Exited 0 then 0 else - EPROTO)"

text \<open>The polling loop: the status of the leader once it is reaped, and whether the timeout has started. The result is the
  return code, the status for the caller and the signals sent. After the listed turns the clock passes the deadline.\<close>

fun run_loop :: "int \<Rightarrow> int \<Rightarrow> bool \<Rightarrow> bool \<Rightarrow> run_turn list \<Rightarrow> int \<times> wait_status option \<times> run_signal list" where
  "run_loop timeout term_at reaped started [] =
     (- ETIMEDOUT, None, (if started then [] else [TermGroup]) @ [KillGroup])"
| "run_loop timeout term_at reaped started (t # ts) =
     (let ex = (if reaped then None else poll_exit (rt_wait t)); err = (if reaped then None else poll_err (rt_wait t)) in
      if err \<noteq> None then (- the err, None, [KillGroup])
      else if ex \<noteq> None \<and> \<not> started then (run_result (the ex), ex, [])
      else let reaped = (reaped \<or> ex \<noteq> None) in
        if started \<and> reaped \<and> rt_group_gone t then (- ETIMEDOUT, None, [])
        else let start = (\<not> started \<and> rt_elapsed_ms t \<ge> term_at);
                 sg = (if start then [TermGroup] else []) in
          if rt_elapsed_ms t \<ge> timeout then (- ETIMEDOUT, None, sg @ [KillGroup])
          else case run_loop timeout term_at reaped (started \<or> start) ts of (rc, st, sgs) \<Rightarrow> (rc, st, sg @ sgs))"

definition run_argv_bounded_status :: "run_calls \<Rightarrow> int \<Rightarrow> int \<times> wait_status option \<times> run_signal list" where
  "run_argv_bounded_status c timeout_ms =
     (if rn_fork c \<noteq> 0 then (- rn_fork c, None, [])
      else if rn_setpgid c \<noteq> 0 \<and> rn_setpgid c \<noteq> EACCES \<and> rn_setpgid c \<noteq> ESRCH then (- rn_setpgid c, None, [KillChild])
      else let term_grace_ms = (if timeout_ms > 150 then 150 else timeout_ms div 2)
        in run_loop timeout_ms (timeout_ms - term_grace_ms) False False (rn_turns c))"

definition run_argv_bounded :: "run_calls \<Rightarrow> int \<Rightarrow> int" where
  "run_argv_bounded c timeout_ms = fst (run_argv_bounded_status c timeout_ms)"

subsection \<open>The host\<close>

type_synonym argv = "u8 list list"

text \<open>The results of \<open>sigtimedwait\<close> for SIGTERM until the wait ends.\<close>

datatype sig_wait = SigTerm | SigEintr | SigNone | SigLate

fun stop_loop :: "sig_wait list \<Rightarrow> bool" where
  "stop_loop [] = False"
| "stop_loop (SigTerm # ws) = True"
| "stop_loop (SigEintr # ws) = stop_loop ws"
| "stop_loop (SigNone # ws) = False"
| "stop_loop (SigLate # ws) = False"

record nxp_env =
  x_calls :: "argv \<Rightarrow> run_calls"
  x_effect :: "argv \<Rightarrow> files \<Rightarrow> files"
  x_marker :: marker_env
  x_time :: int
  x_access :: int
  x_mkdir :: int
  x_ntp_write :: int
  x_ntp_rename :: int
  x_ntp_unlink :: int
  x_route :: "u8 list option"
  x_stop_waits :: "sig_wait list"

record host =
  h_files :: files
  h_log :: "argv list"

definition run_cmd :: "nxp_env \<Rightarrow> argv \<Rightarrow> int \<Rightarrow> host \<Rightarrow> int \<times> wait_status option \<times> host" where
  "run_cmd X a timeout_ms H =
     (case run_argv_bounded_status (x_calls X a) timeout_ms of
        (rc, st, _) \<Rightarrow>
          (rc, st, if rn_fork (x_calls X a) \<noteq> 0 then H
                   else H\<lparr>h_files := x_effect X a (h_files H), h_log := h_log H @ [a]\<rparr>))"

text \<open>\<open>sh -c\<close>.\<close>

definition run_sh :: "nxp_env \<Rightarrow> u8 list \<Rightarrow> host \<Rightarrow> int \<times> host" where
  "run_sh X cmd H =
     (case run_cmd X [bytes_of ''sh'', bytes_of ''-c'', cmd] IP_CHANGE_TIMEOUT_MS H of (rc, _, H) \<Rightarrow> (rc, H))"

subsection \<open>Radio configuration\<close>

definition opt_arg :: "string \<Rightarrow> u8 list ptr \<Rightarrow> argv" where
  "opt_arg key v = (case v of None \<Rightarrow> [] | Some s \<Rightarrow> if s = [] then [] else [bytes_of key, s])"

definition run_opc_wlan_apply ::
  "nxp_env \<Rightarrow> u8 list \<Rightarrow> u8 list ptr \<Rightarrow> u8 list ptr \<Rightarrow> u8 list ptr \<Rightarrow> u8 list ptr \<Rightarrow> int \<Rightarrow> host \<Rightarrow> int \<times> host" where
  "run_opc_wlan_apply X iface freqs mode bandwidth ssid timeout_ms H =
     (let args = opt_arg ''freq'' freqs @ opt_arg ''mode'' mode @ opt_arg ''bw'' bandwidth @ opt_arg ''ssid'' ssid in
      if args = [] then (- EINVAL, H)
      else case run_cmd X (bytes_of ''opc_wlan_apply.sh'' # iface # args) timeout_ms H of (rc, _, H) \<Rightarrow> (rc, H))"

definition radio_mode_token :: "u8 \<Rightarrow> u8 list ptr" where
  "radio_mode_token mode =
     (if mode = OPC_WLAN_MODE_11B then Some (bytes_of ''b'')
      else if mode = OPC_WLAN_MODE_11G then Some (bytes_of ''g'')
      else if mode = OPC_WLAN_MODE_11A then Some (bytes_of ''a'')
      else if mode = OPC_WLAN_MODE_11N then Some (bytes_of ''n'')
      else if mode = OPC_WLAN_MODE_11AC then Some (bytes_of ''ac'')
      else if mode = OPC_WLAN_MODE_11AX then Some (bytes_of ''ax'')
      else None)"

definition radio_bw_token :: "u8 \<Rightarrow> u8 list ptr" where
  "radio_bw_token bandwidth =
     (if bandwidth = OPC_BANDWIDTH_20 then Some (bytes_of ''20'')
      else if bandwidth = OPC_BANDWIDTH_40 then Some (bytes_of ''40'')
      else if bandwidth = OPC_BANDWIDTH_80 then Some (bytes_of ''80'')
      else None)"

definition validate_one_radio :: "opc_wlan_radio_cfg_t \<Rightarrow> bool \<Rightarrow> u16" where
  "validate_one_radio w mlan1 =
     (if radio_mode_token (rc_mode w) = None
         \<or> (mlan1 \<and> rc_mode w = OPC_WLAN_MODE_11AX)
         \<or> ((rc_mode w = OPC_WLAN_MODE_11B \<or> rc_mode w = OPC_WLAN_MODE_11G) \<and> rc_scan_band w = OPC_SCAN_BAND_5GHZ)
         \<or> (rc_mode w = OPC_WLAN_MODE_11A \<and> rc_scan_band w = OPC_SCAN_BAND_2_4GHZ)
      then OPC_ERR_RADIO_MODE
      else if radio_bw_token (rc_bandwidth w) = None then OPC_ERR_RADIO_BW
      else 0)"

definition nxp_validate_radio_config :: "opc_set_radio_config_req_t ptr \<Rightarrow> u16" where
  "nxp_validate_radio_config cfg =
     (case cfg of
        None \<Rightarrow> OPC_ERR_RADIO_MODE
      | Some c \<Rightarrow>
          let err = validate_one_radio (wlan1 c) False in
          if err \<noteq> 0 then err
          else if station_type c = OPC_STATION_DUAL then validate_one_radio (wlan2 c) True
          else 0)"

text \<open>The loop that prints the frequencies: the text so far and the number of channels; it stops when the buffer is full.\<close>

fun freqs_loop :: "u16 \<Rightarrow> nat \<Rightarrow> u8 list \<Rightarrow> nat \<times> u8 list \<Rightarrow> nat \<times> u8 list" where
  "freqs_loop band cap [] acc = acc"
| "freqs_loop band cap (ch # chs) (cnt, buf) =
     (let mhz = opc_scan_channel_mhz band ch in
      if mhz = 0 then freqs_loop band cap chs (cnt, buf)
      else let item = (if buf \<noteq> [] then [32] else []) @ dec (unat mhz) in
        if length item \<ge> cap - length buf then (cnt, buf @ take (cap - length buf - 1) item)
        else freqs_loop band cap chs (cnt + 1, buf @ item))"

definition scan_freqs_render :: "opc_wlan_radio_cfg_t \<Rightarrow> nat \<Rightarrow> nat \<times> u8 list" where
  "scan_freqs_render w cap =
     (if rc_scan_band w = OPC_SCAN_BAND_UNSET then (if cap < 5 then (0, []) else (1, bytes_of ''none''))
      else if \<not> opc_scan_band_supported (rc_scan_band w) then (0, [])
      else freqs_loop (rc_scan_band w) cap (snd (opc_scan_list_channels (rc_scan_band w) (rc_scan_chlist w) 64)) (0, []))"

definition nxp_apply_radio_config :: "nxp_env \<Rightarrow> opc_set_radio_config_req_t \<Rightarrow> host \<Rightarrow> int \<times> host" where
  "nxp_apply_radio_config X cfg H =
     (if nxp_validate_radio_config (Some cfg) \<noteq> 0 then (- EOPNOTSUPP, H)
      else let dual = (station_type cfg = OPC_STATION_DUAL);
               f1 = scan_freqs_render (wlan1 cfg) 320;
               f2 = (if dual then scan_freqs_render (wlan2 cfg) 320 else (0, []));
               (rc, H) = (if fst f1 > 0
                  then run_opc_wlan_apply X (bytes_of ''mlan0'') (Some (snd f1)) (radio_mode_token (rc_mode (wlan1 cfg)))
                         (radio_bw_token (rc_bandwidth (wlan1 cfg))) None OPC_WLAN_APPLY_TIMEOUT_MS H
                  else (0, H))
        in if rc \<noteq> 0 then (rc, H)
           else if dual \<and> fst f2 > 0
           then run_opc_wlan_apply X (bytes_of ''mlan1'') (Some (snd f2)) (radio_mode_token (rc_mode (wlan2 cfg)))
                  (radio_bw_token (rc_bandwidth (wlan2 cfg))) None OPC_WLAN_APPLY_TIMEOUT_MS H
           else (0, H))"

subsection \<open>Address change\<close>

function count_set_bits :: "u32 \<Rightarrow> nat" where
  "count_set_bits v = (if v = 0 then 0 else unat (v AND 1) + count_set_bits (drop_bit 1 v))"
  by pat_completeness auto
termination
proof (relation "measure unat")
  fix v :: u32
  assume "v \<noteq> 0"
  then have "unat v > 0" by (simp add: unat_gt_0)
  moreover have "unat (drop_bit 1 v) = unat v div 2" by (simp add: drop_bit_Suc unat_div)
  ultimately show "(drop_bit 1 v, v) \<in> measure unat" by simp
qed simp

declare count_set_bits.simps [simp del]

text \<open>The prefix length of a contiguous, non-empty netmask.\<close>

definition mask_prefix :: "u32 \<Rightarrow> nat option" where
  "mask_prefix m =
     (let prefix = count_set_bits m; recon = (if prefix = 0 then 0 else push_bit (32 - prefix) 0xFFFFFFFF) in
      if prefix < 1 \<or> prefix > 32 \<or> recon \<noteq> m then None else Some prefix)"

definition is_unicast :: "u32 \<Rightarrow> bool" where
  "is_unicast ip \<longleftrightarrow>
     (let hi = drop_bit 24 ip AND 0xFF in \<not> (ip = 0 \<or> ip = 0xFFFFFFFF \<or> hi = 127 \<or> hi \<ge> 224))"

definition ntp_body :: "u32 \<Rightarrow> u8 list" where
  "ntp_body server = bytes_of ''[Time]'' @ [10] @ bytes_of ''NTP='' @ [10] @ bytes_of ''NTP='' @ ipv4_str server @ [10]"

definition timesyncd_restart :: "u8 list" where
  "timesyncd_restart = bytes_of ''systemctl --no-block try-restart systemd-timesyncd.service''"

definition nxp_apply_ntp :: "nxp_env \<Rightarrow> u32 \<Rightarrow> host \<Rightarrow> int \<times> host" where
  "nxp_apply_ntp X server H =
     (if x_mkdir X \<noteq> 0 \<and> x_mkdir X \<noteq> EEXIST then (- x_mkdir X, H)
      else let tmp = OPC_NTP_DROPIN @ bytes_of ''.tmp''; F = h_files H in
        if x_ntp_write X \<noteq> 0 then (- x_ntp_write X, H\<lparr>h_files := F(tmp := None)\<rparr>)
        else if x_ntp_rename X \<noteq> 0 then (- x_ntp_rename X, H\<lparr>h_files := F(tmp := None)\<rparr>)
        else run_sh X timesyncd_restart (H\<lparr>h_files := F(tmp := None, OPC_NTP_DROPIN \<mapsto> ntp_body server)\<rparr>))"

definition nxp_clear_ntp :: "nxp_env \<Rightarrow> host \<Rightarrow> int \<times> host" where
  "nxp_clear_ntp X H =
     (if x_ntp_unlink X \<noteq> 0 \<and> x_ntp_unlink X \<noteq> ENOENT then (- x_ntp_unlink X, H)
      else run_sh X timesyncd_restart
             (if x_ntp_unlink X = 0 then H\<lparr>h_files := (h_files H)(OPC_NTP_DROPIN := None)\<rparr> else H))"

text \<open>The guard against a subnet of the other interface.\<close>

definition subnet_clash :: "files \<Rightarrow> opc_ipcfg_entry_t \<Rightarrow> int \<Rightarrow> bool" where
  "subnet_clash F slot iface =
     (case nxp_get_dev_ipv4 F (if iface = 1 then 0 else 1) of
        None \<Rightarrow> False
      | Some (oip, omask, ogw) \<Rightarrow>
          oip \<noteq> 0 \<and> omask \<noteq> 0 \<and> omask \<noteq> 0xFFFFFFFF
          \<and> (ip_address slot XOR oip) AND subnet_mask slot AND omask = 0)"

definition addr_command :: "u8 list \<Rightarrow> u8 list \<Rightarrow> u8 list \<Rightarrow> u8 list" where
  "addr_command ipbuf p dev =
     bytes_of ''ip addr replace '' @ ipbuf @ bytes_of ''/'' @ p @ bytes_of '' dev '' @ dev @
     bytes_of '' && ip -4 -o addr show dev '' @ dev @ bytes_of '' | grep -q '' @ [39] @ bytes_of ''inet '' @ ipbuf @
     bytes_of ''/'' @ p @ bytes_of '' .*scope global'' @ [39] @ bytes_of '' && ip -4 addr show dev '' @ dev @
     bytes_of '' | awk -v keep='' @ ipbuf @ bytes_of ''/'' @ p @ bytes_of '' '' @ [39] @
     bytes_of ''/scope global/&&!/'' @ [92] @ bytes_of ''/32/&&$2!=keep{print $2}'' @ [39] @
     bytes_of '' | xargs -r -I{} ip addr del {} dev '' @ dev"

definition apply_gateway :: "nxp_env \<Rightarrow> u32 \<Rightarrow> u8 list \<Rightarrow> nat \<Rightarrow> host \<Rightarrow> host" where
  "apply_gateway X gw dev prefix H =
     (if gw \<noteq> 0 \<and> is_unicast gw then
        snd (run_sh X (bytes_of ''ip route replace default via '' @ ipv4_str gw @ bytes_of '' dev '' @ dev
               @ (if prefix = 32 then bytes_of '' onlink'' else [])) H)
      else if gw = 0 then snd (run_sh X (bytes_of ''ip -4 route flush exact 0.0.0.0/0 dev '' @ dev) H)
      else H)"

definition apply_essid :: "nxp_env \<Rightarrow> u8 list \<Rightarrow> u16 \<Rightarrow> host \<Rightarrow> host" where
  "apply_essid X ssid slot_no H =
     (let M = x_marker X; mp = OPC_PATH_ESSID_MARKER; cp = OPC_PATH_WPA_CONF_MLAN0 in
      case opc_essid_marker_arm M (h_files H) mp cp (ucast slot_no) (x_time X) (Some ssid) of
        (mrc, ops) \<Rightarrow>
          let H = H\<lparr>h_files := fs_run ops (h_files H)\<rparr> in
          if mrc \<noteq> 0 then H
          else case run_opc_wlan_apply X (bytes_of ''mlan0'') None None None (Some ssid) OPC_WLAN_APPLY_TIMEOUT_MS H of
                 (erc, H) \<Rightarrow>
                   let r = (if erc = 0 then opc_essid_marker_commit M (h_files H) mp cp
                            else opc_essid_marker_settle M (h_files H) mp cp)
                   in H\<lparr>h_files := fs_run (snd r) (h_files H)\<rparr>)"

definition apply_settings :: "nxp_env \<Rightarrow> opc_ipcfg_entry_t \<Rightarrow> u8 list \<Rightarrow> nat \<Rightarrow> int \<Rightarrow> host \<Rightarrow> host" where
  "apply_settings X slot dev prefix ret H =
     (if ret \<noteq> 0 then H
      else let H = apply_gateway X (default_gateway slot) dev prefix H in
        if ntp_server slot \<noteq> 0 then snd (nxp_apply_ntp X (ntp_server slot) H) else snd (nxp_clear_ntp X H))"

definition apply_slot_essid :: "nxp_env \<Rightarrow> opc_ipcfg_entry_t \<Rightarrow> u16 \<Rightarrow> host \<Rightarrow> host" where
  "apply_slot_essid X slot slot_no H =
     (let ssid = cstr (take OPC_ESSID_FIELD_LEN (essid slot)) in
      if ssid \<noteq> [] then apply_essid X ssid slot_no H else H)"

definition nxp_apply_ip_change :: "nxp_env \<Rightarrow> opc_ipcfg_entry_t \<Rightarrow> int \<Rightarrow> u16 \<Rightarrow> host \<Rightarrow> int \<times> host" where
  "nxp_apply_ip_change X slot iface slot_no H =
     (let dev = (if iface = 1 then bytes_of ''mlan0'' else bytes_of ''eth0'') in
      case mask_prefix (subnet_mask slot) of
        None \<Rightarrow> (- EINVAL, H)
      | Some prefix \<Rightarrow>
          if \<not> is_unicast (ip_address slot) then (- EINVAL, H)
          else if subnet_clash (h_files H) slot iface then (- EADDRNOTAVAIL, H)
          else let cmd = addr_command (ipv4_str (ip_address slot)) (dec prefix) dev in
            if length cmd \<ge> 448 then (- ENAMETOOLONG, H)
            else case run_sh X cmd H of
                   (ret, H) \<Rightarrow> (ret, apply_slot_essid X slot slot_no (apply_settings X slot dev prefix ret H)))"

subsection \<open>Peer routes\<close>

definition peer_command :: "u8 list \<Rightarrow> u8 list \<Rightarrow> u8 list \<Rightarrow> u8 list" where
  "peer_command ipbuf netbuf p =
     bytes_of ''rc=0; new='' @ ipbuf @ bytes_of ''; old=$(ip -4 addr show dev eth0 | awk '' @ [39] @
     bytes_of ''/inet .*'' @ [92] @ bytes_of ''/32/{sub('' @ [34] @ bytes_of ''/32'' @ [34] @ bytes_of '','' @
     [34, 34] @ bytes_of '',$2); print $2; exit}'' @ [39] @
     bytes_of ''); snap=$(ip -4 route show dev eth0 | awk -v o='' @ [34] @ bytes_of ''$old'' @ [34] @
     bytes_of '' -v n='' @ [34] @ bytes_of ''$new'' @ [34] @ bytes_of '' '' @ [39] @
     bytes_of ''/proto kernel/{next} {for(i=1;i<NF;i++) if($i=='' @ [34] @ bytes_of ''src'' @ [34] @
     bytes_of ''&&$(i+1)==o){$(i+1)=n}; gsub(/(^| )(linkdown|dead|offload|trap|notify)( |$)/,'' @ [34] @
     bytes_of '' '' @ [34] @ bytes_of ''); print}'' @ [39] @ bytes_of ''); ip addr replace '' @ [34] @
     bytes_of ''$new/32'' @ [34] @ bytes_of '' dev eth0 || rc=1; ip -4 addr show dev eth0 | awk '' @ [39] @
     bytes_of ''/inet .*'' @ [92] @ bytes_of ''/32/{print $2}'' @ [39] @ bytes_of '' | while read -r a; do [ '' @
     [34] @ bytes_of ''$a'' @ [34] @ bytes_of '' = '' @ [34] @ bytes_of ''$new/32'' @ [34] @
     bytes_of '' ] || ip addr del '' @ [34] @ bytes_of ''$a'' @ [34] @
     bytes_of '' dev eth0 || exit 1; done || rc=1; ip -4 addr show dev eth0 | awk '' @ [39] @
     bytes_of ''/inet .*scope global/&&!/'' @ [92] @ bytes_of ''/32/{b=($3=='' @ [34] @ bytes_of ''brd'' @ [34] @
     bytes_of '')?'' @ [34] @ bytes_of '' brd '' @ [34] @ bytes_of ''$4:'' @ [34, 34] @ bytes_of ''; print $2 b}'' @
     [39] @
     bytes_of '' | while read -r a; do ip addr del $a dev eth0 2>/dev/null; ip addr add $a dev eth0 || exit 1; done || rc=1; ip route flush table 100 2>/dev/null; ip route replace '' @
     netbuf @ bytes_of ''/'' @ p @ bytes_of '' dev eth0 scope link table 100 || rc=1; printf '' @ [39] @
     bytes_of ''%s'' @ [92] @ bytes_of ''n'' @ [39] @ bytes_of '' '' @ [34] @ bytes_of ''$snap'' @ [34] @
     bytes_of '' | while read -r r; do [ -n '' @ [34] @ bytes_of ''$r'' @ [34] @
     bytes_of '' ] || continue; ip route replace $r dev eth0 || exit 1; done || rc=1; exit $rc''"

definition nxp_peer_route_refresh :: "nxp_env \<Rightarrow> u32 \<Rightarrow> u32 \<Rightarrow> host \<Rightarrow> int \<times> host" where
  "nxp_peer_route_refresh X ip_host netmask_host H =
     (let prefix = count_set_bits netmask_host in
      if prefix < 1 \<or> prefix > 32
         \<or> netmask_host \<noteq> (if prefix = 32 then 0xFFFFFFFF else NOT (drop_bit prefix 0xFFFFFFFF))
      then (- EINVAL, H)
      else let cmd = peer_command (ipv4_str ip_host) (ipv4_str (ip_host AND netmask_host)) (dec prefix) in
        if length cmd \<ge> 1400 then (- ENAMETOOLONG, H) else run_sh X cmd H)"

subsection \<open>Reboot\<close>

definition nxp_stop_signal_arrives :: "sig_wait list \<Rightarrow> bool" where
  "nxp_stop_signal_arrives ws = stop_loop ws"

definition reboot_argv :: argv where
  "reboot_argv = map bytes_of [''wlan_reboot_policy.sh'', ''--source'', ''opc_reset'', ''--reason'', ''opc_reset_command'', ''--force'']"

definition nxp_prepare_reset :: "nxp_env \<Rightarrow> host \<Rightarrow> int \<times> host" where
  "nxp_prepare_reset X H =
     (case run_cmd X reboot_argv OPC_RESET_SCRIPT_TIMEOUT_MS H of
        (rc, st, H) \<Rightarrow>
          if rc = 0 then (0, H)
          else if rc = - ETIMEDOUT then (0, H)
          else case (rc = - EPROTO, st) of
                 (True, Some (Signaled sg)) \<Rightarrow> if sg = 15 then (0, H) else (OPC_RESET_UNCONFIRMED, H)
               | (True, Some (Exited code)) \<Rightarrow>
                   if code = 126 \<or> code = 127 then (code, H)
                   else if nxp_stop_signal_arrives (x_stop_waits X) then (0, H)
                   else (if code \<noteq> 0 then code else - EPROTO, H)
               | _ \<Rightarrow> (rc, H))"

subsection \<open>The table of functions\<close>

text \<open>The surroundings and the host at the \<open>n\<close>-th call that changes something, and at the calls that only read.\<close>

definition g_nxp_ops :: "nxp_env \<Rightarrow> files \<Rightarrow> fw_state \<Rightarrow> (nat \<Rightarrow> nxp_env) \<Rightarrow> (nat \<Rightarrow> host) \<Rightarrow> opcd_platform_ops_t" where
  "g_nxp_ops X F fw Xs Hs = \<lparr>
     get_eth_mac = Some (snd (nxp_get_eth_mac F (replicate 6 0))),
     get_dev_ipv4 = nxp_get_dev_ipv4 F,
     lookup_direct_route = nxp_lookup_direct_route (x_route X),
     get_wlan_mac = (\<lambda>idx. Some (snd (nxp_get_wlan_mac F (x_access X) idx (replicate 6 0)))),
     get_essid = (\<lambda>idx. nxp_get_essid (x_marker X) F (x_access X) idx OPC_ESSID_FIELD_LEN),
     get_firmware_version = nxp_get_firmware_version fw OPC_VERSION_FIELD_LEN,
     get_ntp_server = nxp_get_ntp_server F,
     get_wlan_count = nxp_get_wlan_count (x_access X),
     get_link = (\<lambda>idx. map_option opcd_platform_link_t.truncate (nxp_get_link F (x_access X) idx)),
     validate_radio_config = (\<lambda>cfg. nxp_validate_radio_config (Some cfg)),
     apply_radio_config = (\<lambda>n cfg. fst (nxp_apply_radio_config (Xs n) cfg (Hs n))),
     apply_ip_change = (\<lambda>n slot iface slot_no. fst (nxp_apply_ip_change (Xs n) slot iface slot_no (Hs n))),
     peer_route_refresh = (\<lambda>n ip msk. fst (nxp_peer_route_refresh (Xs n) ip msk (Hs n))),
     prepare_reset = (\<lambda>n. fst (nxp_prepare_reset (Xs n) (Hs n)))\<rparr>"

end
