(* ===== verification/Nxp_Claims.thy ===== *)
theory Nxp_Claims
  imports Nxp_Apply Essid_Chain
begin

text \<open>
  Properties of the NXP platform: the bounded run of a helper, the guards of the address change, the volatility of the
  ESSID across whole address changes, the classification of a reset and the retries of the firmware query.
\<close>

subsection \<open>Bounded runs\<close>

lemma run_loop_signals:
  "run_loop timeout term_at reaped started ts = (rc, st, sgs) \<Longrightarrow>
     (st \<noteq> None \<longrightarrow> sgs = [] \<and> \<not> started \<and> rc = run_result (the st))
     \<and> sgs \<in> (if started then {[], [KillGroup]} else {[], [TermGroup], [KillGroup], [TermGroup, KillGroup]})"
proof (induction ts arbitrary: reaped started rc st sgs)
  case Nil
  then show ?case by (auto split: if_splits)
next
  case (Cons t ts)
  let ?start = "\<not> started \<and> rt_elapsed_ms t \<ge> term_at"
  let ?reaped = "reaped \<or> poll_exit (rt_wait t) \<noteq> None"
  obtain rc' st' sgs' where r: "run_loop timeout term_at ?reaped (started \<or> ?start) ts = (rc', st', sgs')" by (rule prod_cases3)
  have e: "(reaped \<or> (if reaped then None else poll_exit (rt_wait t)) \<noteq> None) = ?reaped" by simp
  note IH = Cons.IH [OF r]
  from Cons.prems show ?case
    unfolding run_loop.simps Let_def e r
    using IH by (auto split: if_splits)
qed

text \<open>Turns after the one that sees the deadline do not matter.\<close>

lemma run_loop_deadline:
  "rt_elapsed_ms t \<ge> timeout \<Longrightarrow>
    run_loop timeout term_at reaped started (ts1 @ t # ts2) = run_loop timeout term_at reaped started (ts1 @ [t])"
  by (induction ts1 arbitrary: reaped started) (simp_all add: Let_def)

lemma run_loop_code:
  "run_loop timeout term_at reaped started ts = (rc, None, sgs) \<Longrightarrow>
    rc = - ETIMEDOUT \<or> (\<exists>t \<in> set ts. poll_err (rt_wait t) = Some (- rc))"
proof (induction ts arbitrary: reaped started rc sgs)
  case (Cons t ts)
  let ?start = "\<not> started \<and> rt_elapsed_ms t \<ge> term_at"
  let ?reaped = "reaped \<or> poll_exit (rt_wait t) \<noteq> None"
  obtain rc' st' sgs' where r: "run_loop timeout term_at ?reaped (started \<or> ?start) ts = (rc', st', sgs')" by (rule prod_cases3)
  have e: "(reaped \<or> (if reaped then None else poll_exit (rt_wait t)) \<noteq> None) = ?reaped" by simp
  from Cons.prems show ?case
    unfolding run_loop.simps Let_def e r
    using Cons.IH [of ?reaped "started \<or> ?start" rc' sgs'] r by (auto split: if_splits)
qed simp

subsection \<open>Address changes and the ESSID\<close>

abbreviation marker_path :: path where "marker_path \<equiv> OPC_PATH_ESSID_MARKER"
abbreviation conf_path :: path where "conf_path \<equiv> OPC_PATH_WPA_CONF_MLAN0"

definition essid_argv :: "u8 list \<Rightarrow> argv" where
  "essid_argv req = [bytes_of ''opc_wlan_apply.sh'', bytes_of ''mlan0'', bytes_of ''ssid'', req]"

text \<open>What the platform relies on: the helper keeps its contract, and the commands run by the shell (\<open>ip\<close>, \<open>systemctl\<close>)
  write neither the marker nor the configuration.\<close>

definition effects_ok :: "nxp_env \<Rightarrow> bool" where
  "effects_ok X \<longleftrightarrow> helper_ok conf_path (\<lambda>F req. (0, x_effect X (essid_argv req) F))
     \<and> (\<forall>args F. x_effect X (bytes_of ''sh'' # args) F marker_path = F marker_path
          \<and> x_effect X (bytes_of ''sh'' # args) F conf_path = F conf_path)"

definition change_env_ok :: "nxp_env \<Rightarrow> bool" where
  "change_env_ok X \<longleftrightarrow> effects_ok X \<and> calls_ok (x_marker X) \<and> - LONG_MAX - 1 \<le> x_time X \<and> x_time X \<le> LONG_MAX"

type_synonym ip_change = "nxp_env \<times> opc_ipcfg_entry_t \<times> int \<times> u16"

definition ip_changes :: "ip_change list \<Rightarrow> host \<Rightarrow> host" where
  "ip_changes cs H = fold (\<lambda>(X, slot, iface, slot_no) H. snd (nxp_apply_ip_change X slot iface slot_no H)) cs H"

lemma nxp_paths_apart: "paths_apart marker_path conf_path"
  by (simp add: paths_apart_def marker_tmp_def OPC_PATH_ESSID_MARKER_def OPC_PATH_WPA_CONF_MLAN0_def bytes_of_def)

lemma ntp_paths:
  "marker_path \<noteq> OPC_NTP_DROPIN" "conf_path \<noteq> OPC_NTP_DROPIN"
  "marker_path \<noteq> OPC_NTP_DROPIN @ s" "conf_path \<noteq> OPC_NTP_DROPIN @ s"
  by (simp_all add: OPC_PATH_ESSID_MARKER_def OPC_PATH_WPA_CONF_MLAN0_def OPC_NTP_DROPIN_def bytes_of_def)

abbreviation same_conf :: "host \<Rightarrow> host \<Rightarrow> bool" where
  "same_conf H H' \<equiv> h_files H' marker_path = h_files H marker_path \<and> h_files H' conf_path = h_files H conf_path"

lemma run_sh_same: "effects_ok X \<Longrightarrow> same_conf H (snd (run_sh X cmd H))"
  by (simp add: run_sh_def run_cmd_def effects_ok_def split: prod.splits)

lemma apply_ntp_same: "effects_ok X \<Longrightarrow> same_conf H (snd (nxp_apply_ntp X server H))"
  using run_sh_same [of X _ "H\<lparr>h_files := (h_files H)(OPC_NTP_DROPIN @ bytes_of ''.tmp'' := None, OPC_NTP_DROPIN \<mapsto> ntp_body server)\<rparr>"]
  by (simp add: nxp_apply_ntp_def Let_def ntp_paths)

lemma clear_ntp_same: "effects_ok X \<Longrightarrow> same_conf H (snd (nxp_clear_ntp X H))"
  using run_sh_same [of X _ H] run_sh_same [of X _ "H\<lparr>h_files := (h_files H)(OPC_NTP_DROPIN := None)\<rparr>"]
  by (simp add: nxp_clear_ntp_def ntp_paths)

lemma apply_gateway_same: "effects_ok X \<Longrightarrow> same_conf H (apply_gateway X gw dev prefix H)"
  using run_sh_same [of X _ H] by (simp add: apply_gateway_def)

lemma chain_inv_same:
  "chain_inv mp cp h orig t F \<Longrightarrow> G mp = F mp \<Longrightarrow> G cp = F cp \<Longrightarrow> chain_inv mp cp h orig t G"
  by (auto simp: chain_inv_def chain_at_def)

lemma run_essid_files:
  "ssid \<noteq> [] \<Longrightarrow> h_files (snd (run_opc_wlan_apply X (bytes_of ''mlan0'') None None None (Some ssid) ms H))
    = (if rn_fork (x_calls X (essid_argv ssid)) \<noteq> 0 then h_files H else x_effect X (essid_argv ssid) (h_files H))"
  by (simp add: run_opc_wlan_apply_def run_cmd_def Let_def opt_arg_def essid_argv_def split: prod.splits)

lemma inv_apply_essid:
  assumes "conf_base h orig t" "chain_inv marker_path conf_path h orig t (h_files H)" "change_env_ok X" "ssid \<noteq> []"
  shows "chain_inv marker_path conf_path h orig t (h_files (apply_essid X ssid slot_no H))"
proof -
  let ?M = "x_marker X"
  have M: "calls_ok ?M" "- LONG_MAX - 1 \<le> x_time X" "x_time X \<le> LONG_MAX" "effects_ok X"
    using assms(3) by (simp_all add: change_env_ok_def)
  obtain mrc ops where a: "opc_essid_marker_arm ?M (h_files H) marker_path conf_path (ucast slot_no) (x_time X) (Some ssid) = (mrc, ops)"
    by fastforce
  let ?F1 = "fs_run ops (h_files H)"
  have inv1: "chain_inv marker_path conf_path h orig t ?F1"
    using chain_arm [OF assms(1,2) nxp_paths_apart M(1-3), of "length ops" "ucast slot_no" ssid] a by simp
  show ?thesis
  proof (cases "mrc = 0")
    case False
    with a inv1 show ?thesis by (simp add: apply_essid_def Let_def)
  next
    case True
    define F2 where "F2 = (if rn_fork (x_calls X (essid_argv ssid)) \<noteq> 0 then ?F1 else x_effect X (essid_argv ssid) ?F1)"
    have "chain_inv marker_path conf_path h orig t (x_effect X (essid_argv ssid) ?F1)"
      using inv_install [OF assms(1,2) nxp_paths_apart M(1-3) _ a [unfolded True], of "\<lambda>F req. (0, x_effect X (essid_argv req) F)"]
        M(4) by (simp add: effects_ok_def)
    with inv1 have inv2: "chain_inv marker_path conf_path h orig t F2" by (simp add: F2_def)
    obtain erc H2 where r: "run_opc_wlan_apply X (bytes_of ''mlan0'') None None None (Some ssid) OPC_WLAN_APPLY_TIMEOUT_MS
        (H\<lparr>h_files := ?F1\<rparr>) = (erc, H2)"
      by fastforce
    have H2: "h_files H2 = F2"
      using run_essid_files [OF assms(4), of X OPC_WLAN_APPLY_TIMEOUT_MS "H\<lparr>h_files := ?F1\<rparr>"] r by (simp add: F2_def)
    have "chain_inv marker_path conf_path h orig t
        (fs_run (snd (if erc = 0 then opc_essid_marker_commit ?M F2 marker_path conf_path
                      else opc_essid_marker_settle ?M F2 marker_path conf_path)) F2)"
      using inv_commit [OF assms(1) inv2 nxp_paths_apart M(1), of "length (snd (opc_essid_marker_commit ?M F2 marker_path conf_path))"]
        inv_settle [OF assms(1) inv2 nxp_paths_apart M(1), of "length (snd (opc_essid_marker_settle ?M F2 marker_path conf_path))"]
      by simp
    with r H2 a True show ?thesis by (cases "erc = 0") (simp_all add: apply_essid_def Let_def)
  qed
qed

lemma settings_same: "effects_ok X \<Longrightarrow> same_conf H (apply_settings X slot dev prefix ret H)"
  using apply_gateway_same [of X] apply_ntp_same [of X] clear_ntp_same [of X] by (simp add: apply_settings_def Let_def)

lemma inv_slot_essid:
  assumes "conf_base h orig t" "chain_inv marker_path conf_path h orig t (h_files H)" "change_env_ok X"
  shows "chain_inv marker_path conf_path h orig t (h_files (apply_slot_essid X slot slot_no H))"
  using inv_apply_essid [OF assms] assms(2) by (simp add: apply_slot_essid_def Let_def)

lemma inv_ip_change:
  assumes "conf_base h orig t" "chain_inv marker_path conf_path h orig t (h_files H)" "change_env_ok X"
  shows "chain_inv marker_path conf_path h orig t (h_files (snd (nxp_apply_ip_change X slot iface slot_no H)))"
proof (cases "mask_prefix (subnet_mask slot)")
  case (Some p)
  let ?dev = "if iface = 1 then bytes_of ''mlan0'' else bytes_of ''eth0''"
  let ?cmd = "addr_command (ipv4_str (ip_address slot)) (dec p) ?dev"
  have X: "effects_ok X" using assms(3) by (simp add: change_env_ok_def)
  obtain ret G where r: "run_sh X ?cmd H = (ret, G)" by fastforce
  have "same_conf H (apply_settings X slot ?dev p ret G)"
    using run_sh_same [OF X, of ?cmd H] settings_same [OF X, where H = G and slot = slot and dev = ?dev and prefix = p and ret = ret] r by (metis snd_conv)
  then have "chain_inv marker_path conf_path h orig t (h_files (apply_settings X slot ?dev p ret G))"
    using chain_inv_same [OF assms(2)] by blast
  from inv_slot_essid [OF assms(1) this assms(3)] assms(2) Some r show ?thesis
    unfolding nxp_apply_ip_change_def Let_def Some by (simp only: option.case r prod.case if_distrib [of snd] snd_conv split: if_split) simp
qed (use assms(2) in \<open>simp add: nxp_apply_ip_change_def\<close>)

lemma inv_ip_changes:
  assumes "conf_base h orig t" "chain_inv marker_path conf_path h orig t (h_files H)" "list_all (\<lambda>(X, _). change_env_ok X) cs"
  shows "chain_inv marker_path conf_path h orig t (h_files (ip_changes cs H))"
  using assms(2,3)
proof (induction cs arbitrary: H)
  case (Cons c cs)
  obtain X slot iface slot_no where c: "c = (X, slot, iface, slot_no)" by (rule prod_cases4)
  from Cons.prems c have "chain_inv marker_path conf_path h orig t (h_files (snd (nxp_apply_ip_change X slot iface slot_no H)))"
    by (intro inv_ip_change [OF assms(1)]) auto
  from Cons.IH [OF this] Cons.prems c show ?case by (simp add: ip_changes_def)
qed (simp add: ip_changes_def)

subsection \<open>Guards of the address change\<close>

lemma count_set_bits_mask: "1 \<le> p \<Longrightarrow> p \<le> 32 \<Longrightarrow> count_set_bits (push_bit (32 - p) 0xFFFFFFFF) = p"
proof -
  have "list_all (\<lambda>p. count_set_bits (push_bit (32 - p) 0xFFFFFFFF) = p) [1 ..< 33]" by code_simp
  then show "1 \<le> p \<Longrightarrow> p \<le> 32 \<Longrightarrow> count_set_bits (push_bit (32 - p) 0xFFFFFFFF) = p" by (auto simp: list_all_iff)
qed

lemma mask_prefix_iff: "mask_prefix m = Some p \<longleftrightarrow> 1 \<le> p \<and> p \<le> 32 \<and> m = push_bit (32 - p) 0xFFFFFFFF"
  using count_set_bits_mask [of p] by (auto simp: mask_prefix_def Let_def split: if_splits)

lemma addr_command_fits: "p \<le> 32 \<Longrightarrow> length (addr_command (ipv4_str ip) (dec p) (if b then bytes_of ''mlan0'' else bytes_of ''eth0'')) < 448"
  using length_ipv4_str [of ip] length_dec_le [of p 1] by (simp add: addr_command_def bytes_of_def)

text \<open>The shell commands that a run adds to the log.\<close>

abbreviation is_sh :: "argv \<Rightarrow> bool" where "is_sh a \<equiv> hd a = bytes_of ''sh''"
abbreviation sh_argv :: "u8 list \<Rightarrow> argv" where "sh_argv cmd \<equiv> [bytes_of ''sh'', bytes_of ''-c'', cmd]"

definition adds :: "host \<Rightarrow> host \<Rightarrow> argv list \<Rightarrow> bool" where
  "adds H H' cmds \<longleftrightarrow> h_log H' = h_log H @ cmds"

lemma adds_trans: "adds H G a \<Longrightarrow> adds G K b \<Longrightarrow> adds H K (a @ b)"
  by (simp add: adds_def)

lemma run_sh_adds: "run_sh X cmd H = (rc, G) \<Longrightarrow> adds H G [sh_argv cmd] \<or> (adds H G [] \<and> rc \<noteq> 0)"
  by (auto simp: run_sh_def run_cmd_def adds_def run_argv_bounded_status_def split: prod.splits if_splits)

lemma run_sh_log: "\<exists>cmds. adds H (snd (run_sh X cmd H)) cmds"
proof -
  obtain rc G where "run_sh X cmd H = (rc, G)" by fastforce
  with run_sh_adds [OF this] show ?thesis by auto
qed

lemma run_sh_log_files: "\<exists>cmds. h_log (snd (run_sh X cmd (H\<lparr>h_files := F\<rparr>))) = h_log H @ cmds"
  using run_sh_log [of "H\<lparr>h_files := F\<rparr>" X cmd] by (simp add: adds_def)

lemma settings_adds: "\<exists>cmds. adds H (apply_settings X slot dev prefix 0 H) cmds"
proof -
  have g: "\<exists>cmds. adds H (apply_gateway X gw dev prefix H) cmds" for gw
    using run_sh_log by (auto simp: apply_gateway_def adds_def)
  have n: "\<exists>cmds. adds H (snd (nxp_apply_ntp X s H)) cmds" "\<exists>cmds. adds H (snd (nxp_clear_ntp X H)) cmds" for s H
    using run_sh_log [of H X timesyncd_restart] run_sh_log_files [where X = X and cmd = timesyncd_restart and H = H]
    by (auto simp: nxp_apply_ntp_def nxp_clear_ntp_def Let_def adds_def)
  from g n adds_trans show ?thesis by (simp add: apply_settings_def Let_def) meson
qed

lemma slot_essid_adds: "\<exists>cmds. adds H (apply_slot_essid X slot slot_no H) cmds \<and> filter is_sh cmds = []"
proof -
  have sh: "bytes_of ''opc_wlan_apply.sh'' \<noteq> bytes_of ''sh''" by (simp add: bytes_of_def)
  have run: "\<exists>cmds. h_log (snd (run_opc_wlan_apply X iface f m b s ms (H\<lparr>h_files := F\<rparr>))) = h_log H @ cmds \<and> filter is_sh cmds = []"
    for iface f m b s ms F
    using sh by (auto simp: run_opc_wlan_apply_def run_cmd_def Let_def split: prod.splits)
  show ?thesis
    by (simp add: apply_slot_essid_def apply_essid_def adds_def Let_def split: prod.splits) (metis run snd_conv)
qed

subsection \<open>Firmware version\<close>

definition fw_ticks :: "(fw_calls \<times> u32) list \<Rightarrow> fw_state \<Rightarrow> nat \<times> fw_state" where
  "fw_ticks ts s = fold (\<lambda>(c, elapsed) (n, s).
     case nxp_refresh_firmware_version c elapsed s of (q, s) \<Rightarrow> (n + (if q then 1 else 0), s)) ts (0, s)"

lemma fw_tick:
  assumes "nxp_refresh_firmware_version c elapsed s = (q, s')" "unat (g_fw_retry_wait_s s) < 60"
  shows "(if q then 1 else 0) + g_fw_retries_left s' = g_fw_retries_left s" "unat (g_fw_retry_wait_s s') < 60"
    and "60 * (if q then 1 else 0) + unat (g_fw_retry_wait_s s') \<le> unat (g_fw_retry_wait_s s) + unat elapsed"
    and "cstr (g_fw_cache s) \<noteq> [] \<Longrightarrow> \<not> q \<and> s' = s"
proof -
  have w: "unat (60 - g_fw_retry_wait_s s) = 60 - unat (g_fw_retry_wait_s s)"
    using assms(2) by (subst unat_sub) (simp_all add: word_le_nat_alt)
  have a: "unat (g_fw_retry_wait_s s + elapsed) = unat (g_fw_retry_wait_s s) + unat elapsed"
    if "\<not> 60 - g_fw_retry_wait_s s \<le> elapsed"
    using that assms(2) w by (subst unat_word_ariths) (simp add: word_le_nat_alt)
  show "(if q then 1 else 0) + g_fw_retries_left s' = g_fw_retries_left s" "cstr (g_fw_cache s) \<noteq> [] \<Longrightarrow> \<not> q \<and> s' = s"
    using assms(1) by (auto simp: nxp_refresh_firmware_version_def fw_cache_query_def Let_def split: if_splits)
  show "unat (g_fw_retry_wait_s s') < 60"
      "60 * (if q then 1 else 0) + unat (g_fw_retry_wait_s s') \<le> unat (g_fw_retry_wait_s s) + unat elapsed"
    using assms w a by (auto simp: nxp_refresh_firmware_version_def fw_cache_query_def Let_def word_le_nat_alt word_less_nat_alt split: if_splits)
qed

lemma fw_ticks_bound:
  assumes "unat (g_fw_retry_wait_s s) < 60"
  shows "fst (fw_ticks ts s) + g_fw_retries_left (snd (fw_ticks ts s)) = g_fw_retries_left s
    \<and> 60 * fst (fw_ticks ts s) + unat (g_fw_retry_wait_s (snd (fw_ticks ts s)))
        \<le> unat (g_fw_retry_wait_s s) + sum_list (map (\<lambda>t. unat (snd t)) ts)
    \<and> unat (g_fw_retry_wait_s (snd (fw_ticks ts s))) < 60
    \<and> (cstr (g_fw_cache s) \<noteq> [] \<longrightarrow> fw_ticks ts s = (0, s))"
proof (induction ts rule: rev_induct)
  case Nil
  show ?case using assms by (simp add: fw_ticks_def)
next
  case (snoc t ts)
  obtain c e where t: "t = (c, e)" by (cases t)
  obtain n s1 where f: "fw_ticks ts s = (n, s1)" by fastforce
  obtain q s2 where r: "nxp_refresh_firmware_version c e s1 = (q, s2)" by fastforce
  have g: "fw_ticks (ts @ [t]) s = (n + (if q then 1 else 0), s2)" using f r t by (simp add: fw_ticks_def)
  from snoc f have IH: "n + g_fw_retries_left s1 = g_fw_retries_left s" "unat (g_fw_retry_wait_s s1) < 60"
      "60 * n + unat (g_fw_retry_wait_s s1) \<le> unat (g_fw_retry_wait_s s) + sum_list (map (\<lambda>t. unat (snd t)) ts)"
      "cstr (g_fw_cache s) \<noteq> [] \<longrightarrow> n = 0 \<and> s1 = s"
    by simp_all
  from fw_tick [OF r IH(2)] IH t show ?case unfolding g by auto
qed

subsection \<open>Properties\<close>


definition ex_run_calls :: run_calls where
  "ex_run_calls = \<lparr>rn_fork = 0, rn_setpgid = 0,
     rn_turns = [\<lparr>rt_wait = ChildRunning, rt_group_gone = False, rt_elapsed_ms = 760\<rparr>,
                 \<lparr>rt_wait = ChildRunning, rt_group_gone = False, rt_elapsed_ms = 900\<rparr>,
                 \<lparr>rt_wait = ChildExit (Exited 0), rt_group_gone = True, rt_elapsed_ms = 910\<rparr>]\<rparr>"



definition ex_nxp_env :: nxp_env where
  "ex_nxp_env = \<lparr>x_calls = (\<lambda>_. \<lparr>rn_fork = 0, rn_setpgid = 0,
       rn_turns = [\<lparr>rt_wait = ChildExit (Exited 0), rt_group_gone = True, rt_elapsed_ms = 20\<rparr>]\<rparr>),
     x_effect = (\<lambda>a F. if hd a = bytes_of ''sh'' then F else snd (quoting_helper conf_path F (last a))),
     x_marker = env_ok, x_time = 0, x_access = 2, x_mkdir = 0, x_ntp_write = 0, x_ntp_rename = 0, x_ntp_unlink = 2,
     x_route = None, x_stop_waits = []\<rparr>"

definition ex_slot :: opc_ipcfg_entry_t where
  "ex_slot = \<lparr>boundary_flag = 0, list_number = 1, ip_address = 0xC0A80105, subnet_mask = 0xFFFFFF00, default_gateway = 0,
     ntp_server = 0, essid = 98 # replicate 31 0\<rparr>"

definition ex_host :: host where
  "ex_host = \<lparr>h_files = [conf_path \<mapsto> ex_head @ [34, 97, 34] @ ex_tail], h_log = []\<rparr>"

lemma ex_nxp_env_ok: "change_env_ok ex_nxp_env"
proof -
  have "helper_ok conf_path (\<lambda>F req. (0, snd (quoting_helper conf_path F req)))"
    using helper_okD [OF quoting_helper_ok [of conf_path] prod.collapse [symmetric]]
    unfolding helper_ok_def by simp
  moreover have "bytes_of ''opc_wlan_apply.sh'' \<noteq> bytes_of ''sh''" by (simp add: bytes_of_def)
  ultimately show ?thesis
    by (simp add: change_env_ok_def effects_ok_def ex_nxp_env_def essid_argv_def LONG_MAX_def)
qed






end
