(* ===== verification/Cprintf.thy ===== *)
theory Cprintf
  imports Essid_Marker
begin

text \<open>
  The conversions of \<open>printf\<close> that the status file and the client use, as functions to byte strings: hexadecimal and
  decimal numbers with a minimal width, strings with a minimal width, and the truncation of \<open>snprintf\<close>.
\<close>

definition hexd :: "nat \<Rightarrow> u8" where
  "hexd n = (if n < 10 then of_nat (48 + n) else of_nat (87 + n))"

fun hex_str :: "nat \<Rightarrow> u8 list" where
  "hex_str n = (if n < 16 then [hexd n] else hex_str (n div 16) @ [hexd (n mod 16)])"

declare hex_str.simps [simp del]

definition pad_left :: "u8 \<Rightarrow> nat \<Rightarrow> u8 list \<Rightarrow> u8 list" where
  "pad_left c w s = replicate (w - length s) c @ s"

definition pad_right :: "nat \<Rightarrow> u8 list \<Rightarrow> u8 list" where
  "pad_right w s = s @ replicate (w - length s) 32"

text \<open>\<open>%0wx\<close> and \<open>%0wu\<close>.\<close>

definition hexw :: "nat \<Rightarrow> nat \<Rightarrow> u8 list" where
  "hexw w n = pad_left 48 w (hex_str n)"

definition decw :: "nat \<Rightarrow> nat \<Rightarrow> u8 list" where
  "decw w n = pad_left 48 w (dec n)"

text \<open>The string that \<open>snprintf\<close> leaves in a buffer of the given size.\<close>

definition snprintf_str :: "nat \<Rightarrow> u8 list \<Rightarrow> u8 list" where
  "snprintf_str cap s = take (cap - 1) s"

text \<open>Six bytes as \<open>%02x:%02x:%02x:%02x:%02x:%02x\<close>.\<close>

definition mac_text :: "u8 list \<Rightarrow> u8 list" where
  "mac_text p = hex2 (p ! 0) @ [58] @ hex2 (p ! 1) @ [58] @ hex2 (p ! 2) @ [58] @ hex2 (p ! 3) @ [58]
     @ hex2 (p ! 4) @ [58] @ hex2 (p ! 5)"

lemma hex2_hexw: "hexw 2 (unat c) = hex2 c"
proof -
  have "unat c < 256" using unsigned_less [of c] by simp
  then have "unat c div 16 < 16" by linarith
  then show ?thesis
    by (auto simp: hexw_def pad_left_def hex2_def hexd_def hex_str.simps [of "unat c"] hex_str.simps [of "unat c div 16"])
qed

lemma length_hex2 [simp]: "length (hex2 c) = 2"
  by (simp add: hex2_def Let_def)

lemma length_mac_text [simp]: "length (mac_text p) = 17"
  by (simp add: mac_text_def)

end
