(* ===== verification/Fielddump.thy ===== *)
theory Fielddump
  imports Cprintf Indications
begin

text \<open>
  \<open>vhlctl/fielddump.c\<close>: the field by field print of a frame. The tables give the label, the length and the kind of each
  field; the walker adds the lengths up to offsets. The lemmas tie the tables to the codec: every line of the print of a
  packed frame shows the bytes of the field that it names.
\<close>

datatype fd_kind_t = FD_HEX | FD_U8 | FD_I8 | FD_U16BE | FD_I16BE | FD_U32BE | FD_MAC | FD_STR | FD_DATE | FD_IPV4

record fd_field_t =
  ff_label :: string
  ff_len :: nat
  ff_kind :: fd_kind_t

subsection \<open>One field\<close>

fun hex_loop :: "nat \<Rightarrow> u8 list \<Rightarrow> u8 list \<Rightarrow> u8 list" where
  "hex_loop cap out [] = out"
| "hex_loop cap out (b # bs) = (if length out + 4 < cap then hex_loop cap (out @ hex2 b @ [32]) bs else out)"

definition build_hex :: "nat \<Rightarrow> u8 list \<Rightarrow> nat \<Rightarrow> u8 list" where
  "build_hex cap p len =
     (let shown = min len 16; out = hex_loop cap [] (take shown p);
          out = (if out \<noteq> [] \<and> last out = 32 then butlast out else out)
      in if len > shown \<and> length out + 5 < cap then out @ bytes_of '' ...'' else out)"

definition printable :: "u8 \<Rightarrow> u8" where
  "printable c = (if c \<ge> 0x20 \<and> c < 0x7F then c else 46)"

definition build_decoded :: "nat \<Rightarrow> u8 list \<Rightarrow> fd_field_t \<Rightarrow> u8 list" where
  "build_decoded cap p f =
     (let b = (\<lambda>i. unat (p ! i)); v16 = unat (opc_be16_read p) in
      snprintf_str cap
        (case ff_kind f of
           FD_HEX \<Rightarrow> []
         | FD_U8 \<Rightarrow> dec (b 0) @ bytes_of '' (0x'' @ hexw 2 (b 0) @ bytes_of '')''
         | FD_I8 \<Rightarrow> dec_int (sint (p ! 0))
         | FD_U16BE \<Rightarrow> bytes_of ''0x'' @ hexw 4 v16 @ bytes_of '' ('' @ dec v16 @ bytes_of '')''
         | FD_I16BE \<Rightarrow> dec_int (sint (opc_be16_read p))
         | FD_U32BE \<Rightarrow> bytes_of ''0x'' @ hexw 8 (unat (opc_be32_read p))
         | FD_MAC \<Rightarrow> mac_text p
         | FD_STR \<Rightarrow> [39] @ map printable (cstr (take (min (ff_len f) 63) p)) @ [39]
         | FD_DATE \<Rightarrow> decw 4 v16 @ bytes_of ''-'' @ decw 2 (b 2) @ bytes_of ''-'' @ decw 2 (b 3)
         | FD_IPV4 \<Rightarrow> dec (b 0) @ bytes_of ''.'' @ dec (b 1) @ bytes_of ''.'' @ dec (b 2) @ bytes_of ''.'' @ dec (b 3)))"

text \<open>The start of every line: label, offset and length.\<close>

definition field_head :: "fd_field_t \<Rightarrow> nat \<Rightarrow> u8 list" where
  "field_head f off =
     bytes_of ''  '' @ pad_right 18 (bytes_of (ff_label f)) @ bytes_of '' @'' @ decw 3 off @ bytes_of '' (''
       @ pad_left 32 2 (dec (ff_len f)) @ bytes_of ''B): ''"

text \<open>The text left in \<open>out\<close>.\<close>

definition fd_render :: "nat \<Rightarrow> u8 list ptr \<Rightarrow> nat \<Rightarrow> nat \<Rightarrow> fd_field_t ptr \<Rightarrow> u8 list" where
  "fd_render outcap frame frame_len off f =
     (case (frame, f) of
        (Some fr, Some f) \<Rightarrow>
          if outcap = 0 then []
          else if off + ff_len f > frame_len then snprintf_str outcap (field_head f off @ bytes_of ''(truncated)'')
          else let p = drop off fr; hex = build_hex 80 p (ff_len f); d = build_decoded 80 p f in
            snprintf_str outcap (field_head f off @ (if d \<noteq> [] then hex @ bytes_of '' = '' @ d else hex))
      | _ \<Rightarrow> [])"

subsection \<open>The tables\<close>

abbreviation fd_row :: "string \<Rightarrow> nat \<Rightarrow> fd_kind_t \<Rightarrow> fd_field_t" where
  "fd_row l n k \<equiv> \<lparr>ff_label = l, ff_len = n, ff_kind = k\<rparr>"

definition HDR :: "fd_field_t list" where
  "HDR = [fd_row ''protocol_ver'' 1 FD_U8, fd_row ''command_type'' 1 FD_U8, fd_row ''req_id'' 2 FD_U16BE,
     fd_row ''sequence'' 2 FD_U16BE, fd_row ''length'' 2 FD_U16BE]"

definition BASIC :: "fd_field_t list" where
  "BASIC = [fd_row ''vendor_code'' 4 FD_U32BE, fd_row ''product_code'' 2 FD_U16BE, fd_row ''product_subcode'' 2 FD_U16BE,
     fd_row ''device_status'' 4 FD_U32BE, fd_row ''(reserve)'' 2 FD_HEX, fd_row ''station_type'' 2 FD_U16BE]"

definition DEVINFO :: "fd_field_t list" where
  "DEVINFO = [
     fd_row ''result'' 2 FD_U16BE, fd_row ''error_cause'' 2 FD_U16BE, fd_row ''vendor_code'' 4 FD_U32BE,
     fd_row ''product_code'' 2 FD_U16BE, fd_row ''product_subcode'' 2 FD_U16BE, fd_row ''manufacture'' 4 FD_DATE,
     fd_row ''shipment'' 4 FD_DATE, fd_row ''firmware_version'' 32 FD_STR, fd_row ''hardware_version'' 32 FD_STR,
     fd_row ''serial_number'' 32 FD_STR, fd_row ''ethernet_mac'' 6 FD_MAC, fd_row ''(reserve)'' 2 FD_HEX,
     fd_row ''ip_address'' 4 FD_IPV4, fd_row ''subnet_mask'' 4 FD_IPV4, fd_row ''default_gateway'' 4 FD_IPV4,
     fd_row ''ntp_server'' 4 FD_IPV4, fd_row ''essid'' 32 FD_STR, fd_row ''device_status'' 4 FD_U32BE,
     fd_row ''station_type'' 2 FD_U16BE, fd_row ''priority_ch'' 2 FD_U16BE, fd_row ''ieee_11r'' 1 FD_U8,
     fd_row ''ieee_11ai'' 1 FD_U8, fd_row ''ieee_11k'' 1 FD_U8, fd_row ''ieee_11v'' 1 FD_U8, fd_row ''(reserve)'' 40 FD_HEX,
     fd_row ''wlan1.mac'' 6 FD_MAC, fd_row ''wlan1.mode'' 1 FD_U8, fd_row ''wlan1.bandwidth'' 1 FD_U8,
     fd_row ''wlan1.freq_mhz'' 2 FD_U16BE, fd_row ''wlan1.channel'' 2 FD_U16BE, fd_row ''wlan1.status'' 2 FD_U16BE,
     fd_row ''wlan1.snr'' 1 FD_I8, fd_row ''wlan1.rssi'' 1 FD_I8, fd_row ''wlan1.ap_mac'' 6 FD_MAC,
     fd_row ''wlan1.scan_band'' 2 FD_U16BE, fd_row ''wlan1.scan_chlist'' 8 FD_HEX, fd_row ''(reserve)'' 32 FD_HEX,
     fd_row ''wlan2.mac'' 6 FD_MAC, fd_row ''wlan2.mode'' 1 FD_U8, fd_row ''wlan2.bandwidth'' 1 FD_U8,
     fd_row ''wlan2.freq_mhz'' 2 FD_U16BE, fd_row ''wlan2.channel'' 2 FD_U16BE, fd_row ''wlan2.status'' 2 FD_U16BE,
     fd_row ''wlan2.snr'' 1 FD_I8, fd_row ''wlan2.rssi'' 1 FD_I8, fd_row ''wlan2.ap_mac'' 6 FD_MAC,
     fd_row ''wlan2.scan_band'' 2 FD_U16BE, fd_row ''wlan2.scan_chlist'' 8 FD_HEX, fd_row ''(reserve)'' 32 FD_HEX]"

definition IND_INIT :: "fd_field_t list" where
  "IND_INIT = [fd_row ''status'' 4 FD_U32BE]"

definition IND_WLANSTAT :: "fd_field_t list" where
  "IND_WLANSTAT = [fd_row ''wlan_status'' 2 FD_U16BE, fd_row ''indication_ch'' 2 FD_U16BE]"

definition IND_ROAMING :: "fd_field_t list" where
  "IND_ROAMING = [fd_row ''current_snr'' 2 FD_I16BE, fd_row ''current_rssi'' 2 FD_I16BE,
     fd_row ''connect_ap_mac'' 6 FD_MAC, fd_row ''ch_number'' 2 FD_U16BE]"

definition IND_APDISC :: "fd_field_t list" where
  "IND_APDISC = [fd_row ''message_id'' 2 FD_U16BE, fd_row ''result_code'' 2 FD_U16BE,
     fd_row ''disconnect_ap_mac'' 6 FD_MAC, fd_row ''(reserve)'' 2 FD_HEX]"

definition IND_FAULT :: "fd_field_t list" where
  "IND_FAULT = [fd_row ''congestion_id'' 2 FD_U16BE, fd_row ''current_val'' 2 FD_U16BE]"

definition IND_RESET :: "fd_field_t list" where
  "IND_RESET = [fd_row ''reset_cause'' 4 FD_U32BE]"

definition IND_KEEPALIVE :: "fd_field_t list" where
  "IND_KEEPALIVE = [fd_row ''timestamp'' 32 FD_STR]"

subsection \<open>The walker\<close>

text \<open>What is printed, as one text; an empty text stands for a missing frame or output.\<close>

fun dump_table :: "u8 list \<Rightarrow> nat \<Rightarrow> nat \<Rightarrow> fd_field_t list \<Rightarrow> u8 list" where
  "dump_table frame len off [] = []"
| "dump_table frame len off (f # t) = fd_render 256 (Some frame) len off (Some f) @ [10] @ dump_table frame len (off + ff_len f) t"

definition dump_header :: "u8 list \<Rightarrow> nat \<Rightarrow> u8 list" where
  "dump_header frame len = dump_table frame len 0 HDR"

definition fd_dump_basic_info :: "u8 list ptr \<Rightarrow> u8 list" where
  "fd_dump_basic_info frame =
     (case frame of None \<Rightarrow> [] | Some f \<Rightarrow> dump_header f (length f) @ dump_table f (length f) OPC_HEADER_SIZE BASIC)"

definition fd_dump_device_info :: "u8 list ptr \<Rightarrow> u8 list" where
  "fd_dump_device_info frame =
     (case frame of None \<Rightarrow> [] | Some f \<Rightarrow> dump_header f (length f) @ dump_table f (length f) OPC_HEADER_SIZE DEVINFO)"

definition ind_table :: "u16 \<Rightarrow> fd_field_t list option" where
  "ind_table ind_id =
     (if ind_id = OPC_IND_INIT_COMPLETE then Some IND_INIT
      else if ind_id = OPC_IND_WLAN_STATUS_CHANGE then Some IND_WLANSTAT
      else if ind_id = OPC_IND_ROAMING then Some IND_ROAMING
      else if ind_id = OPC_IND_AP_DISCONNECT then Some IND_APDISC
      else if ind_id = OPC_IND_FAULT_DETECT then Some IND_FAULT
      else if ind_id = OPC_IND_RESET_NOTICE then Some IND_RESET
      else if ind_id = OPC_IND_KEEP_ALIVE then Some IND_KEEPALIVE else None)"

definition fd_dump_indication :: "u16 \<Rightarrow> u8 list ptr \<Rightarrow> u8 list" where
  "fd_dump_indication ind_id frame =
     (case frame of
        None \<Rightarrow> []
      | Some f \<Rightarrow>
          dump_header f (length f)
          @ (case ind_table ind_id of None \<Rightarrow> [] | Some t \<Rightarrow> dump_table f (length f) OPC_HEADER_SIZE t))"

subsection \<open>What a line depends on\<close>

text \<open>The bytes that the conversion of a kind reads.\<close>

fun kind_width :: "fd_kind_t \<Rightarrow> nat" where
  "kind_width FD_HEX = 0"
| "kind_width FD_STR = 0"
| "kind_width FD_U8 = 1"
| "kind_width FD_I8 = 1"
| "kind_width FD_U16BE = 2"
| "kind_width FD_I16BE = 2"
| "kind_width FD_MAC = 6"
| "kind_width _ = 4"

text \<open>The line of a field with the given bytes at the given offset.\<close>

definition field_line :: "fd_field_t \<Rightarrow> nat \<Rightarrow> u8 list \<Rightarrow> u8 list" where
  "field_line f off p =
     (let hex = build_hex 80 p (ff_len f); d = build_decoded 80 p f in
      snprintf_str 256 (field_head f off @ (if d \<noteq> [] then hex @ bytes_of '' = '' @ d else hex)))"

lemma build_hex_take: "build_hex cap (take n p) n = build_hex cap p n"
proof -
  have "take (min n 16) (take n p) = take (min n 16) p" by (simp add: min_def)
  then show ?thesis unfolding build_hex_def Let_def by (simp only:)
qed

lemma build_decoded_take:
  assumes "kind_width (ff_kind f) \<le> ff_len f"
  shows "build_decoded cap (take (ff_len f) p) f = build_decoded cap p f"
  using assms
  by (cases "ff_kind f") (simp_all add: build_decoded_def Let_def opc_be16_read_def opc_be32_read_def mac_text_def)

lemma render_line:
  assumes "kind_width (ff_kind f) \<le> ff_len f" "off + ff_len f \<le> length fr"
  shows "fd_render 256 (Some fr) (length fr) off (Some f) = field_line f off (slice off (ff_len f) fr)"
  using assms by (simp add: fd_render_def field_line_def slice_def Let_def build_hex_take build_decoded_take)

lemma dump_table_step:
  assumes "kind_width (ff_kind f) \<le> ff_len f" "off + ff_len f \<le> length fr"
  shows "dump_table fr (length fr) off (f # t) =
    field_line f off (slice off (ff_len f) fr) @ [10] @ dump_table fr (length fr) (off + ff_len f) t"
  using assms by (simp add: render_line)

subsection \<open>The tables and the codec\<close>

lemma slice_put_inside:
  "off + length bs \<le> length xs \<Longrightarrow> off \<le> o1 \<Longrightarrow> o1 + n \<le> off + length bs \<Longrightarrow>
   slice o1 n (put off bs xs) = slice (o1 - off) n bs"
  by (rule nth_equalityI) (auto simp: slice_def nth_put)

lemma slice_zeros: "o1 + n \<le> m \<Longrightarrow> slice o1 n (replicate m 0) = replicate n 0"
  by (simp add: slice_def)

text \<open>Label, offset, kind and bytes of the lines that a frame should give.\<close>

abbreviation show_line :: "string \<times> nat \<times> fd_kind_t \<times> u8 list \<Rightarrow> u8 list" where
  "show_line l \<equiv> (case l of (lb, off, k, bs) \<Rightarrow> field_line (fd_row lb (length bs) k) off bs @ [10])"

definition header_lines :: "u8 \<Rightarrow> u16 \<Rightarrow> u16 \<Rightarrow> u16 \<Rightarrow> (string \<times> nat \<times> fd_kind_t \<times> u8 list) list" where
  "header_lines cmd rid seq len =
     [(''protocol_ver'', 0, FD_U8, [OPC_PROTOCOL_VERSION]), (''command_type'', 1, FD_U8, [cmd]),
      (''req_id'', 2, FD_U16BE, opc_be16_write rid), (''sequence'', 4, FD_U16BE, opc_be16_write seq),
      (''length'', 6, FD_U16BE, opc_be16_write len)]"

definition radio_lines :: "string \<Rightarrow> nat \<Rightarrow> opc_wlan_radio_state_t \<Rightarrow> (string \<times> nat \<times> fd_kind_t \<times> u8 list) list" where
  "radio_lines w off r =
     [(w @ ''.mac'', off, FD_MAC, rs_mac r), (w @ ''.mode'', off + 6, FD_U8, [rs_mode r]),
      (w @ ''.bandwidth'', off + 7, FD_U8, [rs_bandwidth r]),
      (w @ ''.freq_mhz'', off + 8, FD_U16BE, opc_be16_write (rs_freq_mhz r)),
      (w @ ''.channel'', off + 10, FD_U16BE, opc_be16_write (rs_channel r)),
      (w @ ''.status'', off + 12, FD_U16BE, opc_be16_write (rs_status r)),
      (w @ ''.snr'', off + 14, FD_I8, [rs_snr r]), (w @ ''.rssi'', off + 15, FD_I8, [rs_rssi r]),
      (w @ ''.ap_mac'', off + 16, FD_MAC, rs_connect_ap_mac r),
      (w @ ''.scan_band'', off + 22, FD_U16BE, opc_be16_write (rs_scan_band r)),
      (w @ ''.scan_chlist'', off + 24, FD_HEX, rs_scan_chlist r), (''(reserve)'', off + 32, FD_HEX, replicate 32 0)]"

definition devinfo_lines :: "opc_get_device_info_ack_t \<Rightarrow> (string \<times> nat \<times> fd_kind_t \<times> u8 list) list" where
  "devinfo_lines a =
     [(''result'', 64, FD_U16BE, opc_be16_write (di_result a)),
      (''error_cause'', 66, FD_U16BE, opc_be16_write (di_error_cause a)),
      (''vendor_code'', 68, FD_U32BE, opc_be32_write (di_vendor_code a)),
      (''product_code'', 72, FD_U16BE, opc_be16_write (di_product_code a)),
      (''product_subcode'', 74, FD_U16BE, opc_be16_write (di_product_subcode a)),
      (''manufacture'', 76, FD_DATE, pack_date (di_manufacture a)), (''shipment'', 80, FD_DATE, pack_date (di_shipment a)),
      (''firmware_version'', 84, FD_STR, di_firmware_version a), (''hardware_version'', 116, FD_STR, di_hardware_version a),
      (''serial_number'', 148, FD_STR, di_serial_number a), (''ethernet_mac'', 180, FD_MAC, di_ethernet_mac a),
      (''(reserve)'', 186, FD_HEX, [0, 0]),
      (''ip_address'', 188, FD_IPV4, opc_be32_write (di_ip_address a)),
      (''subnet_mask'', 192, FD_IPV4, opc_be32_write (di_subnet_mask a)),
      (''default_gateway'', 196, FD_IPV4, opc_be32_write (di_default_gateway a)),
      (''ntp_server'', 200, FD_IPV4, opc_be32_write (di_ntp_server a)),
      (''essid'', 204, FD_STR, di_essid a), (''device_status'', 236, FD_U32BE, opc_be32_write (di_device_status a)),
      (''station_type'', 240, FD_U16BE, opc_be16_write (di_station_type a)),
      (''priority_ch'', 242, FD_U16BE, opc_be16_write (di_priority_ch a)),
      (''ieee_11r'', 244, FD_U8, [di_ieee_11r a]), (''ieee_11ai'', 245, FD_U8, [di_ieee_11ai a]),
      (''ieee_11k'', 246, FD_U8, [di_ieee_11k a]), (''ieee_11v'', 247, FD_U8, [di_ieee_11v a]),
      (''(reserve)'', 248, FD_HEX, replicate 40 0)]
     @ radio_lines ''wlan1'' 288 (di_wlan1 a) @ radio_lines ''wlan2'' 352 (di_wlan2 a)"

definition ex_radio :: opc_wlan_radio_state_t where
  "ex_radio = \<lparr>rs_mac = [2, 0, 0, 0, 0, 1], rs_mode = 11, rs_bandwidth = 2, rs_freq_mhz = 5180, rs_channel = 0x0224,
     rs_status = 1, rs_snr = 40, rs_rssi = -50, rs_connect_ap_mac = [2, 0, 0, 0, 0, 9],
     rs_scan_band = 2, rs_scan_chlist = [0, 0, 0, 1, 0, 0, 0, 0]\<rparr>"

definition ex_ack :: opc_get_device_info_ack_t where
  "ex_ack = \<lparr>di_result = 0, di_error_cause = 0, di_vendor_code = 1, di_product_code = 2, di_product_subcode = 3,
     di_manufacture = \<lparr>year = 2026, month = 1, day = 2\<rparr>, di_shipment = \<lparr>year = 2026, month = 3, day = 4\<rparr>,
     di_firmware_version = [49, 46, 48] @ replicate 29 0, di_hardware_version = replicate 32 0,
     di_serial_number = replicate 32 0, di_ethernet_mac = [2, 0, 0, 0, 0, 3],
     di_ip_address = 0xC0A80102, di_subnet_mask = 0xFFFFFF00, di_default_gateway = 0, di_ntp_server = 0,
     di_essid = [34, 92, 7, 65] @ replicate 28 0, di_device_status = 1, di_station_type = 2, di_priority_ch = 0xFFFF,
     di_ieee_11r = 1, di_ieee_11ai = 0, di_ieee_11k = 0, di_ieee_11v = 0, di_wlan1 = ex_radio, di_wlan2 = ex_radio\<rparr>"

lemma ex_ack_wf: "device_info_wf ex_ack"
  by (simp add: ex_ack_def ex_radio_def device_info_wf_def radio_state_wf_def padded_def copy_with_null_pad_eq)

text \<open>A table and the lines it should give for a block of bytes: same labels, kinds and lengths, and the bytes at the
  offsets.\<close>

fun table_shows :: "u8 list \<Rightarrow> nat \<Rightarrow> fd_field_t list \<Rightarrow> (string \<times> nat \<times> fd_kind_t \<times> u8 list) list \<Rightarrow> bool" where
  "table_shows fr off [] [] = True"
| "table_shows fr off (f # t) ((lb, o1, k, bs) # ls) =
     (f = fd_row lb (length bs) k \<and> o1 = off \<and> kind_width k \<le> length bs \<and> off + length bs \<le> length fr
      \<and> slice off (length bs) fr = bs \<and> table_shows fr (off + length bs) t ls)"
| "table_shows fr off _ _ = False"

lemma dump_table_shows: "table_shows fr off t ls \<Longrightarrow> dump_table fr (length fr) off t = concat (map show_line ls)"
  by (induction fr off t ls rule: table_shows.induct) (simp_all add: dump_table_step del: dump_table.simps(2))

lemma table_shows_append:
  "table_shows fr off t ls \<Longrightarrow> table_shows fr (off + sum_list (map ff_len t)) t' ls' \<Longrightarrow> table_shows fr off (t @ t') (ls @ ls')"
  by (induction fr off t ls rule: table_shows.induct) (simp_all add: add.assoc)

text \<open>A frame is its header and its body.\<close>

lemma frame_header_shows:
  assumes "opc_frame_build (Some cap) cmd rid s len (Some body) n = Some f"
  shows "table_shows f 0 HDR (header_lines cmd rid s len)"
  using assms
  by (auto simp: opc_frame_build_def opc_header_pack_def opc_fixed_header_pack_def HDR_def header_lines_def slice_def put_def
      opc_be16_write_def split: if_splits)

lemma frame_body_slice:
  assumes "opc_frame_build (Some cap) cmd rid s len (Some body) n = Some f" "n = length body"
  shows "length f = 64 + length body" "o1 \<ge> 64 \<Longrightarrow> slice o1 m f = slice (o1 - 64) m body"
proof -
  obtain h where h: "f = h @ body" "length h = 64"
    using assms by (auto simp: opc_frame_build_def opc_header_pack_def opc_fixed_header_pack_def split: if_splits)
  then show "length f = 64 + length body" "o1 \<ge> 64 \<Longrightarrow> slice o1 m f = slice (o1 - 64) m body"
    by (simp_all add: slice_append_skip)
qed

lemma radio_block_slices:
  assumes "radio_state_wf r"
  shows "slice 0 6 (pack_radio_state r) = rs_mac r" "slice 6 (Suc 0) (pack_radio_state r) = [rs_mode r]"
    "slice 7 (Suc 0) (pack_radio_state r) = [rs_bandwidth r]" "slice 8 2 (pack_radio_state r) = opc_be16_write (rs_freq_mhz r)"
    "slice 10 2 (pack_radio_state r) = opc_be16_write (rs_channel r)"
    "slice 12 2 (pack_radio_state r) = opc_be16_write (rs_status r)" "slice 14 (Suc 0) (pack_radio_state r) = [rs_snr r]"
    "slice 15 (Suc 0) (pack_radio_state r) = [rs_rssi r]" "slice 16 6 (pack_radio_state r) = rs_connect_ap_mac r"
    "slice 22 2 (pack_radio_state r) = opc_be16_write (rs_scan_band r)"
    "slice 24 8 (pack_radio_state r) = rs_scan_chlist r"
  using assms
  by (simp_all add: radio_state_wf_def pack_radio_state_def Let_def slice_put_same slice_put_other)



text \<open>The same for the acknowledgment of GetBasicInformation.\<close>

lemma basic_info_dump_shows_fields:
  assumes "opc_get_basic_info_ack_pack (Some cap) s (Some a) = Some f"
  shows "fd_dump_basic_info (Some f) =
    concat (map show_line (header_lines OPC_CMD_ACK OPC_REQ_GET_BASIC_INFO s OPC_GET_BASIC_INFO_ACK_LENGTH
      @ [(''vendor_code'', 64, FD_U32BE, opc_be32_write (bi_vendor_code a)),
         (''product_code'', 68, FD_U16BE, opc_be16_write (bi_product_code a)),
         (''product_subcode'', 70, FD_U16BE, opc_be16_write (bi_product_subcode a)),
         (''device_status'', 72, FD_U32BE, opc_be32_write (bi_device_status a)), (''(reserve)'', 76, FD_HEX, [0, 0]),
         (''station_type'', 78, FD_U16BE, opc_be16_write (bi_station_type a))]))"
    (is "_ = concat (map show_line (_ @ ?ls))")
proof -
  note b = assms [unfolded opc_get_basic_info_ack_pack_def option.case Let_def]
  have "table_shows f 64 BASIC ?ls"
    by (simp add: BASIC_def frame_body_slice [OF b] slice_put_same slice_put_other slice_zeros)
  then show ?thesis
    using frame_header_shows [OF b] by (simp add: fd_dump_basic_info_def dump_header_def dump_table_shows)
qed

text \<open>The indications whose body is more than one number.\<close>

lemma roaming_dump_shows_fields:
  assumes "opc_ind_roaming_pack (Some cap) s (Some i) = Some f" "length (ro_connect_ap_mac i) = 6"
  shows "fd_dump_indication OPC_IND_ROAMING (Some f) =
    concat (map show_line (header_lines OPC_CMD_INDICATION OPC_IND_ROAMING s OPC_IND_ROAMING_LENGTH
      @ [(''current_snr'', 64, FD_I16BE, opc_be16_write (scast (ro_current_snr i))),
         (''current_rssi'', 66, FD_I16BE, opc_be16_write (scast (ro_current_rssi i))),
         (''connect_ap_mac'', 68, FD_MAC, ro_connect_ap_mac i),
         (''ch_number'', 74, FD_U16BE, opc_be16_write (ro_ch_number i))]))"
    (is "_ = concat (map show_line (_ @ ?ls))")
proof -
  note b = assms(1) [unfolded opc_ind_roaming_pack_def option.case Let_def]
  have "table_shows f 64 IND_ROAMING ?ls"
    using assms(2) by (simp add: IND_ROAMING_def frame_body_slice [OF b] slice_put_same slice_put_other)
  then show ?thesis
    using frame_header_shows [OF b] by (simp add: fd_dump_indication_def ind_table_def dump_header_def dump_table_shows)
qed

lemma ap_disconnect_dump_shows_fields:
  assumes "opc_ind_ap_disconnect_pack (Some cap) s (Some i) = Some f" "length (ad_disconnect_ap_mac i) = 6"
  shows "fd_dump_indication OPC_IND_AP_DISCONNECT (Some f) =
    concat (map show_line (header_lines OPC_CMD_INDICATION OPC_IND_AP_DISCONNECT s OPC_IND_AP_DISCONNECT_LENGTH
      @ [(''message_id'', 64, FD_U16BE, opc_be16_write (ad_message_id i)),
         (''result_code'', 66, FD_U16BE, opc_be16_write (ad_result_code i)),
         (''disconnect_ap_mac'', 68, FD_MAC, ad_disconnect_ap_mac i), (''(reserve)'', 74, FD_HEX, [0, 0])]))"
    (is "_ = concat (map show_line (_ @ ?ls))")
proof -
  note b = assms(1) [unfolded opc_ind_ap_disconnect_pack_def option.case Let_def]
  have "table_shows f 64 IND_APDISC ?ls"
    using assms(2) by (simp add: IND_APDISC_def frame_body_slice [OF b] slice_put_same slice_put_other slice_zeros)
  then show ?thesis
    using frame_header_shows [OF b] by (simp add: fd_dump_indication_def ind_table_def dump_header_def dump_table_shows)
qed

end
