(* ===== verification/Snapshot.thy ===== *)
theory Snapshot
  imports Fielddump
begin

text \<open>
  \<open>opcd/snapshot.c\<close>: the status file with the last GetDeviceInformation acknowledgment as JSON. The text is written to a
  temporary file that is renamed over the target. The lemmas show that a string comes back from its JSON form whatever
  its bytes are, and that a reader sees the old file or the complete new one.
\<close>

definition EIO :: int where [simp]: "EIO = 5"

subsection \<open>Strings\<close>

text \<open>The loop of \<open>json_str\<close>: it stops at the NUL, or when the next character does not fit.\<close>

fun escape_loop :: "nat \<Rightarrow> u8 list \<Rightarrow> u8 list \<Rightarrow> u8 list" where
  "escape_loop cap out [] = out"
| "escape_loop cap out (c # s) =
     (if c = 0 then out
      else if c = 34 \<or> c = 92 then
        (if length out + 2 \<ge> cap then out else escape_loop cap (out @ [92, c]) s)
      else if c < 0x20 then
        (if length out + 6 \<ge> cap then out
         else escape_loop cap (out @ [92, 117, 48, 48, hexd (unat (drop_bit 4 c AND 0x0F)), hexd (unat (c AND 0x0F))]) s)
      else (if length out + 1 \<ge> cap then out else escape_loop cap (out @ [c]) s))"

definition snapshot_json_str :: "u8 list \<Rightarrow> nat \<Rightarrow> u8 list" where
  "snapshot_json_str s cap = escape_loop cap [] s"

subsection \<open>The text\<close>

definition json_key :: "nat \<Rightarrow> string \<Rightarrow> nat \<Rightarrow> u8 list" where
  "json_key indent k w = replicate indent 32 @ [34] @ bytes_of k @ [34, 58] @ replicate (w - length k) 32"

text \<open>A number and a string member, with the comma and the end of the line; the values start in one column.\<close>

definition json_num :: "nat \<Rightarrow> string \<Rightarrow> nat \<Rightarrow> u8 list \<Rightarrow> u8 list" where
  "json_num indent k w v = json_key indent k w @ v @ [44, 10]"

definition json_quoted :: "nat \<Rightarrow> string \<Rightarrow> nat \<Rightarrow> u8 list \<Rightarrow> u8 list" where
  "json_quoted indent k w v = json_key indent k w @ [34] @ v @ [34, 44, 10]"

definition emit_wlan :: "nat \<Rightarrow> opc_wlan_radio_state_t \<Rightarrow> u8 list" where
  "emit_wlan idx w =
     [32, 32, 34] @ bytes_of ''wlan'' @ dec idx @ [34] @ bytes_of '': {'' @ [10]
     @ json_quoted 4 ''mac'' 15 (mac_text (rs_mac w))
     @ json_num 4 ''mode'' 15 (dec (unat (rs_mode w)))
     @ json_num 4 ''bandwidth'' 15 (dec (unat (rs_bandwidth w)))
     @ json_num 4 ''freq_mhz'' 15 (dec (unat (rs_freq_mhz w)))
     @ json_num 4 ''channel'' 15 (dec (unat (rs_channel w)))
     @ json_num 4 ''status'' 15 (dec (unat (rs_status w)))
     @ json_num 4 ''snr'' 15 (dec_int (sint (rs_snr w)))
     @ json_num 4 ''rssi'' 15 (dec_int (sint (rs_rssi w)))
     @ json_quoted 4 ''connect_ap_mac'' 15 (mac_text (rs_connect_ap_mac w))
     @ json_num 4 ''scan_band'' 15 (dec (unat (rs_scan_band w)))
     @ json_key 4 ''scan_chlist'' 15 @ [34] @ concat (map hex2 (take OPC_SCAN_CHLIST_LEN (rs_scan_chlist w))) @ [34, 10]
     @ bytes_of ''  }''"

definition date_text :: "opc_date_t \<Rightarrow> u8 list" where
  "date_text d = decw 4 (unat (year d)) @ bytes_of ''-'' @ decw 2 (unat (month d)) @ bytes_of ''-'' @ decw 2 (unat (day d))"

text \<open>The text for the monotonic time \<open>now\<close>.\<close>

definition write_json :: "int \<Rightarrow> opc_get_device_info_ack_t \<Rightarrow> u8 list" where
  "write_json now a =
     [123, 10] @ json_num 2 ''fetched_at_monotonic_s'' 23 (dec_int now)
     @ json_num 2 ''result'' 16 (dec (unat (di_result a)))
     @ json_num 2 ''error_cause'' 16 (dec (unat (di_error_cause a)))
     @ json_num 2 ''vendor_code'' 16 (dec (unat (di_vendor_code a)))
     @ json_num 2 ''product_code'' 16 (dec (unat (di_product_code a)))
     @ json_num 2 ''product_subcode'' 16 (dec (unat (di_product_subcode a)))
     @ json_quoted 2 ''manufacture_date'' 17 (date_text (di_manufacture a))
     @ json_quoted 2 ''shipment_date'' 17 (date_text (di_shipment a))
     @ json_quoted 2 ''firmware_version'' 17 (snapshot_json_str (di_firmware_version a) (6 * OPC_VERSION_FIELD_LEN))
     @ json_quoted 2 ''hardware_version'' 17 (snapshot_json_str (di_hardware_version a) (6 * OPC_VERSION_FIELD_LEN))
     @ json_quoted 2 ''serial_number'' 17 (snapshot_json_str (di_serial_number a) (6 * OPC_SERIAL_FIELD_LEN))
     @ json_quoted 2 ''ethernet_mac'' 17 (mac_text (di_ethernet_mac a))
     @ json_quoted 2 ''ip_address'' 17 (ipv4_str (di_ip_address a))
     @ json_quoted 2 ''subnet_mask'' 17 (ipv4_str (di_subnet_mask a))
     @ json_quoted 2 ''default_gateway'' 17 (ipv4_str (di_default_gateway a))
     @ json_quoted 2 ''ntp_server'' 17 (ipv4_str (di_ntp_server a))
     @ json_quoted 2 ''essid'' 17 (snapshot_json_str (di_essid a) (6 * OPC_ESSID_FIELD_LEN))
     @ json_num 2 ''device_status'' 17 (dec (unat (di_device_status a)))
     @ json_num 2 ''station_type'' 17 (dec (unat (di_station_type a)))
     @ json_num 2 ''priority_ch'' 17 (dec (unat (di_priority_ch a)))
     @ json_num 2 ''ieee_11r'' 10 (dec (unat (di_ieee_11r a)))
     @ json_num 2 ''ieee_11ai'' 10 (dec (unat (di_ieee_11ai a)))
     @ json_num 2 ''ieee_11k'' 10 (dec (unat (di_ieee_11k a)))
     @ json_num 2 ''ieee_11v'' 10 (dec (unat (di_ieee_11v a)))
     @ emit_wlan 1 (di_wlan1 a) @ [44, 10] @ emit_wlan 2 (di_wlan2 a) @ [10, 125, 10]"

subsection \<open>Publishing\<close>

text \<open>Results of the calls: an error number, 0 for success. \<open>sn_writes\<close> are the results of the writes of the stream; when
  one fails, a \<open>fprintf\<close> has reported it or \<open>fflush\<close> does, with \<open>sn_errno\<close>.\<close>

record snap_sys =
  sn_mkdir :: int
  sn_now :: int
  sn_open :: int
  sn_fdopen :: int
  sn_writes :: "io_res list"
  sn_printf_fails :: bool
  sn_errno :: int
  sn_close :: int
  sn_rename :: int

definition opcd_snapshot_init :: "snap_sys \<Rightarrow> path ptr \<Rightarrow> int" where
  "opcd_snapshot_init sys dir =
     (case dir of None \<Rightarrow> - EINVAL | Some _ \<Rightarrow> if sn_mkdir sys = 0 \<or> sn_mkdir sys = EEXIST then 0 else - sn_mkdir sys)"

text \<open>Whether a warning is printed, and the flag afterwards.\<close>

definition warn_once :: "bool \<Rightarrow> bool \<times> bool" where
  "warn_once warned = (\<not> warned, True)"

text \<open>The return code, the file operations, whether a warning was printed, and the flag \<open>g_warn_emitted\<close>.\<close>

definition opcd_snapshot_publish ::
  "snap_sys \<Rightarrow> opc_get_device_info_ack_t ptr \<Rightarrow> path ptr \<Rightarrow> bool \<Rightarrow> int \<times> fs_op list \<times> bool \<times> bool" where
  "opcd_snapshot_publish sys ack path warned =
     (case (ack, path) of
        (Some a, Some p) \<Rightarrow>
          let tmp = p @ bytes_of ''.tmp'' in
          if length tmp \<ge> 256 then (- ENAMETOOLONG, [], warn_once warned)
          else if sn_open sys \<noteq> 0 then (- sn_open sys, [], warn_once warned)
          else if sn_fdopen sys \<noteq> 0 then (- sn_fdopen sys, [Create tmp 420, Unlink tmp], warn_once warned)
          else case write_loop (sn_writes sys) tmp (write_json (sn_now sys) a) of
                 (ok, ws) \<Rightarrow>
                   let rc = (if ok then 0 else if sn_printf_fails sys then - EIO else - sn_errno sys);
                       rc = (if sn_close sys \<noteq> 0 \<and> rc = 0 then - sn_close sys else rc);
                       ops = Create tmp 420 # ws
                   in if rc \<noteq> 0 then (rc, ops @ [Unlink tmp], warn_once warned)
                      else if sn_rename sys \<noteq> 0 then (- sn_rename sys, ops @ [Unlink tmp], warn_once warned)
                      else (0, ops @ [Rename tmp p], False, False)
      | _ \<Rightarrow> (- EINVAL, [], False, warned))"

subsection \<open>Strings come back\<close>

text \<open>The inside of a JSON string (RFC 8259, section 7) with the escapes that the writer uses: a quotation mark, a
  backslash or a control character is not allowed in it.\<close>

fun json_unescape :: "u8 list \<Rightarrow> u8 list option" where
  "json_unescape [] = Some []"
| "json_unescape (c # s) =
     (if c = 92 then
        (case s of
           [] \<Rightarrow> None
         | d # t \<Rightarrow>
             if d = 34 \<or> d = 92 then map_option ((#) d) (json_unescape t)
             else if d = 117 then
               (case t of
                  z # y # h # l # r \<Rightarrow>
                    (case (z = 48 \<and> y = 48, hexval h, hexval l) of
                       (True, Some a, Some b) \<Rightarrow> map_option ((#) (of_nat (a * 16 + b))) (json_unescape r)
                     | _ \<Rightarrow> None)
                | _ \<Rightarrow> None)
             else None)
      else if c = 34 \<or> c < 0x20 then None
      else map_option ((#) c) (json_unescape s))"

text \<open>The escaped form of one character.\<close>

definition escape_char :: "u8 \<Rightarrow> u8 list" where
  "escape_char c =
     (if c = 34 \<or> c = 92 then [92, c]
      else if c < 0x20 then [92, 117, 48, 48, hexd (unat (drop_bit 4 c AND 0x0F)), hexd (unat (c AND 0x0F))]
      else [c])"

lemma escape_loop_fits:
  "length out + 6 * length (cstr s) < cap \<Longrightarrow> escape_loop cap out s = out @ concat (map escape_char (cstr s))"
  by (induction s arbitrary: out) (auto simp: escape_char_def cstr_def split: if_splits)

lemma hexval_hexd: "n < 16 \<Longrightarrow> hexval (hexd n) = Some n"
proof -
  assume n: "n < 16"
  have "\<forall>n\<in>set [0..<16]. hexval (hexd n) = Some n" by (simp add: upt_rec hexd_def hexval_def)
  then show ?thesis using n by simp
qed

lemma hex_nibbles:
  "unat (drop_bit 4 c AND 0x0F) < 16" "unat (c AND 0x0F) < 16"
  "of_nat (unat (drop_bit 4 c AND 0x0F) * 16 + unat (c AND 0x0F)) = (c :: u8)"
proof -
  have m: "x AND 0x0F = take_bit 4 x" for x :: u8 by (simp add: take_bit_eq_mask mask_eq_exp_minus_1)
  have l: "unat (c AND 0x0F) = unat c mod 16" by (simp add: m take_bit_eq_mod unat_mod)
  have "unat c div 16 < 16" using unsigned_less [of c, where 'a = nat] by simp
  then have h: "unat (drop_bit 4 c AND 0x0F) = unat c div 16"
    by (simp add: m take_bit_eq_mod drop_bit_eq_div unat_mod unat_div)
  show "unat (drop_bit 4 c AND 0x0F) < 16" "unat (c AND 0x0F) < 16"
    using l h \<open>unat c div 16 < 16\<close> by simp_all
  have "unat c div 16 * 16 + unat c mod 16 = unat c" by simp
  then show "of_nat (unat (drop_bit 4 c AND 0x0F) * 16 + unat (c AND 0x0F)) = c" using l h by (simp only: of_nat_unat) simp
qed

lemma unescape_char: "json_unescape (escape_char c @ r) = map_option ((#) c) (json_unescape r)"
  using hex_nibbles [of c] by (auto simp: escape_char_def hexval_hexd)

lemma unescape_all: "json_unescape (concat (map escape_char s)) = Some s"
  by (induction s) (simp_all add: unescape_char)



subsection \<open>The file is replaced at once\<close>

lemma publish_shape:
  assumes "opcd_snapshot_publish sys (Some a) (Some p) warned = (rc, ops, w)" "sn_errno sys \<noteq> 0"
  defines "tmp \<equiv> p @ bytes_of ''.tmp''"
  shows "rc \<noteq> 0 \<and> list_all (tmp_op tmp) ops
    \<or> rc = 0 \<and> (\<exists>ws. ops = (Create tmp 420 # ws) @ [Rename tmp p]
        \<and> write_loop (sn_writes sys) tmp (write_json (sn_now sys) a) = (True, ws))"
proof -
  obtain ok ws where l: "write_loop (sn_writes sys) tmp (write_json (sn_now sys) a) = (ok, ws)" by fastforce
  then show ?thesis
    using assms(1,2) write_loop_tmp_ops [OF l]
    by (auto simp: opcd_snapshot_publish_def Let_def tmp_def [symmetric] warn_once_def split: if_splits)
qed

lemma rename_cut:
  assumes "list_all (tmp_op tmp) pre" "fs_run pre F tmp = Some d" "p \<noteq> tmp"
  shows "fs_run (take k (pre @ [Rename tmp p])) F p \<in> {F p, Some d}"
proof (cases "k \<le> length pre")
  case True
  then show ?thesis using tmp_ops_prefix [OF assms(1,3)] by simp
next
  case False
  then show ?thesis using assms(2,3) by (simp add: take_Cons')
qed

text \<open>C21: Publishing the status file is atomic: cut off after any number of its file operations, the file holds what it
  held before or the complete new text; on success it holds the new text, and after an error it is unchanged and no
  temporary file is left behind.\<close>

theorem snapshot_publish_atomic:
  assumes "opcd_snapshot_publish sys (Some a) (Some p) warned = (rc, ops, w)" "sn_errno sys \<noteq> 0"
  shows "fs_run (take k ops) F p \<in> {F p, Some (write_json (sn_now sys) a)}
    \<and> fs_run ops F p = (if rc = 0 then Some (write_json (sn_now sys) a) else F p)
    \<and> (ops \<noteq> [] \<longrightarrow> fs_run ops F (p @ bytes_of ''.tmp'') = None)"
proof -
  let ?t = "p @ bytes_of ''.tmp''"
  have n: "p \<noteq> ?t" by (simp add: bytes_of_def)
  have last: "rc \<noteq> 0 \<Longrightarrow> ops \<noteq> [] \<Longrightarrow> \<exists>pre. ops = pre @ [Unlink ?t]"
    using assms by (auto simp: opcd_snapshot_publish_def Let_def warn_once_def split: if_splits prod.splits)
  show ?thesis
    using publish_shape [OF assms]
  proof (elim disjE conjE exE)
    assume e: "rc \<noteq> 0" "list_all (tmp_op ?t) ops"
    show ?thesis
      using e last tmp_ops_prefix [OF e(2) n, of k F] tmp_ops_prefix [OF e(2) n, of "length ops" F] by auto
  next
    fix ws
    assume o: "rc = 0" "ops = (Create ?t 420 # ws) @ [Rename ?t p]"
      "write_loop (sn_writes sys) ?t (write_json (sn_now sys) a) = (True, ws)"
    have r: "fs_run (Create ?t 420 # ws) F ?t = Some (write_json (sn_now sys) a)"
      using write_loop_content [OF o(3), of "F(?t \<mapsto> [])" "[]"] by (simp del: fun_upd_apply add: fun_upd_same)
    have l: "list_all (tmp_op ?t) (Create ?t 420 # ws)" using write_loop_tmp_ops [OF o(3)] by simp
    show ?thesis using rename_cut [OF l r n, of k] r n by (simp add: o(1,2))
  qed
qed

theorem snapshot_publish_atomic_witness:
  "let sys = \<lparr>sn_mkdir = 0, sn_now = 12, sn_open = 0, sn_fdopen = 0, sn_writes = [IoOk 100, IoErr], sn_printf_fails = False,
       sn_errno = 28, sn_close = 0, sn_rename = 0\<rparr>;
     ops = fst (snd (opcd_snapshot_publish sys (Some ex_ack) (Some (bytes_of ''/s'')) False))
   in sn_errno sys \<noteq> 0 \<and> fs_run (take 2 ops) [bytes_of ''/s'' \<mapsto> [1]] (bytes_of ''/s'') \<in> {Some [1], Some (write_json 12 ex_ack)}"
proof -
  define sys where "sys = \<lparr>sn_mkdir = 0, sn_now = 12, sn_open = 0, sn_fdopen = 0, sn_writes = [IoOk 100, IoErr],
    sn_printf_fails = False, sn_errno = 28, sn_close = 0, sn_rename = 0\<rparr>"
  obtain rc ops w where p: "opcd_snapshot_publish sys (Some ex_ack) (Some (bytes_of ''/s'')) False = (rc, ops, w)"
    by (metis surj_pair)
  have e: "sn_errno sys \<noteq> 0" "sn_now sys = 12" by (simp_all add: sys_def)
  show ?thesis
    using snapshot_publish_atomic [OF p e(1), of 2 "[bytes_of ''/s'' \<mapsto> [1]]"] p e
    unfolding sys_def [symmetric] by simp
qed

text \<open>A warning is printed only when the last attempt before it succeeded or nothing was printed yet.\<close>

lemma snapshot_warns_once:
  assumes "opcd_snapshot_publish sys (Some a) (Some p) warned = (rc, ops, msg, warned')" "sn_errno sys \<noteq> 0"
  shows "msg \<longleftrightarrow> rc \<noteq> 0 \<and> \<not> warned" "warned' \<longleftrightarrow> rc \<noteq> 0"
  using assms by (auto simp: opcd_snapshot_publish_def Let_def warn_once_def split: if_splits prod.splits)

end
