(* ===== verification/Vhlctl.thy ===== *)
theory Vhlctl
  imports Fielddump Conf_Readers Opcd_State
begin

text \<open>
  \<open>vhlctl/vhlctl.c\<close>: the command-line client. A run of the program is a function of its arguments and of what the socket
  calls return; its result is the exit code, the text on the standard output and the datagrams it sent. Messages on the
  standard error stream (errors, usage, the raw dump of \<open>--dump\<close>) are left out.
\<close>

subsection \<open>State, surroundings and result\<close>

record vhl_state =
  g_host :: "u8 list"
  g_port :: int
  g_timeout_ms :: int
  g_seq :: u16
  g_dump :: bool
  g_hex :: bool

definition vhl_zero :: vhl_state where
  "vhl_zero = \<lparr>g_host = bytes_of ''127.0.0.1'', g_port = 50607, g_timeout_ms = 2000, g_seq = 1, g_dump = False, g_hex = False\<rparr>"

text \<open>A result of \<open>recv\<close> in the listening loop.\<close>

datatype listen_recv = ListenEintr | ListenErr | ListenData "u8 list"

text \<open>\<open>vc_peer\<close> gives the datagram that comes back for a sent one, if any comes within the timeout.\<close>

record vhl_calls =
  vc_socket :: bool
  vc_send :: bool
  vc_peer :: "u32 \<Rightarrow> u16 \<Rightarrow> u8 list \<Rightarrow> u8 list option"
  vc_bind :: bool
  vc_listen :: "listen_recv list"

text \<open>The exit code is \<open>None\<close> while the program still listens.\<close>

record vhl_run =
  vr_code :: "int option"
  vr_out :: "u8 list"
  vr_sent :: "(u32 \<times> u16 \<times> u8 list) list"
  vr_state :: vhl_state

type_synonym vhl_args = "u8 list list"

subsection \<open>Arguments\<close>

definition result_str :: "u16 \<Rightarrow> u8 list" where
  "result_str r = (if r = OPC_RESULT_OK then bytes_of ''OK'' else bytes_of ''NG'')"

definition err_str :: "u16 \<Rightarrow> u8 list" where
  "err_str e = bytes_of
     (if e = 0x0000 then ''none''
      else if e = 0x0001 then ''login-violation''
      else if e = 0x0002 then ''login-condition''
      else if e = 0x0003 then ''packet-size''
      else if e = 0x0004 then ''nvram''
      else if e = 0x0010 then ''0x0010 (indication-violation/pw-mismatch/slot-range/station-type)''
      else if e = 0x0011 then ''0x0011 (slot-empty/radio-freq/ipcfg-ip/pw-char)''
      else if e = 0x0012 then ''0x0012 (ip-change-conflict/ind-recipient-ip/pw-nul/ipcfg-netmask/radio-scan-ch)''
      else if e = 0x0013 then ''0x0013 (radio-mode/ipcfg-gw/new-pw-char)''
      else if e = 0x0014 then ''0x0014 (radio-bw/new-pw-nul/ipcfg-ntp)''
      else if e = 0x0015 then ''0x0015 (ipcfg-essid-char/radio-priority-band)''
      else if e = 0x0016 then ''0x0016 (ipcfg-essid-nul/radio-priority-ch)''
      else if e = 0x0018 then ''0x0018 (list-sequence)''
      else if e = 0x0050 then ''0x0050 (radio-apply refused / ip-change subnet clash)''
      else ''other'')"

fun opt_value :: "vhl_args \<Rightarrow> string \<Rightarrow> u8 list ptr \<Rightarrow> u8 list ptr" where
  "opt_value (a # b # r) flag dflt = (if a = bytes_of flag then Some b else opt_value (b # r) flag dflt)"
| "opt_value _ flag dflt = dflt"

abbreviation opt_or :: "vhl_args \<Rightarrow> string \<Rightarrow> string \<Rightarrow> u8 list" where
  "opt_or argv flag dflt \<equiv> the (opt_value argv flag (Some (bytes_of dflt)))"

definition vhl_parse_ipv4 :: "u8 list \<Rightarrow> u32" where
  "vhl_parse_ipv4 s = (case inet_pton s of None \<Rightarrow> 0 | Some a \<Rightarrow> a)"

definition atoi :: "u8 list \<Rightarrow> int" where
  "atoi s = sint (word_of_int (case strtol s of None \<Rightarrow> 0 | Some (v, _) \<Rightarrow> v) :: u32)"

text \<open>\<open>strtoul(s, NULL, 0)\<close>.\<close>

definition strtoul_auto :: "u8 list \<Rightarrow> u64" where
  "strtoul_auto s = (case strtoul_base 0 s of None \<Rightarrow> 0 | Some (v, _, _) \<Rightarrow> v)"

definition parse_host_port :: "u8 list \<Rightarrow> nat \<Rightarrow> (u8 list \<times> int) option" where
  "parse_host_port spec host_cap =
     (let h = takeWhile (\<lambda>c. c \<noteq> 58) spec in
      if 58 \<notin> set spec \<or> h = [] \<or> length h \<ge> host_cap then None
      else let port = atoi (drop (length h + 1) spec) in if port > 0 then Some (h, port) else None)"

text \<open>\<open>strncpy\<close> into a zeroed array of \<open>n\<close> bytes, leaving the last one.\<close>

definition strncpy_field :: "nat \<Rightarrow> u8 list \<Rightarrow> u8 list" where
  "strncpy_field n s = put 0 (take (n - 1) (cstr s)) (replicate n 0)"

subsection \<open>One request\<close>

definition vhl_next_seq :: "vhl_state \<Rightarrow> u16 \<times> vhl_state" where
  "vhl_next_seq st = (g_seq st, st\<lparr>g_seq := g_seq st + 1\<rparr>)"

definition open_client_socket :: "vhl_calls \<Rightarrow> vhl_state \<Rightarrow> (u32 \<times> u16) option" where
  "open_client_socket C st =
     (if \<not> vc_socket C then None else map_option (\<lambda>ip. (ip, word_of_int (g_port st))) (inet_pton (g_host st)))"

text \<open>The datagrams sent and the one received.\<close>

definition send_recv :: "vhl_calls \<Rightarrow> u32 \<times> u16 \<Rightarrow> u8 list option \<Rightarrow> (u32 \<times> u16 \<times> u8 list) list \<times> u8 list option" where
  "send_recv C dst tx =
     (case (dst, tx) of
        ((ip, port), Some f) \<Rightarrow>
          if \<not> vc_send C then ([], None) else ([(ip, port, f)], map_option (take OPC_FRAME_MAX) (vc_peer C ip port f))
      | _ \<Rightarrow> ([], None))"

definition vhl_exit :: "vhl_state \<Rightarrow> int \<Rightarrow> vhl_run" where
  "vhl_exit st code = \<lparr>vr_code = Some code, vr_out = [], vr_sent = [], vr_state = st\<rparr>"

text \<open>The frame of every request command: open the socket, pack the request with the next sequence number, send it, wait
  for the answer and evaluate it.\<close>

definition run_request ::
  "vhl_calls \<Rightarrow> vhl_state \<Rightarrow> (u16 \<Rightarrow> u8 list option) \<Rightarrow> (u8 list \<Rightarrow> int \<times> u8 list) \<Rightarrow> vhl_run" where
  "run_request C st pack eval =
     (case open_client_socket C st of
        None \<Rightarrow> vhl_exit st 2
      | Some dst \<Rightarrow>
          (case vhl_next_seq st of (seq, st) \<Rightarrow>
             (case send_recv C dst (pack seq) of
                (sent, None) \<Rightarrow> (vhl_exit st 2)\<lparr>vr_sent := sent\<rparr>
              | (sent, Some rx) \<Rightarrow>
                  (case eval rx of (code, out) \<Rightarrow>
                     \<lparr>vr_code = Some code, vr_out = out, vr_sent = sent, vr_state = st\<rparr>))))"

text \<open>The line of a simple acknowledgment and the exit code.\<close>

definition ack_report :: "u8 list \<Rightarrow> opc_ack_t option \<Rightarrow> int \<times> u8 list" where
  "ack_report what ack =
     (case ack of
        None \<Rightarrow> (2, [])
      | Some a \<Rightarrow>
          (if ack_result a = OPC_RESULT_OK then 0 else 1,
           what @ bytes_of '': '' @ result_str (ack_result a) @ bytes_of '' err='' @ err_str (ack_error_cause a)
             @ bytes_of ''(0x'' @ hexw 4 (unat (ack_error_cause a)) @ bytes_of '')'' @ [10]))"

subsection \<open>Session commands\<close>

definition cmd_login :: "vhl_calls \<Rightarrow> vhl_state \<Rightarrow> vhl_args \<Rightarrow> vhl_run" where
  "cmd_login C st argv =
     (let pw = opt_or argv ''--password'' ''MyPassword'';
          req = \<lparr>lr_password = strncpy_field 128 pw, lr_password_terminated = False\<rparr>
      in run_request C st (\<lambda>seq. opc_login_req_pack (Some OPC_FRAME_MAX) seq (Some req))
           (\<lambda>rx. ack_report (bytes_of ''login'') (opc_login_ack_unpack (Some rx))))"

definition cmd_logout :: "vhl_calls \<Rightarrow> vhl_state \<Rightarrow> vhl_args \<Rightarrow> vhl_run" where
  "cmd_logout C st argv =
     run_request C st (opc_logout_req_pack (Some OPC_FRAME_MAX))
       (\<lambda>rx. ack_report (bytes_of ''logout'') (opc_logout_ack_unpack (Some rx)))"

definition cmd_reset :: "vhl_calls \<Rightarrow> vhl_state \<Rightarrow> vhl_args \<Rightarrow> vhl_run" where
  "cmd_reset C st argv =
     run_request C st (opc_reset_req_pack (Some OPC_FRAME_MAX))
       (\<lambda>rx. ack_report (bytes_of ''reset'') (opc_reset_ack_unpack (Some rx)))"

definition cmd_set_password :: "vhl_calls \<Rightarrow> vhl_state \<Rightarrow> vhl_args \<Rightarrow> vhl_run" where
  "cmd_set_password C st argv =
     (case (opt_value argv ''--old'' None, opt_value argv ''--new'' None) of
        (Some old_pw, Some new_pw) \<Rightarrow>
          (let req = \<lparr>sp_old_password = strncpy_field 128 old_pw, sp_new_password = strncpy_field 128 new_pw,
                      sp_old_password_terminated = False, sp_new_password_terminated = False\<rparr>
           in run_request C st (\<lambda>seq. opc_set_password_req_pack (Some OPC_FRAME_MAX) seq (Some req))
                (\<lambda>rx. ack_report (bytes_of ''set-password'') (opc_set_password_ack_unpack (Some rx))))
      | _ \<Rightarrow> vhl_exit st 2)"

subsection \<open>Reading commands\<close>

definition vhl_line :: "u8 list \<Rightarrow> u8 list" where
  "vhl_line s = s @ [10]"

definition print_mac :: "string \<Rightarrow> u8 list \<Rightarrow> u8 list" where
  "print_mac label mac = vhl_line (bytes_of ''  '' @ bytes_of label @ bytes_of '' = '' @ mac_text mac)"

definition print_scan :: "string \<Rightarrow> opc_wlan_radio_state_t \<Rightarrow> u8 list" where
  "print_scan label w =
     vhl_line (bytes_of ''  '' @ bytes_of label @ bytes_of '' scan_band=0x'' @ hexw 4 (unat (rs_scan_band w))
       @ bytes_of '' scan_chlist='' @ concat (map hex2 (take OPC_SCAN_CHLIST_LEN (rs_scan_chlist w))))"

definition print_ipv4 :: "string \<Rightarrow> u32 \<Rightarrow> u8 list" where
  "print_ipv4 label host_ip = vhl_line (bytes_of ''  '' @ bytes_of label @ bytes_of '' = '' @ ipv4_str host_ip)"

definition basic_info_text :: "opc_get_basic_info_ack_t \<Rightarrow> u8 list" where
  "basic_info_text a =
     vhl_line (bytes_of ''basic-info:'')
     @ vhl_line (bytes_of ''  vendor_code     = 0x'' @ hexw 8 (unat (bi_vendor_code a)))
     @ vhl_line (bytes_of ''  product_code    = 0x'' @ hexw 4 (unat (bi_product_code a)))
     @ vhl_line (bytes_of ''  product_subcode = 0x'' @ hexw 4 (unat (bi_product_subcode a)))
     @ vhl_line (bytes_of ''  device_status   = 0x'' @ hexw 8 (unat (bi_device_status a)) @ bytes_of '' ''
         @ bytes_of (if bi_device_status a = OPC_DEVICE_LOGGED_IN then ''(logged-in)''
                     else if bi_device_status a = OPC_DEVICE_READY then ''(ready)'' else ''(booting)''))
     @ vhl_line (bytes_of ''  station_type    = '' @ bytes_of (if bi_station_type a = OPC_STATION_DUAL then ''DUAL'' else ''SINGLE''))"

definition cmd_basic_info :: "vhl_calls \<Rightarrow> vhl_state \<Rightarrow> vhl_args \<Rightarrow> vhl_run" where
  "cmd_basic_info C st argv =
     run_request C st (opc_get_basic_info_req_pack (Some OPC_FRAME_MAX))
       (\<lambda>rx. let ack = opc_get_basic_info_ack_unpack (Some rx) in
          if g_hex st then
            (if ack = None then 2 else 0, vhl_line (bytes_of ''basic-info (--hex):'') @ fd_dump_basic_info (Some rx))
          else (case ack of None \<Rightarrow> (2, []) | Some a \<Rightarrow> (0, basic_info_text a)))"

definition radio_text :: "string \<Rightarrow> opc_wlan_radio_state_t \<Rightarrow> u8 list" where
  "radio_text w r =
     vhl_line (bytes_of ''  '' @ bytes_of w @ bytes_of '': mode='' @ dec (unat (rs_mode r)) @ bytes_of '' bw='' @ dec (unat (rs_bandwidth r))
       @ bytes_of '' freq='' @ dec (unat (rs_freq_mhz r)) @ bytes_of '' ch=0x'' @ hexw 4 (unat (rs_channel r))
       @ bytes_of '' status=0x'' @ hexw 4 (unat (rs_status r)) @ bytes_of '' SNR='' @ dec_int (sint (rs_snr r))
       @ bytes_of '' RSSI='' @ dec_int (sint (rs_rssi r)))
     @ print_mac (w @ '' mac'') (rs_mac r) @ print_mac (w @ '' connect_ap_mac'') (rs_connect_ap_mac r) @ print_scan w r"

definition device_info_text :: "opc_get_device_info_ack_t \<Rightarrow> u8 list" where
  "device_info_text a =
     vhl_line (bytes_of ''device-info:'')
     @ vhl_line (bytes_of ''  vendor=0x'' @ hexw 8 (unat (di_vendor_code a)) @ bytes_of '' product=0x''
         @ hexw 4 (unat (di_product_code a)) @ bytes_of '' subcode=0x'' @ hexw 4 (unat (di_product_subcode a)))
     @ vhl_line (bytes_of ''  firmware='' @ cstr (di_firmware_version a) @ bytes_of '' hardware=''
         @ cstr (di_hardware_version a) @ bytes_of '' serial='' @ cstr (di_serial_number a))
     @ print_mac ''ethernet_mac'' (di_ethernet_mac a)
     @ print_ipv4 ''ip_address'' (di_ip_address a) @ print_ipv4 ''subnet_mask'' (di_subnet_mask a)
     @ print_ipv4 ''default_gateway'' (di_default_gateway a) @ print_ipv4 ''ntp_server'' (di_ntp_server a)
     @ vhl_line (bytes_of ''  essid='' @ [39] @ cstr (di_essid a) @ [39])
     @ vhl_line (bytes_of ''  device_status=0x'' @ hexw 8 (unat (di_device_status a)) @ bytes_of '' station_type=''
         @ bytes_of (if di_station_type a = OPC_STATION_DUAL then ''DUAL'' else ''SINGLE'') @ bytes_of '' priority_ch=0x''
         @ hexw 4 (unat (di_priority_ch a)))
     @ vhl_line (bytes_of ''  802.11r='' @ dec (unat (di_ieee_11r a)) @ bytes_of '' 11ai='' @ dec (unat (di_ieee_11ai a))
         @ bytes_of '' 11k='' @ dec (unat (di_ieee_11k a)) @ bytes_of '' 11v='' @ dec (unat (di_ieee_11v a)))
     @ radio_text ''WLAN#1'' (di_wlan1 a)
     @ (if di_station_type a = OPC_STATION_DUAL then radio_text ''WLAN#2'' (di_wlan2 a) else [])"

definition cmd_device_info :: "vhl_calls \<Rightarrow> vhl_state \<Rightarrow> vhl_args \<Rightarrow> vhl_run" where
  "cmd_device_info C st argv =
     run_request C st (opc_get_device_info_req_pack (Some OPC_FRAME_MAX))
       (\<lambda>rx. let ack = opc_get_device_info_ack_unpack (Some rx) in
          if g_hex st then
            (case ack of None \<Rightarrow> 2 | Some a \<Rightarrow> if di_result a = OPC_RESULT_OK then 0 else 1,
             vhl_line (bytes_of ''device-info (--hex):'') @ fd_dump_device_info (Some rx))
          else (case ack of
                  None \<Rightarrow> (2, [])
                | Some a \<Rightarrow>
                    if di_result a \<noteq> OPC_RESULT_OK then
                      (1, vhl_line (bytes_of ''device-info: NG err='' @ err_str (di_error_cause a) @ bytes_of ''(0x''
                            @ hexw 4 (unat (di_error_cause a)) @ bytes_of '')''))
                    else (0, device_info_text a)))"

subsection \<open>Address commands\<close>

definition list_flag :: "u8 list \<Rightarrow> u16 option" where
  "list_flag s =
     (if s = bytes_of ''start'' then Some OPC_LIST_BOUNDARY_START
      else if s = bytes_of ''cont'' then Some OPC_LIST_BOUNDARY_CONTINUE
      else if s = bytes_of ''end'' then Some OPC_LIST_BOUNDARY_END
      else if s = bytes_of ''start_end'' then Some OPC_LIST_BOUNDARY_START_END else None)"

definition cmd_set_ip_list :: "vhl_calls \<Rightarrow> vhl_state \<Rightarrow> vhl_args \<Rightarrow> vhl_run" where
  "cmd_set_ip_list C st argv =
     (let flag_s = opt_or argv ''--flag'' ''start'' in
      case list_flag flag_s of
        None \<Rightarrow> vhl_exit st 2
      | Some flag \<Rightarrow>
          (let e = \<lparr>boundary_flag = flag, list_number = word_of_int (atoi (opt_or argv ''--slot'' ''1'')),
                    ip_address = vhl_parse_ipv4 (opt_or argv ''--ip'' ''192.168.1.10''),
                    subnet_mask = vhl_parse_ipv4 (opt_or argv ''--mask'' ''255.255.255.0''),
                    default_gateway = vhl_parse_ipv4 (opt_or argv ''--gw'' ''192.168.1.1''),
                    ntp_server = vhl_parse_ipv4 (opt_or argv ''--ntp'' ''192.168.1.2''),
                    essid = strncpy_field OPC_ESSID_FIELD_LEN (opt_or argv ''--essid'' ''Cantops_WL'')\<rparr>;
               req = \<lparr>entry_count = 1, entries = e # replicate (OPC_IPCFG_LIST_MAX_PER_REQ - 1) zero_ipcfg_entry,
                      essid_terminated_mask = 0\<rparr>
           in run_request C st (\<lambda>seq. opc_set_ip_config_list_req_pack (Some OPC_FRAME_MAX) seq (Some req))
                (\<lambda>rx. ack_report (bytes_of ''set-ip-list[slot='' @ dec (unat (list_number e)) @ bytes_of '', flag='' @ flag_s
                          @ bytes_of '']'') (opc_set_ip_config_list_ack_unpack (Some rx)))))"

definition cmd_change_ip :: "vhl_calls \<Rightarrow> vhl_state \<Rightarrow> vhl_args \<Rightarrow> vhl_run" where
  "cmd_change_ip C st argv =
     (case opt_value argv ''--slot'' None of
        None \<Rightarrow> vhl_exit st 2
      | Some slot_s \<Rightarrow>
          (let req = \<lparr>ci_list_number = word_of_int (atoi slot_s)\<rparr>
           in run_request C st (\<lambda>seq. opc_change_ip_address_req_pack (Some OPC_FRAME_MAX) seq (Some req))
                (\<lambda>rx. ack_report (bytes_of ''change-ip[slot='' @ dec (unat (ci_list_number req)) @ bytes_of '']'')
                        (opc_change_ip_address_ack_unpack (Some rx)))))"

subsection \<open>Radio command\<close>

definition parse_scan_band :: "u8 list \<Rightarrow> u16" where
  "parse_scan_band s =
     (if s = bytes_of ''2.4'' \<or> s = bytes_of ''2.4g'' \<or> s = bytes_of ''2g'' then OPC_SCAN_BAND_2_4GHZ
      else if s = bytes_of ''5'' \<or> s = bytes_of ''5g'' then OPC_SCAN_BAND_5GHZ
      else if s = bytes_of ''6'' \<or> s = bytes_of ''6g'' then OPC_SCAN_BAND_6GHZ
      else if s = bytes_of ''none'' \<or> s = bytes_of ''unset'' then OPC_SCAN_BAND_UNSET
      else ucast (strtoul_auto s))"

text \<open>The tokens of \<open>strtok(buf, ",")\<close>; the first argument is the token read so far.\<close>

fun comma_tokens :: "u8 list \<Rightarrow> u8 list \<Rightarrow> u8 list list" where
  "comma_tokens cur [] = (if cur = [] then [] else [cur])"
| "comma_tokens cur (c # s) =
     (if c = 44 then (if cur = [] then [] else [cur]) @ comma_tokens [] s else comma_tokens (cur @ [c]) s)"

fun set_channels :: "u16 \<Rightarrow> u8 list list \<Rightarrow> u8 list \<Rightarrow> u8 list option" where
  "set_channels band [] l = Some l"
| "set_channels band (tok # toks) l =
     (let ch = strtoul_auto tok in
      if ch = 0 \<or> ch > 255 \<or> opc_scan_bit_for_channel band (ucast ch) = None then None
      else set_channels band toks (opc_scan_list_set_channel l band (ucast ch)))"

text \<open>\<open>sscanf(..., "%2x", &v)\<close> for the \<open>i\<close>-th byte.\<close>

definition hex_pair :: "u8 list \<Rightarrow> nat \<Rightarrow> u8 option" where
  "hex_pair s i = map_option (\<lambda>(neg, m, _). if neg then - of_nat m else of_nat m) (scan_num 16 2 (drop (2 * i) s))"

definition parse_scan_chlist :: "u8 list \<Rightarrow> u8 list \<Rightarrow> u16 \<Rightarrow> u8 list option" where
  "parse_scan_chlist list_s hex_s band =
     (if hex_s \<noteq> [] then
        (if length hex_s \<noteq> 2 * OPC_SCAN_CHLIST_LEN then None
         else let bs = map (hex_pair hex_s) [0..<OPC_SCAN_CHLIST_LEN] in
           if None \<in> set bs then None else Some (map the bs))
      else set_channels band (comma_tokens [] (take 255 list_s)) (replicate OPC_SCAN_CHLIST_LEN 0))"

definition radio_flags :: "u8 list list" where
  "radio_flags = map bytes_of [''--station'', ''--priority'',
     ''--w1-band'', ''--w1-chlist'', ''--w1-chlist-hex'', ''--w1-mode'', ''--w1-bw'',
     ''--w2-band'', ''--w2-chlist'', ''--w2-chlist-hex'', ''--w2-mode'', ''--w2-bw'']"

definition is_flag :: "u8 list \<Rightarrow> bool" where
  "is_flag a \<longleftrightarrow> take 2 a = [45, 45]"

text \<open>Every option is known; the argument after an option is skipped.\<close>

fun radio_flags_ok :: "vhl_args \<Rightarrow> bool" where
  "radio_flags_ok [] = True"
| "radio_flags_ok [a] = (is_flag a \<longrightarrow> a \<in> set radio_flags)"
| "radio_flags_ok (a # b # r) = (if is_flag a then a \<in> set radio_flags \<and> radio_flags_ok r else radio_flags_ok (b # r))"

definition radio_request :: "vhl_args \<Rightarrow> opc_set_radio_config_req_t option" where
  "radio_request argv =
     (let dual = (opt_or argv ''--station'' ''single'' = bytes_of ''dual'');
          band1 = parse_scan_band (opt_or argv ''--w1-band'' ''5'');
          band2 = parse_scan_band (opt_or argv ''--w2-band'' ''none'');
          prio_s = opt_or argv ''--priority'' ''auto'';
          prio = (if prio_s = bytes_of ''auto''
                  then (if dual then push_bit 8 (band1 AND 0xFF) OR 0xFF else 0xFFFF)
                  else ucast (strtoul_auto prio_s))
      in case parse_scan_chlist (opt_or argv ''--w1-chlist'' []) (opt_or argv ''--w1-chlist-hex'' []) band1 of
           None \<Rightarrow> None
         | Some l1 \<Rightarrow>
             (case parse_scan_chlist (opt_or argv ''--w2-chlist'' []) (opt_or argv ''--w2-chlist-hex'' []) band2 of
                None \<Rightarrow> None
              | Some l2 \<Rightarrow>
                  Some \<lparr>station_type = if dual then OPC_STATION_DUAL else OPC_STATION_SINGLE, priority_ch = prio,
                        wlan1 = \<lparr>rc_mode = ucast (strtoul_auto (opt_or argv ''--w1-mode'' ''11'')),
                                 rc_bandwidth = ucast (strtoul_auto (opt_or argv ''--w1-bw'' ''2'')),
                                 rc_scan_band = band1, rc_scan_chlist = l1\<rparr>,
                        wlan2 = \<lparr>rc_mode = ucast (strtoul_auto (opt_or argv ''--w2-mode'' ''0xff'')),
                                 rc_bandwidth = ucast (strtoul_auto (opt_or argv ''--w2-bw'' ''0xff'')),
                                 rc_scan_band = band2, rc_scan_chlist = l2\<rparr>\<rparr>))"

definition cmd_set_radio :: "vhl_calls \<Rightarrow> vhl_state \<Rightarrow> vhl_args \<Rightarrow> vhl_run" where
  "cmd_set_radio C st argv =
     (if \<not> radio_flags_ok argv then vhl_exit st 2
      else case radio_request argv of
             None \<Rightarrow> vhl_exit st 2
           | Some req \<Rightarrow>
               run_request C st (\<lambda>seq. opc_set_radio_config_req_pack (Some OPC_FRAME_MAX) seq (Some req))
                 (\<lambda>rx. ack_report (bytes_of ''set-radio'') (opc_set_radio_config_ack_unpack (Some rx))))"

subsection \<open>Indications\<close>

definition cmd_set_indication :: "vhl_calls \<Rightarrow> vhl_state \<Rightarrow> vhl_args \<Rightarrow> vhl_run" where
  "cmd_set_indication C st argv =
     (case opt_value argv ''--to'' None of
        None \<Rightarrow> vhl_exit st 2
      | Some to_s \<Rightarrow>
          (case parse_host_port to_s 64 of
             None \<Rightarrow> vhl_exit st 2
           | Some (host, port) \<Rightarrow>
               (let req = \<lparr>si_recipient_port = word_of_int port,
                           si_info_bits = ucast (strtoul_auto (opt_or argv ''--bits'' ''0x81'')),
                           si_period_seconds = word_of_int (atoi (opt_or argv ''--period'' ''5'')),
                           si_recipient_ip = vhl_parse_ipv4 host\<rparr>
                in run_request C st (\<lambda>seq. opc_set_indication_config_req_pack (Some OPC_FRAME_MAX) seq (Some req))
                     (\<lambda>rx. ack_report (bytes_of ''set-indication[bits=0x'' @ hexw 2 (unat (si_info_bits req)) @ bytes_of '' period=''
                               @ dec (unat (si_period_seconds req)) @ bytes_of ''s to='' @ to_s @ bytes_of '']'')
                             (opc_set_indication_config_ack_unpack (Some rx))))))"

definition ind_line :: "u16 \<Rightarrow> string \<Rightarrow> u8 list \<Rightarrow> u8 list" where
  "ind_line seq name rest = vhl_line (bytes_of ''['' @ dec (unat seq) @ bytes_of ''] '' @ pad_right 19 (bytes_of name) @ rest)"

text \<open>What is printed for a frame with the given indication.\<close>

definition ind_text :: "u16 \<Rightarrow> u16 \<Rightarrow> u8 list \<Rightarrow> u8 list" where
  "ind_text seq ind_id buf =
     (if ind_id = OPC_IND_INIT_COMPLETE then
        (case opc_ind_init_complete_unpack (Some buf) of
           None \<Rightarrow> [] | Some i \<Rightarrow> ind_line seq ''InitComplete'' (bytes_of ''status=0x'' @ hexw 8 (unat (ic_status i))))
      else if ind_id = OPC_IND_WLAN_STATUS_CHANGE then
        (case opc_ind_wlan_status_change_unpack (Some buf) of
           None \<Rightarrow> []
         | Some i \<Rightarrow> ind_line seq ''WlanStatusChange'' (bytes_of ''status=0x'' @ hexw 4 (unat (wsc_wlan_status i)) @ bytes_of '' ch=0x''
             @ hexw 4 (unat (wsc_indication_ch i))))
      else if ind_id = OPC_IND_ROAMING then
        (case opc_ind_roaming_unpack (Some buf) of
           None \<Rightarrow> []
         | Some i \<Rightarrow> ind_line seq ''Roaming'' (bytes_of ''snr='' @ dec_int (sint (ro_current_snr i)) @ bytes_of '' rssi=''
             @ dec_int (sint (ro_current_rssi i)) @ bytes_of '' ch=0x'' @ hexw 4 (unat (ro_ch_number i)))
             @ print_mac ''ap_mac'' (ro_connect_ap_mac i))
      else if ind_id = OPC_IND_AP_DISCONNECT then
        (case opc_ind_ap_disconnect_unpack (Some buf) of
           None \<Rightarrow> []
         | Some i \<Rightarrow> ind_line seq ''ApDisconnect'' (bytes_of ''msg=0x'' @ hexw 4 (unat (ad_message_id i)) @ bytes_of '' reason=0x''
             @ hexw 4 (unat (ad_result_code i))) @ print_mac ''ap_mac'' (ad_disconnect_ap_mac i))
      else if ind_id = OPC_IND_FAULT_DETECT then
        (case opc_ind_fault_detect_unpack (Some buf) of
           None \<Rightarrow> []
         | Some i \<Rightarrow> ind_line seq ''FaultDetect'' (bytes_of ''congestion=0x'' @ hexw 4 (unat (fd_congestion_id i)) @ bytes_of '' val=''
             @ dec (unat (fd_current_val i))))
      else if ind_id = OPC_IND_RESET_NOTICE then
        (case opc_ind_reset_notice_unpack (Some buf) of
           None \<Rightarrow> [] | Some i \<Rightarrow> ind_line seq ''ResetNotice'' (bytes_of ''cause=0x'' @ hexw 8 (unat (rn_reset_cause i))))
      else if ind_id = OPC_IND_KEEP_ALIVE then
        (case opc_ind_keep_alive_unpack (Some buf) of
           None \<Rightarrow> [] | Some i \<Rightarrow> ind_line seq ''KeepAlive'' (bytes_of ''ts='' @ cstr (ka_timestamp i)))
      else [])"

definition listen_datagram :: "bool \<Rightarrow> u8 list \<Rightarrow> u8 list" where
  "listen_datagram hex buf =
     (case opc_frame_parse (Some buf) of
        None \<Rightarrow> []
      | Some (hdr, _) \<Rightarrow>
          if command_type hdr \<noteq> OPC_CMD_INDICATION then []
          else if hex then
            vhl_line (bytes_of ''['' @ dec (unat (sequence_number hdr)) @ bytes_of ''] indication 0x''
              @ hexw 4 (unat (req_indication_id hdr)) @ bytes_of '' (--hex):'')
            @ fd_dump_indication (req_indication_id hdr) (Some buf)
          else ind_text (sequence_number hdr) (req_indication_id hdr) buf)"

text \<open>The exit code, once a receive fails, and the text.\<close>

fun listen_loop :: "bool \<Rightarrow> listen_recv list \<Rightarrow> int option \<times> u8 list" where
  "listen_loop hex [] = (None, [])"
| "listen_loop hex (ListenEintr # rs) = listen_loop hex rs"
| "listen_loop hex (ListenErr # rs) = (Some 0, [])"
| "listen_loop hex (ListenData d # rs) =
     (case listen_loop hex rs of (code, out) \<Rightarrow> (code, listen_datagram hex (take OPC_FRAME_MAX d) @ out))"

definition cmd_listen :: "vhl_calls \<Rightarrow> vhl_state \<Rightarrow> vhl_args \<Rightarrow> vhl_run" where
  "cmd_listen C st argv =
     (case parse_host_port (opt_or argv ''--bind'' ''0.0.0.0:9999'') 64 of
        None \<Rightarrow> vhl_exit st 2
      | Some (host, port) \<Rightarrow>
          if \<not> vc_socket C \<or> inet_pton host = None \<or> \<not> vc_bind C then vhl_exit st 2
          else (case listen_loop (g_hex st) (vc_listen C) of (code, out) \<Rightarrow> (vhl_exit st 0)\<lparr>vr_code := code, vr_out := out\<rparr>))"

subsection \<open>Main\<close>

text \<open>The options before the command: the state and the remaining arguments, or \<open>None\<close> for \<open>--help\<close>.\<close>

function vhl_options :: "vhl_state \<Rightarrow> vhl_args \<Rightarrow> (vhl_state \<times> vhl_args) option" where
  "vhl_options st argv =
     (case argv of
        [] \<Rightarrow> Some (st, [])
      | a # r \<Rightarrow>
          if \<not> is_flag a then Some (st, argv)
          else if a = bytes_of ''--host'' \<and> r \<noteq> [] then vhl_options (st\<lparr>g_host := hd r\<rparr>) (tl r)
          else if a = bytes_of ''--port'' \<and> r \<noteq> [] then vhl_options (st\<lparr>g_port := atoi (hd r)\<rparr>) (tl r)
          else if a = bytes_of ''--timeout'' \<and> r \<noteq> [] then vhl_options (st\<lparr>g_timeout_ms := atoi (hd r)\<rparr>) (tl r)
          else if a = bytes_of ''--dump'' then vhl_options (st\<lparr>g_dump := True\<rparr>) r
          else if a = bytes_of ''--hex'' then vhl_options (st\<lparr>g_hex := True\<rparr>) r
          else if a = bytes_of ''--help'' then None
          else Some (st, argv))"
  by pat_completeness auto
termination
  by (relation "measure (\<lambda>(_, argv). length argv)") auto

declare vhl_options.simps [simp del]

definition vhl_commands :: "(u8 list \<times> (vhl_calls \<Rightarrow> vhl_state \<Rightarrow> vhl_args \<Rightarrow> vhl_run)) list" where
  "vhl_commands =
     [(bytes_of ''login'', cmd_login), (bytes_of ''logout'', cmd_logout), (bytes_of ''basic-info'', cmd_basic_info),
      (bytes_of ''device-info'', cmd_device_info), (bytes_of ''set-password'', cmd_set_password),
      (bytes_of ''set-ip-list'', cmd_set_ip_list), (bytes_of ''change-ip'', cmd_change_ip),
      (bytes_of ''set-radio'', cmd_set_radio), (bytes_of ''set-indication'', cmd_set_indication),
      (bytes_of ''reset'', cmd_reset), (bytes_of ''listen'', cmd_listen)]"

text \<open>The arguments without the program's name.\<close>

definition vhl_main :: "vhl_calls \<Rightarrow> vhl_args \<Rightarrow> vhl_run" where
  "vhl_main C argv =
     (case vhl_options vhl_zero argv of
        None \<Rightarrow> vhl_exit vhl_zero 0
      | Some (st, []) \<Rightarrow> vhl_exit st 2
      | Some (st, cmd # sub_argv) \<Rightarrow>
          (case map_of vhl_commands cmd of None \<Rightarrow> vhl_exit st 2 | Some f \<Rightarrow> f C st sub_argv))"

end
