(* ===== verification/Vhl_Claims.thy ===== *)
theory Vhl_Claims
  imports Vhlctl Daemon_Claims
begin

text \<open>
  The client and the daemon together: what the exit code of the client says about the session of the daemon, and what the
  channel list on the command line becomes in the request that the daemon reads.
\<close>

subsection \<open>Commands with a simple acknowledgment\<close>

text \<open>What the client relies on: an acknowledgment that the daemon packed is read back.\<close>

locale acked_command =
  fixes ack_pack :: "outbuf \<Rightarrow> u16 \<Rightarrow> opc_ack_t ptr \<Rightarrow> u8 list option" and ack_unpack :: "u8 list ptr \<Rightarrow> opc_ack_t option"
  assumes ack_back: "\<exists>f. ack_pack (Some OPC_FRAME_MAX) s (Some a) = Some f \<and> f \<noteq> [] \<and> length f \<le> OPC_FRAME_MAX
      \<and> ack_unpack (Some f) = Some a"
begin

lemma reported:
  assumes "open_client_socket C vs = Some (ip, port)" "vc_send C" "pack (g_seq vs) = Some tx"
    and "vc_peer C ip port tx = ack_pack (Some OPC_FRAME_MAX) s (Some a)"
  shows "vr_code (run_request C vs pack (\<lambda>rx. ack_report what (ack_unpack (Some rx)))) =
      Some (if ack_result a = OPC_RESULT_OK then 0 else 1)"
    "vr_sent (run_request C vs pack (\<lambda>rx. ack_report what (ack_unpack (Some rx)))) = [(ip, port, tx)]"
proof -
  obtain f where "ack_pack (Some OPC_FRAME_MAX) s (Some a) = Some f" "length f \<le> OPC_FRAME_MAX" "ack_unpack (Some f) = Some a"
    using ack_back by blast
  then show "vr_code (run_request C vs pack (\<lambda>rx. ack_report what (ack_unpack (Some rx)))) =
      Some (if ack_result a = OPC_RESULT_OK then 0 else 1)"
    "vr_sent (run_request C vs pack (\<lambda>rx. ack_report what (ack_unpack (Some rx)))) = [(ip, port, tx)]"
    using assms by (simp_all add: run_request_def vhl_next_seq_def send_recv_def ack_report_def)
qed

lemma unanswered:
  assumes "open_client_socket C vs = None \<or> \<not> vc_send C
    \<or> (\<forall>ip port tx. vc_peer C ip port tx = None)"
  shows "vr_code (run_request C vs pack (\<lambda>rx. ack_report what (ack_unpack (Some rx)))) = Some 2"
  using assms by (auto simp: run_request_def vhl_next_seq_def send_recv_def vhl_exit_def split: option.splits)

lemma code_range:
  "vr_code (run_request C vs pack (\<lambda>rx. ack_report what (ack_unpack (Some rx)))) \<in> {Some 0, Some 1, Some 2}"
  by (auto simp: run_request_def vhl_next_seq_def send_recv_def vhl_exit_def ack_report_def split: option.splits)

end

lemma simple_ack_back:
  "\<exists>f. opc_simple_ack_pack (Some OPC_FRAME_MAX) i s OPC_SIMPLE_ACK_LENGTH (ack_result a) (ack_error_cause a) = Some f
    \<and> f \<noteq> [] \<and> length f \<le> OPC_FRAME_MAX \<and> opc_simple_ack_unpack (Some f) i = Some a"
proof -
  obtain f where "opc_simple_ack_pack (Some OPC_FRAME_MAX) i s OPC_SIMPLE_ACK_LENGTH (ack_result a) (ack_error_cause a) = Some f"
      "length f = 68" "opc_simple_ack_unpack (Some f) i = Some \<lparr>ack_result = ack_result a, ack_error_cause = ack_error_cause a\<rparr>"
    using simple_ack_roundtrip [where cap = OPC_FRAME_MAX and req_id = i and s = s and expected = i
        and res = "ack_result a" and cause = "ack_error_cause a"] by auto
  then show ?thesis by (intro exI [of _ f]) auto
qed

interpretation login_cmd: acked_command opc_login_ack_pack opc_login_ack_unpack
  by unfold_locales (unfold opc_login_ack_pack_def opc_login_ack_unpack_def option.case, rule simple_ack_back)

interpretation logout_cmd: acked_command opc_logout_ack_pack opc_logout_ack_unpack
  by unfold_locales (unfold opc_logout_ack_pack_def opc_logout_ack_unpack_def option.case, rule simple_ack_back)

interpretation set_password_cmd: acked_command opc_set_password_ack_pack opc_set_password_ack_unpack
  by unfold_locales (unfold opc_set_password_ack_pack_def opc_set_password_ack_unpack_def option.case, rule simple_ack_back)

interpretation set_ip_list_cmd: acked_command opc_set_ip_config_list_ack_pack opc_set_ip_config_list_ack_unpack
  by unfold_locales (unfold opc_set_ip_config_list_ack_pack_def opc_set_ip_config_list_ack_unpack_def option.case, rule simple_ack_back)

interpretation change_ip_cmd: acked_command opc_change_ip_address_ack_pack opc_change_ip_address_ack_unpack
  by unfold_locales (unfold opc_change_ip_address_ack_pack_def opc_change_ip_address_ack_unpack_def option.case, rule simple_ack_back)

interpretation set_radio_cmd: acked_command opc_set_radio_config_ack_pack opc_set_radio_config_ack_unpack
  by unfold_locales (unfold opc_set_radio_config_ack_pack_def opc_set_radio_config_ack_unpack_def option.case, rule simple_ack_back)

interpretation set_indication_cmd: acked_command opc_set_indication_config_ack_pack opc_set_indication_config_ack_unpack
  by unfold_locales (unfold opc_set_indication_config_ack_pack_def opc_set_indication_config_ack_unpack_def option.case, rule simple_ack_back)

interpretation reset_cmd: acked_command opc_reset_ack_pack opc_reset_ack_unpack
  by unfold_locales (unfold opc_reset_ack_pack_def opc_reset_ack_unpack_def option.case OPC_RESET_ACK_LENGTH_def,
      rule simple_ack_back [unfolded OPC_SIMPLE_ACK_LENGTH_def])

subsection \<open>Login against the daemon\<close>

text \<open>The daemon in state \<open>st\<close> as the peer of a client at the given address and port.\<close>

definition opcd_peer :: "env \<Rightarrow> opcd_state_t \<Rightarrow> u32 \<Rightarrow> u16 \<Rightarrow> u8 list \<Rightarrow> u8 list option" where
  "opcd_peer E st cip cport tx =
     (case opcd_dispatch E st tx cip cport OPC_FRAME_MAX of
        (rc, resp, _) \<Rightarrow> if rc = 0 \<and> resp \<noteq> [] then Some resp else None)"

lemma peer_login:
  fixes E st cip
  assumes "opc_login_req_pack (Some OPC_FRAME_MAX) s (Some req) = Some tx"
  defines "err \<equiv> login_error (idle_logout E st) (opc_login_req_unpack (Some tx)) cip"
  shows "opcd_dispatch E st tx cip cport OPC_FRAME_MAX = (0, handle_login E (idle_logout E st) tx cip cport OPC_FRAME_MAX s)"
    "opcd_peer E st cip cport tx = opc_login_ack_pack (Some OPC_FRAME_MAX) s (Some (ack_of err))"
proof -
  show d: "opcd_dispatch E st tx cip cport OPC_FRAME_MAX = (0, handle_login E (idle_logout E st) tx cip cport OPC_FRAME_MAX s)"
    using login_req.packed [of s req] assms(1) by (auto simp: opcd_dispatch_def Let_def opcd_dispatch_table_def)
  obtain f where "opc_login_ack_pack (Some OPC_FRAME_MAX) s (Some (ack_of err)) = Some f" "f \<noteq> []"
    using login_cmd.ack_back by blast
  then show "opcd_peer E st cip cport tx = opc_login_ack_pack (Some OPC_FRAME_MAX) s (Some (ack_of err))"
    unfolding opcd_peer_def d by (simp add: handle_login_def Let_def emit_ack_def err_def)
qed

text \<open>C19: The exit code of the client's login command tells the truth about the daemon: run against a daemon in which the
  client does not hold the session, the command sends one Login request and exits with 0 exactly when the daemon, after
  handling that request, has the client as the holder of its session, and with 1 otherwise.\<close>

theorem vhlctl_login_reports_session:
  assumes "open_client_socket C vs = Some (ip, port)" "vc_send C" "vc_peer C ip port = opcd_peer E st cip cport"
    and "\<not> session_owns (idle_logout E st) cip"
  shows "\<exists>tx. vr_sent (cmd_login C vs argv) = [(ip, port, tx)]
    \<and> vr_code (cmd_login C vs argv) =
        Some (if session_owns (snd (snd (opcd_dispatch E st tx cip cport OPC_FRAME_MAX))) cip then 0 else 1)"
proof -
  let ?req = "\<lparr>lr_password = strncpy_field 128 (opt_or argv ''--password'' ''MyPassword''), lr_password_terminated = False\<rparr>"
  obtain tx where tx: "opc_login_req_pack (Some OPC_FRAME_MAX) (g_seq vs) (Some ?req) = Some tx"
    using login_req.packed [of "g_seq vs" ?req] by blast
  note p = peer_login [OF tx, of E st cip cport]
  define err where "err = login_error (idle_logout E st) (opc_login_req_unpack (Some tx)) cip"
  have r: "vc_peer C ip port tx = opc_login_ack_pack (Some OPC_FRAME_MAX) (g_seq vs) (Some (ack_of err))"
    using p(2) by (simp add: assms(3) err_def)
  have "session_owns (snd (snd (opcd_dispatch E st tx cip cport OPC_FRAME_MAX))) cip \<longleftrightarrow> err = OPC_ERR_NONE"
    unfolding p(1) using assms(4) by (simp add: handle_login_def Let_def err_def [symmetric] owns_login_grant)
  then show ?thesis
    using login_cmd.reported [where pack = "\<lambda>seq. opc_login_req_pack (Some OPC_FRAME_MAX) seq (Some ?req)"
        and what = "bytes_of ''login''", OF assms(1,2) tx r]
    by (intro exI [of _ tx]) (simp add: cmd_login_def Let_def ack_of_def)
qed

text \<open>A freshly started daemon and the client's default arguments.\<close>

theorem vhlctl_login_reports_session_witness:
  "\<exists>st C. main_start (stub_env 0) stub_start stub_opts Map.empty = Some st \<and> \<not> session_owns st 0xC0A80001
     \<and> vc_peer C = (\<lambda>ip port. opcd_peer (stub_env 0) st 0xC0A80001 4000) \<and> vr_code (cmd_login C vhl_zero []) = Some 0"
proof -
  let ?E = "stub_env 0" and ?ip = "0xC0A80001 :: u32"
  obtain st where m: "main_start ?E stub_start stub_opts Map.empty = Some st" and l: "\<not> logged_in st"
      and b: "boot_status st = OPC_DEVICE_READY" and pw: "password st = put 0 OPC_PASSWORD_DEFAULT zero_password"
    using stub_started by blast
  define C where "C = \<lparr>vc_socket = True, vc_send = True, vc_peer = (\<lambda>ip port. opcd_peer ?E st ?ip 4000), vc_bind = True,
    vc_listen = []\<rparr>"
  let ?req = "\<lparr>lr_password = strncpy_field 128 (bytes_of ''MyPassword''), lr_password_terminated = False\<rparr>"
  have i: "idle_logout ?E st = st" using l by (rule idle_logout_out)
  have a: "open_client_socket C vhl_zero = Some (0x7F000001, 50607)"
    by (simp add: C_def open_client_socket_def vhl_zero_def) code_simp
  obtain tx where tx: "opc_login_req_pack (Some OPC_FRAME_MAX) 1 (Some ?req) = Some tx"
    using login_req.packed [of 1 ?req] by blast
  have n: "\<not> session_owns (idle_logout ?E st) ?ip" using l i by (simp add: session_owns_def)
  obtain tx' where t: "vr_sent (cmd_login C vhl_zero []) = [(0x7F000001, 50607, tx')]"
      "vr_code (cmd_login C vhl_zero []) =
        Some (if session_owns (snd (snd (opcd_dispatch ?E st tx' ?ip 4000 OPC_FRAME_MAX))) ?ip then 0 else 1)"
    using vhlctl_login_reports_session [OF a _ _ n, of 4000 "[]"] by (auto simp: C_def)
  have "tx' = tx"
    using t(1) a tx by (simp add: cmd_login_def run_request_def vhl_next_seq_def send_recv_def C_def vhl_zero_def Let_def
        split: option.splits prod.splits)
  moreover have "login_error st (opc_login_req_unpack (Some tx)) ?ip = OPC_ERR_NONE"
  proof -
    have c: "cstr (strncpy_field 128 (bytes_of ''MyPassword'')) = bytes_of ''MyPassword''"
      "cstr (put 0 OPC_PASSWORD_DEFAULT zero_password) = bytes_of ''MyPassword''"
      by code_simp+
    have "list_all opc_charset (bytes_of ''MyPassword'')" "take 127 (bytes_of ''MyPassword'') = bytes_of ''MyPassword''"
      "bytes_of ''MyPassword'' \<noteq> []" by code_simp+
    then show ?thesis
      using login_req.unpack_pack [OF TrueI tx] l b
      by (simp add: login_error_def pw c valid_opc_charset_def strncmp_eq_def)
  qed
  ultimately have "session_owns (snd (snd (opcd_dispatch ?E st tx' ?ip 4000 OPC_FRAME_MAX))) ?ip"
    unfolding peer_login(1) [OF tx, of ?E st ?ip 4000] by (simp add: peer_login(1) [OF tx, simplified] i handle_login_def Let_def owns_login_grant)
  then show ?thesis using m n i t(2) by (intro exI [of _ st] exI [of _ C]) (simp add: C_def)
qed

subsection \<open>Channel lists\<close>

abbreviation tok_channel :: "u8 list \<Rightarrow> u8" where
  "tok_channel t \<equiv> ucast (strtoul_auto t)"

lemma set_channels_fold:
  "set_channels band toks l = Some l' \<Longrightarrow>
     l' = fold (\<lambda>ch l. opc_scan_list_set_channel l band ch) (map tok_channel toks) l
     \<and> list_all (\<lambda>ch. opc_scan_bit_for_channel band ch \<noteq> None) (map tok_channel toks)"
  by (induction toks arbitrary: l) (auto simp: Let_def split: if_splits)

lemma set_channels_length: "set_channels band toks l = Some l' \<Longrightarrow> length l' = length l"
  by (induction toks arbitrary: l) (auto simp: Let_def length_set_channel split: if_splits)

lemma scan_chlist_length: "parse_scan_chlist list_s hex_s band = Some l \<Longrightarrow> length l = 8"
  by (auto simp: parse_scan_chlist_def Let_def dest: set_channels_length split: if_splits)

lemma comma_tokens_bound: "length (comma_tokens cur s) \<le> length cur + length s"
  by (induction cur s rule: comma_tokens.induct) (auto simp: Suc_le_eq)

lemma sent_request:
  assumes "vr_sent (run_request C vs pack eval) = [(ip, port, tx)]"
  shows "pack (g_seq vs) = Some tx"
  using assms by (auto simp: run_request_def vhl_next_seq_def send_recv_def vhl_exit_def split: option.splits prod.splits if_splits)



end
