(* ===== verification/Service_Log.thy ===== *)
theory Service_Log
  imports Essid_Marker Snapshot
begin

text \<open>
  The notifications to the service manager (\<open>systemd_notify.c\<close>) and the parts of the audit log that compute
  something (\<open>opcd_log.c\<close>): names of requests and indications, and the peek at the result of an acknowledgment.
  The environment variables and the results of \<open>socket\<close> and \<open>sendto\<close> are arguments.
\<close>

subsection \<open>\<open>systemd_notify.c\<close>\<close>

definition parse_positive_decimal :: "u8 list ptr \<Rightarrow> u64 option" where
  "parse_positive_decimal text =
     (case text of
        None \<Rightarrow> None
      | Some t \<Rightarrow>
          if t = [] \<or> \<not> list_all is_digit t then None
          else case strtoul_base 10 t of
                 None \<Rightarrow> None
               | Some (parsed, erange, rest) \<Rightarrow>
                   if erange \<or> rest \<noteq> [] \<or> parsed = 0 then None else Some parsed)"

text \<open>The environment of the process: \<open>getenv\<close> and \<open>getpid\<close>.\<close>

record proc_env =
  getenv :: "string \<Rightarrow> u8 list option"
  getpid :: u64

definition watchdog_pid_matches :: "proc_env \<Rightarrow> bool" where
  "watchdog_pid_matches P =
     (case getenv P ''WATCHDOG_PID'' of
        None \<Rightarrow> True
      | Some text \<Rightarrow> parse_positive_decimal (Some text) = Some (getpid P))"

text \<open>The notifier; \<open>sn_addr\<close> is the part of \<open>sun_path\<close> that \<open>addr_len\<close> covers.\<close>

record opcd_systemd_notify_t =
  sn_fd :: int
  sn_watchdog_enabled :: bool
  sn_addr :: "u8 list"

definition SUN_PATH_MAX :: nat where [simp]: "SUN_PATH_MAX = 108"

definition notify_none :: opcd_systemd_notify_t where
  "notify_none = \<lparr>sn_fd = - 1, sn_watchdog_enabled = False, sn_addr = []\<rparr>"

text \<open>\<open>sock\<close> is the descriptor or the negated \<open>errno\<close> of \<open>socket\<close>. A result \<open>-1\<close> with \<open>errno\<close> is the negated \<open>errno\<close>.\<close>

definition opcd_systemd_notify_init ::
  "proc_env \<Rightarrow> opcd_systemd_notify_t ptr \<Rightarrow> int \<Rightarrow> int \<times> opcd_systemd_notify_t ptr" where
  "opcd_systemd_notify_init P notify sock =
     (case notify of
        None \<Rightarrow> (- EINVAL, None)
      | Some _ \<Rightarrow>
          (case getenv P ''NOTIFY_SOCKET'' of
             None \<Rightarrow> (0, Some notify_none)
           | Some path \<Rightarrow>
               if path = [] \<or> (hd path \<noteq> 47 \<and> hd path \<noteq> 64) then (- EINVAL, Some notify_none)
               else if length path \<ge> SUN_PATH_MAX then (- ENAMETOOLONG, Some notify_none)
               else
                 let n = notify_none\<lparr>sn_addr := (if hd path = 64 then 0 # tl path else path @ [0])\<rparr>
                 in if sock < 0 then (sock, Some (n\<lparr>sn_fd := - 1\<rparr>))
                    else (0, Some (n\<lparr>sn_fd := sock,
                            sn_watchdog_enabled :=
                              parse_positive_decimal (getenv P ''WATCHDOG_USEC'') \<noteq> None \<and> watchdog_pid_matches P\<rparr>))))"

definition opcd_systemd_notify_close :: "opcd_systemd_notify_t ptr \<Rightarrow> opcd_systemd_notify_t ptr" where
  "opcd_systemd_notify_close notify = map_option (\<lambda>n. n\<lparr>sn_fd := - 1, sn_watchdog_enabled := False\<rparr>) notify"

text \<open>The datagrams handed to \<open>sendto\<close> are a list of address and text; \<open>sent\<close> gives the result of the call, the
  number of bytes or the negated \<open>errno\<close>.\<close>

definition send_state ::
  "opcd_systemd_notify_t ptr \<Rightarrow> u8 list \<Rightarrow> (nat \<Rightarrow> int) \<Rightarrow> int \<times> (u8 list \<times> u8 list) list" where
  "send_state notify state sent =
     (case notify of
        None \<Rightarrow> (0, [])
      | Some n \<Rightarrow>
          if sn_fd n < 0 then (0, [])
          else let len = length state; r = sent len
               in (if r < 0 then r else if nat r \<noteq> len then - EIO else 1, [(sn_addr n, state)]))"

definition opcd_systemd_ready ::
  "opcd_systemd_notify_t ptr \<Rightarrow> (nat \<Rightarrow> int) \<Rightarrow> int \<times> (u8 list \<times> u8 list) list" where
  "opcd_systemd_ready notify sent = send_state notify (bytes_of ''READY=1'') sent"

definition opcd_systemd_watchdog ::
  "opcd_systemd_notify_t ptr \<Rightarrow> (nat \<Rightarrow> int) \<Rightarrow> int \<times> (u8 list \<times> u8 list) list" where
  "opcd_systemd_watchdog notify sent =
     (case notify of
        None \<Rightarrow> (0, [])
      | Some n \<Rightarrow> if \<not> sn_watchdog_enabled n then (0, []) else send_state notify (bytes_of ''WATCHDOG=1'') sent)"

subsection \<open>\<open>opcd_log.c\<close>\<close>

text \<open>The log: whether \<open>openlog\<close> was called, and the lines handed to \<open>vsyslog\<close> with their priority.\<close>

record opcd_log =
  g_log_ready :: bool
  log_lines :: "(int \<times> u8 list) list"

definition opcd_log_init :: "opcd_log \<Rightarrow> opcd_log" where
  "opcd_log_init l = l\<lparr>g_log_ready := True\<rparr>"

definition opcd_logf :: "opcd_log \<Rightarrow> int \<Rightarrow> u8 list \<Rightarrow> opcd_log" where
  "opcd_logf l priority line = (if \<not> g_log_ready l then l else l\<lparr>log_lines := log_lines l @ [(priority, line)]\<rparr>)"

definition opcd_ip4str :: "u32 \<Rightarrow> bool \<Rightarrow> u8 list" where
  "opcd_ip4str ip have_buf =
     (if \<not> have_buf then bytes_of ''?'' else
      snprintf_str 16 (dec (unat (drop_bit 24 ip AND 0xFF)) @ [46] @ dec (unat (drop_bit 16 ip AND 0xFF)) @ [46]
        @ dec (unat (drop_bit 8 ip AND 0xFF)) @ [46] @ dec (unat (ip AND 0xFF))))"

definition opcd_req_name :: "u16 \<Rightarrow> string" where
  "opcd_req_name req_id =
     (if req_id = OPC_REQ_LOGIN then ''Login''
      else if req_id = OPC_REQ_LOGOUT then ''Logout''
      else if req_id = OPC_REQ_GET_BASIC_INFO then ''GetBasicInfo''
      else if req_id = OPC_REQ_GET_DEVICE_INFO then ''GetDeviceInfo''
      else if req_id = OPC_REQ_SET_PASSWORD then ''SetPassword''
      else if req_id = OPC_REQ_SET_IP_CONFIG_LIST then ''SetIpConfigList''
      else if req_id = OPC_REQ_CHANGE_IP_ADDRESS then ''ChangeIpAddress''
      else if req_id = OPC_REQ_SET_RADIO_CONFIG then ''SetRadioConfig''
      else if req_id = OPC_REQ_SET_INDICATION_CONFIG then ''SetIndicationConfig''
      else if req_id = OPC_REQ_RESET then ''Reset''
      else ''Unknown'')"

definition opcd_ind_name :: "u16 \<Rightarrow> string" where
  "opcd_ind_name ind_id =
     (if ind_id = OPC_IND_INIT_COMPLETE then ''InitComplete''
      else if ind_id = OPC_IND_WLAN_STATUS_CHANGE then ''WlanStatusChange''
      else if ind_id = OPC_IND_ROAMING then ''Roaming''
      else if ind_id = OPC_IND_AP_DISCONNECT then ''ApDisconnect''
      else if ind_id = OPC_IND_FAULT_DETECT then ''FaultDetect''
      else if ind_id = OPC_IND_RESET_NOTICE then ''ResetNotice''
      else if ind_id = OPC_IND_KEEP_ALIVE then ''KeepAlive''
      else ''Unknown'')"

definition opcd_ack_result_peek :: "u8 list ptr \<Rightarrow> (u16 \<times> u16) option" where
  "opcd_ack_result_peek frame =
     (case frame of
        None \<Rightarrow> None
      | Some f \<Rightarrow>
          if length f < 68 then None
          else if f ! 1 \<noteq> OPC_CMD_ACK then None
          else let i = push_bit 8 (ucast (f ! 2)) OR ucast (f ! 3) :: u16
               in if length f \<noteq> 68 \<and> i \<noteq> OPC_REQ_GET_DEVICE_INFO then None
                  else Some (push_bit 8 (ucast (f ! 64)) OR ucast (f ! 65),
                             push_bit 8 (ucast (f ! 66)) OR ucast (f ! 67)))"

subsection \<open>Properties\<close>

lemma radix_val_digits: "list_all is_digit d \<Longrightarrow> radix_val 10 d = digits_val d"
  unfolding radix_val_def digits_val_def
  by (rule foldl_cong) (auto simp: list_all_iff digit_value_def)

lemma strtoul_base_digits:
  assumes "list_all is_digit d" "d \<noteq> []"
  shows "strtoul_base 10 d =
    Some (if digits_val d > ULONG_MAX then of_nat ULONG_MAX else of_nat (digits_val d), digits_val d > ULONG_MAX, [])"
proof -
  obtain c s where d: "d = c # s" using assms(2) by (cases d) auto
  have c: "\<not> is_space c" "c \<noteq> 45" "c \<noteq> 43"
    using assms(1) d by (auto simp: is_digit_def is_space_def word_le_nat_alt)
  have "digit_value x < 10" if "x \<in> set d" for x
    using that assms(1) by (auto simp: list_all_iff is_digit_def digit_value_def word_le_nat_alt)
  then have tw: "takeWhile (\<lambda>x. digit_value x < 10) d = d" by (simp add: takeWhile_eq_all_conv)
  show ?thesis
    using c tw radix_val_digits [OF assms(1)] unfolding strtoul_base_def skip_ws_def d by (simp add: Let_def)
qed

text \<open>The accepted numbers are exactly the digit strings of 1 to \<open>ULONG_MAX\<close>.\<close>

lemma parse_positive_decimal_dec:
  "parse_positive_decimal (Some (dec n)) = (if 0 < n \<and> n \<le> ULONG_MAX then Some (of_nat n) else None)"
proof -
  have "of_nat n \<noteq> (0 :: u64)" if "0 < n" "n \<le> ULONG_MAX"
    using that by (simp add: ULONG_MAX_def word_of_nat_eq_0_iff nat_dvd_not_less)
  then show ?thesis
    using strtoul_base_digits [OF dec_digits dec_not_empty, of n] dec_digits [of n] dec_not_empty [of n]
    by (simp add: parse_positive_decimal_def digits_val_dec)
qed

text \<open>READY is sent exactly when the environment names a valid socket that could be opened; the watchdog is fed only
  after such a start, and never after the close.\<close>

lemma ready_sent_iff:
  assumes "opcd_systemd_notify_init P (Some n0) sock = (rc, n)"
  shows "snd (opcd_systemd_ready n sent) \<noteq> [] \<longleftrightarrow> rc = 0 \<and> getenv P ''NOTIFY_SOCKET'' \<noteq> None"
  using assms
  by (auto simp: opcd_systemd_notify_init_def notify_none_def opcd_systemd_ready_def send_state_def Let_def
      split: option.splits if_splits)

lemma watchdog_sent_iff:
  assumes "opcd_systemd_notify_init P (Some n0) sock = (rc, n)"
  shows "snd (opcd_systemd_watchdog n sent) \<noteq> [] \<longleftrightarrow> snd (opcd_systemd_ready n sent) \<noteq> []
    \<and> parse_positive_decimal (getenv P ''WATCHDOG_USEC'') \<noteq> None \<and> watchdog_pid_matches P"
  using assms
  by (auto simp: opcd_systemd_notify_init_def notify_none_def opcd_systemd_ready_def opcd_systemd_watchdog_def
      send_state_def Let_def split: option.splits if_splits)

lemma closed_is_silent:
  "opcd_systemd_ready (opcd_systemd_notify_close n) sent = (0, [])"
  "opcd_systemd_watchdog (opcd_systemd_notify_close n) sent = (0, [])"
  by (cases n; simp add: opcd_systemd_notify_close_def opcd_systemd_ready_def opcd_systemd_watchdog_def send_state_def)+

text \<open>The audit log shows the result and cause that the handlers packed: for every simple acknowledgment and for
  GetDeviceInfo, and for no other frame.\<close>

lemma ack_result_peek_built:
  assumes "opc_frame_build (Some cap) t i s len (Some body) n = Some f" "n = length body" "4 \<le> n"
  shows "opcd_ack_result_peek (Some f) =
    (if t = OPC_CMD_ACK \<and> (n = 4 \<or> i = OPC_REQ_GET_DEVICE_INFO)
     then Some (opc_be16_read body, opc_be16_read (drop 2 body)) else None)"
proof -
  let ?h = "\<lparr>protocol_version = OPC_PROTOCOL_VERSION, command_type = t, req_indication_id = i,
             sequence_number = s, length_field = len\<rparr>"
  obtain hb where hb: "opc_header_pack (Some cap) (Some ?h) = Some hb"
    using opc_header_pack_defined by blast
  have f: "f = hb @ body" using assms hb by (auto simp: opc_frame_build_def split: if_splits)
  have l: "length hb = 64" using opc_header_pack_Some(1) [OF hb] by simp
  have u: "opc_fixed_header_unpack (Some hb) = Some ?h" using opc_header_pack_Some(2) [OF hb, of "[]"] by simp
  have h: "hb ! 1 = t" "opc_be16_read (drop 2 hb) = i"
    using u l by (auto simp: opc_fixed_header_unpack_def split: if_splits)
  have "push_bit 8 (ucast (f ! 2)) OR ucast (f ! 3) = i" "f ! 1 = t"
    using h l by (simp_all add: f nth_append opc_be16_read_def)
  moreover have "push_bit 8 (ucast (f ! 64)) OR ucast (f ! 65) = opc_be16_read body"
    "push_bit 8 (ucast (f ! 66)) OR ucast (f ! 67) = opc_be16_read (drop 2 body)"
    using l assms(2,3) by (simp_all add: f nth_append opc_be16_read_def)
  ultimately show ?thesis using l assms(2,3) by (simp add: opcd_ack_result_peek_def f Let_def)
qed

lemma ack_result_peek_simple:
  assumes "opc_simple_ack_pack (Some cap) i s len res cause = Some f"
  shows "opcd_ack_result_peek (Some f) = Some (res, cause)"
  using ack_result_peek_built [OF assms [unfolded opc_simple_ack_pack_def]]
  by (simp add: be16.dec_enc be16.dec_enc [of _ "[]", simplified])

end
