(* ===== verification/Spec2Isabelle.thy ===== *)
theory Spec2Isabelle
  imports Commands Indications Scan_Chlist Store_Async Iplist_Text Fault_Probe Radio_Events Conf_Readers Route_Lookup
    Platform_Stub Ind_Engine Handler_Base Handler_Persist Handler_Cmds Main_Loop Ind_Frame Daemon_Inv Handler_Inv Daemon_Safety Daemon_Runs
    Session_Frame Daemon_Scenario Daemon_Claims Daemon_Service
    Essid_Chain Nxp_Events Nxp_Claims Snapshot Vhl_Claims Service_Log
begin

text \<open>
  A verification of the OPC daemon and its client: \<open>opcd\<close>, the program on a wireless station that answers the
  commands of a vehicle controller over UDP, \<open>vhlctl\<close>, the command-line client, and the protocol library that both use.
  File names below are relative to \<open>src/\<close>.

  \<^bold>\<open>The program.\<close> A datagram of the controller reaches \<open>main\<close> (\<open>opcd/opcd.c\<close>), which checks its extent and gives it to
  \<open>opcd_dispatch\<close> (\<open>opcd/handler.c\<close>). The dispatcher ends an idle session and calls one of ten handlers; a handler checks
  the session and the fields of the request (\<open>protocol/commands.c\<close>, \<open>protocol/scan_chlist.c\<close>), changes the state, hands
  a file to the writer (\<open>opcd/store_async.c\<close>, which uses \<open>opcd/store.c\<close>) and answers at once or when the file is written.
  A change of the address is prepared by ChangeIpAddress, committed by Logout and applied at the end of the turn through
  the platform (\<open>opcd/platform_nxp.c\<close>, or \<open>opcd/platform_stub.c\<close>), which also delivers radio events. Events and the timer
  feed the indication engine (\<open>opcd/indication.c\<close>, \<open>opcd/fault_probe.c\<close>), which sends indications to the configured
  recipient. \<open>opcd/essid_marker.c\<close> makes an ESSID that ChangeIpAddress applied last until the next boot only.

  \<^bold>\<open>Foundations.\<close>
  \<^item> \<open>Opc_Prelude\<close>: C integers as words, pointers that may be NULL as options, byte arrays as lists, the C string functions;
    \<open>Cstdio\<close> and \<open>Cprintf\<close>: the conversions of the C library for reading and printing.
  \<^item> \<open>Codec\<close> (\<open>protocol/codec.c\<close>, \<open>frame.c\<close>, \<open>proto.h\<close>, \<open>ids.h\<close>), \<open>Commands\<close> (\<open>commands.c\<close>), \<open>Indications\<close>
    (\<open>indications.c\<close>): every pack and unpack function. The locale \<open>wire_field\<close> is the contract of a field,
    \<open>message_codec\<close> and \<open>fixed_message\<close> that of a message; all messages of a fixed size are interpretations. Shown: what
    was packed is read back, and frames of another type or with a wrong length are rejected.
  \<^item> \<open>Scan_Chlist\<close> (\<open>protocol/scan_chlist.c\<close>): channel lists; the validity test is equivalent to a specification by channels.

  \<^bold>\<open>Files and readers.\<close>
  \<^item> \<open>Store\<close> (\<open>opcd/store.c\<close>): atomic replacement with the results of all system calls as an argument; a crash at any
    point leaves the old or the new contents, and the data is synchronised before the rename.
  \<^item> \<open>Store_Async\<close> (\<open>opcd/store_async.c\<close>): the ring, the job table, reservations, the two critical sections of the worker and
    the final wait. The queue is a first-in first-out queue (locale \<open>job_fifo\<close>), its ring invariant holds in every
    reachable state, and the final wait ends with every job done.
  \<^item> \<open>Iplist_Text\<close>, \<open>Json_Util\<close>, \<open>Conf_Readers\<close> (\<open>freq_source.c\<close>, \<open>ip_iface.c\<close>, \<open>roam_notify_conf.c\<close>, \<open>topology.c\<close>,
    \<open>devinfo_cfg.c\<close>, \<open>inventory.c\<close>, \<open>ntp_parse.c\<close>, \<open>reset_cause.c\<close>), \<open>Route_Lookup\<close>, \<open>Radio_Events\<close> (\<open>chan_encode.c\<close>,
    \<open>nl80211_parse.c\<close>, \<open>roam_datagram.c\<close>): the parsers. Shown: the text of an IP list is read back, the selected route is
    the longest prefix, attributes of a netlink message are recovered.
  \<^item> \<open>Snapshot\<close> (\<open>opcd/snapshot.c\<close>): the status file; its strings can be read back and its replacement is atomic.

  \<^bold>\<open>The daemon.\<close>
  \<^item> \<open>Opcd_State\<close> (\<open>opcd/opcd_state.h\<close>, \<open>platform.h\<close>): the state record with one field per member of \<open>struct opcd_state\<close>, the
    files, and a log of what the process did to its surroundings (datagrams, address changes, reboots); \<open>env\<close> is what the
    process reads: the clock, the platform and the results of system calls.
  \<^item> \<open>Platform_Stub\<close>, \<open>Fault_Probe\<close>, \<open>Ind_Engine\<close>: the stub platform, the congestion probe with its hysteresis, and the
    indication engine (locales \<open>ind_sender\<close> and \<open>guarded_sender\<close>): indications go out only when they are enabled, the last
    change of a period wins, and a KeepAlive is sent in every period.
  \<^item> \<open>Handler_Base\<close>, \<open>Handler_Persist\<close>, \<open>Handler_Cmds\<close> (\<open>opcd/handler.c\<close>): one definition for each function; \<open>Main_Loop\<close>
    (\<open>opcd/opcd.c\<close>): the start, the handling of each event, the shutdown, and the loop as the step relation \<open>main_step\<close>,
    interleaved with the writer thread (\<open>worker_step\<close>) in \<open>opcd_step\<close>.
  \<^item> \<open>Daemon_Inv\<close>, \<open>Ind_Frame\<close>, \<open>Handler_Inv\<close>, \<open>Daemon_Safety\<close>, \<open>Daemon_Runs\<close>: the invariant of the state and its
    preservation by every operation (locales \<open>command_handler\<close> and \<open>owner_handler\<close>); \<open>Session_Frame\<close>: what leaves sessions and
    address changes alone (locale \<open>calm_handler\<close>); \<open>Daemon_Scenario\<close>: single requests and a start, for the examples.
  \<^item> \<open>Daemon_Claims\<close>, \<open>Daemon_Service\<close>: the properties of the running daemon. Every reachable state is well-formed; only a
    Login with the stored password opens a session; only the holder's Logout commits an address change, which is applied
    once and with valid addresses; a foreign peer has no effect; every request is answered (locale
    \<open>answering_handler\<close>), the deferred ones at the shutdown at the latest; a turn of the loop ends; Reset reboots.
  \<^item> \<open>Service_Log\<close> (\<open>opcd/systemd_notify.c\<close>, \<open>opcd/opcd_log.c\<close>): when READY and WATCHDOG are sent, and that the audit log
    shows the result which the handler packed.

  \<^bold>\<open>The NXP platform.\<close>
  \<^item> \<open>Essid_Marker\<close>, \<open>Essid_Chain\<close> (\<open>opcd/essid_marker.c\<close>): the marker operations, and that over chains of changes with
    failing calls and power cuts the boot restores the original ESSID and edits no value of anyone else.
  \<^item> \<open>Nxp_Events\<close>, \<open>Nxp_Readers\<close>, \<open>Nxp_Apply\<close>, \<open>Nxp_Claims\<close> (\<open>opcd/platform_nxp.c\<close>): netlink events and their coalescing,
    readers, the bounded run of helper programs, and the changes of radio, address, routes and ESSID with their guards.

  \<^bold>\<open>The client.\<close>
  \<^item> \<open>Fielddump\<close> (\<open>vhlctl/fielddump.c\<close>) and \<open>Vhlctl\<close> (\<open>vhlctl/vhlctl.c\<close>): the tables of the field dump, every command, the
    listener and \<open>main\<close>. Each line of a dump shows the field it names.
  \<^item> \<open>Vhl_Claims\<close>: client and daemon together, over the locale \<open>acked_command\<close>: the exit code of login reports whether the
    client holds the session, and the channels given on the command line are those of the request.

  \<^bold>\<open>Bounds.\<close> No fuel is used in the daemon: loops over buffers recurse on the buffer or on a measure. Where the source
  polls the kernel (the run of a helper, the firmware query, the netlink drain, the client's listener), what the calls
  return is a finite list, one entry for each turn; a list that ends stands for the deadline or for the descriptor that has
  nothing more. The limits of the source are kept: eight events and sixteen datagrams for each turn of the loop, sixteen
  jobs, frames of 1424 bytes, five retries of the firmware query at intervals of sixty seconds.

  \<^bold>\<open>Parameters.\<close> The kernel, the helper scripts and programs that \<open>platform_nxp.c\<close> runs, the clock and the results of
  system calls are arguments. Hypotheses on them are named (\<open>helper_ok\<close>, \<open>env_ok\<close>, \<open>effects_ok\<close>, \<open>change_env_ok\<close>) and have
  instances in the witnesses.

  \<^bold>\<open>Not modelled.\<close> Messages on the standard error stream, the usage texts and the raw hexadecimal dump of the client, which
  nothing reads; the lines that the components give to the audit log; the freeing of memory and the closing of descriptors at
  the end of the process; the counters of the stub that only the repository's tests read; the tests, the shell scripts
  and the build files. The status file, the notifications to the service manager and the refresh of the firmware version
  do not change the daemon's state and are modelled on their own, not as part of a turn of the loop.
\<close>

end
